(* ===== verification/Prelude.thy ===== *)
theory Prelude
  imports Main "HOL-Library.State_Monad"
begin

text \<open>
  Shared vocabulary of the development: Go strings, string maps and 64-bit integers, the
  splitting of \<open>namespace/name\<close> references, and a weakest-precondition calculus for the state
  monad in which the stateful code (loader, adapters) is written.
\<close>

section \<open>Go values\<close>

text \<open>Time stamps and durations are counted in nanoseconds, as Go's \<open>time\<close> package does.\<close>

type_synonym time = int
type_synonym duration = int

text \<open>
  A Go \<open>map[string]string\<close> that may be nil. Reading a nil map or a missing key gives the
  empty string; the presence test distinguishes a missing key from an empty value.
\<close>

type_synonym strmap = "(string \<rightharpoonup> string) option"

definition map_read :: "strmap \<Rightarrow> string \<Rightarrow> string option" where
  "map_read m k = (case m of None \<Rightarrow> None | Some f \<Rightarrow> f k)"

definition map_index :: "strmap \<Rightarrow> string \<Rightarrow> string" where
  "map_index m k = (case map_read m k of None \<Rightarrow> [] | Some v \<Rightarrow> v)"

definition map_put :: "strmap \<Rightarrow> string \<Rightarrow> string \<Rightarrow> strmap" where
  "map_put m k v = (case m of None \<Rightarrow> Some [k \<mapsto> v] | Some f \<Rightarrow> Some (f(k \<mapsto> v)))"

lemma map_read_simps [simp]:
  "map_read None k = None" "map_read (Some f) k = f k"
  by (simp_all add: map_read_def)

lemma map_read_put [simp]:
  "map_read (map_put m k v) k' = (if k' = k then Some v else map_read m k')"
  by (cases m) (simp_all add: map_put_def)

lemma map_index_put [simp]:
  "map_index (map_put m k v) k' = (if k' = k then v else map_index m k')"
  by (simp add: map_index_def)

text \<open>Signed 64-bit wrap-around (Go's \<open>int64\<close>, \<open>time.Duration\<close>, and \<open>int\<close> on amd64).\<close>

definition wrap64 :: "int \<Rightarrow> int" where
  "wrap64 x = (x + 2 ^ 63) mod 2 ^ 64 - 2 ^ 63"

lemma wrap64_id: "- (2 ^ 63) \<le> x \<Longrightarrow> x < 2 ^ 63 \<Longrightarrow> wrap64 x = x"
  by (simp add: wrap64_def)

lemma wrap64_range: "- (2 ^ 63) \<le> wrap64 x" "wrap64 x < 2 ^ 63"
  by (simp_all add: wrap64_def)

text \<open>\<open>strings.Split\<close> with a one-character separator.\<close>

fun split_on :: "char \<Rightarrow> string \<Rightarrow> string list" where
  "split_on c [] = [[]]"
| "split_on c (x # xs) =
     (if x = c then [] # split_on c xs
      else (case split_on c xs of [] \<Rightarrow> [[x]] | w # ws \<Rightarrow> (x # w) # ws))"

lemma split_on_ne_Nil [simp]: "split_on c xs \<noteq> []"
  by (induction xs) (auto split: list.splits)

lemma split_on_no_sep: "c \<notin> set xs \<Longrightarrow> split_on c xs = [xs]"
  by (induction xs) auto

lemma split_on_append_sep:
  "c \<notin> set xs \<Longrightarrow> split_on c (xs @ c # ys) = xs # split_on c ys"
  by (induction xs) auto

text \<open>The reference \<open>namespace/name\<close> the code prints with \<open>Sprintf("%s%c%s", ns, '/', name)\<close>.\<close>

definition namespaced :: "string \<Rightarrow> string \<Rightarrow> string" where
  "namespaced ns name = ns @ CHR ''/'' # name"

lemma split_namespaced:
  "CHR ''/'' \<notin> set ns \<Longrightarrow> CHR ''/'' \<notin> set name \<Longrightarrow>
   split_on (CHR ''/'') (namespaced ns name) = [ns, name]"
  by (simp add: namespaced_def split_on_append_sep split_on_no_sep)

text \<open>Updating the last element of a slice in place (a no-op on an empty slice).\<close>

definition upd_last :: "('a \<Rightarrow> 'a) \<Rightarrow> 'a list \<Rightarrow> 'a list" where
  "upd_last f xs = (if xs = [] then [] else butlast xs @ [f (last xs)])"

lemma upd_last_simps [simp]:
  "upd_last f [] = []"
  "upd_last f (xs @ [x]) = xs @ [f x]"
  "upd_last f xs = [] \<longleftrightarrow> xs = []"
  "length (upd_last f xs) = length xs"
  by (auto simp: upd_last_def)

lemma last_upd_last [simp]: "xs \<noteq> [] \<Longrightarrow> last (upd_last f xs) = f (last xs)"
  by (simp add: upd_last_def)

lemma butlast_upd_last [simp]: "butlast (upd_last f xs) = butlast xs"
  by (simp add: upd_last_def butlast_append)

section \<open>A weakest-precondition calculus for the state monad\<close>

abbreviation ret :: "'a \<Rightarrow> ('s, 'a) state" where
  "ret \<equiv> State_Monad.return"

definition gets :: "('s \<Rightarrow> 'a) \<Rightarrow> ('s, 'a) state" where
  "gets f = State (\<lambda>s. (f s, s))"

definition modify :: "('s \<Rightarrow> 's) \<Rightarrow> ('s, unit) state" where
  "modify f = State (\<lambda>s. ((), f s))"

lemma run_gets [simp]: "run_state (gets f) s = (f s, s)"
  by (simp add: gets_def)

lemma run_modify [simp]: "run_state (modify f) s = ((), f s)"
  by (simp add: modify_def)

definition wp :: "('s, 'a) state \<Rightarrow> ('a \<Rightarrow> 's \<Rightarrow> bool) \<Rightarrow> 's \<Rightarrow> bool" where
  "wp m Q s = (case run_state m s of (a, t) \<Rightarrow> Q a t)"

named_theorems wp_intro \<open>introduction rules that decompose a wp goal\<close>
named_theorems frame_intro \<open>rules for computations that leave an observation of the state alone\<close>

lemma wp_bind [wp_intro]:
  "wp m (\<lambda>a. wp (f a) Q) s \<Longrightarrow> wp (State_Monad.bind m f) Q s"
  by (simp add: wp_def split: prod.splits)

lemma wp_ret [wp_intro]: "Q a s \<Longrightarrow> wp (State_Monad.return a) Q s"
  by (simp add: wp_def)

lemma wp_gets [wp_intro]: "Q (f s) s \<Longrightarrow> wp (gets f) Q s"
  by (simp add: wp_def)

lemma wp_modify [wp_intro]: "Q () (f s) \<Longrightarrow> wp (modify f) Q s"
  by (simp add: wp_def)

lemma wp_if [wp_intro]:
  "\<lbrakk>b \<Longrightarrow> wp m Q s; \<not> b \<Longrightarrow> wp n Q s\<rbrakk> \<Longrightarrow> wp (if b then m else n) Q s"
  by simp

lemma wp_case_option [wp_intro]:
  "\<lbrakk>x = None \<Longrightarrow> wp m Q s; \<And>y. x = Some y \<Longrightarrow> wp (f y) Q s\<rbrakk>
   \<Longrightarrow> wp (case x of None \<Rightarrow> m | Some y \<Rightarrow> f y) Q s"
  by (cases x) auto

lemma wp_case_sum [wp_intro]:
  "\<lbrakk>\<And>e. x = Inl e \<Longrightarrow> wp (f e) Q s; \<And>y. x = Inr y \<Longrightarrow> wp (g y) Q s\<rbrakk>
   \<Longrightarrow> wp (case x of Inl e \<Rightarrow> f e | Inr y \<Rightarrow> g y) Q s"
  by (cases x) auto

lemma wp_case_prod [wp_intro]:
  "(\<And>a b. x = (a, b) \<Longrightarrow> wp (f a b) Q s) \<Longrightarrow> wp (case x of (a, b) \<Rightarrow> f a b) Q s"
  by (cases x) auto

lemma wp_let [wp_intro]: "(\<And>x. x = v \<Longrightarrow> wp (f x) Q s) \<Longrightarrow> wp (let x = v in f x) Q s"
  by (simp add: Let_def)

lemma wp_mono: "wp m Q s \<Longrightarrow> (\<And>a t. Q a t \<Longrightarrow> R a t) \<Longrightarrow> wp m R s"
  by (auto simp: wp_def split: prod.splits)

lemma wp_conj: "wp m Q s \<Longrightarrow> wp m R s \<Longrightarrow> wp m (\<lambda>a t. Q a t \<and> R a t) s"
  by (auto simp: wp_def split: prod.splits)

text \<open>
  A computation keeps an observation \<open>f\<close> of the state when it never changes it, whatever state
  it starts in.
\<close>

definition keeps :: "('s \<Rightarrow> 'b) \<Rightarrow> ('s, 'a) state \<Rightarrow> bool" where
  "keeps f m \<longleftrightarrow> (\<forall>s. f (snd (run_state m s)) = f s)"

lemma keepsD: "keeps f m \<Longrightarrow> f (snd (run_state m s)) = f s"
  by (simp add: keeps_def)

lemma keeps_bind [frame_intro]:
  "keeps f m \<Longrightarrow> (\<And>a. keeps f (g a)) \<Longrightarrow> keeps f (State_Monad.bind m g)"
  by (simp add: keeps_def split: prod.splits) (metis snd_conv)

lemma keeps_ret [frame_intro]: "keeps f (State_Monad.return a)"
  by (simp add: keeps_def)

lemma keeps_gets [frame_intro]: "keeps f (gets g)"
  by (simp add: keeps_def)

lemma keeps_modify [frame_intro]: "(\<And>s. f (h s) = f s) \<Longrightarrow> keeps f (modify h)"
  by (simp add: keeps_def)

lemma keeps_if [frame_intro]: "keeps f m \<Longrightarrow> keeps f n \<Longrightarrow> keeps f (if b then m else n)"
  by simp

lemma keeps_case_option [frame_intro]:
  "keeps f m \<Longrightarrow> (\<And>y. keeps f (g y)) \<Longrightarrow> keeps f (case x of None \<Rightarrow> m | Some y \<Rightarrow> g y)"
  by (cases x) auto

lemma keeps_case_sum [frame_intro]:
  "(\<And>y. keeps f (g y)) \<Longrightarrow> (\<And>y. keeps f (h y)) \<Longrightarrow> keeps f (case x of Inl y \<Rightarrow> g y | Inr y \<Rightarrow> h y)"
  by (cases x) auto

lemma keeps_case_prod [frame_intro]:
  "(\<And>a b. keeps f (g a b)) \<Longrightarrow> keeps f (case x of (a, b) \<Rightarrow> g a b)"
  by (cases x) auto

lemma keeps_let [frame_intro]: "(\<And>x. keeps f (g x)) \<Longrightarrow> keeps f (let x = v in g x)"
  by (simp add: Let_def)

lemma wp_keeps: "keeps f m \<Longrightarrow> (\<And>a t. f t = f s \<Longrightarrow> Q a t) \<Longrightarrow> wp m Q s"
  by (auto simp: wp_def keeps_def split: prod.splits dest: spec[of _ s])

lemma map_le_upd_iff: "m k = None \<Longrightarrow> m(k \<mapsto> v) \<subseteq>\<^sub>m n \<longleftrightarrow> n k = Some v \<and> m \<subseteq>\<^sub>m n"
  by (auto simp: map_le_def)

end
