(* ===== verification/Api_Error.thy ===== *)
theory Api_Error
  imports Prelude
begin

text \<open>
  Go error values, represented by the observations the source makes of them: the text
  \<open>err.Error()\<close>, the \<open>apierrors.IsX\<close> classifications of the Kubernetes API machinery, the
  answer of \<open>errors.As\<close> for \<open>net.Error\<close> (with its \<open>Timeout()\<close>), and \<open>errors.Is\<close> against the
  sentinels the repository declares. No relation between the observations is assumed, so every
  error the API machinery can build has a representation. On top of it, the error
  classification of \<open>src/loader/loader.go\<close>.
\<close>

datatype api_class =
    NotFound | AlreadyExists | Conflict | ServerTimeout | ServiceUnavailable | Timeout
  | TooManyRequests | InternalError | BadRequest | Invalid | Forbidden | Unauthorized
  | MethodNotSupported | RequestEntityTooLarge

datatype sentinel = ErrInvalidGitResolverConfig | ErrBranchNotFound | ErrInvalidRoleBindingRef

record error =
  e_msg :: string
  e_class :: "api_class list"
  e_net :: "bool option"
  e_sentinel :: "sentinel list"

text \<open>\<open>fmt.Errorf\<close> or \<open>errors.New\<close> without \<open>%w\<close>; and with \<open>%w\<close>, which keeps the chain.\<close>

definition plain_error :: "string \<Rightarrow> error" where
  "plain_error m = \<lparr>e_msg = m, e_class = [], e_net = None, e_sentinel = []\<rparr>"

definition wrap_error :: "string \<Rightarrow> error \<Rightarrow> error" where
  "wrap_error pre e = e\<lparr>e_msg := pre @ e_msg e\<rparr>"

definition sentinel_error :: "sentinel \<Rightarrow> string \<Rightarrow> error" where
  "sentinel_error x m = \<lparr>e_msg = m, e_class = [], e_net = None, e_sentinel = [x]\<rparr>"

definition is_class :: "api_class \<Rightarrow> error \<Rightarrow> bool" where
  "is_class c e \<longleftrightarrow> c \<in> set (e_class e)"

definition is_sentinel :: "sentinel \<Rightarrow> error \<Rightarrow> bool" where
  "is_sentinel x e \<longleftrightarrow> x \<in> set (e_sentinel e)"

definition IsNotFound :: "error \<Rightarrow> bool" where
  "IsNotFound e \<longleftrightarrow> is_class NotFound e"

section \<open>loader.go: which errors are worth a retry\<close>

definition isInvalidGitConfigError :: "error option \<Rightarrow> bool" where
  "isInvalidGitConfigError err =
     (case err of None \<Rightarrow> False
      | Some e \<Rightarrow> is_sentinel ErrInvalidGitResolverConfig e \<or> is_sentinel ErrBranchNotFound e)"

definition IsRetryableCreationError :: "error option \<Rightarrow> bool" where
  "IsRetryableCreationError err =
     (case err of None \<Rightarrow> False
      | Some e \<Rightarrow>
          if isInvalidGitConfigError (Some e) then False
          else \<not> is_class BadRequest e \<and> \<not> is_class Invalid e \<and> \<not> is_class Forbidden e \<and>
               \<not> is_class Unauthorized e \<and> \<not> is_class MethodNotSupported e \<and>
               \<not> is_class RequestEntityTooLarge e)"

definition IsRetriable :: "error option \<Rightarrow> bool" where
  "IsRetriable err =
     (case err of None \<Rightarrow> False
      | Some e \<Rightarrow>
          if is_class Conflict e \<or> is_class ServerTimeout e \<or> is_class ServiceUnavailable e \<or>
             is_class Timeout e \<or> is_class TooManyRequests e \<or> is_class InternalError e
          then True
          else (case e_net e of None \<Rightarrow> False | Some t \<Rightarrow> t))"

text \<open>The two idioms with which the adapters ignore an expected error.\<close>

definition unexpected :: "error option \<Rightarrow> bool" where
  "unexpected err = (case err of None \<Rightarrow> False | Some e \<Rightarrow> \<not> IsNotFound e)"

definition unexpected_ref :: "error option \<Rightarrow> bool" where
  "unexpected_ref err =
     (case err of None \<Rightarrow> False
      | Some e \<Rightarrow> \<not> IsNotFound e \<and> \<not> is_sentinel ErrInvalidRoleBindingRef e)"

lemma is_class_simps [simp]:
  "\<not> is_class c (plain_error m)" "is_class c (wrap_error p e) = is_class c e"
  "\<not> is_class c (sentinel_error x m)"
  by (simp_all add: is_class_def plain_error_def wrap_error_def sentinel_error_def)

lemma is_sentinel_simps [simp]:
  "\<not> is_sentinel x (plain_error m)" "is_sentinel x (wrap_error p e) = is_sentinel x e"
  "is_sentinel x (sentinel_error y m) \<longleftrightarrow> x = y"
  by (auto simp: is_sentinel_def plain_error_def wrap_error_def sentinel_error_def)

lemma IsRetriable_wrap [simp]: "IsRetriable (Some (wrap_error p e)) = IsRetriable (Some e)"
  by (simp add: IsRetriable_def is_class_def wrap_error_def)

lemma IsRetriable_plain [simp]: "\<not> IsRetriable (Some (plain_error m))"
  by (simp add: IsRetriable_def is_class_def plain_error_def)

end
