(* ===== verification/Conditions.thy ===== *)
theory Conditions
  imports Api_Error
begin

text \<open>
  Status conditions. The functions that read and write a condition list belong to
  \<open>k8s.io/apimachinery/pkg/api/meta\<close> and \<open>konflux-ci/operator-toolkit/conditions\<close>, which the
  repository only calls: they are the parameter \<open>conditions_lib\<close> of every definition that uses
  them. The locale \<open>conditions_api\<close> states the documented laws the service relies on.
\<close>

datatype cstatus = ConditionTrue | ConditionFalse | ConditionUnknown

record condition =
  c_Type :: string
  c_Status :: cstatus
  c_Reason :: string
  c_Message :: string
  c_LastTransitionTime :: time

record conditions_lib =
  FindStatusCondition :: "condition list \<Rightarrow> string \<Rightarrow> condition option"
  IsStatusConditionTrue :: "condition list \<Rightarrow> string \<Rightarrow> bool"
  IsStatusConditionPresentAndEqual :: "condition list \<Rightarrow> string \<Rightarrow> cstatus \<Rightarrow> bool"
  SetCondition :: "time \<Rightarrow> condition list \<Rightarrow> string \<Rightarrow> cstatus \<Rightarrow> string \<Rightarrow> condition list"
  SetConditionWithMessage ::
    "time \<Rightarrow> condition list \<Rightarrow> string \<Rightarrow> cstatus \<Rightarrow> string \<Rightarrow> string \<Rightarrow> condition list"

text \<open>What the service observes of a condition: its status and its reason.\<close>

definition cond_view :: "conditions_lib \<Rightarrow> condition list \<Rightarrow> string \<Rightarrow> (cstatus \<times> string) option" where
  "cond_view L cs t = map_option (\<lambda>c. (c_Status c, c_Reason c)) (FindStatusCondition L cs t)"

locale conditions_api =
  fixes L :: conditions_lib
  assumes is_true:
    "IsStatusConditionTrue L cs t \<longleftrightarrow>
       (\<exists>c. FindStatusCondition L cs t = Some c \<and> c_Status c = ConditionTrue)"
  and present_and_equal:
    "IsStatusConditionPresentAndEqual L cs t st \<longleftrightarrow>
       (\<exists>c. FindStatusCondition L cs t = Some c \<and> c_Status c = st)"
  and find_none: "FindStatusCondition L [] t = None"
  and view_set:
    "cond_view L (SetCondition L now cs t st rs) t' =
       (if t' = t then Some (st, rs) else cond_view L cs t')"
  and view_set_message:
    "cond_view L (SetConditionWithMessage L now cs t st rs msg) t' =
       (if t' = t then Some (st, rs) else cond_view L cs t')"
  and message_set:
    "map_option c_Message (FindStatusCondition L (SetConditionWithMessage L now cs t st rs msg) t)
       = Some msg"
begin

lemma view_empty: "cond_view L [] t = None"
  by (simp add: cond_view_def find_none)

lemma is_true_view: "IsStatusConditionTrue L cs t \<longleftrightarrow> (\<exists>rs. cond_view L cs t = Some (ConditionTrue, rs))"
  by (auto simp: is_true cond_view_def)

end

section \<open>An instance of the interface\<close>

text \<open>
  The list semantics the API documentation gives: the first condition of the type is found; a
  set replaces it in place or appends a new one, and the transition time moves only when the
  status does.
\<close>

fun find_condition :: "condition list \<Rightarrow> string \<Rightarrow> condition option" where
  "find_condition [] t = None"
| "find_condition (c # cs) t = (if c_Type c = t then Some c else find_condition cs t)"

fun put_condition :: "condition list \<Rightarrow> condition \<Rightarrow> condition list" where
  "put_condition [] c = [c]"
| "put_condition (d # ds) c =
     (if c_Type d = c_Type c
      then (if c_Status d = c_Status c
            then c\<lparr>c_LastTransitionTime := c_LastTransitionTime d\<rparr> else c) # ds
      else d # put_condition ds c)"

definition status_conditions :: conditions_lib where
  "status_conditions =
     \<lparr>FindStatusCondition = find_condition,
      IsStatusConditionTrue = (\<lambda>cs t. case find_condition cs t of
         None \<Rightarrow> False | Some c \<Rightarrow> c_Status c = ConditionTrue),
      IsStatusConditionPresentAndEqual = (\<lambda>cs t st. case find_condition cs t of
         None \<Rightarrow> False | Some c \<Rightarrow> c_Status c = st),
      SetCondition = (\<lambda>now cs t st rs. put_condition cs
         \<lparr>c_Type = t, c_Status = st, c_Reason = rs, c_Message = [], c_LastTransitionTime = now\<rparr>),
      SetConditionWithMessage = (\<lambda>now cs t st rs msg. put_condition cs
         \<lparr>c_Type = t, c_Status = st, c_Reason = rs, c_Message = msg, c_LastTransitionTime = now\<rparr>)\<rparr>"

lemma find_put_condition:
  "map_option (\<lambda>d. (c_Status d, c_Reason d, c_Message d)) (find_condition (put_condition cs c) t) =
     (if t = c_Type c then Some (c_Status c, c_Reason c, c_Message c)
      else map_option (\<lambda>d. (c_Status d, c_Reason d, c_Message d)) (find_condition cs t))"
  by (induction cs) auto

lemma view_put_condition:
  "map_option (\<lambda>d. (c_Status d, c_Reason d)) (find_condition (put_condition cs c) t) =
     (if t = c_Type c then Some (c_Status c, c_Reason c)
      else map_option (\<lambda>d. (c_Status d, c_Reason d)) (find_condition cs t))"
  by (induction cs) auto

lemma message_put_condition:
  "map_option c_Message (find_condition (put_condition cs c) (c_Type c)) = Some (c_Message c)"
  by (induction cs) auto

interpretation status_conditions: conditions_api status_conditions
proof unfold_locales
  fix now cs t st rs msg
  show "map_option c_Message (FindStatusCondition status_conditions
      (SetConditionWithMessage status_conditions now cs t st rs msg) t) = Some msg"
    using message_put_condition [of cs "\<lparr>c_Type = t, c_Status = st, c_Reason = rs,
      c_Message = msg, c_LastTransitionTime = now\<rparr>"]
    by (simp add: status_conditions_def)
qed (auto simp: status_conditions_def cond_view_def view_put_condition split: option.splits)

end
