(* ===== verification/Release_Types.thy ===== *)
theory Release_Types
  imports Conditions
begin

text \<open>
  The Release custom resource of \<open>src/api/v1alpha1/release_types.go\<close> and
  \<open>release_conditions.go\<close>: its data, its queries and the \<open>Mark\<close> methods that move its
  conditions. A method that spawns a metrics goroutine (\<open>go metrics.Register...\<close>) also returns
  the call it spawns, with the arguments evaluated at the \<open>go\<close> statement. \<open>time.Now()\<close> is the
  argument \<open>now\<close>.
\<close>

section \<open>Data\<close>

record object_meta =
  om_Kind :: string
  om_Name :: string
  om_GenerateName :: string
  om_Namespace :: string
  om_Labels :: strmap
  om_Annotations :: strmap
  om_Finalizers :: "string list"
  om_CreationTimestamp :: time
  om_DeletionTimestamp :: "time option"

text \<open>\<open>runtime.RawExtension\<close> pointers: the raw bytes, if the pointer and its \<open>Raw\<close> are not nil.\<close>

type_synonym raw_extension = "string option"

record ReleaseSpec =
  Snapshot :: string
  ReleasePlan :: string
  rel_Data :: raw_extension
  GracePeriodDays :: int

record RoleBindingType =
  TenantRoleBinding :: string
  ManagedRoleBinding :: string
  SecretRoleBinding :: string

record PipelineInfo =
  pi_CompletionTime :: "time option"
  pi_PipelineRun :: string
  pi_RoleBindings :: RoleBindingType
  pi_StartTime :: "time option"

record AppliedMitigation =
  MemoryLimit :: string
  MemoryRequest :: string
  TaskTimeout :: string
  TasksTimeout :: string
  PipelinesTimeout :: string

record PipelineAttempt =
  pa_PipelineRun :: string
  pa_RoleBindings :: RoleBindingType
  pa_StartTime :: "time option"
  pa_CompletionTime :: "time option"
  pa_Status :: string
  pa_FailureReason :: string
  pa_LastTask :: string
  pa_LastStep :: string
  pa_SuccessfulTasks :: int
  pa_RetryDisabledReason :: string
  pa_Mitigation :: "AppliedMitigation option"

record AttributionInfo =
  Author :: string
  StandingAuthorization :: bool

record CollectorsInfo =
  ManagedCollectorsProcessing :: PipelineInfo
  TenantCollectorsProcessing :: PipelineInfo

record ValidationInfo =
  FailedPostValidation :: bool
  val_Time :: "time option"

record ReleaseStatus =
  Artifacts :: raw_extension
  Attribution :: AttributionInfo
  st_Collectors :: raw_extension
  Conditions :: "condition list"
  CollectorsProcessing :: CollectorsInfo
  FinalProcessing :: PipelineInfo
  ManagedProcessing :: PipelineInfo
  ManagedPipelineAttempts :: "PipelineAttempt list"
  TenantProcessing :: PipelineInfo
  Validation :: ValidationInfo
  st_Target :: string
  Automated :: bool
  st_CompletionTime :: "time option"
  st_StartTime :: "time option"
  ExpirationTime :: "time option"

record Release =
  rel_meta :: object_meta
  Spec :: ReleaseSpec
  Status :: ReleaseStatus

text \<open>The zero values Go gives to a fresh struct.\<close>

definition no_role_bindings :: RoleBindingType where
  "no_role_bindings = \<lparr>TenantRoleBinding = [], ManagedRoleBinding = [], SecretRoleBinding = []\<rparr>"

definition no_mitigation :: AppliedMitigation where
  "no_mitigation = \<lparr>MemoryLimit = [], MemoryRequest = [], TaskTimeout = [], TasksTimeout = [],
     PipelinesTimeout = []\<rparr>"

definition no_pipeline_info :: PipelineInfo where
  "no_pipeline_info = \<lparr>pi_CompletionTime = None, pi_PipelineRun = [],
     pi_RoleBindings = no_role_bindings, pi_StartTime = None\<rparr>"

definition no_status :: ReleaseStatus where
  "no_status = \<lparr>Artifacts = None, Attribution = \<lparr>Author = [], StandingAuthorization = False\<rparr>,
     st_Collectors = None, Conditions = [],
     CollectorsProcessing = \<lparr>ManagedCollectorsProcessing = no_pipeline_info,
       TenantCollectorsProcessing = no_pipeline_info\<rparr>,
     FinalProcessing = no_pipeline_info, ManagedProcessing = no_pipeline_info,
     ManagedPipelineAttempts = [], TenantProcessing = no_pipeline_info,
     Validation = \<lparr>FailedPostValidation = False, val_Time = None\<rparr>, st_Target = [],
     Automated = False, st_CompletionTime = None, st_StartTime = None, ExpirationTime = None\<rparr>"

section \<open>Condition types and reasons\<close>

definition finalProcessedConditionType :: string where
  "finalProcessedConditionType = ''FinalPipelineProcessed''"

definition managedCollectorsProcessedConditionType :: string where
  "managedCollectorsProcessedConditionType = ''ManagedCollectorsPipelineProcessed''"

definition managedProcessedConditionType :: string where
  "managedProcessedConditionType = ''ManagedPipelineProcessed''"

definition tenantCollectorsProcessedConditionType :: string where
  "tenantCollectorsProcessedConditionType = ''TenantCollectorsPipelineProcessed''"

definition tenantProcessedConditionType :: string where
  "tenantProcessedConditionType = ''TenantPipelineProcessed''"

definition releasedConditionType :: string where
  "releasedConditionType = ''Released''"

definition validatedConditionType :: string where
  "validatedConditionType = ''Validated''"

definition AttemptSucceededReason :: string where
  "AttemptSucceededReason = ''Succeeded''"

definition AttemptFailedReason :: string where
  "AttemptFailedReason = ''Failed''"

definition AttemptProgressingReason :: string where
  "AttemptProgressingReason = ''Progressing''"

definition AttemptFailureErrorReason :: string where
  "AttemptFailureErrorReason = ''Error''"

definition AttemptFailureOOMKillReason :: string where
  "AttemptFailureOOMKillReason = ''OOMKill''"

definition AttemptFailurePipelineRunTimeoutReason :: string where
  "AttemptFailurePipelineRunTimeoutReason = ''PipelineRunTimeout''"

definition AttemptFailureTaskRunTimeoutReason :: string where
  "AttemptFailureTaskRunTimeoutReason = ''TaskRunTimeout''"

definition FailedReason :: string where
  "FailedReason = ''Failed''"

definition ProgressingReason :: string where
  "ProgressingReason = ''Progressing''"

definition SkippedReason :: string where
  "SkippedReason = ''Skipped''"

definition SucceededReason :: string where
  "SucceededReason = ''Succeeded''"

lemmas condition_type_defs =
  finalProcessedConditionType_def managedCollectorsProcessedConditionType_def
  managedProcessedConditionType_def tenantCollectorsProcessedConditionType_def
  tenantProcessedConditionType_def releasedConditionType_def validatedConditionType_def

lemmas reason_defs = FailedReason_def ProgressingReason_def SkippedReason_def SucceededReason_def

lemmas attempt_reason_defs =
  AttemptSucceededReason_def AttemptFailedReason_def AttemptProgressingReason_def
  AttemptFailureErrorReason_def AttemptFailureOOMKillReason_def
  AttemptFailurePipelineRunTimeoutReason_def AttemptFailureTaskRunTimeoutReason_def

lemma reasons_distinct [simp]:
  "FailedReason \<noteq> ProgressingReason" "ProgressingReason \<noteq> FailedReason"
  "SkippedReason \<noteq> ProgressingReason" "ProgressingReason \<noteq> SkippedReason"
  "SucceededReason \<noteq> ProgressingReason" "ProgressingReason \<noteq> SucceededReason"
  "SkippedReason \<noteq> FailedReason" "FailedReason \<noteq> SkippedReason"
  "SucceededReason \<noteq> SkippedReason" "SkippedReason \<noteq> SucceededReason"
  "SucceededReason \<noteq> FailedReason" "FailedReason \<noteq> SucceededReason"
  by (simp_all add: reason_defs)

lemma attempt_reasons_distinct [simp]:
  "AttemptFailedReason \<noteq> AttemptSucceededReason" "AttemptSucceededReason \<noteq> AttemptFailedReason"
  "AttemptProgressingReason \<noteq> AttemptFailedReason" "AttemptFailedReason \<noteq> AttemptProgressingReason"
  "AttemptProgressingReason \<noteq> AttemptSucceededReason"
  "AttemptSucceededReason \<noteq> AttemptProgressingReason"
  by (simp_all add: attempt_reason_defs)

lemma condition_types_distinct [simp]:
  "finalProcessedConditionType \<noteq> managedCollectorsProcessedConditionType"
  "finalProcessedConditionType \<noteq> managedProcessedConditionType"
  "finalProcessedConditionType \<noteq> tenantCollectorsProcessedConditionType"
  "finalProcessedConditionType \<noteq> tenantProcessedConditionType"
  "finalProcessedConditionType \<noteq> releasedConditionType"
  "finalProcessedConditionType \<noteq> validatedConditionType"
  "managedCollectorsProcessedConditionType \<noteq> finalProcessedConditionType"
  "managedCollectorsProcessedConditionType \<noteq> managedProcessedConditionType"
  "managedCollectorsProcessedConditionType \<noteq> tenantCollectorsProcessedConditionType"
  "managedCollectorsProcessedConditionType \<noteq> tenantProcessedConditionType"
  "managedCollectorsProcessedConditionType \<noteq> releasedConditionType"
  "managedCollectorsProcessedConditionType \<noteq> validatedConditionType"
  "managedProcessedConditionType \<noteq> finalProcessedConditionType"
  "managedProcessedConditionType \<noteq> managedCollectorsProcessedConditionType"
  "managedProcessedConditionType \<noteq> tenantCollectorsProcessedConditionType"
  "managedProcessedConditionType \<noteq> tenantProcessedConditionType"
  "managedProcessedConditionType \<noteq> releasedConditionType"
  "managedProcessedConditionType \<noteq> validatedConditionType"
  "tenantCollectorsProcessedConditionType \<noteq> finalProcessedConditionType"
  "tenantCollectorsProcessedConditionType \<noteq> managedCollectorsProcessedConditionType"
  "tenantCollectorsProcessedConditionType \<noteq> managedProcessedConditionType"
  "tenantCollectorsProcessedConditionType \<noteq> tenantProcessedConditionType"
  "tenantCollectorsProcessedConditionType \<noteq> releasedConditionType"
  "tenantCollectorsProcessedConditionType \<noteq> validatedConditionType"
  "tenantProcessedConditionType \<noteq> finalProcessedConditionType"
  "tenantProcessedConditionType \<noteq> managedCollectorsProcessedConditionType"
  "tenantProcessedConditionType \<noteq> managedProcessedConditionType"
  "tenantProcessedConditionType \<noteq> tenantCollectorsProcessedConditionType"
  "tenantProcessedConditionType \<noteq> releasedConditionType"
  "tenantProcessedConditionType \<noteq> validatedConditionType"
  "releasedConditionType \<noteq> finalProcessedConditionType"
  "releasedConditionType \<noteq> managedCollectorsProcessedConditionType"
  "releasedConditionType \<noteq> managedProcessedConditionType"
  "releasedConditionType \<noteq> tenantCollectorsProcessedConditionType"
  "releasedConditionType \<noteq> tenantProcessedConditionType"
  "releasedConditionType \<noteq> validatedConditionType"
  "validatedConditionType \<noteq> finalProcessedConditionType"
  "validatedConditionType \<noteq> managedCollectorsProcessedConditionType"
  "validatedConditionType \<noteq> managedProcessedConditionType"
  "validatedConditionType \<noteq> tenantCollectorsProcessedConditionType"
  "validatedConditionType \<noteq> tenantProcessedConditionType"
  "validatedConditionType \<noteq> releasedConditionType"
  by (simp_all add: condition_type_defs)

section \<open>Metrics calls spawned by the status methods\<close>

datatype metric =
    RegisterCompletedRelease "time option" "time option" string string string string string string
      string string
  | RegisterCompletedReleasePipelineProcessing "time option" "time option" string string string
  | RegisterValidatedRelease "time option" "time option" string string
  | RegisterSuccessfulManagedPipelineRetryMitigation string string string string string string
      string string string
  | RegisterNewRelease
  | RegisterNewReleasePipelineProcessing "time option" "time option" string string string

text \<open>The pipeline types of \<open>src/metadata/labels.go\<close>.\<close>

datatype PipelineType =
    ManagedCollectorsPipelineType | TenantCollectorsPipelineType | FinalPipelineType
  | ManagedPipelineType | TenantPipelineType

fun PipelineType_String :: "PipelineType \<Rightarrow> string" where
  "PipelineType_String ManagedCollectorsPipelineType = ''managed-collectors''"
| "PipelineType_String TenantCollectorsPipelineType = ''tenant-collectors''"
| "PipelineType_String FinalPipelineType = ''final''"
| "PipelineType_String ManagedPipelineType = ''managed''"
| "PipelineType_String TenantPipelineType = ''tenant''"

section \<open>Queries\<close>

definition hasPhaseFinished :: "conditions_lib \<Rightarrow> Release \<Rightarrow> string \<Rightarrow> bool" where
  "hasPhaseFinished L r conditionType =
     (case FindStatusCondition L (Conditions (Status r)) conditionType of
        None \<Rightarrow> False
      | Some c \<Rightarrow> if c_Status c = ConditionTrue then True
                  else c_Status c = ConditionFalse \<and> c_Reason c \<noteq> ProgressingReason)"

definition isPhaseProgressing :: "conditions_lib \<Rightarrow> Release \<Rightarrow> string \<Rightarrow> bool" where
  "isPhaseProgressing L r conditionType =
     (case FindStatusCondition L (Conditions (Status r)) conditionType of
        None \<Rightarrow> False
      | Some c \<Rightarrow> if c_Status c = ConditionTrue then False
                  else c_Status c = ConditionFalse \<and> c_Reason c = ProgressingReason)"

definition isPhaseSkipped :: "conditions_lib \<Rightarrow> Release \<Rightarrow> string \<Rightarrow> bool" where
  "isPhaseSkipped L r conditionType =
     (case FindStatusCondition L (Conditions (Status r)) conditionType of
        None \<Rightarrow> False
      | Some c \<Rightarrow> c_Status c = ConditionTrue \<and> c_Reason c = SkippedReason)"

definition getPhaseReason :: "conditions_lib \<Rightarrow> Release \<Rightarrow> string \<Rightarrow> string" where
  "getPhaseReason L r conditionType =
     (case FindStatusCondition L (Conditions (Status r)) conditionType of
        None \<Rightarrow> [] | Some c \<Rightarrow> c_Reason c)"

definition HasFinalPipelineProcessingFinished :: "conditions_lib \<Rightarrow> Release \<Rightarrow> bool" where
  "HasFinalPipelineProcessingFinished L r = hasPhaseFinished L r finalProcessedConditionType"

definition HasManagedCollectorsPipelineProcessingFinished :: "conditions_lib \<Rightarrow> Release \<Rightarrow> bool" where
  "HasManagedCollectorsPipelineProcessingFinished L r = hasPhaseFinished L r managedCollectorsProcessedConditionType"

definition HasManagedPipelineProcessingFinished :: "conditions_lib \<Rightarrow> Release \<Rightarrow> bool" where
  "HasManagedPipelineProcessingFinished L r = hasPhaseFinished L r managedProcessedConditionType"

definition HasTenantCollectorsPipelineProcessingFinished :: "conditions_lib \<Rightarrow> Release \<Rightarrow> bool" where
  "HasTenantCollectorsPipelineProcessingFinished L r = hasPhaseFinished L r tenantCollectorsProcessedConditionType"

definition HasTenantPipelineProcessingFinished :: "conditions_lib \<Rightarrow> Release \<Rightarrow> bool" where
  "HasTenantPipelineProcessingFinished L r = hasPhaseFinished L r tenantProcessedConditionType"

definition HasReleaseFinished :: "conditions_lib \<Rightarrow> Release \<Rightarrow> bool" where
  "HasReleaseFinished L r = hasPhaseFinished L r releasedConditionType"

definition GetCurrentManagedPipelineAttempt :: "Release \<Rightarrow> PipelineAttempt option" where
  "GetCurrentManagedPipelineAttempt r =
     (if ManagedPipelineAttempts (Status r) = [] then None
      else Some (last (ManagedPipelineAttempts (Status r))))"

definition GetManagedPipelineRetryCount :: "Release \<Rightarrow> int" where
  "GetManagedPipelineRetryCount r = max 0 (int (length (ManagedPipelineAttempts (Status r))) - 1)"

definition AreAllProcessingPhasesFinished :: "conditions_lib \<Rightarrow> Release \<Rightarrow> bool" where
  "AreAllProcessingPhasesFinished L r \<longleftrightarrow>
     HasTenantCollectorsPipelineProcessingFinished L r \<and>
     HasManagedCollectorsPipelineProcessingFinished L r \<and>
     HasTenantPipelineProcessingFinished L r \<and>
     HasManagedPipelineProcessingFinished L r \<and>
     HasFinalPipelineProcessingFinished L r"

definition IsAttributed :: "Release \<Rightarrow> bool" where
  "IsAttributed r \<longleftrightarrow> Author (Attribution (Status r)) \<noteq> []"

definition IsAutomated :: "Release \<Rightarrow> bool" where
  "IsAutomated r = Automated (Status r)"

definition IsFinalPipelineProcessedSuccessfully :: "conditions_lib \<Rightarrow> Release \<Rightarrow> bool" where
  "IsFinalPipelineProcessedSuccessfully L r =
     IsStatusConditionTrue L (Conditions (Status r)) finalProcessedConditionType"

definition IsManagedCollectorsPipelineProcessedSuccessfully :: "conditions_lib \<Rightarrow> Release \<Rightarrow> bool" where
  "IsManagedCollectorsPipelineProcessedSuccessfully L r =
     IsStatusConditionTrue L (Conditions (Status r)) managedCollectorsProcessedConditionType"

definition IsManagedPipelineProcessedSuccessfully :: "conditions_lib \<Rightarrow> Release \<Rightarrow> bool" where
  "IsManagedPipelineProcessedSuccessfully L r =
     IsStatusConditionTrue L (Conditions (Status r)) managedProcessedConditionType"

definition IsTenantCollectorsPipelineProcessedSuccessfully :: "conditions_lib \<Rightarrow> Release \<Rightarrow> bool" where
  "IsTenantCollectorsPipelineProcessedSuccessfully L r =
     IsStatusConditionTrue L (Conditions (Status r)) tenantCollectorsProcessedConditionType"

definition IsTenantPipelineProcessedSuccessfully :: "conditions_lib \<Rightarrow> Release \<Rightarrow> bool" where
  "IsTenantPipelineProcessedSuccessfully L r =
     IsStatusConditionTrue L (Conditions (Status r)) tenantProcessedConditionType"

definition IsCurrentManagedPipelineAttemptDone :: "Release \<Rightarrow> bool" where
  "IsCurrentManagedPipelineAttemptDone r =
     (case GetCurrentManagedPipelineAttempt r of None \<Rightarrow> False
      | Some a \<Rightarrow> pa_Status a = AttemptFailedReason \<or> pa_Status a = AttemptSucceededReason)"

definition IsCurrentManagedPipelineAttemptFailed :: "Release \<Rightarrow> bool" where
  "IsCurrentManagedPipelineAttemptFailed r =
     (case GetCurrentManagedPipelineAttempt r of None \<Rightarrow> False
      | Some a \<Rightarrow> pa_Status a = AttemptFailedReason)"

definition IsCurrentManagedPipelineAttemptRetriable :: "Release \<Rightarrow> bool" where
  "IsCurrentManagedPipelineAttemptRetriable r =
     (case GetCurrentManagedPipelineAttempt r of None \<Rightarrow> False
      | Some a \<Rightarrow> pa_Status a = AttemptFailedReason \<and>
          (pa_FailureReason a = AttemptFailureOOMKillReason \<or>
           pa_FailureReason a = AttemptFailureTaskRunTimeoutReason \<or>
           pa_FailureReason a = AttemptFailurePipelineRunTimeoutReason))"

definition IsFinalPipelineProcessing :: "conditions_lib \<Rightarrow> Release \<Rightarrow> bool" where
  "IsFinalPipelineProcessing L r = isPhaseProgressing L r finalProcessedConditionType"

definition IsManagedCollectorsPipelineProcessing :: "conditions_lib \<Rightarrow> Release \<Rightarrow> bool" where
  "IsManagedCollectorsPipelineProcessing L r = isPhaseProgressing L r managedCollectorsProcessedConditionType"

definition IsManagedPipelineProcessing :: "conditions_lib \<Rightarrow> Release \<Rightarrow> bool" where
  "IsManagedPipelineProcessing L r = isPhaseProgressing L r managedProcessedConditionType"

definition IsTenantCollectorsPipelineProcessing :: "conditions_lib \<Rightarrow> Release \<Rightarrow> bool" where
  "IsTenantCollectorsPipelineProcessing L r = isPhaseProgressing L r tenantCollectorsProcessedConditionType"

definition IsTenantPipelineProcessing :: "conditions_lib \<Rightarrow> Release \<Rightarrow> bool" where
  "IsTenantPipelineProcessing L r = isPhaseProgressing L r tenantProcessedConditionType"

definition IsFinalPipelineSkipped :: "conditions_lib \<Rightarrow> Release \<Rightarrow> bool" where
  "IsFinalPipelineSkipped L r = isPhaseSkipped L r finalProcessedConditionType"

definition IsManagedCollectorsPipelineSkipped :: "conditions_lib \<Rightarrow> Release \<Rightarrow> bool" where
  "IsManagedCollectorsPipelineSkipped L r = isPhaseSkipped L r managedCollectorsProcessedConditionType"

definition IsManagedPipelineSkipped :: "conditions_lib \<Rightarrow> Release \<Rightarrow> bool" where
  "IsManagedPipelineSkipped L r = isPhaseSkipped L r managedProcessedConditionType"

definition IsTenantCollectorsPipelineSkipped :: "conditions_lib \<Rightarrow> Release \<Rightarrow> bool" where
  "IsTenantCollectorsPipelineSkipped L r = isPhaseSkipped L r tenantCollectorsProcessedConditionType"

definition IsTenantPipelineSkipped :: "conditions_lib \<Rightarrow> Release \<Rightarrow> bool" where
  "IsTenantPipelineSkipped L r = isPhaseSkipped L r tenantProcessedConditionType"

definition IsReleased :: "conditions_lib \<Rightarrow> Release \<Rightarrow> bool" where
  "IsReleased L r = IsStatusConditionTrue L (Conditions (Status r)) releasedConditionType"

definition IsReleasing :: "conditions_lib \<Rightarrow> Release \<Rightarrow> bool" where
  "IsReleasing L r = isPhaseProgressing L r releasedConditionType"

definition IsValid :: "conditions_lib \<Rightarrow> Release \<Rightarrow> bool" where
  "IsValid L r = IsStatusConditionTrue L (Conditions (Status r)) validatedConditionType"

definition GetValidatedCondition :: "conditions_lib \<Rightarrow> Release \<Rightarrow> condition option" where
  "GetValidatedCondition L r = FindStatusCondition L (Conditions (Status r)) validatedConditionType"

definition IsFailed :: "conditions_lib \<Rightarrow> Release \<Rightarrow> bool" where
  "IsFailed L r =
     (case FindStatusCondition L (Conditions (Status r)) releasedConditionType of
        None \<Rightarrow> False | Some c \<Rightarrow> c_Status c = ConditionFalse \<and> c_Reason c = FailedReason)"

text \<open>The loop over the five phase conditions returns at the first failed one.\<close>

fun any_phase_failed :: "conditions_lib \<Rightarrow> Release \<Rightarrow> string list \<Rightarrow> bool" where
  "any_phase_failed L r [] = False"
| "any_phase_failed L r (t # ts) =
     (case FindStatusCondition L (Conditions (Status r)) t of
        None \<Rightarrow> any_phase_failed L r ts
      | Some c \<Rightarrow> if c_Status c = ConditionFalse \<and> c_Reason c = FailedReason then True
                  else any_phase_failed L r ts)"

definition HasPipelinePhaseFailed :: "conditions_lib \<Rightarrow> Release \<Rightarrow> bool" where
  "HasPipelinePhaseFailed L r =
     any_phase_failed L r [tenantCollectorsProcessedConditionType,
       managedCollectorsProcessedConditionType, tenantProcessedConditionType,
       managedProcessedConditionType, finalProcessedConditionType]"

section \<open>Status updates\<close>

type_synonym mark = "Release \<Rightarrow> Release \<times> metric list"

definition set_cond :: "conditions_lib \<Rightarrow> time \<Rightarrow> string \<Rightarrow> cstatus \<Rightarrow> string \<Rightarrow> Release \<Rightarrow> Release" where
  "set_cond L now t st rs =
     Status_update (Conditions_update (\<lambda>cs. SetCondition L now cs t st rs))"

definition set_cond_msg ::
  "conditions_lib \<Rightarrow> time \<Rightarrow> string \<Rightarrow> cstatus \<Rightarrow> string \<Rightarrow> string \<Rightarrow> Release \<Rightarrow> Release" where
  "set_cond_msg L now t st rs msg =
     Status_update (Conditions_update (\<lambda>cs. SetConditionWithMessage L now cs t st rs msg))"

definition upd_current_attempt :: "(PipelineAttempt \<Rightarrow> PipelineAttempt) \<Rightarrow> Release \<Rightarrow> Release" where
  "upd_current_attempt f = Status_update (ManagedPipelineAttempts_update (upd_last f))"

definition MarkFinalPipelineProcessed :: "conditions_lib \<Rightarrow> time \<Rightarrow> mark" where
  "MarkFinalPipelineProcessed L now r =
     (if \<not> IsFinalPipelineProcessing L r \<or> HasFinalPipelineProcessingFinished L r then (r, [])
      else let
        r1 = Status_update (FinalProcessing_update (pi_CompletionTime_update (\<lambda>_. Some now))) r;
        r2 = set_cond L now finalProcessedConditionType ConditionTrue SucceededReason r1
      in (r2, [RegisterCompletedReleasePipelineProcessing
        (pi_StartTime (FinalProcessing (Status r2)))
        (pi_CompletionTime (FinalProcessing (Status r2)))
        SucceededReason (st_Target (Status r2)) (PipelineType_String FinalPipelineType)]))"

definition MarkManagedCollectorsPipelineProcessed :: "conditions_lib \<Rightarrow> time \<Rightarrow> mark" where
  "MarkManagedCollectorsPipelineProcessed L now r =
     (if \<not> IsManagedCollectorsPipelineProcessing L r \<or> HasManagedCollectorsPipelineProcessingFinished L r then (r, [])
      else let
        r1 = Status_update (CollectorsProcessing_update (ManagedCollectorsProcessing_update (pi_CompletionTime_update (\<lambda>_. Some now)))) r;
        r2 = set_cond L now managedCollectorsProcessedConditionType ConditionTrue SucceededReason r1
      in (r2, [RegisterCompletedReleasePipelineProcessing
        (pi_StartTime (ManagedCollectorsProcessing (CollectorsProcessing (Status r2))))
        (pi_CompletionTime (ManagedCollectorsProcessing (CollectorsProcessing (Status r2))))
        SucceededReason (st_Target (Status r2)) (PipelineType_String ManagedCollectorsPipelineType)]))"

definition MarkTenantCollectorsPipelineProcessed :: "conditions_lib \<Rightarrow> time \<Rightarrow> mark" where
  "MarkTenantCollectorsPipelineProcessed L now r =
     (if \<not> IsTenantCollectorsPipelineProcessing L r \<or> HasTenantCollectorsPipelineProcessingFinished L r then (r, [])
      else let
        r1 = Status_update (CollectorsProcessing_update (TenantCollectorsProcessing_update (pi_CompletionTime_update (\<lambda>_. Some now)))) r;
        r2 = set_cond L now tenantCollectorsProcessedConditionType ConditionTrue SucceededReason r1
      in (r2, [RegisterCompletedReleasePipelineProcessing
        (pi_StartTime (TenantCollectorsProcessing (CollectorsProcessing (Status r2))))
        (pi_CompletionTime (TenantCollectorsProcessing (CollectorsProcessing (Status r2))))
        SucceededReason (st_Target (Status r2)) (PipelineType_String TenantCollectorsPipelineType)]))"

definition MarkTenantPipelineProcessed :: "conditions_lib \<Rightarrow> time \<Rightarrow> mark" where
  "MarkTenantPipelineProcessed L now r =
     (if \<not> IsTenantPipelineProcessing L r \<or> HasTenantPipelineProcessingFinished L r then (r, [])
      else let
        r1 = Status_update (TenantProcessing_update (pi_CompletionTime_update (\<lambda>_. Some now))) r;
        r2 = set_cond L now tenantProcessedConditionType ConditionTrue SucceededReason r1
      in (r2, [RegisterCompletedReleasePipelineProcessing
        (pi_StartTime (TenantProcessing (Status r2)))
        (pi_CompletionTime (TenantProcessing (Status r2)))
        SucceededReason (st_Target (Status r2)) (PipelineType_String TenantPipelineType)]))"

definition MarkCurrentManagedPipelineAttemptProcessed :: "conditions_lib \<Rightarrow> time \<Rightarrow> mark" where
  "MarkCurrentManagedPipelineAttemptProcessed L now r =
     (if \<not> IsManagedPipelineProcessing L r \<or> HasManagedPipelineProcessingFinished L r then (r, [])
      else if IsCurrentManagedPipelineAttemptDone r then (r, [])
      else case GetCurrentManagedPipelineAttempt r of None \<Rightarrow> (r, [])
      | Some attempt \<Rightarrow> let
          r1 = upd_current_attempt (\<lambda>a. a\<lparr>pa_Status := AttemptSucceededReason,
                 pa_CompletionTime := Some now\<rparr>) r;
          r2 = Status_update (ManagedProcessing_update (pi_CompletionTime_update (\<lambda>_. Some now))) r1;
          r3 = set_cond L now managedProcessedConditionType ConditionTrue SucceededReason r2;
          m = RegisterCompletedReleasePipelineProcessing (pa_StartTime attempt) (Some now)
                SucceededReason (st_Target (Status r3)) (PipelineType_String ManagedPipelineType)
        in if GetManagedPipelineRetryCount r3 = 0 then (r3, [m])
           else let
             previous = ManagedPipelineAttempts (Status r3) !
               (length (ManagedPipelineAttempts (Status r3)) - 2);
             mitigation = (case pa_Mitigation attempt of None \<Rightarrow> no_mitigation | Some x \<Rightarrow> x)
           in (r3, [m, RegisterSuccessfulManagedPipelineRetryMitigation
                (pa_FailureReason previous) (pa_LastTask previous) (pa_LastStep previous)
                (st_Target (Status r3)) (MemoryLimit mitigation) (MemoryRequest mitigation)
                (TaskTimeout mitigation) (TasksTimeout mitigation) (PipelinesTimeout mitigation)]))"

definition MarkFinalPipelineProcessing :: "conditions_lib \<Rightarrow> time \<Rightarrow> mark" where
  "MarkFinalPipelineProcessing L now r =
     (if HasFinalPipelineProcessingFinished L r then (r, [])
      else let
        r1 = (if \<not> IsFinalPipelineProcessing L r
              then Status_update (FinalProcessing_update (pi_StartTime_update (\<lambda>_. Some now))) r
              else r);
        r2 = set_cond L now finalProcessedConditionType ConditionFalse ProgressingReason r1
      in (r2, [RegisterNewReleasePipelineProcessing (st_StartTime (Status r2))
        (pi_StartTime (FinalProcessing (Status r2)))
        ProgressingReason (st_Target (Status r2)) (PipelineType_String FinalPipelineType)]))"

definition MarkManagedCollectorsPipelineProcessing :: "conditions_lib \<Rightarrow> time \<Rightarrow> mark" where
  \<comment> \<open>the source passes \<open>ManagedPipelineType\<close> to the metric here\<close>
  "MarkManagedCollectorsPipelineProcessing L now r =
     (if HasManagedCollectorsPipelineProcessingFinished L r then (r, [])
      else let
        r1 = (if \<not> IsManagedCollectorsPipelineProcessing L r
              then Status_update (CollectorsProcessing_update (ManagedCollectorsProcessing_update (pi_StartTime_update (\<lambda>_. Some now)))) r
              else r);
        r2 = set_cond L now managedCollectorsProcessedConditionType ConditionFalse ProgressingReason r1
      in (r2, [RegisterNewReleasePipelineProcessing (st_StartTime (Status r2))
        (pi_StartTime (ManagedCollectorsProcessing (CollectorsProcessing (Status r2))))
        ProgressingReason (st_Target (Status r2)) (PipelineType_String ManagedPipelineType)]))"

definition MarkTenantCollectorsPipelineProcessing :: "conditions_lib \<Rightarrow> time \<Rightarrow> mark" where
  "MarkTenantCollectorsPipelineProcessing L now r =
     (if HasTenantCollectorsPipelineProcessingFinished L r then (r, [])
      else let
        r1 = (if \<not> IsTenantCollectorsPipelineProcessing L r
              then Status_update (CollectorsProcessing_update (TenantCollectorsProcessing_update (pi_StartTime_update (\<lambda>_. Some now)))) r
              else r);
        r2 = set_cond L now tenantCollectorsProcessedConditionType ConditionFalse ProgressingReason r1
      in (r2, [RegisterNewReleasePipelineProcessing (st_StartTime (Status r2))
        (pi_StartTime (TenantCollectorsProcessing (CollectorsProcessing (Status r2))))
        ProgressingReason (st_Target (Status r2)) (PipelineType_String TenantCollectorsPipelineType)]))"

definition MarkTenantPipelineProcessing :: "conditions_lib \<Rightarrow> time \<Rightarrow> mark" where
  "MarkTenantPipelineProcessing L now r =
     (if HasTenantPipelineProcessingFinished L r then (r, [])
      else let
        r1 = (if \<not> IsTenantPipelineProcessing L r
              then Status_update (TenantProcessing_update (pi_StartTime_update (\<lambda>_. Some now))) r
              else r);
        r2 = set_cond L now tenantProcessedConditionType ConditionFalse ProgressingReason r1
      in (r2, [RegisterNewReleasePipelineProcessing (st_StartTime (Status r2))
        (pi_StartTime (TenantProcessing (Status r2)))
        ProgressingReason (st_Target (Status r2)) (PipelineType_String TenantPipelineType)]))"

definition MarkManagedPipelineProcessing :: "conditions_lib \<Rightarrow> time \<Rightarrow> mark" where
  "MarkManagedPipelineProcessing L now r =
     (if HasManagedPipelineProcessingFinished L r then (r, [])
      else let
        r1 = (if \<not> IsManagedPipelineProcessing L r
              then Status_update (ManagedProcessing_update (pi_StartTime_update (\<lambda>_. Some now))) r
              else r)
      in (set_cond L now managedProcessedConditionType ConditionFalse ProgressingReason r1, []))"

definition MarkManagedPipelineProcessingFailed :: "conditions_lib \<Rightarrow> time \<Rightarrow> string \<Rightarrow> mark" where
  "MarkManagedPipelineProcessingFailed L now message r =
     (if \<not> IsManagedPipelineProcessing L r \<or> HasManagedPipelineProcessingFinished L r then (r, [])
      else let
        r1 = Status_update (ManagedProcessing_update (pi_CompletionTime_update (\<lambda>_. Some now))) r;
        r2 = set_cond_msg L now managedProcessedConditionType ConditionFalse FailedReason message r1
      in (r2, [RegisterCompletedReleasePipelineProcessing
        (pi_StartTime (ManagedProcessing (Status r2)))
        (pi_CompletionTime (ManagedProcessing (Status r2)))
        FailedReason (st_Target (Status r2)) (PipelineType_String ManagedPipelineType)]))"

definition MarkCurrentManagedPipelineAttemptProcessing :: "conditions_lib \<Rightarrow> time \<Rightarrow> mark" where
  "MarkCurrentManagedPipelineAttemptProcessing L now r =
     (if IsManagedPipelineProcessedSuccessfully L r \<or> IsManagedPipelineSkipped L r then (r, [])
      else case GetCurrentManagedPipelineAttempt r of None \<Rightarrow> (r, [])
      | Some attempt \<Rightarrow> let
          start = (case pa_StartTime attempt of None \<Rightarrow> now | Some t \<Rightarrow> t);
          r1 = upd_current_attempt (\<lambda>a. a\<lparr>pa_StartTime := Some start\<rparr>) r;
          r2 = (if pa_StartTime attempt = None \<and> \<not> IsManagedPipelineProcessing L r1
                then Status_update (ManagedProcessing_update
                       (pi_StartTime_update (\<lambda>_. Some start))) r1
                else r1);
          r3 = upd_current_attempt (\<lambda>a. a\<lparr>pa_Status := AttemptProgressingReason\<rparr>) r2;
          r4 = set_cond L now managedProcessedConditionType ConditionFalse ProgressingReason r3
        in (r4, [RegisterNewReleasePipelineProcessing (st_StartTime (Status r4)) (Some start)
             ProgressingReason (st_Target (Status r4)) (PipelineType_String ManagedPipelineType)]))"

definition MarkFinalPipelineProcessingFailed :: "conditions_lib \<Rightarrow> time \<Rightarrow> string \<Rightarrow> mark" where
  "MarkFinalPipelineProcessingFailed L now message r =
     (if \<not> IsFinalPipelineProcessing L r \<or> HasFinalPipelineProcessingFinished L r then (r, [])
      else let
        r1 = Status_update (FinalProcessing_update (pi_CompletionTime_update (\<lambda>_. Some now))) r;
        r2 = set_cond_msg L now finalProcessedConditionType ConditionFalse FailedReason message r1
      in (r2, [RegisterCompletedReleasePipelineProcessing
        (pi_StartTime (FinalProcessing (Status r2)))
        (pi_CompletionTime (FinalProcessing (Status r2)))
        FailedReason (st_Target (Status r2)) (PipelineType_String FinalPipelineType)]))"

definition MarkManagedCollectorsPipelineProcessingFailed :: "conditions_lib \<Rightarrow> time \<Rightarrow> string \<Rightarrow> mark" where
  "MarkManagedCollectorsPipelineProcessingFailed L now message r =
     (if \<not> IsManagedCollectorsPipelineProcessing L r \<or> HasManagedCollectorsPipelineProcessingFinished L r then (r, [])
      else let
        r1 = Status_update (CollectorsProcessing_update (ManagedCollectorsProcessing_update (pi_CompletionTime_update (\<lambda>_. Some now)))) r;
        r2 = set_cond_msg L now managedCollectorsProcessedConditionType ConditionFalse FailedReason message r1
      in (r2, [RegisterCompletedReleasePipelineProcessing
        (pi_StartTime (ManagedCollectorsProcessing (CollectorsProcessing (Status r2))))
        (pi_CompletionTime (ManagedCollectorsProcessing (CollectorsProcessing (Status r2))))
        FailedReason (st_Target (Status r2)) (PipelineType_String ManagedCollectorsPipelineType)]))"

definition MarkTenantCollectorsPipelineProcessingFailed :: "conditions_lib \<Rightarrow> time \<Rightarrow> string \<Rightarrow> mark" where
  "MarkTenantCollectorsPipelineProcessingFailed L now message r =
     (if \<not> IsTenantCollectorsPipelineProcessing L r \<or> HasTenantCollectorsPipelineProcessingFinished L r then (r, [])
      else let
        r1 = Status_update (CollectorsProcessing_update (TenantCollectorsProcessing_update (pi_CompletionTime_update (\<lambda>_. Some now)))) r;
        r2 = set_cond_msg L now tenantCollectorsProcessedConditionType ConditionFalse FailedReason message r1
      in (r2, [RegisterCompletedReleasePipelineProcessing
        (pi_StartTime (TenantCollectorsProcessing (CollectorsProcessing (Status r2))))
        (pi_CompletionTime (TenantCollectorsProcessing (CollectorsProcessing (Status r2))))
        FailedReason (st_Target (Status r2)) (PipelineType_String TenantCollectorsPipelineType)]))"

definition MarkTenantPipelineProcessingFailed :: "conditions_lib \<Rightarrow> time \<Rightarrow> string \<Rightarrow> mark" where
  "MarkTenantPipelineProcessingFailed L now message r =
     (if \<not> IsTenantPipelineProcessing L r \<or> HasTenantPipelineProcessingFinished L r then (r, [])
      else let
        r1 = Status_update (TenantProcessing_update (pi_CompletionTime_update (\<lambda>_. Some now))) r;
        r2 = set_cond_msg L now tenantProcessedConditionType ConditionFalse FailedReason message r1
      in (r2, [RegisterCompletedReleasePipelineProcessing
        (pi_StartTime (TenantProcessing (Status r2)))
        (pi_CompletionTime (TenantProcessing (Status r2)))
        FailedReason (st_Target (Status r2)) (PipelineType_String TenantPipelineType)]))"

definition MarkCurrentManagedPipelineAttemptFailed ::
  "conditions_lib \<Rightarrow> time \<Rightarrow> string \<Rightarrow> string \<Rightarrow> string \<Rightarrow> string \<Rightarrow> int \<Rightarrow> mark" where
  "MarkCurrentManagedPipelineAttemptFailed L now message failureReason lastTask lastStep
      successfulTasks r =
     (if \<not> IsManagedPipelineProcessing L r \<or> HasManagedPipelineProcessingFinished L r then (r, [])
      else if IsCurrentManagedPipelineAttemptDone r then (r, [])
      else case GetCurrentManagedPipelineAttempt r of None \<Rightarrow> (r, [])
      | Some attempt \<Rightarrow> let
          r1 = upd_current_attempt (\<lambda>a. a\<lparr>pa_Status := AttemptFailedReason,
                 pa_CompletionTime := Some now, pa_FailureReason := failureReason,
                 pa_LastTask := lastTask, pa_LastStep := lastStep,
                 pa_SuccessfulTasks := successfulTasks\<rparr>) r;
          r2 = Status_update (ManagedProcessing_update (pi_CompletionTime_update (\<lambda>_. Some now))) r1
        in (r2, [RegisterCompletedReleasePipelineProcessing (pa_StartTime attempt) (Some now)
             FailedReason (st_Target (Status r2)) (PipelineType_String ManagedPipelineType)]))"

definition MarkCurrentManagedPipelineAttemptRetryDisabled :: "string \<Rightarrow> mark" where
  "MarkCurrentManagedPipelineAttemptRetryDisabled reason r =
     (case GetCurrentManagedPipelineAttempt r of None \<Rightarrow> (r, [])
      | Some _ \<Rightarrow> (upd_current_attempt (\<lambda>a. a\<lparr>pa_RetryDisabledReason := reason\<rparr>) r, []))"

definition MarkFinalPipelineProcessingSkipped :: "conditions_lib \<Rightarrow> time \<Rightarrow> mark" where
  "MarkFinalPipelineProcessingSkipped L now r =
     (if HasFinalPipelineProcessingFinished L r then (r, [])
      else (set_cond L now finalProcessedConditionType ConditionTrue SkippedReason r, []))"

definition MarkManagedCollectorsPipelineProcessingSkipped :: "conditions_lib \<Rightarrow> time \<Rightarrow> mark" where
  "MarkManagedCollectorsPipelineProcessingSkipped L now r =
     (if HasManagedCollectorsPipelineProcessingFinished L r then (r, [])
      else (set_cond L now managedCollectorsProcessedConditionType ConditionTrue SkippedReason r, []))"

definition MarkManagedPipelineProcessingSkipped :: "conditions_lib \<Rightarrow> time \<Rightarrow> mark" where
  "MarkManagedPipelineProcessingSkipped L now r =
     (if HasManagedPipelineProcessingFinished L r then (r, [])
      else (set_cond L now managedProcessedConditionType ConditionTrue SkippedReason r, []))"

definition MarkTenantCollectorsPipelineProcessingSkipped :: "conditions_lib \<Rightarrow> time \<Rightarrow> mark" where
  "MarkTenantCollectorsPipelineProcessingSkipped L now r =
     (if HasTenantCollectorsPipelineProcessingFinished L r then (r, [])
      else (set_cond L now tenantCollectorsProcessedConditionType ConditionTrue SkippedReason r, []))"

definition MarkTenantPipelineProcessingSkipped :: "conditions_lib \<Rightarrow> time \<Rightarrow> mark" where
  "MarkTenantPipelineProcessingSkipped L now r =
     (if HasTenantPipelineProcessingFinished L r then (r, [])
      else (set_cond L now tenantProcessedConditionType ConditionTrue SkippedReason r, []))"

definition MarkReleased :: "conditions_lib \<Rightarrow> time \<Rightarrow> mark" where
  "MarkReleased L now r =
     (if \<not> IsReleasing L r \<or> HasReleaseFinished L r then (r, [])
      else let
        r1 = Status_update (st_CompletionTime_update (\<lambda>_. Some now)) r;
        r2 = set_cond L now releasedConditionType ConditionTrue SucceededReason r1
      in (r2, [RegisterCompletedRelease (st_StartTime (Status r2)) (st_CompletionTime (Status r2))
        (getPhaseReason L r2 tenantCollectorsProcessedConditionType)
        (getPhaseReason L r2 tenantProcessedConditionType)
        (getPhaseReason L r2 managedCollectorsProcessedConditionType)
        (getPhaseReason L r2 managedProcessedConditionType)
        (getPhaseReason L r2 finalProcessedConditionType)
        SucceededReason (st_Target (Status r2))
        (getPhaseReason L r2 validatedConditionType)]))"

definition MarkReleasing :: "conditions_lib \<Rightarrow> time \<Rightarrow> string \<Rightarrow> mark" where
  "MarkReleasing L now message r =
     (if HasReleaseFinished L r then (r, [])
      else let
        r1 = (if \<not> IsReleasing L r then Status_update (st_StartTime_update (\<lambda>_. Some now)) r else r);
        r2 = set_cond_msg L now releasedConditionType ConditionFalse ProgressingReason message r1
      in (r2, [RegisterNewRelease]))"

definition MarkReleaseFailed :: "conditions_lib \<Rightarrow> time \<Rightarrow> string \<Rightarrow> mark" where
  "MarkReleaseFailed L now message r =
     (if \<not> IsReleasing L r \<or> HasReleaseFinished L r then (r, [])
      else let
        r1 = Status_update (st_CompletionTime_update (\<lambda>_. Some now)) r;
        r2 = set_cond_msg L now releasedConditionType ConditionFalse FailedReason message r1
      in (r2, [RegisterCompletedRelease (st_StartTime (Status r2)) (st_CompletionTime (Status r2))
        (getPhaseReason L r2 tenantCollectorsProcessedConditionType)
        (getPhaseReason L r2 tenantProcessedConditionType)
        (getPhaseReason L r2 managedCollectorsProcessedConditionType)
        (getPhaseReason L r2 managedProcessedConditionType)
        (getPhaseReason L r2 finalProcessedConditionType)
        FailedReason (st_Target (Status r2))
        (getPhaseReason L r2 validatedConditionType)]))"

definition MarkValidated :: "conditions_lib \<Rightarrow> time \<Rightarrow> mark" where
  "MarkValidated L now r =
     (if IsValid L r then (r, [])
      else let
        r1 = Status_update (Validation_update (val_Time_update (\<lambda>_. Some now))) r;
        r2 = set_cond L now validatedConditionType ConditionTrue SucceededReason r1
      in (r2, [RegisterValidatedRelease (st_StartTime (Status r2)) (val_Time (Validation (Status r2)))
        SucceededReason (st_Target (Status r2))]))"

definition MarkValidationFailed :: "conditions_lib \<Rightarrow> time \<Rightarrow> string \<Rightarrow> mark" where
  "MarkValidationFailed L now message r =
     (let
        r1 = (if IsValid L r
              then Status_update (Validation_update (FailedPostValidation_update (\<lambda>_. True))) r else r);
        r2 = Status_update (Validation_update (val_Time_update (\<lambda>_. Some now))) r1;
        r3 = set_cond_msg L now validatedConditionType ConditionFalse FailedReason message r2
      in (r3, [RegisterValidatedRelease (st_StartTime (Status r3)) (val_Time (Validation (Status r3)))
        FailedReason (st_Target (Status r3))]))"

definition SetAutomated :: "Release \<Rightarrow> Release" where
  "SetAutomated r = (if IsAutomated r then r else Status_update (Automated_update (\<lambda>_. True)) r)"

text \<open>
  \<open>creationTime.Add(time.Hour * 24 * expireDays)\<close>: the product is a \<open>time.Duration\<close>, an
  \<open>int64\<close> of nanoseconds that wraps.
\<close>

definition day :: duration where
  "day = 86400000000000"

definition SetExpirationTime :: "int \<Rightarrow> Release \<Rightarrow> Release" where
  "SetExpirationTime expireDays r =
     Status_update (ExpirationTime_update
       (\<lambda>_. Some (om_CreationTimestamp (rel_meta r) + wrap64 (day * expireDays)))) r"

end
