(* ===== verification/Metadata.thy ===== *)
theory Metadata
  imports Release_Types
begin

text \<open>
  Labels, annotations and finalizers: the constants of \<open>src/metadata/labels.go\<close> and
  \<open>finalizers.go\<close>, and the map helpers of \<open>src/metadata/metadata.go\<close>. A Go map is a partial
  function, so a loop over its entries is the pointwise result of the loop; lemma
  \<open>addEntries_any_order\<close> shows that the loop of the source computes it whatever order the
  runtime visits the keys in.
\<close>

section \<open>Constants\<close>

definition ReleaseFinalizer :: string where
  "ReleaseFinalizer = ''appstudio.redhat.com/release-finalizer''"

definition RhtapDomain :: string where
  "RhtapDomain = ''appstudio.openshift.io''"

definition MaxLabelLength :: nat where
  "MaxLabelLength = 63"

definition ServiceName :: string where
  "ServiceName = ''release''"

definition PipelinesAsCodePrefix :: string where
  "PipelinesAsCodePrefix = ''pac.test.appstudio.openshift.io''"

definition SpanContextAnnotation :: string where
  "SpanContextAnnotation = ''tekton.dev/pipelinerunSpanContext''"

definition pipelinesLabelPrefix :: string where
  "pipelinesLabelPrefix = ''pipelines.'' @ RhtapDomain"

definition releaseLabelPrefix :: string where
  "releaseLabelPrefix = ''release.'' @ RhtapDomain"

definition AttributionLabel :: string where
  "AttributionLabel = ''release.'' @ RhtapDomain @ ''/standing-attribution''"

definition AutoReleaseLabel :: string where
  "AutoReleaseLabel = ''release.'' @ RhtapDomain @ ''/auto-release''"

definition AuthorLabel :: string where
  "AuthorLabel = ''release.'' @ RhtapDomain @ ''/author''"

definition AutomatedLabel :: string where
  "AutomatedLabel = ''release.'' @ RhtapDomain @ ''/automated''"

definition BlockReleasesLabel :: string where
  "BlockReleasesLabel = ''release.'' @ RhtapDomain @ ''/block-releases''"

definition ServiceNameLabel :: string where
  "ServiceNameLabel = RhtapDomain @ ''/service''"

definition ReleasePlanAdmissionLabel :: string where
  "ReleasePlanAdmissionLabel = ''release.'' @ RhtapDomain @ ''/releasePlanAdmission''"

definition SnapshotLabel :: string where
  "SnapshotLabel = ''release.'' @ RhtapDomain @ ''/snapshot''"

definition ReleasePlanLabel :: string where
  "ReleasePlanLabel = ''release.'' @ RhtapDomain @ ''/releasePlan''"

definition ApplicationNameLabel :: string where
  "ApplicationNameLabel = RhtapDomain @ ''/application''"

definition PipelinesTypeLabel :: string where
  "PipelinesTypeLabel = pipelinesLabelPrefix @ ''/type''"

definition ReleaseNameLabel :: string where
  "ReleaseNameLabel = releaseLabelPrefix @ ''/name''"

definition ReleaseNamespaceLabel :: string where
  "ReleaseNamespaceLabel = releaseLabelPrefix @ ''/namespace''"

definition ReleaseSnapshotLabel :: string where
  "ReleaseSnapshotLabel = RhtapDomain @ ''/snapshot''"

definition ReleaseAttemptLabel :: string where
  "ReleaseAttemptLabel = releaseLabelPrefix @ ''/attempt''"

lemmas label_defs =
  RhtapDomain_def pipelinesLabelPrefix_def releaseLabelPrefix_def ServiceNameLabel_def
  ApplicationNameLabel_def PipelinesTypeLabel_def ReleaseNameLabel_def ReleaseNamespaceLabel_def
  ReleaseSnapshotLabel_def ReleaseAttemptLabel_def

lemma labels_distinct:
  "distinct [ApplicationNameLabel, PipelinesTypeLabel, ServiceNameLabel, ReleaseNameLabel,
     ReleaseNamespaceLabel, ReleaseSnapshotLabel, ReleaseAttemptLabel]"
  by code_simp

lemma PipelineType_String_inj: "PipelineType_String p = PipelineType_String q \<Longrightarrow> p = q"
  by (cases p; cases q) simp_all

section \<open>Map helpers\<close>

definition safeCopy :: "(string \<rightharpoonup> string) \<Rightarrow> string \<Rightarrow> string \<Rightarrow> (string \<rightharpoonup> string)" where
  "safeCopy dst key val = (case dst key of None \<Rightarrow> dst(key \<mapsto> val) | Some _ \<Rightarrow> dst)"

definition addEntries :: "(string \<rightharpoonup> string) \<Rightarrow> (string \<rightharpoonup> string) \<Rightarrow> (string \<rightharpoonup> string)" where
  "addEntries source destination =
     (\<lambda>key. case destination key of None \<Rightarrow> source key | Some v \<Rightarrow> Some v)"

definition hasPrefix :: "string \<Rightarrow> string \<Rightarrow> bool" where
  "hasPrefix s p \<longleftrightarrow> take (length p) s = p"

definition filterByPrefix :: "strmap \<Rightarrow> string \<Rightarrow> strmap" where
  "filterByPrefix entries pre =
     (if length pre = 0 then entries
      else Some (\<lambda>key. if hasPrefix key pre then map_read entries key else None))"

definition AddAnnotations :: "object_meta \<Rightarrow> strmap \<Rightarrow> object_meta" where
  "AddAnnotations obj entries =
     (let dst = (case om_Annotations obj of None \<Rightarrow> Map.empty | Some m \<Rightarrow> m)
      in obj\<lparr>om_Annotations := Some (addEntries (map_read entries) dst)\<rparr>)"

definition AddLabels :: "object_meta \<Rightarrow> strmap \<Rightarrow> object_meta" where
  "AddLabels obj entries =
     (let dst = (case om_Labels obj of None \<Rightarrow> Map.empty | Some m \<Rightarrow> m)
      in obj\<lparr>om_Labels := Some (addEntries (map_read entries) dst)\<rparr>)"

definition GetAnnotationsWithPrefix :: "object_meta \<Rightarrow> string \<Rightarrow> strmap" where
  "GetAnnotationsWithPrefix obj pre = filterByPrefix (om_Annotations obj) pre"

definition GetLabelsWithPrefix :: "object_meta \<Rightarrow> string \<Rightarrow> strmap" where
  "GetLabelsWithPrefix obj pre = filterByPrefix (om_Labels obj) pre"

text \<open>The loops themselves, over the entries in the order they are visited.\<close>

lemma fold_safeCopy:
  "distinct (map fst kvs) \<Longrightarrow>
   fold (\<lambda>(k, v) d. safeCopy d k v) kvs dst = addEntries (map_of kvs) dst"
proof (induction kvs arbitrary: dst)
  case Nil
  then show ?case by (auto simp: addEntries_def split: option.splits)
next
  case (Cons kv kvs)
  obtain k v where kv: "kv = (k, v)" by (cases kv)
  have "map_of kvs k = None"
    using Cons.prems by (simp add: kv map_of_eq_None_iff)
  then show ?case
    using Cons by (auto simp: kv addEntries_def safeCopy_def fun_eq_iff split: option.splits)
qed

text \<open>\<open>addEntries\<close> never overwrites: what the destination already has, it keeps.\<close>

lemma addEntries_keeps: "destination k = Some v \<Longrightarrow> addEntries source destination k = Some v"
  by (simp add: addEntries_def)

lemma addEntries_idem: "addEntries source (addEntries source d) = addEntries source d"
  by (auto simp: addEntries_def fun_eq_iff split: option.splits)

text \<open>
  The copy loop of \<open>addEntries\<close> (\<open>for key, val := range source\<close> over \<open>safeCopy\<close>) gives the
  same map whatever order Go visits the keys in: the destination's own entries win, and every
  other key takes the source's value.
\<close>

lemma addEntries_any_order:
  assumes "distinct (map fst kvs)" and "map_of kvs = source"
  shows "fold (\<lambda>(k, v) d. safeCopy d k v) kvs destination = addEntries source destination"
  using assms by (auto simp: fold_safeCopy)

lemma filterByPrefix_read:
  "map_read (filterByPrefix entries pre) key =
     (if hasPrefix key pre then map_read entries key else None)"
  by (simp add: filterByPrefix_def hasPrefix_def)

end
