(* ===== verification/Plan_Types.thy ===== *)
theory Plan_Types
  imports Metadata
begin

text \<open>
  The resources a Release refers to: the pipeline references and timeouts of
  \<open>src/tekton/utils/pipeline.go\<close>, the ReleasePlan, the ReleasePlanAdmission and the
  ReleaseServiceConfig of \<open>src/api/v1alpha1\<close>, with their methods, and the parts of the Snapshot,
  EnterpriseContractPolicy, Role and RoleBinding resources that the service reads. A slice that
  the code compares, with nil or with \<open>reflect.DeepEqual\<close>, is an optional list.
\<close>

section \<open>Pipelines\<close>

type_synonym 'a slice = "'a list option"

definition items :: "'a slice \<Rightarrow> 'a list" where
  "items xs = (case xs of None \<Rightarrow> [] | Some ys \<Rightarrow> ys)"

lemma items_simps [simp]: "items None = []" "items (Some ys) = ys"
  by (simp_all add: items_def)

record Param =
  p_Name :: string
  p_Value :: string

record PipelineRef =
  Resolver :: string
  Params :: "Param list"
  OciStorage :: string
  UseEmptyDir :: bool

record TimeoutFields =
  tf_Pipeline :: "duration option"
  tf_Tasks :: "duration option"
  tf_Finally :: "duration option"

definition no_timeouts :: TimeoutFields where
  "no_timeouts = \<lparr>tf_Pipeline = None, tf_Tasks = None, tf_Finally = None\<rparr>"

text \<open>
  A \<open>resource.Quantity\<close>: its exact amount, in the nano units that are the finest the API
  machinery represents, and its format.
\<close>

record quantity =
  q_nano :: int
  q_format :: string

record ResourceRequirements =
  Limits :: "string \<rightharpoonup> quantity"
  Requests :: "string \<rightharpoonup> quantity"

record TaskRunStepSpec =
  ss_Name :: string
  ss_ComputeResources :: ResourceRequirements

record PipelineTaskRunSpec =
  PipelineTaskName :: string
  StepSpecs :: "TaskRunStepSpec list"
  trs_ComputeResources :: "ResourceRequirements option"
  trs_Timeout :: "duration option"

record Pipeline =
  pl_PipelineRef :: PipelineRef
  pl_ServiceAccountName :: string
  pl_TaskRunSpecs :: "PipelineTaskRunSpec slice"
  pl_MaxRetries :: "int option"
  pl_Timeouts :: TimeoutFields

record ParameterizedPipeline =
  pp_Pipeline :: Pipeline
  pp_Params :: "Param list"

definition GetGitResolverParams :: "PipelineRef \<Rightarrow> error + (string \<times> string \<times> string)" where
  "GetGitResolverParams ref =
     (if Resolver ref \<noteq> ''git'' then Inl (plain_error ''not a git ref'')
      else Inr (foldl (\<lambda>(url, revision, pathInRepo) param.
        if p_Name param = ''url'' then (p_Value param, revision, pathInRepo)
        else if p_Name param = ''revision'' then (url, p_Value param, pathInRepo)
        else if p_Name param = ''pathInRepo'' then (url, revision, p_Value param)
        else (url, revision, pathInRepo)) ([], [], []) (Params ref)))"

fun first_param :: "string \<Rightarrow> Param list \<Rightarrow> string option" where
  "first_param n [] = None"
| "first_param n (p # ps) = (if p_Name p = n then Some (p_Value p) else first_param n ps)"

definition GetRevision :: "PipelineRef \<Rightarrow> error + string" where
  "GetRevision ref =
     (case first_param ''revision'' (Params ref) of
        Some v \<Rightarrow> Inr v | None \<Rightarrow> Inl (plain_error ''no revision found''))"

definition GetUrl :: "PipelineRef \<Rightarrow> error + string" where
  "GetUrl ref =
     (case first_param ''url'' (Params ref) of
        Some v \<Rightarrow> Inr v | None \<Rightarrow> Inl (plain_error ''no url found''))"

text \<open>Tekton's own \<open>PipelineRef\<close>; every param the service writes is of type string.\<close>

record tekton_PipelineRef =
  tr_Resolver :: string
  tr_Params :: "Param list"

fun tekton_params :: "Param list \<Rightarrow> Param list" where
  "tekton_params [] = []"
| "tekton_params (p # ps) = \<lparr>p_Name = p_Name p, p_Value = p_Value p\<rparr> # tekton_params ps"

definition ToTektonPipelineRef :: "PipelineRef \<Rightarrow> tekton_PipelineRef" where
  "ToTektonPipelineRef ref = \<lparr>tr_Resolver = Resolver ref, tr_Params = tekton_params (Params ref)\<rparr>"

definition GetOciStorageParam :: "PipelineRef \<Rightarrow> Param list" where
  "GetOciStorageParam ref =
     (if OciStorage ref \<noteq> [] then [\<lparr>p_Name = ''ociStorage'', p_Value = OciStorage ref\<rparr>] else [])"

definition Pipeline_GetOciStorageParam :: "Pipeline \<Rightarrow> Param list" where
  "Pipeline_GetOciStorageParam p = GetOciStorageParam (pl_PipelineRef p)"

definition GetTektonParams :: "ParameterizedPipeline \<Rightarrow> Param list" where
  "GetTektonParams prp = tekton_params (pp_Params prp)"

definition IsClusterScoped :: "PipelineRef \<Rightarrow> bool" where
  "IsClusterScoped ref \<longleftrightarrow> Resolver ref = ''cluster''"

lemma tekton_params_id [simp]: "tekton_params ps = ps"
  by (induction ps) simp_all

lemma ToTektonPipelineRef_simps [simp]:
  "tr_Resolver (ToTektonPipelineRef ref) = Resolver ref"
  "tr_Params (ToTektonPipelineRef ref) = Params ref"
  by (simp_all add: ToTektonPipelineRef_def)

section \<open>Collectors and retryable pipelines\<close>

record CollectorItem =
  ci_Name :: string
  ci_Timeout :: int
  ci_Type :: string
  ci_Params :: "Param list"

record Collectors =
  col_Items :: "CollectorItem list"
  Secrets :: "string slice"
  col_ServiceAccountName :: string

definition DefaultReleaseCatalogUrl :: string where
  "DefaultReleaseCatalogUrl = ''https://github.com/konflux-ci/release-service-catalog.git''"

definition DefaultReleaseCatalogRevision :: string where
  "DefaultReleaseCatalogRevision = ''production''"

definition DefaultCollectorPipelinePath :: string where
  "DefaultCollectorPipelinePath = ''pipelines/run-collectors/run-collectors.yaml''"

record MemoryMitigation =
  Multiplier :: string
  MaxComputeResources :: "ResourceRequirements option"

record TimeoutIncrement =
  Increment :: duration
  MaxTimeout :: "duration option"

record TimeoutMitigation =
  tm_Pipeline :: "TimeoutIncrement option"
  tm_Task :: "TimeoutIncrement option"

record Mitigations =
  OOMKill :: "MemoryMitigation option"
  mit_Timeout :: "TimeoutMitigation option"

record DisableConditions =
  Tags :: "string slice"

record RetryPolicy =
  MaxRetries :: int
  DisableOn :: "DisableConditions option"
  rpol_Mitigations :: "Mitigations option"

record RetryablePipeline =
  Url :: string
  Revision :: string
  PathInRepo :: string
  retryPolicy :: RetryPolicy

record RetryInfo =
  ri_Enabled :: bool
  ri_MaxRetries :: "int option"
  ri_Mitigations :: "Mitigations option"
  DisablingTags :: "string slice"
  ri_Reason :: string

section \<open>ReleasePlan\<close>

record MatchedReleasePlanAdmission =
  mrpa_Name :: string
  mrpa_Active :: bool

record ReleasePlanSpec =
  Application :: string
  ComponentGroup :: string
  rps_Collectors :: "Collectors option"
  rps_Data :: raw_extension
  TenantPipeline :: "ParameterizedPipeline option"
  FinalPipeline :: "ParameterizedPipeline option"
  ReleaseGracePeriodDays :: int
  Target :: string

record ReleasePlanStatus =
  rpst_Conditions :: "condition list"
  rpst_ReleasePlanAdmission :: MatchedReleasePlanAdmission

record ReleasePlan =
  rp_meta :: object_meta
  rp_Spec :: ReleasePlanSpec
  rp_Status :: ReleasePlanStatus

section \<open>ReleasePlanAdmission\<close>

record MatchedReleasePlan =
  mrp_Name :: string
  mrp_Active :: bool

record ReleasePlanAdmissionSpec =
  Applications :: "string slice"
  ComponentGroups :: "string slice"
  rpas_Collectors :: "Collectors option"
  rpas_Data :: raw_extension
  Environment :: string
  Origin :: string
  rpas_Pipeline :: "Pipeline option"
  Policy :: string

record ReleasePlanAdmissionStatus =
  rpast_Conditions :: "condition list"
  ReleasePlans :: "MatchedReleasePlan slice"
  rpast_RetryInfo :: "RetryInfo option"

record ReleasePlanAdmission =
  rpa_meta :: object_meta
  rpa_Spec :: ReleasePlanAdmissionSpec
  rpa_Status :: ReleasePlanAdmissionStatus

definition GetGroupName :: "ReleasePlan \<Rightarrow> string" where
  "GetGroupName rp =
     (if Application (rp_Spec rp) \<noteq> [] then Application (rp_Spec rp)
      else ComponentGroup (rp_Spec rp))"

definition MatchedConditionType :: string where
  "MatchedConditionType = ''Matched''"

definition MatchedReason :: string where
  "MatchedReason = ''Matched''"

definition ReleasePlan_setMatchedStatus ::
  "conditions_lib \<Rightarrow> time \<Rightarrow> ReleasePlanAdmission option \<Rightarrow> cstatus \<Rightarrow> ReleasePlan \<Rightarrow> ReleasePlan" where
  "ReleasePlan_setMatchedStatus L now releasePlanAdmission status rp =
     rp_Status_update (\<lambda>st. st\<lparr>
       rpst_ReleasePlanAdmission := (case releasePlanAdmission of
          None \<Rightarrow> \<lparr>mrpa_Name = [], mrpa_Active = False\<rparr>
        | Some rpa \<Rightarrow>
            \<lparr>mrpa_Name = namespaced (om_Namespace (rpa_meta rpa)) (om_Name (rpa_meta rpa)),
             mrpa_Active = (map_index (om_Labels (rpa_meta rpa)) BlockReleasesLabel = ''false'')\<rparr>),
       rpst_Conditions :=
         SetCondition L now (rpst_Conditions st) MatchedConditionType status MatchedReason\<rparr>) rp"

definition ReleasePlan_MarkMatched ::
  "conditions_lib \<Rightarrow> time \<Rightarrow> ReleasePlanAdmission \<Rightarrow> ReleasePlan \<Rightarrow> ReleasePlan" where
  "ReleasePlan_MarkMatched L now rpa rp =
     ReleasePlan_setMatchedStatus L now (Some rpa) ConditionTrue rp"

definition ReleasePlan_MarkUnmatched :: "conditions_lib \<Rightarrow> time \<Rightarrow> ReleasePlan \<Rightarrow> ReleasePlan" where
  "ReleasePlan_MarkUnmatched L now rp =
     (if IsStatusConditionPresentAndEqual L (rpst_Conditions (rp_Status rp)) MatchedConditionType
           ConditionFalse
      then rp else ReleasePlan_setMatchedStatus L now None ConditionFalse rp)"

definition IsRetryEnabled :: "ReleasePlanAdmission \<Rightarrow> bool" where
  "IsRetryEnabled rpa =
     (case rpast_RetryInfo (rpa_Status rpa) of None \<Rightarrow> False
      | Some ri \<Rightarrow> ri_Enabled ri \<and> ri_MaxRetries ri \<noteq> None)"

definition GetMitigations :: "ReleasePlanAdmission \<Rightarrow> Mitigations option" where
  "GetMitigations rpa =
     (case rpast_RetryInfo (rpa_Status rpa) of None \<Rightarrow> None | Some ri \<Rightarrow> ri_Mitigations ri)"

definition GetDisablingTags :: "ReleasePlanAdmission \<Rightarrow> string slice" where
  "GetDisablingTags rpa =
     (case rpast_RetryInfo (rpa_Status rpa) of None \<Rightarrow> None | Some ri \<Rightarrow> DisablingTags ri)"

definition MatchesReleasePlan :: "ReleasePlanAdmission \<Rightarrow> ReleasePlan \<Rightarrow> bool" where
  "MatchesReleasePlan rpa releasePlan =
     (let name = GetGroupName releasePlan
      in name \<in> set (items (Applications (rpa_Spec rpa))) \<or>
         name \<in> set (items (ComponentGroups (rpa_Spec rpa))))"

definition ClearMatchingInfo ::
  "conditions_lib \<Rightarrow> time \<Rightarrow> ReleasePlanAdmission \<Rightarrow> ReleasePlanAdmission" where
  "ClearMatchingInfo L now rpa =
     rpa_Status_update (\<lambda>st. st\<lparr>ReleasePlans := Some [],
       rpast_Conditions :=
         SetCondition L now (rpast_Conditions st) MatchedConditionType ConditionFalse MatchedReason\<rparr>) rpa"

text \<open>
  \<open>MarkMatched\<close> sorts with \<open>sort.Slice\<close>, which need not be stable; the sorting routine is an
  argument \<open>srt\<close>, called with the strict order on names.
\<close>

fun str_less :: "string \<Rightarrow> string \<Rightarrow> bool" where
  "str_less [] [] = False"
| "str_less [] (y # ys) = True"
| "str_less (x # xs) [] = False"
| "str_less (x # xs) (y # ys) =
     (if (of_char x :: nat) < of_char y then True
      else if (of_char y :: nat) < of_char x then False else str_less xs ys)"

type_synonym sorter =
  "(MatchedReleasePlan \<Rightarrow> MatchedReleasePlan \<Rightarrow> bool) \<Rightarrow> MatchedReleasePlan list \<Rightarrow> MatchedReleasePlan list"

definition ReleasePlanAdmission_MarkMatched ::
  "conditions_lib \<Rightarrow> sorter \<Rightarrow> time \<Rightarrow> ReleasePlan \<Rightarrow> ReleasePlanAdmission \<Rightarrow> ReleasePlanAdmission" where
  "ReleasePlanAdmission_MarkMatched L srt now releasePlan rpa =
     (let paired =
        \<lparr>mrp_Name = namespaced (om_Namespace (rp_meta releasePlan)) (om_Name (rp_meta releasePlan)),
         mrp_Active = (map_index (om_Labels (rp_meta releasePlan)) AutoReleaseLabel = ''true'')\<rparr>
      in rpa_Status_update (\<lambda>st. st\<lparr>
        ReleasePlans := Some (srt (\<lambda>a b. str_less (mrp_Name a) (mrp_Name b))
          (items (ReleasePlans st) @ [paired])),
        rpast_Conditions :=
          SetCondition L now (rpast_Conditions st) MatchedConditionType ConditionTrue MatchedReason\<rparr>) rpa)"

section \<open>ReleaseServiceConfig\<close>

record EmptyDirOverrides =
  edo_Url :: string
  edo_Revision :: string
  edo_PathInRepo :: string

record ReleaseServiceConfigSpec =
  Debug :: bool
  DefaultTimeouts :: TimeoutFields
  rsc_EmptyDirOverrides :: "EmptyDirOverrides list"
  RetryablePipelines :: "RetryablePipeline slice"

record ReleaseServiceConfig =
  rsc_meta :: object_meta
  rsc_Spec :: ReleaseServiceConfigSpec

definition ReleaseServiceConfigResourceName :: string where
  "ReleaseServiceConfigResourceName = ''release-service-config''"

text \<open>\<open>regexp.Compile\<close>: the compiled matcher, or none when the expression is rejected.\<close>

type_synonym regexp = "string \<Rightarrow> (string \<Rightarrow> bool) option"

fun IsPipelineOverridden_loop ::
  "regexp \<Rightarrow> EmptyDirOverrides list \<Rightarrow> string \<Rightarrow> string \<Rightarrow> string \<Rightarrow> bool" where
  "IsPipelineOverridden_loop re [] url revision pathInRepo = False"
| "IsPipelineOverridden_loop re (ov # ovs) url revision pathInRepo =
     (case re (edo_Url ov) of
        None \<Rightarrow> IsPipelineOverridden_loop re ovs url revision pathInRepo
      | Some urlRegex \<Rightarrow>
          if \<not> urlRegex url then IsPipelineOverridden_loop re ovs url revision pathInRepo
          else (case re (edo_Revision ov) of
            None \<Rightarrow> IsPipelineOverridden_loop re ovs url revision pathInRepo
          | Some revisionRegex \<Rightarrow>
              if \<not> revisionRegex revision
              then IsPipelineOverridden_loop re ovs url revision pathInRepo
              else if edo_PathInRepo ov = pathInRepo then True
              else IsPipelineOverridden_loop re ovs url revision pathInRepo))"

definition IsPipelineOverridden ::
  "regexp \<Rightarrow> ReleaseServiceConfig \<Rightarrow> string \<Rightarrow> string \<Rightarrow> string \<Rightarrow> bool" where
  "IsPipelineOverridden re rsc url revision pathInRepo =
     IsPipelineOverridden_loop re (rsc_EmptyDirOverrides (rsc_Spec rsc)) url revision pathInRepo"

section \<open>Resources of other operators\<close>

record Snapshot =
  sn_meta :: object_meta
  sn_Application :: string

text \<open>\<open>ecp_json\<close> is what \<open>json.Marshal\<close> gives for the policy's \<open>Spec\<close> field.\<close>

record EnterpriseContractPolicy =
  ecp_meta :: object_meta
  ecp_json :: "error + string"

record Application_obj =
  app_meta :: object_meta

record PolicyRule =
  APIGroups :: "string list"
  Resources :: "string list"
  ResourceNames :: "string list"
  Verbs :: "string list"

record Role =
  role_meta :: object_meta
  Rules :: "PolicyRule list"

record Subject =
  sub_Kind :: string
  sub_Name :: string
  sub_Namespace :: string

record RoleBinding =
  rb_meta :: object_meta
  RoleRef_APIGroup :: string
  RoleRef_Kind :: string
  RoleRef_Name :: string
  Subjects :: "Subject list"

definition ref_of :: "object_meta \<Rightarrow> string" where
  "ref_of m = namespaced (om_Namespace m) (om_Name m)"

definition no_meta :: object_meta where
  "no_meta = \<lparr>om_Kind = [], om_Name = [], om_GenerateName = [], om_Namespace = [],
     om_Labels = None, om_Annotations = None, om_Finalizers = [], om_CreationTimestamp = 0,
     om_DeletionTimestamp = None\<rparr>"

end
