(* ===== verification/Retry_Matcher.thy ===== *)
theory Retry_Matcher
  imports Plan_Types
begin

text \<open>
  \<open>src/retry/matcher.go\<close>: which pipelines may be retried, and which tags switch retries off.
  Go's regular-expression engine and JSON decoder are arguments of the definitions.
\<close>

section \<open>Decoded JSON\<close>

datatype json =
    JNull | JBool bool | JNumber int int | JString string | JArray "json list"
  | JObject "(string \<times> json) list"

type_synonym unmarshal = "string \<Rightarrow> (string \<times> json) list option"

definition as_object :: "json option \<Rightarrow> (string \<times> json) list option" where
  "as_object j = (case j of Some (JObject kvs) \<Rightarrow> Some kvs | _ \<Rightarrow> None)"

definition as_array :: "json option \<Rightarrow> json list option" where
  "as_array j = (case j of Some (JArray xs) \<Rightarrow> Some xs | _ \<Rightarrow> None)"

section \<open>Tags\<close>

fun string_items :: "json list \<Rightarrow> string list" where
  "string_items [] = []"
| "string_items (JString s # xs) = s # string_items xs"
| "string_items (x # xs) = string_items xs"

definition extractTagArray :: "json option \<Rightarrow> string list" where
  "extractTagArray tagsInterface =
     (case as_array tagsInterface of None \<Rightarrow> [] | Some xs \<Rightarrow> string_items xs)"

fun repository_tags :: "json list \<Rightarrow> string list" where
  "repository_tags [] = []"
| "repository_tags (repo # repos) =
     (case as_object (Some repo) of None \<Rightarrow> [] | Some m \<Rightarrow> extractTagArray (map_of m ''tags'')) @
     repository_tags repos"

fun component_tags :: "json list \<Rightarrow> string list" where
  "component_tags [] = []"
| "component_tags (co # cos) =
     (case as_object (Some co) of None \<Rightarrow> []
      | Some m \<Rightarrow>
          extractTagArray (map_of m ''tags'') @
          extractTagArray (map_of m ''componentTags'') @
          (case as_array (map_of m ''repositories'') of None \<Rightarrow> []
           | Some repos \<Rightarrow> repository_tags repos)) @
     component_tags cos"

definition ExtractTags :: "unmarshal \<Rightarrow> raw_extension \<Rightarrow> string list" where
  "ExtractTags um data =
     (case data of None \<Rightarrow> []
      | Some raw \<Rightarrow> (case um raw of None \<Rightarrow> []
         | Some parsed \<Rightarrow> (case as_object (map_of parsed ''mapping'') of None \<Rightarrow> []
            | Some mapping \<Rightarrow>
                (case as_object (map_of mapping ''defaults'') of None \<Rightarrow> []
                 | Some defaults \<Rightarrow> extractTagArray (map_of defaults ''tags'')) @
                (case as_array (map_of mapping ''components'') of None \<Rightarrow> []
                 | Some components \<Rightarrow> component_tags components))))"

definition anchored :: "string \<Rightarrow> string" where
  "anchored s = ''^(?:'' @ s @ '')$''"

definition tag_matches :: "regexp \<Rightarrow> string \<Rightarrow> string \<Rightarrow> bool" where
  "tag_matches re disablingTag tag \<longleftrightarrow>
     tag = disablingTag \<or> (case re (anchored disablingTag) of None \<Rightarrow> False | Some r \<Rightarrow> r tag)"

definition addMatch :: "string \<Rightarrow> string list \<Rightarrow> string list" where
  "addMatch tag matchedTags = (if tag \<in> set matchedTags then matchedTags else matchedTags @ [tag])"

definition match_tags :: "regexp \<Rightarrow> string list \<Rightarrow> string list \<Rightarrow> string list" where
  "match_tags re combinedTags disablingTags =
     foldl (\<lambda>acc disablingTag.
       foldl (\<lambda>acc tag. if tag_matches re disablingTag tag then addMatch tag acc else acc)
         acc combinedTags) [] disablingTags"

fun join_tags :: "string list \<Rightarrow> string" where
  "join_tags [] = []"
| "join_tags [x] = x"
| "join_tags (x # xs) = x @ '', '' @ join_tags xs"

definition MatchDisablingTags :: "regexp \<Rightarrow> string list \<Rightarrow> string list \<Rightarrow> string \<times> bool" where
  "MatchDisablingTags re combinedTags disablingTags =
     (let matchedTags = match_tags re combinedTags disablingTags
      in if matchedTags \<noteq> [] then (join_tags matchedTags, True) else ([], False))"

section \<open>Retryable pipelines\<close>

definition hasSuffix :: "string \<Rightarrow> string \<Rightarrow> bool" where
  "hasSuffix s suf \<longleftrightarrow> length suf \<le> length s \<and> drop (length s - length suf) s = suf"

definition TrimSuffix :: "string \<Rightarrow> string \<Rightarrow> string" where
  "TrimSuffix s suf = (if hasSuffix s suf then take (length s - length suf) s else s)"

definition retryable_matches ::
  "regexp \<Rightarrow> RetryablePipeline \<Rightarrow> string \<Rightarrow> string \<Rightarrow> string \<Rightarrow> bool" where
  "retryable_matches re retryable url revision pathInRepo =
     (case re (anchored (Url retryable)) of None \<Rightarrow> False
      | Some urlRegex \<Rightarrow>
          if \<not> urlRegex url \<and> \<not> urlRegex (url @ ''.git'') then False
          else (case re (anchored (Revision retryable)) of None \<Rightarrow> False
            | Some revisionRegex \<Rightarrow>
                if \<not> revisionRegex revision then False else PathInRepo retryable = pathInRepo))"

definition GetMatchingRetryablePipeline ::
  "regexp \<Rightarrow> Pipeline option \<Rightarrow> RetryablePipeline list \<Rightarrow> RetryablePipeline option" where
  "GetMatchingRetryablePipeline re pipeline retryablePipelines =
     (case pipeline of None \<Rightarrow> None
      | Some p \<Rightarrow> (case GetGitResolverParams (pl_PipelineRef p) of
          Inl _ \<Rightarrow> None
        | Inr (url, revision, pathInRepo) \<Rightarrow>
            find (\<lambda>r. retryable_matches re r (TrimSuffix url ''.git'') revision pathInRepo)
              retryablePipelines))"

definition disabled_info :: "string \<Rightarrow> RetryInfo" where
  "disabled_info reason = \<lparr>ri_Enabled = False, ri_MaxRetries = None, ri_Mitigations = None,
     DisablingTags = None, ri_Reason = reason\<rparr>"

text \<open>The disabling tags of a policy; a policy without \<open>DisableOn\<close> has the nil slice.\<close>

definition policy_tags :: "RetryPolicy \<Rightarrow> string slice" where
  "policy_tags policy = (case DisableOn policy of None \<Rightarrow> None | Some d \<Rightarrow> Tags d)"

definition DetermineRetryInfo ::
  "regexp \<Rightarrow> unmarshal \<Rightarrow> ReleasePlanAdmission \<Rightarrow> ReleasePlan list option \<Rightarrow>
   ReleaseServiceConfig option \<Rightarrow> RetryInfo" where
  "DetermineRetryInfo re um rpa matchedRPs rsc =
     (case rsc of None \<Rightarrow> disabled_info ''no retry configuration available''
      | Some config \<Rightarrow> (case rpas_Pipeline (rpa_Spec rpa) of
          None \<Rightarrow> disabled_info ''no pipeline defined''
        | Some pipeline \<Rightarrow>
            if pl_MaxRetries pipeline = Some 0
            then disabled_info ''retries disabled by RPA pipeline override''
            else (case GetMatchingRetryablePipeline re (Some pipeline)
                         (items (RetryablePipelines (rsc_Spec config))) of
                None \<Rightarrow> disabled_info ''pipeline not configured for retries''
              | Some matchedRetryable \<Rightarrow>
                  let
                    policy = retryPolicy matchedRetryable;
                    allTags = ExtractTags um (rpas_Data (rpa_Spec rpa)) @
                      concat (map (\<lambda>rp. ExtractTags um (rps_Data (rp_Spec rp))) (items matchedRPs));
                    disablingTags = policy_tags policy;
                    (matchedTag, matched) = MatchDisablingTags re allTags (items disablingTags)
                  in if DisableOn policy \<noteq> None \<and> length (items disablingTags) > 0 \<and> matched
                     then disabled_info
                       (''disabled by ReleasePlan or ReleasePlanAdmission tag(s): '' @ matchedTag)
                     else (case pl_MaxRetries pipeline of
                         Some maxRetries \<Rightarrow>
                           \<lparr>ri_Enabled = True, ri_MaxRetries = Some maxRetries,
                            ri_Mitigations = rpol_Mitigations policy, DisablingTags = disablingTags,
                            ri_Reason = ''retries enabled by RPA pipeline override''\<rparr>
                       | None \<Rightarrow>
                           \<lparr>ri_Enabled = True, ri_MaxRetries = Some (MaxRetries policy),
                            ri_Mitigations = rpol_Mitigations policy, DisablingTags = disablingTags,
                            ri_Reason = ''retries enabled by policy''\<rparr>))))"

section \<open>What the tag match computes\<close>

lemma set_match_inner:
  "set (foldl (\<lambda>acc tag. if tag_matches re d tag then addMatch tag acc else acc) acc tags) =
     set acc \<union> {t \<in> set tags. tag_matches re d t}"
  by (induction tags arbitrary: acc) (auto simp: addMatch_def)

lemma distinct_match_inner:
  "distinct acc \<Longrightarrow>
   distinct (foldl (\<lambda>acc tag. if tag_matches re d tag then addMatch tag acc else acc) acc tags)"
  by (induction tags arbitrary: acc) (auto simp: addMatch_def)

lemma set_match_outer:
  "set (foldl (\<lambda>acc d. foldl (\<lambda>acc tag. if tag_matches re d tag then addMatch tag acc else acc)
      acc tags) acc ds) = set acc \<union> {t \<in> set tags. \<exists>d\<in>set ds. tag_matches re d t}"
  by (induction ds arbitrary: acc) (auto simp: set_match_inner)

lemma distinct_match_outer:
  "distinct acc \<Longrightarrow>
   distinct (foldl (\<lambda>acc d. foldl (\<lambda>acc tag. if tag_matches re d tag then addMatch tag acc else acc)
      acc tags) acc ds)"
  by (induction ds arbitrary: acc) (auto simp: distinct_match_inner)

lemma match_tags_spec:
  "set (match_tags re tags ds) = {t \<in> set tags. \<exists>d\<in>set ds. tag_matches re d t}"
  "distinct (match_tags re tags ds)"
  by (simp_all add: match_tags_def set_match_outer distinct_match_outer)

lemma MatchDisablingTags_iff:
  "snd (MatchDisablingTags re tags ds) \<longleftrightarrow> (\<exists>t\<in>set tags. \<exists>d\<in>set ds. tag_matches re d t)"
proof -
  have "match_tags re tags ds \<noteq> [] \<longleftrightarrow> set (match_tags re tags ds) \<noteq> {}" by simp
  then show ?thesis
    by (auto simp: MatchDisablingTags_def Let_def match_tags_spec)
qed

lemma MatchDisablingTags_append:
  "snd (MatchDisablingTags re (xs @ ys) ds) \<longleftrightarrow>
     snd (MatchDisablingTags re xs ds) \<or> snd (MatchDisablingTags re ys ds)"
  by (auto simp: MatchDisablingTags_iff)

lemma MatchDisablingTags_none [simp]: "\<not> snd (MatchDisablingTags re tags [])"
  by (simp add: MatchDisablingTags_iff)

text \<open>A literal tag always switches retries off, even one that is no regular expression.\<close>

lemma MatchDisablingTags_literal:
  "t \<in> set tags \<Longrightarrow> t \<in> set ds \<Longrightarrow> snd (MatchDisablingTags re tags ds)"
  by (auto simp: MatchDisablingTags_iff tag_matches_def)

section \<open>When retries are enabled\<close>

text \<open>Every tag of the ReleasePlanAdmission and of the ReleasePlans matched to it.\<close>

definition plan_tags :: "unmarshal \<Rightarrow> ReleasePlanAdmission \<Rightarrow> ReleasePlan list option \<Rightarrow> string list" where
  "plan_tags um rpa matchedRPs =
     ExtractTags um (rpas_Data (rpa_Spec rpa)) @
     concat (map (\<lambda>rp. ExtractTags um (rps_Data (rp_Spec rp))) (items matchedRPs))"

definition retry_allowed ::
  "regexp \<Rightarrow> unmarshal \<Rightarrow> ReleasePlanAdmission \<Rightarrow> ReleasePlan list option \<Rightarrow> Pipeline \<Rightarrow>
   RetryablePipeline \<Rightarrow> bool" where
  "retry_allowed re um rpa matchedRPs p m \<longleftrightarrow>
     pl_MaxRetries p \<noteq> Some 0 \<and>
     \<not> (\<exists>t\<in>set (plan_tags um rpa matchedRPs). \<exists>d\<in>set (items (policy_tags (retryPolicy m))).
          tag_matches re d t)"

lemma disabled_info_simps [simp]: "\<not> ri_Enabled (disabled_info reason)"
  by (simp add: disabled_info_def)

lemma disabling_tags_guard:
  "(DisableOn policy \<noteq> None \<and> length (items (policy_tags policy)) > 0 \<and>
      snd (MatchDisablingTags re tags (items (policy_tags policy)))) \<longleftrightarrow>
   snd (MatchDisablingTags re tags (items (policy_tags policy)))"
  by (cases "DisableOn policy") (auto simp: policy_tags_def MatchDisablingTags_iff)

lemma GetMatchingRetryablePipeline_in:
  "GetMatchingRetryablePipeline re p rs = Some m \<Longrightarrow> m \<in> set rs"
  by (auto simp: GetMatchingRetryablePipeline_def find_Some_iff split: option.splits sum.splits)

lemma DetermineRetryInfo_matched:
  assumes "rsc = Some config" "rpas_Pipeline (rpa_Spec rpa) = Some p"
    "GetMatchingRetryablePipeline re (Some p) (items (RetryablePipelines (rsc_Spec config))) = Some m"
  shows "ri_Enabled (DetermineRetryInfo re um rpa rps rsc) \<longleftrightarrow> retry_allowed re um rpa rps p m"
proof -
  let ?tags = "plan_tags um rpa rps"
  let ?ds = "items (policy_tags (retryPolicy m))"
  show ?thesis
    using assms disabling_tags_guard [of "retryPolicy m" re ?tags]
      MatchDisablingTags_iff [of re ?tags ?ds]
    by (auto simp: DetermineRetryInfo_def retry_allowed_def plan_tags_def Let_def
        split: option.splits prod.splits)
qed

text \<open>
  C24. \<open>DetermineRetryInfo\<close> enables retries exactly when there is a configuration, the admission
  has a pipeline whose own limit is not 0, that pipeline matches a retryable pipeline of the
  configuration, and no tag of the admission or of a matched ReleasePlan matches one of that
  entry's disabling tags; the limit it reports is then the admission's, or else the policy's.
\<close>

theorem DetermineRetryInfo_enabled_iff:
  "ri_Enabled (DetermineRetryInfo re um rpa rps rsc) \<longleftrightarrow>
     (\<exists>config p m. rsc = Some config \<and> rpas_Pipeline (rpa_Spec rpa) = Some p \<and>
        GetMatchingRetryablePipeline re (Some p) (items (RetryablePipelines (rsc_Spec config))) = Some m \<and>
        retry_allowed re um rpa rps p m \<and>
        ri_MaxRetries (DetermineRetryInfo re um rpa rps rsc) =
          Some (case pl_MaxRetries p of Some k \<Rightarrow> k | None \<Rightarrow> MaxRetries (retryPolicy m)) \<and>
        DisablingTags (DetermineRetryInfo re um rpa rps rsc) = policy_tags (retryPolicy m))"
proof (cases "ri_Enabled (DetermineRetryInfo re um rpa rps rsc)")
  case True
  then obtain config p m where
    "rsc = Some config" "rpas_Pipeline (rpa_Spec rpa) = Some p"
    "GetMatchingRetryablePipeline re (Some p) (items (RetryablePipelines (rsc_Spec config))) = Some m"
    by (auto simp: DetermineRetryInfo_def split: option.splits if_splits)
  moreover from this True have "retry_allowed re um rpa rps p m"
    by (simp add: DetermineRetryInfo_matched)
  ultimately show ?thesis
    using True
    by (auto simp: DetermineRetryInfo_def Let_def split: option.splits prod.splits if_splits)
next
  case False
  then show ?thesis
    by (auto simp: DetermineRetryInfo_matched)
qed

end
