(* ===== verification/Float64.thy ===== *)
theory Float64
  imports Plan_Types Complex_Main
begin

text \<open>
  The IEEE 754 binary64 arithmetic the memory mitigation uses: rounding of a rational to the
  nearest representable value (ties to even), multiplication, \<open>math.Ceil\<close>, the conversions from
  and to \<open>int64\<close>, and \<open>strconv.ParseFloat\<close> for decimal literals. Signed zeros are not
  distinguished (no operation here tells them apart). Two things are arguments: the value of a
  hexadecimal literal, and the result of converting a float outside the \<open>int64\<close> range, which Go
  leaves to the implementation.
\<close>

datatype float64 = Fin rat | PosInf | NegInf | NaN

definition pow2 :: "int \<Rightarrow> rat" where
  "pow2 e = (if 0 \<le> e then 2 ^ nat e else 1 / 2 ^ nat (- e))"

text \<open>The exponent \<open>e\<close> with \<open>2\<^sup>e \<le> x < 2\<^sup>e\<^sup>+\<^sup>1\<close>, for positive \<open>x\<close>.\<close>

fun bit_length :: "int \<Rightarrow> int" where
  "bit_length n = (if n \<le> 0 then 0 else 1 + bit_length (n div 2))"

declare bit_length.simps [simp del]

definition ilog2 :: "rat \<Rightarrow> int" where
  "ilog2 x =
     (case quotient_of x of (n, d) \<Rightarrow>
        let k = bit_length n - bit_length d
        in if pow2 k \<le> x then k else k - 1)"

definition round_half_even :: "rat \<Rightarrow> int" where
  "round_half_even x =
     (let f = \<lfloor>x\<rfloor>; r = x - of_int f
      in if r < 1 / 2 then f else if r > 1 / 2 then f + 1
         else if even f then f else f + 1)"

definition round_pos :: "rat \<Rightarrow> rat" where
  "round_pos x =
     (let q = max (ilog2 x - 52) (- 1074)
      in of_int (round_half_even (x / pow2 q)) * pow2 q)"

definition round64 :: "rat \<Rightarrow> float64" where
  "round64 x =
     (if x = 0 then Fin 0
      else let y = round_pos \<bar>x\<bar>
        in if y \<ge> 2 ^ 1024 then (if 0 < x then PosInf else NegInf)
           else Fin (if 0 < x then y else - y))"

definition sgn_flip :: "bool \<Rightarrow> float64" where
  "sgn_flip pos = (if pos then PosInf else NegInf)"

fun fmul :: "float64 \<Rightarrow> float64 \<Rightarrow> float64" where
  "fmul (Fin x) (Fin y) = round64 (x * y)"
| "fmul NaN _ = NaN"
| "fmul _ NaN = NaN"
| "fmul (Fin x) PosInf = (if x = 0 then NaN else sgn_flip (0 < x))"
| "fmul (Fin x) NegInf = (if x = 0 then NaN else sgn_flip (x < 0))"
| "fmul PosInf (Fin y) = (if y = 0 then NaN else sgn_flip (0 < y))"
| "fmul NegInf (Fin y) = (if y = 0 then NaN else sgn_flip (y < 0))"
| "fmul PosInf PosInf = PosInf"
| "fmul PosInf NegInf = NegInf"
| "fmul NegInf PosInf = NegInf"
| "fmul NegInf NegInf = PosInf"

fun fceil :: "float64 \<Rightarrow> float64" where
  "fceil (Fin x) = Fin (of_int \<lceil>x\<rceil>)"
| "fceil f = f"

fun fle_zero :: "float64 \<Rightarrow> bool" where
  "fle_zero (Fin x) = (x \<le> 0)"
| "fle_zero PosInf = False"
| "fle_zero NegInf = True"
| "fle_zero NaN = False"

definition float_of_int64 :: "int \<Rightarrow> float64" where
  "float_of_int64 i = round64 (of_int i)"

text \<open>Truncation toward zero; out of range, whatever the platform gives.\<close>

definition int64_of_float :: "(float64 \<Rightarrow> int) \<Rightarrow> float64 \<Rightarrow> int" where
  "int64_of_float other f =
     (case f of
        Fin x \<Rightarrow> (let t = (if 0 \<le> x then \<lfloor>x\<rfloor> else \<lceil>x\<rceil>)
          in if - (2 ^ 63) \<le> t \<and> t < 2 ^ 63 then t else other f)
      | _ \<Rightarrow> other f)"

section \<open>ParseFloat\<close>

definition digit_value :: "char \<Rightarrow> int option" where
  "digit_value c =
     (let n = of_char c in if 48 \<le> n \<and> n \<le> (57 :: int) then Some (n - 48) else None)"

text \<open>The longest run of digits: its value, its length and the rest.\<close>

fun digits :: "int \<Rightarrow> int \<Rightarrow> string \<Rightarrow> int \<times> int \<times> string" where
  "digits acc len [] = (acc, len, [])"
| "digits acc len (c # cs) =
     (case digit_value c of None \<Rightarrow> (acc, len, c # cs)
      | Some d \<Rightarrow> digits (10 * acc + d) (len + 1) cs)"

fun lower_char :: "char \<Rightarrow> char" where
  "lower_char c = (let n = of_char c in if 65 \<le> n \<and> n \<le> (90 :: nat) then char_of (n + 32) else c)"

definition to_lower :: "string \<Rightarrow> string" where
  "to_lower = map lower_char"

definition pow10 :: "int \<Rightarrow> rat" where
  "pow10 e = (if 0 \<le> e then 10 ^ nat e else 1 / 10 ^ nat (- e))"

text \<open>\<open>e[+-]digits\<close> at the end of a literal; nothing at all is exponent 0.\<close>

definition parse_exponent :: "string \<Rightarrow> int option" where
  "parse_exponent s =
     (case s of [] \<Rightarrow> Some 0
      | c # cs \<Rightarrow>
          if lower_char c \<noteq> CHR ''e'' then None
          else let (neg, ds) = (case cs of
              d # rest \<Rightarrow> if d = CHR ''-'' then (True, rest)
                          else if d = CHR ''+'' then (False, rest) else (False, cs)
            | [] \<Rightarrow> (False, []))
          in (case digits 0 0 ds of (v, n, rest) \<Rightarrow>
                if n = 0 \<or> rest \<noteq> [] then None else Some (if neg then - v else v)))"

definition parse_decimal :: "string \<Rightarrow> rat option" where
  "parse_decimal s =
     (case digits 0 0 s of (w, n, rest) \<Rightarrow>
       (case (case rest of c # cs \<Rightarrow> if c = CHR ''.'' then digits w 0 cs else (w, 0, rest)
              | [] \<Rightarrow> (w, 0, [])) of (m, k, rest') \<Rightarrow>
          if n + k = 0 then None
          else (case parse_exponent rest' of None \<Rightarrow> None
            | Some e \<Rightarrow> Some (of_int m * pow10 (e - k)))))"

text \<open>A literal whose value rounds to an infinity is a range error.\<close>

definition ParseFloat :: "(string \<Rightarrow> float64 option) \<Rightarrow> string \<Rightarrow> float64 option" where
  "ParseFloat hex s =
     (let (neg, body) = (case s of
          c # cs \<Rightarrow> if c = CHR ''-'' then (True, cs) else if c = CHR ''+'' then (False, cs) else (False, s)
        | [] \<Rightarrow> (False, s));
        low = to_lower body
      in if low = ''inf'' \<or> low = ''infinity'' then Some (if neg then NegInf else PosInf)
         else if to_lower s = ''nan'' then Some NaN
         else if take 2 low = ''0x'' then hex s
         else (case parse_decimal body of None \<Rightarrow> None
           | Some x \<Rightarrow> (case round64 (if neg then - x else x) of
               Fin y \<Rightarrow> Some (Fin y) | _ \<Rightarrow> None)))"

end
