(* ===== verification/Timeouts.thy ===== *)
theory Timeouts
  imports Plan_Types
begin

text \<open>
  \<open>AdjustTimeouts\<close> of \<open>src/tekton/utils/pipeline.go\<close>: Tekton rejects a PipelineRun whose pipeline
  timeout is smaller than its tasks and finally timeouts together, and this function repairs the
  values a user configured. Durations are \<open>int64\<close> nanoseconds, so sums wrap.
\<close>

definition minute :: duration where
  "minute = 60000000000"

definition defaultAdjustmentBuffer :: duration where
  "defaultAdjustmentBuffer = 10 * minute"

definition shortPipelineThreshold :: duration where
  "shortPipelineThreshold = 20 * minute"

definition timeout_set :: "duration option \<Rightarrow> bool" where
  "timeout_set d = (case d of None \<Rightarrow> False | Some x \<Rightarrow> 0 < x)"

definition adjustmentBuffer :: "duration option \<Rightarrow> duration" where
  "adjustmentBuffer p =
     (case p of Some x \<Rightarrow> if x < shortPipelineThreshold then x div 2 else defaultAdjustmentBuffer
      | None \<Rightarrow> defaultAdjustmentBuffer)"

definition AdjustTimeouts :: "TimeoutFields option \<Rightarrow> TimeoutFields option" where
  "AdjustTimeouts timeouts =
     (case timeouts of None \<Rightarrow> None
      | Some t \<Rightarrow>
          if \<not> timeout_set (tf_Pipeline t) \<and> \<not> timeout_set (tf_Tasks t) \<and> \<not> timeout_set (tf_Finally t)
          then Some t
          else let
            p = (if timeout_set (tf_Pipeline t) then tf_Pipeline t else None);
            ta = (if timeout_set (tf_Tasks t) then tf_Tasks t else None);
            f = (if timeout_set (tf_Finally t) then tf_Finally t else None);
            buffer = adjustmentBuffer p
          in (case (p, ta, f) of
            (Some pd, Some td, Some fd) \<Rightarrow>
              if pd \<ge> wrap64 (td + fd)
              then Some \<lparr>tf_Pipeline = p, tf_Tasks = ta, tf_Finally = f\<rparr>
              else Some \<lparr>tf_Pipeline = p, tf_Tasks = Some (wrap64 (pd - buffer)),
                         tf_Finally = Some buffer\<rparr>
          | (Some pd, Some td, None) \<Rightarrow>
              if td < pd then Some \<lparr>tf_Pipeline = p, tf_Tasks = ta, tf_Finally = f\<rparr>
              else Some \<lparr>tf_Pipeline = p, tf_Tasks = Some (wrap64 (pd - buffer)), tf_Finally = f\<rparr>
          | (Some pd, None, Some fd) \<Rightarrow>
              if fd \<le> pd div 2
              then Some \<lparr>tf_Pipeline = p, tf_Tasks = Some (wrap64 (pd - fd)), tf_Finally = f\<rparr>
              else Some \<lparr>tf_Pipeline = p, tf_Tasks = Some (wrap64 (pd - buffer)),
                         tf_Finally = Some buffer\<rparr>
          | (Some pd, None, None) \<Rightarrow>
              Some \<lparr>tf_Pipeline = p, tf_Tasks = Some (wrap64 (pd - buffer)), tf_Finally = f\<rparr>
          | (None, Some td, None) \<Rightarrow>
              Some \<lparr>tf_Pipeline = Some (wrap64 (td + buffer)), tf_Tasks = ta, tf_Finally = f\<rparr>
          | (None, None, Some fd) \<Rightarrow> Some no_timeouts
          | (None, Some td, Some fd) \<Rightarrow>
              Some \<lparr>tf_Pipeline = Some (wrap64 (td + fd)), tf_Tasks = ta, tf_Finally = f\<rparr>
          | (None, None, None) \<Rightarrow> Some \<lparr>tf_Pipeline = p, tf_Tasks = ta, tf_Finally = f\<rparr>))"

section \<open>Tekton's rule\<close>

definition amount :: "duration option \<Rightarrow> duration" where
  "amount d = (case d of None \<Rightarrow> 0 | Some x \<Rightarrow> x)"

text \<open>The values the API server can store: positive \<open>int64\<close>, far from overflow (146 years).\<close>

definition sane_timeout :: "duration option \<Rightarrow> bool" where
  "sane_timeout d = (case d of None \<Rightarrow> True | Some x \<Rightarrow> 0 \<le> x \<and> x < 2 ^ 62)"

definition sane_timeouts :: "TimeoutFields \<Rightarrow> bool" where
  "sane_timeouts t \<longleftrightarrow>
     sane_timeout (tf_Pipeline t) \<and> sane_timeout (tf_Tasks t) \<and> sane_timeout (tf_Finally t)"

text \<open>
  Tekton asks for a pipeline timeout of at least tasks plus finally. An unset one stands for a default
  that is configured in Tekton; timeouts that hold whatever the default is ask for nothing then.
\<close>

definition tekton_accepts :: "TimeoutFields \<Rightarrow> bool" where
  "tekton_accepts t =
     (case tf_Pipeline t of None \<Rightarrow> amount (tf_Tasks t) + amount (tf_Finally t) = 0
      | Some p \<Rightarrow> amount (tf_Tasks t) + amount (tf_Finally t) \<le> p)"

lemma buffer_bounds:
  assumes "0 < x"
  shows "0 \<le> adjustmentBuffer (Some x)" "adjustmentBuffer (Some x) \<le> x"
    "adjustmentBuffer (Some x) < x"
  using assms
  by (auto simp: adjustmentBuffer_def shortPipelineThreshold_def defaultAdjustmentBuffer_def
      minute_def)

lemma buffer_none: "adjustmentBuffer None = 600000000000"
  by (simp add: adjustmentBuffer_def defaultAdjustmentBuffer_def minute_def)

lemma wrap64_sane: "0 \<le> x \<Longrightarrow> x < 2 ^ 63 \<Longrightarrow> wrap64 x = x"
  by (rule wrap64_id) simp_all

lemmas adjust_defs = AdjustTimeouts_def Let_def timeout_set_def sane_timeouts_def sane_timeout_def
  tekton_accepts_def amount_def no_timeouts_def

lemma adjust_no_pipeline:
  assumes "sane_timeouts t" "tf_Pipeline t = None" "AdjustTimeouts (Some t) = Some t'"
  shows "tekton_accepts t'"
  using assms
  by (cases "tf_Tasks t"; cases "tf_Finally t")
     (auto simp: adjust_defs wrap64_sane buffer_none split: if_splits)

lemma adjust_with_pipeline:
  assumes "sane_timeouts t" "tf_Pipeline t = Some p" "AdjustTimeouts (Some t) = Some t'"
  shows "tekton_accepts t'"
  using assms buffer_bounds [of p]
  by (cases "tf_Tasks t"; cases "tf_Finally t")
     (auto simp: adjust_defs wrap64_sane buffer_none split: if_splits)

lemma adjust_keeps_pipeline:
  "timeout_set (tf_Pipeline t) \<Longrightarrow> AdjustTimeouts (Some t) = Some t' \<Longrightarrow>
   tf_Pipeline t' = tf_Pipeline t"
  by (auto simp: AdjustTimeouts_def Let_def timeout_set_def split: option.splits if_splits)

lemma adjust_some: "\<exists>t'. AdjustTimeouts (Some t) = Some t'"
  by (auto simp: AdjustTimeouts_def Let_def split: option.splits)

text \<open>
  C27. Whatever non-negative timeouts (below \<open>2\<^sup>6\<^sup>2\<close> ns) a user configures, \<open>AdjustTimeouts\<close> returns
  values Tekton accepts (pipeline at least tasks plus finally; without a pipeline timeout neither of
  the two), and it never changes a pipeline timeout that is set.
\<close>

theorem AdjustTimeouts_accepted:
  assumes "sane_timeouts t"
  shows "\<exists>t'. AdjustTimeouts (Some t) = Some t' \<and> tekton_accepts t' \<and>
    (timeout_set (tf_Pipeline t) \<longrightarrow> tf_Pipeline t' = tf_Pipeline t)"
proof -
  obtain t' where t': "AdjustTimeouts (Some t) = Some t'"
    using adjust_some by blast
  then have "tekton_accepts t'"
    using assms adjust_no_pipeline adjust_with_pipeline by (cases "tf_Pipeline t") blast+
  then show ?thesis
    using t' adjust_keeps_pipeline by blast
qed

theorem AdjustTimeouts_accepted_witness:
  "\<exists>t'. AdjustTimeouts (Some \<lparr>tf_Pipeline = Some (10 * minute), tf_Tasks = Some (9 * minute),
     tf_Finally = Some (8 * minute)\<rparr>) = Some t' \<and> tekton_accepts t' \<and>
     tf_Pipeline t' = Some (10 * minute)"
  using AdjustTimeouts_accepted [of "\<lparr>tf_Pipeline = Some (10 * minute),
     tf_Tasks = Some (9 * minute), tf_Finally = Some (8 * minute)\<rparr>"]
  by (auto simp: sane_timeouts_def sane_timeout_def timeout_set_def minute_def)

end
