(* ===== verification/Tekton.thy ===== *)
theory Tekton
  imports Timeouts
begin

text \<open>
  Tekton resources as the service sees them, the helpers of \<open>src/tekton/utils.go\<close> and the event
  predicate of \<open>src/tekton/predicates.go\<close>. The answers of Tekton's and knative's own methods
  (\<open>IsDone\<close>, \<open>GetCondition(Succeeded)\<close> and the condition's \<open>IsTrue\<close>, \<open>IsFalse\<close>, \<open>IsUnknown\<close>, which
  are also defined on a nil condition) are fields of the records, with no relation assumed
  between them.
\<close>

section \<open>Resources\<close>

record kcondition =
  k_nil :: bool
  k_IsTrue :: bool
  k_IsFalse :: bool
  k_IsUnknown :: bool
  k_Reason :: string
  k_Message :: string

record WorkspaceBinding =
  ws_Name :: string
  ws_EmptyDir :: "quantity option"
  ws_VolumeClaim :: "quantity option"

record ChildReference =
  cr_Kind :: string
  cr_Name :: string
  cr_PipelineTaskName :: string

record PipelineRun =
  pr_meta :: object_meta
  pr_Params :: "Param list"
  pr_PipelineRef :: "tekton_PipelineRef option"
  pr_ServiceAccountName :: string
  pr_TaskRunSpecs :: "PipelineTaskRunSpec slice"
  pr_Timeouts :: "TimeoutFields option"
  pr_Workspaces :: "WorkspaceBinding list"
  pr_Condition :: kcondition
  pr_IsDone :: bool
  ChildReferences :: "ChildReference list"
  pr_UID :: string
  pr_StartTime :: "time option"
  pr_CompletionTime :: "time option"

record StepState =
  step_Name :: string
  Terminated :: "(int \<times> string) option"

record Step =
  stp_Name :: string
  stp_ComputeResources :: ResourceRequirements

record TaskRun =
  tr_meta :: object_meta
  tr_Timeout :: "duration option"
  tr_TaskSpec :: "Step list option"
  tr_Condition :: kcondition
  tr_Steps :: "StepState list"
  tr_PodName :: string
  tr_CompletionTime :: "time option"

definition nil_condition :: kcondition where
  "nil_condition = \<lparr>k_nil = True, k_IsTrue = False, k_IsFalse = False, k_IsUnknown = True,
     k_Reason = [], k_Message = []\<rparr>"

definition new_PipelineRun :: "string \<Rightarrow> string \<Rightarrow> PipelineRun" where
  "new_PipelineRun generateName namespace =
     \<lparr>pr_meta = no_meta\<lparr>om_Kind := ''PipelineRun'', om_GenerateName := generateName,
        om_Namespace := namespace\<rparr>,
      pr_Params = [], pr_PipelineRef = None, pr_ServiceAccountName = [], pr_TaskRunSpecs = None,
      pr_Timeouts = None, pr_Workspaces = [], pr_Condition = nil_condition, pr_IsDone = False,
      ChildReferences = [], pr_UID = [], pr_StartTime = None, pr_CompletionTime = None\<rparr>"

section \<open>utils.go\<close>

text \<open>The objects of a watch event, as far as the predicate tells them apart.\<close>

datatype watched = RunObject PipelineRun | OtherObject object_meta

definition watched_meta :: "watched \<Rightarrow> object_meta" where
  "watched_meta w = (case w of RunObject p \<Rightarrow> pr_meta p | OtherObject m \<Rightarrow> m)"

definition isReleasePipelineRun :: "watched \<Rightarrow> bool" where
  "isReleasePipelineRun w =
     (case w of OtherObject _ \<Rightarrow> False
      | RunObject p \<Rightarrow>
         (case map_read (om_Labels (pr_meta p)) PipelinesTypeLabel of None \<Rightarrow> False
          | Some labelValue \<Rightarrow>
              labelValue = PipelineType_String TenantCollectorsPipelineType \<or>
              labelValue = PipelineType_String ManagedCollectorsPipelineType \<or>
              labelValue = PipelineType_String FinalPipelineType \<or>
              labelValue = PipelineType_String ManagedPipelineType \<or>
              labelValue = PipelineType_String TenantPipelineType))"

definition hasPipelineSucceeded :: "watched \<Rightarrow> bool" where
  "hasPipelineSucceeded w =
     (case w of RunObject p \<Rightarrow> \<not> k_IsUnknown (pr_Condition p) | OtherObject _ \<Rightarrow> False)"

definition hasFinalizersChanged :: "watched option \<Rightarrow> watched option \<Rightarrow> bool" where
  "hasFinalizersChanged oldObj newObj =
     (case (oldObj, newObj) of
        (Some old, Some new) \<Rightarrow>
          om_Finalizers (watched_meta old) \<noteq> om_Finalizers (watched_meta new)
      | _ \<Rightarrow> False)"

definition hasDeletionTimestampChanged :: "watched option \<Rightarrow> watched option \<Rightarrow> bool" where
  "hasDeletionTimestampChanged oldObj newObj =
     (case (oldObj, newObj) of
        (Some old, Some new) \<Rightarrow>
          (om_DeletionTimestamp (watched_meta old) = None) \<noteq>
          (om_DeletionTimestamp (watched_meta new) = None)
      | _ \<Rightarrow> False)"

definition IsPipelineRunDone :: "PipelineRun option \<Rightarrow> bool" where
  "IsPipelineRunDone pipelineRun =
     (case pipelineRun of None \<Rightarrow> False
      | Some p \<Rightarrow> pr_IsDone p \<or> om_DeletionTimestamp (pr_meta p) \<noteq> None)"

record PipelineRunFailureInfo =
  fi_TaskName :: string
  fi_StepName :: string
  fi_SuccessfulTasks :: int
  fi_IsPipelineRunTimeout :: bool
  fi_IsTaskRunTimeout :: bool
  fi_IsOOMKill :: bool

definition PipelineRunReasonTimedOut :: string where
  "PipelineRunReasonTimedOut = ''PipelineRunTimeout''"

definition TaskRunReasonTimedOut :: string where
  "TaskRunReasonTimedOut = ''TaskRunTimeout''"

definition isPipelineRunTimedOut :: "PipelineRun \<Rightarrow> bool" where
  "isPipelineRunTimedOut p \<longleftrightarrow>
     \<not> k_nil (pr_Condition p) \<and> k_IsFalse (pr_Condition p) \<and>
     k_Reason (pr_Condition p) = PipelineRunReasonTimedOut"

definition isTaskRunTimedOut :: "TaskRun \<Rightarrow> bool" where
  "isTaskRunTimedOut t \<longleftrightarrow>
     \<not> k_nil (tr_Condition t) \<and> k_IsFalse (tr_Condition t) \<and>
     k_Reason (tr_Condition t) = TaskRunReasonTimedOut"

text \<open>The map from names to TaskRuns, filled in list order: a later duplicate wins.\<close>

definition taskRunMap :: "TaskRun list \<Rightarrow> (string \<rightharpoonup> TaskRun)" where
  "taskRunMap taskRuns = foldl (\<lambda>m t. m(om_Name (tr_meta t) \<mapsto> t)) Map.empty taskRuns"

fun failed_task_loop ::
  "(string \<rightharpoonup> TaskRun) \<Rightarrow> ChildReference list \<Rightarrow> int \<Rightarrow> string \<times> TaskRun option \<times> int" where
  "failed_task_loop m [] successfulTasks = ([], None, successfulTasks)"
| "failed_task_loop m (childRef # rest) successfulTasks =
     (if cr_Kind childRef \<noteq> [] \<and> cr_Kind childRef \<noteq> ''TaskRun''
      then failed_task_loop m rest successfulTasks
      else (case m (cr_Name childRef) of
        None \<Rightarrow> failed_task_loop m rest successfulTasks
      | Some taskRun \<Rightarrow>
          if k_nil (tr_Condition taskRun) then failed_task_loop m rest successfulTasks
          else if k_IsTrue (tr_Condition taskRun)
          then failed_task_loop m rest (successfulTasks + 1)
          else if k_IsFalse (tr_Condition taskRun)
          then (cr_PipelineTaskName childRef, Some taskRun, successfulTasks)
          else failed_task_loop m rest successfulTasks))"

definition getFailedTaskRun ::
  "PipelineRun \<Rightarrow> TaskRun list \<Rightarrow> string \<times> TaskRun option \<times> int" where
  "getFailedTaskRun p taskRuns = failed_task_loop (taskRunMap taskRuns) (ChildReferences p) 0"

text \<open>The first step that terminated with a non-zero exit code.\<close>

fun failed_step :: "StepState list \<Rightarrow> (string \<times> string) option" where
  "failed_step [] = None"
| "failed_step (s # ss) =
     (case Terminated s of
        Some (code, reason) \<Rightarrow> if code \<noteq> 0 then Some (step_Name s, reason) else failed_step ss
      | None \<Rightarrow> failed_step ss)"

definition GetPipelineRunFailureInfo ::
  "PipelineRun option \<Rightarrow> TaskRun list \<Rightarrow> PipelineRunFailureInfo" where
  "GetPipelineRunFailureInfo pipelineRun taskRuns =
     (case pipelineRun of
        None \<Rightarrow> \<lparr>fi_TaskName = [], fi_StepName = [], fi_SuccessfulTasks = 0,
          fi_IsPipelineRunTimeout = False, fi_IsTaskRunTimeout = False, fi_IsOOMKill = False\<rparr>
      | Some p \<Rightarrow>
         (case getFailedTaskRun p taskRuns of (taskName, taskRun, successfulTasks) \<Rightarrow>
            let info = \<lparr>fi_TaskName = taskName, fi_StepName = [],
              fi_SuccessfulTasks = successfulTasks,
              fi_IsPipelineRunTimeout = isPipelineRunTimedOut p, fi_IsTaskRunTimeout = False,
              fi_IsOOMKill = False\<rparr>
            in (case taskRun of None \<Rightarrow> info
                | Some t \<Rightarrow> let info' = info\<lparr>fi_IsTaskRunTimeout := isTaskRunTimedOut t\<rparr>
                  in (case failed_step (tr_Steps t) of None \<Rightarrow> info'
                      | Some (name, reason) \<Rightarrow>
                          info'\<lparr>fi_StepName := name, fi_IsOOMKill := (reason = ''OOMKilled'')\<rparr>))))"

fun step_spec_resources :: "string \<Rightarrow> TaskRunStepSpec list \<Rightarrow> ResourceRequirements option" where
  "step_spec_resources stepName [] = None"
| "step_spec_resources stepName (s # ss) =
     (if ss_Name s = stepName then Some (ss_ComputeResources s)
      else step_spec_resources stepName ss)"

fun override_resources ::
  "string \<Rightarrow> string \<Rightarrow> PipelineTaskRunSpec list \<Rightarrow> ResourceRequirements option" where
  "override_resources taskName stepName [] = None"
| "override_resources taskName stepName (spec # specs) =
     (if PipelineTaskName spec \<noteq> taskName then override_resources taskName stepName specs
      else (case step_spec_resources stepName (StepSpecs spec) of
        Some r \<Rightarrow> Some r
      | None \<Rightarrow> (case trs_ComputeResources spec of
          Some r \<Rightarrow> Some r | None \<Rightarrow> override_resources taskName stepName specs)))"

fun task_step_resources :: "string \<Rightarrow> Step list \<Rightarrow> ResourceRequirements option" where
  "task_step_resources stepName [] = None"
| "task_step_resources stepName (s # ss) =
     (if stp_Name s = stepName then Some (stp_ComputeResources s)
      else task_step_resources stepName ss)"

definition GetStepComputeResources ::
  "PipelineRun option \<Rightarrow> TaskRun option \<Rightarrow> string \<Rightarrow> string \<Rightarrow> ResourceRequirements option" where
  "GetStepComputeResources pipelineRun taskRun taskName stepName =
     (let from_run = (case pipelineRun of None \<Rightarrow> None
        | Some p \<Rightarrow> override_resources taskName stepName (items (pr_TaskRunSpecs p)))
      in (case from_run of Some r \<Rightarrow> Some r
          | None \<Rightarrow> (case taskRun of None \<Rightarrow> None
              | Some t \<Rightarrow> (case tr_TaskSpec t of None \<Rightarrow> None
                  | Some steps \<Rightarrow> task_step_resources stepName steps))))"

definition GetPipelineRunTimeouts :: "PipelineRun option \<Rightarrow> TimeoutFields option" where
  "GetPipelineRunTimeouts pipelineRun =
     (case pipelineRun of None \<Rightarrow> None | Some p \<Rightarrow> pr_Timeouts p)"

fun override_timeout :: "string \<Rightarrow> PipelineTaskRunSpec list \<Rightarrow> duration option" where
  "override_timeout taskName [] = None"
| "override_timeout taskName (spec # specs) =
     (if PipelineTaskName spec = taskName \<and> trs_Timeout spec \<noteq> None then trs_Timeout spec
      else override_timeout taskName specs)"

definition GetTaskRunTimeout ::
  "PipelineRun option \<Rightarrow> TaskRun option \<Rightarrow> string \<Rightarrow> duration option" where
  "GetTaskRunTimeout pipelineRun taskRun taskName =
     (let from_run = (case pipelineRun of None \<Rightarrow> None
        | Some p \<Rightarrow> override_timeout taskName (items (pr_TaskRunSpecs p)))
      in (case from_run of Some d \<Rightarrow> Some d
          | None \<Rightarrow> (case taskRun of None \<Rightarrow> None | Some t \<Rightarrow> tr_Timeout t)))"

section \<open>predicates.go\<close>

datatype run_event =
    CreateEvent watched
  | DeleteEvent watched
  | GenericEvent watched
  | UpdateEvent "watched option" watched

definition ReleasePipelineRunLifecyclePredicate ::
  "(string list \<Rightarrow> string \<Rightarrow> bool) \<Rightarrow> run_event \<Rightarrow> bool" where
  "ReleasePipelineRunLifecyclePredicate containsFinalizer e =
     (case e of
        CreateEvent _ \<Rightarrow> False
      | DeleteEvent obj \<Rightarrow>
          isReleasePipelineRun obj \<and>
          containsFinalizer (om_Finalizers (watched_meta obj)) ReleaseFinalizer
      | GenericEvent _ \<Rightarrow> False
      | UpdateEvent old new \<Rightarrow>
          isReleasePipelineRun new \<and>
          (hasPipelineSucceeded new \<or> hasFinalizersChanged old (Some new) \<or>
           hasDeletionTimestampChanged old (Some new)))"

section \<open>The first failed TaskRun\<close>

definition child_run :: "TaskRun list \<Rightarrow> ChildReference \<Rightarrow> TaskRun option" where
  "child_run taskRuns c =
     (if cr_Kind c = [] \<or> cr_Kind c = ''TaskRun'' then taskRunMap taskRuns (cr_Name c) else None)"

definition child_succeeded :: "TaskRun list \<Rightarrow> ChildReference \<Rightarrow> bool" where
  "child_succeeded taskRuns c = (case child_run taskRuns c of None \<Rightarrow> False
     | Some t \<Rightarrow> \<not> k_nil (tr_Condition t) \<and> k_IsTrue (tr_Condition t))"

definition child_failed :: "TaskRun list \<Rightarrow> ChildReference \<Rightarrow> bool" where
  "child_failed taskRuns c = (case child_run taskRuns c of None \<Rightarrow> False
     | Some t \<Rightarrow> \<not> k_nil (tr_Condition t) \<and> \<not> k_IsTrue (tr_Condition t) \<and> k_IsFalse (tr_Condition t))"

lemma failed_task_loop_step:
  "failed_task_loop (taskRunMap ts) (c # crs) n =
     (if child_failed ts c then (cr_PipelineTaskName c, child_run ts c, n)
      else failed_task_loop (taskRunMap ts) crs (if child_succeeded ts c then n + 1 else n))"
  by (cases "taskRunMap ts (cr_Name c)") (simp_all add: child_failed_def child_succeeded_def child_run_def)

lemma failed_task_loop_spec:
  "failed_task_loop (taskRunMap ts) crs n =
     (let before = takeWhile (\<lambda>c. \<not> child_failed ts c) crs;
          count = n + int (length (filter (child_succeeded ts) before))
      in (case dropWhile (\<lambda>c. \<not> child_failed ts c) crs of
            [] \<Rightarrow> ([], None, count)
          | c # _ \<Rightarrow> (cr_PipelineTaskName c, child_run ts c, count)))"
proof (induction crs arbitrary: n)
  case (Cons c crs)
  show ?case
    unfolding failed_task_loop_step Cons.IH
    by (cases "child_failed ts c"; cases "child_succeeded ts c"; cases "dropWhile (\<lambda>c. \<not> child_failed ts c) crs")
       (simp_all add: Let_def algebra_simps del: dropWhile_eq_Nil_conv)
qed simp

text \<open>
  \<open>getFailedTaskRun\<close> reports the first child of the PipelineRun, in the order of its child
  references, whose TaskRun failed, and counts the TaskRuns that succeeded before it; children of
  another kind, unknown TaskRuns and unfinished ones are passed over. Without a failed child it
  reports none and counts all that succeeded.
\<close>

theorem getFailedTaskRun_first:
  "getFailedTaskRun p ts =
     (let before = takeWhile (\<lambda>c. \<not> child_failed ts c) (ChildReferences p);
          count = int (length (filter (child_succeeded ts) before))
      in (case dropWhile (\<lambda>c. \<not> child_failed ts c) (ChildReferences p) of
            [] \<Rightarrow> ([], None, count)
          | c # _ \<Rightarrow> (cr_PipelineTaskName c, child_run ts c, count)))"
  by (simp add: getFailedTaskRun_def failed_task_loop_spec)

end
