(* ===== verification/Retry_Mitigations.thy ===== *)
theory Retry_Mitigations
  imports Float64 Tekton
begin

text \<open>
  \<open>src/retry/mitigations.go\<close>: how a retry raises the memory or the timeouts of the failed
  attempt. The \<open>float_env\<close> argument carries what Go leaves to the platform (see \<open>Float64\<close>) and the
  \<open>Quantity\<close> operations of the API machinery.
\<close>

record float_env =
  fe_hex :: "string \<Rightarrow> float64 option"
  fe_other :: "float64 \<Rightarrow> int"
  q_Value :: "quantity \<Rightarrow> int"
  q_Cmp :: "quantity \<Rightarrow> quantity \<Rightarrow> int"
  NewQuantity :: "int \<Rightarrow> string \<Rightarrow> quantity"

definition ResourceMemory :: string where
  "ResourceMemory = ''memory''"

section \<open>Memory\<close>

definition multiplyQuantity :: "float_env \<Rightarrow> quantity \<Rightarrow> float64 \<Rightarrow> quantity" where
  "multiplyQuantity F q multiplier =
     NewQuantity F (int64_of_float (fe_other F)
       (fceil (fmul (float_of_int64 (q_Value F q)) multiplier))) (q_format q)"

text \<open>One of the two identical blocks for limits and requests.\<close>

definition mitigate_memory ::
  "float_env \<Rightarrow> float64 \<Rightarrow> (string \<rightharpoonup> quantity) option \<Rightarrow> (string \<rightharpoonup> quantity) \<Rightarrow> (string \<rightharpoonup> quantity)" where
  "mitigate_memory F multiplier cap m =
     (case m ResourceMemory of None \<Rightarrow> m
      | Some memory \<Rightarrow>
          let new = multiplyQuantity F memory multiplier;
            new' = (case cap of None \<Rightarrow> new
              | Some c \<Rightarrow> (case c ResourceMemory of None \<Rightarrow> new
                  | Some max_q \<Rightarrow> if q_Cmp F new max_q > 0 then max_q else new))
          in m(ResourceMemory \<mapsto> new'))"

definition ApplyMemoryMitigation ::
  "float_env \<Rightarrow> ResourceRequirements option \<Rightarrow> MemoryMitigation option \<Rightarrow> ResourceRequirements option" where
  "ApplyMemoryMitigation F current mitigation =
     (case (current, mitigation) of
        (Some cur, Some mit) \<Rightarrow>
          (case ParseFloat (fe_hex F) (Multiplier mit) of None \<Rightarrow> None
           | Some multiplier \<Rightarrow>
               if fle_zero multiplier then None
               else if Limits cur ResourceMemory = None \<and> Requests cur ResourceMemory = None
               then None
               else Some \<lparr>
                 Limits = mitigate_memory F multiplier
                   (map_option Limits (MaxComputeResources mit)) (Limits cur),
                 Requests = mitigate_memory F multiplier
                   (map_option Requests (MaxComputeResources mit)) (Requests cur)\<rparr>)
      | _ \<Rightarrow> None)"

section \<open>Timeouts\<close>

definition addCappedDuration :: "duration option \<Rightarrow> TimeoutIncrement \<Rightarrow> duration" where
  "addCappedDuration base mitigation =
     (let duration = wrap64 (amount base + Increment mitigation)
      in (case MaxTimeout mitigation of None \<Rightarrow> duration
          | Some max_t \<Rightarrow> if duration > max_t then max_t else duration))"

definition copyTimeoutFields :: "TimeoutFields option \<Rightarrow> TimeoutFields" where
  "copyTimeoutFields timeouts = (case timeouts of None \<Rightarrow> no_timeouts | Some t \<Rightarrow> t)"

definition enforcePipelineCeiling :: "TimeoutFields \<Rightarrow> TimeoutFields" where
  "enforcePipelineCeiling t =
     (case tf_Pipeline t of None \<Rightarrow> t
      | Some p \<Rightarrow>
          let needed = wrap64 (amount (tf_Tasks t) + amount (tf_Finally t))
          in if p < needed then t\<lparr>tf_Pipeline := Some needed\<rparr> else t)"

definition ApplyTaskTimeoutMitigation ::
  "duration option \<Rightarrow> TimeoutFields option \<Rightarrow> TimeoutIncrement option \<Rightarrow>
   duration option \<times> TimeoutFields option" where
  "ApplyTaskTimeoutMitigation current pipelineTimeouts mitigation =
     (case mitigation of None \<Rightarrow> (current, pipelineTimeouts)
      | Some mit \<Rightarrow> (case current of None \<Rightarrow> (current, pipelineTimeouts)
          | Some _ \<Rightarrow>
              let
                newTaskTimeout = addCappedDuration current mit;
                adjusted = copyTimeoutFields pipelineTimeouts;
                adjusted' = (case tf_Tasks adjusted of
                    Some tasks \<Rightarrow> if newTaskTimeout > tasks
                      then adjusted\<lparr>tf_Tasks := Some newTaskTimeout\<rparr> else adjusted
                  | None \<Rightarrow> adjusted)
              in (Some newTaskTimeout, Some (enforcePipelineCeiling adjusted'))))"

definition ApplyPipelineTimeoutMitigation ::
  "TimeoutFields option \<Rightarrow> TimeoutIncrement option \<Rightarrow> TimeoutFields option" where
  "ApplyPipelineTimeoutMitigation current mitigation =
     (case mitigation of None \<Rightarrow> current
      | Some mit \<Rightarrow>
          let
            t = copyTimeoutFields current;
            t1 = (case tf_Pipeline t of None \<Rightarrow> t
              | Some _ \<Rightarrow> t\<lparr>tf_Pipeline := Some (addCappedDuration (tf_Pipeline t) mit)\<rparr>);
            t2 = (case tf_Tasks t1 of None \<Rightarrow> t1
              | Some _ \<Rightarrow> t1\<lparr>tf_Tasks := Some (addCappedDuration (tf_Tasks t1) mit)\<rparr>)
          in Some (enforcePipelineCeiling t2))"

section \<open>TaskRunSpecs\<close>

definition apply_override :: "PipelineTaskRunSpec \<Rightarrow> PipelineTaskRunSpec \<Rightarrow> PipelineTaskRunSpec" where
  "apply_override ov spec =
     (let
        s1 = (if length (StepSpecs ov) > 0
              then spec\<lparr>StepSpecs := StepSpecs ov, trs_ComputeResources := None\<rparr> else spec);
        s2 = (if trs_ComputeResources ov \<noteq> None
              then s1\<lparr>trs_ComputeResources := trs_ComputeResources ov, StepSpecs := []\<rparr> else s1)
      in if trs_Timeout ov \<noteq> None then s2\<lparr>trs_Timeout := trs_Timeout ov\<rparr> else s2)"

fun merge_into :: "PipelineTaskRunSpec \<Rightarrow> PipelineTaskRunSpec list \<Rightarrow> PipelineTaskRunSpec list" where
  "merge_into ov [] = [ov]"
| "merge_into ov (spec # specs) =
     (if PipelineTaskName spec \<noteq> PipelineTaskName ov then spec # merge_into ov specs
      else apply_override ov spec # specs)"

definition MergeTaskRunSpecs ::
  "PipelineTaskRunSpec list \<Rightarrow> PipelineTaskRunSpec list \<Rightarrow> PipelineTaskRunSpec list" where
  "MergeTaskRunSpecs original overrides =
     foldl (\<lambda>result ov. if PipelineTaskName ov = [] then result else merge_into ov result)
       original overrides"

section \<open>What the timeout mitigations compute\<close>

lemma sane_sum:
  "sane_timeout a \<Longrightarrow> sane_timeout b \<Longrightarrow> wrap64 (amount a + amount b) = amount a + amount b"
  by (rule wrap64_id) (auto simp: sane_timeout_def amount_def split: option.splits)

lemma enforcePipelineCeiling_frame [simp]:
  "tf_Tasks (enforcePipelineCeiling t) = tf_Tasks t"
  "tf_Finally (enforcePipelineCeiling t) = tf_Finally t"
  by (simp_all add: enforcePipelineCeiling_def Let_def split: option.splits)

lemma enforcePipelineCeiling_grows:
  "tf_Pipeline t = Some p \<Longrightarrow> \<exists>p'. tf_Pipeline (enforcePipelineCeiling t) = Some p' \<and> p \<le> p'"
  by (auto simp: enforcePipelineCeiling_def Let_def)

definition sane_increment :: "TimeoutIncrement \<Rightarrow> bool" where
  "sane_increment i \<longleftrightarrow> 0 \<le> Increment i \<and> Increment i < 2 ^ 61 \<and>
     (case MaxTimeout i of None \<Rightarrow> True | Some m \<Rightarrow> 0 \<le> m \<and> m < 2 ^ 62)"

definition small_timeout :: "duration option \<Rightarrow> bool" where
  "small_timeout d = (case d of None \<Rightarrow> True | Some x \<Rightarrow> 0 \<le> x \<and> x < 2 ^ 61)"

lemma small_sane: "small_timeout d \<Longrightarrow> sane_timeout d"
  by (auto simp: small_timeout_def sane_timeout_def split: option.splits)

lemma addCappedDuration_sane:
  assumes "small_timeout base" "sane_increment i"
  shows "sane_timeout (Some (addCappedDuration base i))"
proof -
  have "wrap64 (amount base + Increment i) = amount base + Increment i"
    using assms by (intro wrap64_id)
      (auto simp: small_timeout_def sane_increment_def amount_def split: option.splits)
  then show ?thesis
    using assms by (auto simp: addCappedDuration_def Let_def small_timeout_def sane_increment_def
        sane_timeout_def amount_def split: option.splits)
qed

lemma addCappedDuration_capped: "MaxTimeout i = Some m \<Longrightarrow> addCappedDuration base i \<le> m"
  by (simp add: addCappedDuration_def Let_def)

lemma addCappedDuration_grows:
  assumes "base = Some d" "0 \<le> d" "d < 2 ^ 61" "sane_increment i"
    and "\<And>m. MaxTimeout i = Some m \<Longrightarrow> d \<le> m"
  shows "d \<le> addCappedDuration base i"
proof -
  have "wrap64 (d + Increment i) = d + Increment i"
    using assms by (intro wrap64_id) (auto simp: sane_increment_def)
  then show ?thesis
    using assms by (auto simp: addCappedDuration_def Let_def amount_def sane_increment_def
        split: option.splits)
qed

text \<open>An increment under a cap, on unbounded integers.\<close>

definition capped :: "TimeoutIncrement \<Rightarrow> int \<Rightarrow> int" where
  "capped i d = (case MaxTimeout i of None \<Rightarrow> d + Increment i | Some m \<Rightarrow> min (d + Increment i) m)"

lemma addCappedDuration_exact:
  "small_timeout (Some d) \<Longrightarrow> sane_increment i \<Longrightarrow> addCappedDuration (Some d) i = capped i d"
  using wrap64_id [of "d + Increment i"]
  by (auto simp: addCappedDuration_def capped_def small_timeout_def sane_increment_def amount_def Let_def
      split: option.splits)

lemma enforcePipelineCeiling_exact:
  assumes "sane_timeout (tf_Tasks t)" "sane_timeout (tf_Finally t)"
  shows "enforcePipelineCeiling t =
    t\<lparr>tf_Pipeline := map_option (max (amount (tf_Tasks t) + amount (tf_Finally t))) (tf_Pipeline t)\<rparr>"
  using sane_sum [OF assms] by (auto simp: enforcePipelineCeiling_def Let_def split: option.splits)

lemma capped_sane: "small_timeout (Some d) \<Longrightarrow> sane_increment i \<Longrightarrow> sane_timeout (Some (capped i d))"
  using addCappedDuration_sane [of "Some d" i] by (simp add: addCappedDuration_exact)



section \<open>Merged TaskRunSpecs stay valid\<close>

text \<open>Tekton rejects a spec that has both step specs and task-level resources.\<close>

definition spec_valid :: "PipelineTaskRunSpec \<Rightarrow> bool" where
  "spec_valid s \<longleftrightarrow> StepSpecs s = [] \<or> trs_ComputeResources s = None"

definition spec_for :: "string \<Rightarrow> PipelineTaskRunSpec list \<Rightarrow> PipelineTaskRunSpec option" where
  "spec_for n = find (\<lambda>s. PipelineTaskName s = n)"

lemma apply_override_name [simp]: "PipelineTaskName (apply_override ov spec) = PipelineTaskName spec"
  by (simp add: apply_override_def Let_def)

lemma apply_override_valid:
  "spec_valid spec \<Longrightarrow> spec_valid ov \<Longrightarrow> spec_valid (apply_override ov spec)"
  by (auto simp: apply_override_def spec_valid_def Let_def)

lemma merge_into_valid:
  "\<forall>s\<in>set specs. spec_valid s \<Longrightarrow> spec_valid ov \<Longrightarrow> s \<in> set (merge_into ov specs) \<Longrightarrow> spec_valid s"
  by (induction specs) (auto simp: apply_override_valid split: if_splits)

lemma merge_into_names:
  "PipelineTaskName ` set (merge_into ov specs) =
     insert (PipelineTaskName ov) (PipelineTaskName ` set specs)"
  by (induction specs) auto

lemma merge_into_distinct:
  "distinct (map PipelineTaskName specs) \<Longrightarrow> distinct (map PipelineTaskName (merge_into ov specs))"
proof (induction specs)
  case (Cons s specs)
  then show ?case
    using merge_into_names [of ov specs] by (auto simp: image_iff)
qed simp

lemma merge_into_other:
  "n \<noteq> PipelineTaskName ov \<Longrightarrow> spec_for n (merge_into ov specs) = spec_for n specs"
  by (induction specs) (auto simp: spec_for_def)

lemma merge_into_hit:
  "spec_for (PipelineTaskName ov) (merge_into ov specs) =
     Some (case spec_for (PipelineTaskName ov) specs of None \<Rightarrow> ov | Some s \<Rightarrow> apply_override ov s)"
  by (induction specs) (auto simp: spec_for_def)

lemma MergeTaskRunSpecs_single:
  "PipelineTaskName ov \<noteq> [] \<Longrightarrow> MergeTaskRunSpecs original [ov] = merge_into ov original"
  by (simp add: MergeTaskRunSpecs_def)

lemma MergeTaskRunSpecs_valid:
  "\<forall>s\<in>set original. spec_valid s \<Longrightarrow> \<forall>s\<in>set overrides. spec_valid s \<Longrightarrow>
   \<forall>s\<in>set (MergeTaskRunSpecs original overrides). spec_valid s"
  unfolding MergeTaskRunSpecs_def
  by (induction overrides arbitrary: original) (auto dest: merge_into_valid)

lemma MergeTaskRunSpecs_distinct:
  "distinct (map PipelineTaskName original) \<Longrightarrow>
   distinct (map PipelineTaskName (MergeTaskRunSpecs original overrides))"
  unfolding MergeTaskRunSpecs_def
  by (induction overrides arbitrary: original) (auto simp: merge_into_distinct)

lemma apply_override_fields:
  assumes "spec_valid ov"
  shows "StepSpecs (apply_override ov s) =
      (if StepSpecs ov \<noteq> [] then StepSpecs ov else if trs_ComputeResources ov \<noteq> None then [] else StepSpecs s)"
    "trs_ComputeResources (apply_override ov s) = (if trs_ComputeResources ov \<noteq> None then trs_ComputeResources ov
      else if StepSpecs ov \<noteq> [] then None else trs_ComputeResources s)"
    "trs_Timeout (apply_override ov s) = (if trs_Timeout ov \<noteq> None then trs_Timeout ov else trs_Timeout s)"
  using assms by (auto simp: apply_override_def spec_valid_def Let_def)

text \<open>
  C26. \<open>MergeTaskRunSpecs\<close> with the one override a mitigation builds: specs that Tekton accepts
  stay acceptable and unique per task, every other task keeps its spec, and the mitigated task gets
  the override itself when it had no spec. When it had one, the step specs or the resources of the
  override are there and replace both old ones, the timeout of the override replaces the old one, and
  what the override leaves open stays as it was.
\<close>

theorem MergeTaskRunSpecs_spec:
  assumes "\<forall>s\<in>set original. spec_valid s" "spec_valid ov"
    and "distinct (map PipelineTaskName original)" "PipelineTaskName ov \<noteq> []"
    and "merged = MergeTaskRunSpecs original [ov]"
  shows "(\<forall>s\<in>set merged. spec_valid s) \<and> distinct (map PipelineTaskName merged) \<and>
    (\<forall>n. n \<noteq> PipelineTaskName ov \<longrightarrow> spec_for n merged = spec_for n original) \<and>
    (case spec_for (PipelineTaskName ov) original of
       None \<Rightarrow> spec_for (PipelineTaskName ov) merged = Some ov
     | Some old \<Rightarrow> \<exists>new. spec_for (PipelineTaskName ov) merged = Some new \<and>
         (StepSpecs ov \<noteq> [] \<longrightarrow> StepSpecs new = StepSpecs ov \<and> trs_ComputeResources new = None) \<and>
         (trs_ComputeResources ov \<noteq> None \<longrightarrow>
           trs_ComputeResources new = trs_ComputeResources ov \<and> StepSpecs new = []) \<and>
         (StepSpecs ov = [] \<and> trs_ComputeResources ov = None \<longrightarrow>
           StepSpecs new = StepSpecs old \<and> trs_ComputeResources new = trs_ComputeResources old) \<and>
         trs_Timeout new = (case trs_Timeout ov of None \<Rightarrow> trs_Timeout old | Some d \<Rightarrow> Some d))"
proof -
  note merged = assms(5) [unfolded MergeTaskRunSpecs_single [OF assms(4)]]
  have "(\<forall>s\<in>set merged. spec_valid s) \<and> distinct (map PipelineTaskName merged)"
    using MergeTaskRunSpecs_valid [of original "[ov]"] MergeTaskRunSpecs_distinct [OF assms(3), of "[ov]"] assms(1,2,5)
    by simp
  then show ?thesis
    using assms(2) unfolding merged
    by (auto simp: merge_into_other merge_into_hit apply_override_fields spec_valid_def
        split: option.split)
qed

abbreviation no_resources :: ResourceRequirements where
  "no_resources \<equiv> \<lparr>Limits = Map.empty, Requests = Map.empty\<rparr>"

theorem MergeTaskRunSpecs_spec_witness:
  "\<exists>new. spec_for ''push'' (MergeTaskRunSpecs
      [\<lparr>PipelineTaskName = ''push'', StepSpecs = [], trs_ComputeResources = Some no_resources, trs_Timeout = Some 1\<rparr>]
      [\<lparr>PipelineTaskName = ''push'', StepSpecs = [\<lparr>ss_Name = ''upload'', ss_ComputeResources = no_resources\<rparr>],
        trs_ComputeResources = None, trs_Timeout = None\<rparr>]) = Some new \<and>
    StepSpecs new = [\<lparr>ss_Name = ''upload'', ss_ComputeResources = no_resources\<rparr>] \<and>
    trs_ComputeResources new = None \<and> trs_Timeout new = Some 1"
  using MergeTaskRunSpecs_spec [of
    "[\<lparr>PipelineTaskName = ''push'', StepSpecs = [], trs_ComputeResources = Some no_resources, trs_Timeout = Some 1\<rparr>]"
    "\<lparr>PipelineTaskName = ''push'', StepSpecs = [\<lparr>ss_Name = ''upload'', ss_ComputeResources = no_resources\<rparr>],
      trs_ComputeResources = None, trs_Timeout = None\<rparr>", OF _ _ _ _ refl]
  by (simp add: spec_valid_def spec_for_def)

end
