(* ===== verification/Client.thy ===== *)
theory Client
  imports Retry_Matcher Retry_Mitigations
begin

text \<open>
  What the service calls and does not contain. The record \<open>lib\<close> gathers the pure functions of
  third-party packages (finalizer and metadata helpers, quantities, regular expressions, JSON,
  multierror, URL parsing); the record \<open>env\<close> adds the effects: the clock, the environment
  variables, the Kubernetes API client, HTTP requests, the git remote and the pod logs,
  each a state transformer over an arbitrary world \<open>'w\<close>. Every definition that uses them takes
  the record as an argument, so its theorems hold for every behaviour of the cluster; what a
  theorem needs of that behaviour is one of the interface locales (\<open>conditions_api\<close>, \<open>release_store\<close>,
  \<open>run_store\<close>, \<open>run_deletion\<close>, \<open>toolkit_api\<close>, \<open>owner_handler\<close>, \<open>sorter_api\<close>, \<open>codec_api\<close>) or a named hypothesis.
\<close>

section \<open>Pure functions of other packages\<close>

record lib =
  lib_cond :: conditions_lib
  lib_float :: float_env
  ContainsFinalizer :: "string list \<Rightarrow> string \<Rightarrow> bool"
  AddFinalizer :: "string list \<Rightarrow> string \<Rightarrow> string list"
  RemoveFinalizer :: "string list \<Rightarrow> string \<Rightarrow> string list"
  CopyAnnotationsByPrefix :: "object_meta \<Rightarrow> object_meta \<Rightarrow> string \<Rightarrow> error option \<times> object_meta"
  CopyLabelsByPrefix :: "object_meta \<Rightarrow> object_meta \<Rightarrow> string \<Rightarrow> error option \<times> object_meta"
  SetOwnerAnnotations :: "object_meta \<Rightarrow> object_meta \<Rightarrow> error option \<times> object_meta"
  ParseQuantity :: "string \<Rightarrow> error + quantity"
  QuantityString :: "quantity \<Rightarrow> string"
  DurationString :: "duration \<Rightarrow> string"
  Compile :: regexp
  Unmarshal :: unmarshal
  ErrorOrNil :: "error list \<Rightarrow> error option"
  ErrorList :: "error list \<Rightarrow> string"
  Quote :: "string \<Rightarrow> string"
  NewNotFound :: "string \<Rightarrow> string \<Rightarrow> string \<Rightarrow> error"
  ParseURL :: "string \<Rightarrow> (string \<times> string) option"
  gitops_PipelinesAsCodePrefix :: string
  SortSlice :: sorter
  AppendCertsFromPEM :: "string \<Rightarrow> bool"
  NewRequest :: "string \<Rightarrow> error option"
  DecodeSnapshot :: "string \<Rightarrow> Snapshot \<times> error option"
  DecodeItems :: "string \<Rightarrow> error + string list"
  DecodeMeta :: "string \<Rightarrow> (string \<times> string) option"

section \<open>Effects\<close>

record 'w env =
  lib :: lib
  Now :: "('w, time) state"
  Getenv :: "string \<Rightarrow> ('w, string) state"
  api_GetRelease :: "string \<Rightarrow> string \<Rightarrow> ('w, Release \<times> error option) state"
  api_GetReleasePlan :: "string \<Rightarrow> string \<Rightarrow> ('w, ReleasePlan \<times> error option) state"
  api_GetReleasePlanAdmission ::
    "string \<Rightarrow> string \<Rightarrow> ('w, ReleasePlanAdmission \<times> error option) state"
  api_GetReleaseServiceConfig ::
    "string \<Rightarrow> string \<Rightarrow> ('w, ReleaseServiceConfig \<times> error option) state"
  api_GetSnapshot :: "string \<Rightarrow> string \<Rightarrow> ('w, Snapshot \<times> error option) state"
  api_GetApplication :: "string \<Rightarrow> string \<Rightarrow> ('w, Application_obj \<times> error option) state"
  api_GetEnterpriseContractPolicy ::
    "string \<Rightarrow> string \<Rightarrow> ('w, EnterpriseContractPolicy \<times> error option) state"
  api_GetRoleBinding :: "string \<Rightarrow> string \<Rightarrow> ('w, RoleBinding \<times> error option) state"
  api_GetRole :: "string \<Rightarrow> string \<Rightarrow> ('w, Role \<times> error option) state"
  api_GetPipelineRun :: "string \<Rightarrow> string \<Rightarrow> ('w, PipelineRun \<times> error option) state"
  api_ListReleasePlanAdmissions :: "string \<Rightarrow> string \<Rightarrow> ('w, error + ReleasePlanAdmission list) state"
  api_ListReleasePlans :: "string \<Rightarrow> string \<Rightarrow> string option \<Rightarrow> ('w, error + ReleasePlan list) state"
  api_ListReleases :: "string \<Rightarrow> string \<Rightarrow> ('w, error + Release list) state"
  api_ListPipelineRuns :: "(string \<rightharpoonup> string) \<Rightarrow> nat \<Rightarrow> ('w, error + PipelineRun list) state"
  api_ListTaskRuns :: "string \<Rightarrow> (string \<rightharpoonup> string) \<Rightarrow> ('w, error + TaskRun list) state"
  api_CreatePipelineRun :: "PipelineRun \<Rightarrow> ('w, error + PipelineRun) state"
  api_CreateRole :: "Role \<Rightarrow> ('w, error + Role) state"
  api_CreateRoleBinding :: "RoleBinding \<Rightarrow> ('w, error + RoleBinding) state"
  api_DeletePipelineRun :: "PipelineRun \<Rightarrow> ('w, error option) state"
  api_DeleteRole :: "Role \<Rightarrow> ('w, error option) state"
  api_DeleteRoleBinding :: "RoleBinding \<Rightarrow> ('w, error option) state"
  api_PatchFinalizers :: "PipelineRun \<Rightarrow> string list \<Rightarrow> ('w, error option) state"
  api_PatchRelease :: "Release \<Rightarrow> Release \<Rightarrow> ('w, error + Release) state"
  api_PatchReleaseStatus :: "Release \<Rightarrow> Release \<Rightarrow> ('w, error + Release) state"
  api_GetConfigMap :: "string \<Rightarrow> string \<Rightarrow> ('w, strmap \<times> error option) state"
  api_ListAllReleasePlanAdmissions :: "('w, error + ReleasePlanAdmission list) state"
  api_CreateSnapshot :: "Snapshot \<Rightarrow> ('w, error + Snapshot) state"
  api_PatchReleasePlanStatus :: "ReleasePlan \<Rightarrow> ReleasePlan \<Rightarrow> ('w, error + ReleasePlan) state"
  api_PatchReleasePlanAdmissionStatus ::
    "ReleasePlanAdmission \<Rightarrow> ReleasePlanAdmission \<Rightarrow> ('w, error + ReleasePlanAdmission) state"
  InClusterConfig :: "('w, error option) state"
  TransportFor :: "string \<Rightarrow> ('w, error option) state"
  HttpDo :: "string \<Rightarrow> string \<Rightarrow> ('w, error + (int \<times> (error + string))) state"
  ListRemote :: "string \<Rightarrow> (string \<times> string) option \<Rightarrow> ('w, error + (string \<times> string) list) state"
  Sleep :: "duration \<Rightarrow> ('w, unit) state"
  PodLogs :: "string \<Rightarrow> string \<Rightarrow> ('w, error + string) state"

text \<open>
  \<open>Get\<close>-like calls take namespace and name in the order (name, namespace) of the toolkit.
  \<open>HttpDo\<close> takes the CA bundle the client trusts and the URL, and answers the status code with the
  result of reading the body. \<open>DecodeItems\<close> and \<open>DecodeMeta\<close> are the two \<open>json.Unmarshal\<close> calls of
  the KubeArchive list: the raw items of a list, and the name and resource version of an item.
\<close>

section \<open>Results of a call that may panic\<close>

datatype 'a outcome = Returned 'a | Panicked

section \<open>Decimal numerals, as \<open>%d\<close> prints them\<close>

definition digit_char :: "nat \<Rightarrow> char" where
  "digit_char d = char_of (48 + d)"

fun show_nat :: "nat \<Rightarrow> string" where
  "show_nat n = (if n < 10 then [digit_char n] else show_nat (n div 10) @ [digit_char (n mod 10)])"

declare show_nat.simps [simp del]

definition show_int :: "int \<Rightarrow> string" where
  "show_int i = (if 0 \<le> i then show_nat (nat i) else CHR ''-'' # show_nat (nat (- i)))"

lemma digit_char_inj: "a < 10 \<Longrightarrow> b < 10 \<Longrightarrow> digit_char a = digit_char b \<Longrightarrow> a = b"
  by (simp add: digit_char_def char_of_eq_iff take_bit_eq_mod)

lemma show_nat_ne: "show_nat n \<noteq> []" "[] \<noteq> show_nat n"
  by (subst show_nat.simps, simp)+

lemma show_nat_inj: "show_nat m = show_nat n \<Longrightarrow> m = n"
proof (induction m arbitrary: n rule: less_induct)
  case (less m)
  show ?case
  proof (cases "m < 10"; cases "n < 10")
    assume "m < 10" "n < 10"
    with less.prems show ?thesis
      by (simp add: show_nat.simps [of m] show_nat.simps [of n] digit_char_inj)
  next
    assume "m < 10" "\<not> n < 10"
    with less.prems show ?thesis
      by (simp add: show_nat.simps [of m] show_nat.simps [of n] show_nat_ne)
  next
    assume "\<not> m < 10" "n < 10"
    with less.prems show ?thesis
      by (simp add: show_nat.simps [of m] show_nat.simps [of n] show_nat_ne)
  next
    assume m: "\<not> m < 10" and n: "\<not> n < 10"
    with less.prems have "show_nat (m div 10) = show_nat (n div 10)"
      and "digit_char (m mod 10) = digit_char (n mod 10)"
      by (simp_all add: show_nat.simps [of m] show_nat.simps [of n])
    moreover from this(1) m have "m div 10 = n div 10"
      by (intro less.IH) auto
    ultimately show ?thesis
      using digit_char_inj [of "m mod 10" "n mod 10"] by (metis div_mult_mod_eq mod_less_divisor zero_less_numeral)
  qed
qed

lemma show_int_inj: "0 \<le> i \<Longrightarrow> 0 \<le> j \<Longrightarrow> show_int i = show_int j \<Longrightarrow> i = j"
  by (auto simp: show_int_def dest: show_nat_inj)

end
