(* ===== verification/Git_References.thy ===== *)
theory Git_References
  imports Client
begin

text \<open>
  \<open>src/git/references.go\<close>: validation of a git resolver configuration and the resolution of a
  branch to a commit, with its bounded retries on rate limits. \<open>remote.List\<close> of go-git is
  \<open>ListRemote\<close> of the environment, which is given the URL and the credentials.
\<close>

section \<open>String functions\<close>

fun contains :: "string \<Rightarrow> string \<Rightarrow> bool" where
  "contains [] sub = (sub = [])"
| "contains (c # cs) sub = (hasPrefix (c # cs) sub \<or> contains cs sub)"

text \<open>White space of ASCII text.\<close>

definition is_space :: "char \<Rightarrow> bool" where
  "is_space c \<longleftrightarrow> (of_char c :: nat) \<in> {9, 10, 11, 12, 13, 32}"

definition TrimSpace :: "string \<Rightarrow> string" where
  "TrimSpace s = rev (dropWhile is_space (rev (dropWhile is_space s)))"

definition EqualFold :: "string \<Rightarrow> string \<Rightarrow> bool" where
  "EqualFold s t \<longleftrightarrow> to_lower s = to_lower t"

lemma contains_prefix: "hasPrefix s sub \<Longrightarrow> contains s sub"
  by (cases s) (auto simp: hasPrefix_def)

lemma contains_append: "contains (xs @ sub @ ys) sub"
  by (induction xs) (simp_all add: contains_prefix hasPrefix_def)

lemma TrimSpace_empty_iff: "TrimSpace s = [] \<longleftrightarrow> (\<forall>c\<in>set s. is_space c)"
proof
  assume "TrimSpace s = []"
  then have "\<forall>c\<in>set (dropWhile is_space s). is_space c"
    by (simp add: TrimSpace_def)
  then have "dropWhile is_space s = []"
    using hd_dropWhile by (metis list.set_sel(1))
  then show "\<forall>c\<in>set s. is_space c" by simp
qed (auto simp: TrimSpace_def dest: set_dropWhileD)

section \<open>references.go\<close>

definition is_hex_char :: "char \<Rightarrow> bool" where
  "is_hex_char c \<longleftrightarrow>
     (let n = (of_char c :: nat) in 48 \<le> n \<and> n \<le> 57 \<or> 97 \<le> n \<and> n \<le> 102)"

definition IsSHA :: "string \<Rightarrow> bool" where
  "IsSHA ref \<longleftrightarrow> length ref = 40 \<and> list_all is_hex_char ref"

definition IsRateLimitError :: "error \<Rightarrow> bool" where
  "IsRateLimitError err \<longleftrightarrow>
     contains (e_msg err) ''rate limit'' \<or> contains (e_msg err) ''API rate limit'' \<or>
     contains (e_msg err) ''403''"

definition IsAuthenticationError :: "error \<Rightarrow> bool" where
  "IsAuthenticationError err \<longleftrightarrow>
     contains (e_msg err) ''authentication required'' \<or>
     contains (e_msg err) ''authorization failed''"

definition ValidateGitResolverConfig :: "string \<Rightarrow> string \<Rightarrow> string \<Rightarrow> error option" where
  "ValidateGitResolverConfig url revision pathInRepo =
     (let missing =
        (if TrimSpace url = [] then [''url''] else []) @
        (if TrimSpace revision = [] then [''revision''] else []) @
        (if TrimSpace pathInRepo = [] then [''pathInRepo''] else [])
      in if length missing > 0
         then Some (sentinel_error ErrInvalidGitResolverConfig
           (''invalid git configuration: '' @ join_tags missing @ '' cannot be empty''))
         else None)"

definition HasGitHubToken :: "'w env \<Rightarrow> ('w, bool) state" where
  "HasGitHubToken E = do {
     v \<leftarrow> Getenv E ''GITHUB_TOKEN'';
     State_Monad.return (TrimSpace v \<noteq> [])
   }"

definition IsGitHubURL :: "lib \<Rightarrow> string \<Rightarrow> bool" where
  "IsGitHubURL K repoURL =
     (case ParseURL K repoURL of None \<Rightarrow> False
      | Some (scheme, host) \<Rightarrow> EqualFold scheme ''https'' \<and> EqualFold host ''github.com'')"

definition remoteListOptions :: "'w env \<Rightarrow> string \<Rightarrow> ('w, (string \<times> string) option) state" where
  "remoteListOptions E repoURL =
     (if IsGitHubURL (lib E) repoURL
      then do {
        v \<leftarrow> Getenv E ''GITHUB_TOKEN'';
        State_Monad.return
          (if TrimSpace v \<noteq> [] then Some (''x-access-token'', TrimSpace v) else None)
      }
      else State_Monad.return None)"

text \<open>
  A URL as \<open>url.Parse\<close> returns it is an argument here: whether it has user information, and the
  text that its \<open>String\<close> method gives once that is removed.
\<close>

definition RedactURLCredentials :: "(string \<Rightarrow> (bool \<times> string) option) \<Rightarrow> string \<Rightarrow> string" where
  "RedactURLCredentials parse repoURL =
     (case parse repoURL of
        None \<Rightarrow> ''<invalid repository URL>''
      | Some (hasUser, withoutUser) \<Rightarrow> if \<not> hasUser then repoURL else withoutUser)"

definition second :: duration where
  "second = 1000000000"

text \<open>
  The retry loop: \<open>n\<close> further attempts remain. A rate-limited listing waits \<open>2, 4, 8\<close> seconds
  before the next one; any other error ends the loop at once.
\<close>

fun list_refs ::
  "'w env \<Rightarrow> string \<Rightarrow> (string \<times> string) option \<Rightarrow> nat \<Rightarrow> nat \<Rightarrow>
   ('w, error + (string \<times> string) list) state" where
  "list_refs E gitURL auth attempt 0 = do {
     res \<leftarrow> ListRemote E gitURL auth;
     (case res of
        Inr refs \<Rightarrow> State_Monad.return (Inr refs)
      | Inl err \<Rightarrow>
          if \<not> IsRateLimitError err
          then State_Monad.return (Inl (wrap_error ''remote repository access failed: '' err))
          else State_Monad.return (Inl (wrap_error
            ''remote repository access failed after 3 retries (rate limited): '' err)))
   }"
| "list_refs E gitURL auth attempt (Suc n) = do {
     res \<leftarrow> ListRemote E gitURL auth;
     (case res of
        Inr refs \<Rightarrow> State_Monad.return (Inr refs)
      | Inl err \<Rightarrow>
          if \<not> IsRateLimitError err
          then State_Monad.return (Inl (wrap_error ''remote repository access failed: '' err))
          else do {
            Sleep E (2 * second * 2 ^ attempt);
            list_refs E gitURL auth (attempt + 1) n
          })
   }"

fun find_ref :: "string \<Rightarrow> (string \<times> string) list \<Rightarrow> string option" where
  "find_ref n [] = None"
| "find_ref n ((name, hash) # refs) = (if name = n then Some hash else find_ref n refs)"

definition ResolveBranchToSHA :: "'w env \<Rightarrow> string \<Rightarrow> string \<Rightarrow> ('w, error + string) state" where
  "ResolveBranchToSHA E repoURL revision =
     (if repoURL = [] \<or> revision = []
      then State_Monad.return (Inl (sentinel_error ErrInvalidGitResolverConfig
        ''invalid git configuration: repository URL and revision cannot be empty''))
      else if IsSHA revision then State_Monad.return (Inr revision)
      else do {
        auth \<leftarrow> remoteListOptions E repoURL;
        res \<leftarrow> list_refs E
          (if IsGitHubURL (lib E) repoURL \<and> \<not> hasSuffix (to_lower repoURL) ''.git''
           then repoURL @ ''.git'' else repoURL) auth 0 3;
        (case res of
           Inl err \<Rightarrow> State_Monad.return (Inl err)
         | Inr refs \<Rightarrow>
             (case find_ref (''refs/heads/'' @ revision) refs of
                Some hash \<Rightarrow> State_Monad.return (Inr hash)
              | None \<Rightarrow> State_Monad.return (Inl (sentinel_error ErrBranchNotFound
                  (''branch not found: branch '' @ [CHR 0x27] @ revision @ [CHR 0x27] @ '' not found in repository'')))))
      })"

section \<open>Permanent configuration errors are never retried\<close>

lemma ValidateGitResolverConfig_permanent:
  "ValidateGitResolverConfig url revision pathInRepo = Some e \<Longrightarrow>
   \<not> IsRetryableCreationError (Some e) \<and> \<not> IsRetriable (Some e)"
  by (auto simp: ValidateGitResolverConfig_def IsRetryableCreationError_def
      isInvalidGitConfigError_def IsRetriable_def Let_def sentinel_error_def is_sentinel_def is_class_def
      split: if_splits)

section \<open>What a resolved revision is\<close>

text \<open>The world after \<open>k\<close> listings, each followed by its wait, from attempt number \<open>a\<close> on.\<close>

primrec retried :: "'w env \<Rightarrow> string \<Rightarrow> (string \<times> string) option \<Rightarrow> nat \<Rightarrow> 'w \<Rightarrow> nat \<Rightarrow> 'w" where
  "retried E u auth 0 w a = w"
| "retried E u auth (Suc k) w a = retried E u auth k
     (snd (run_state (Sleep E (2 * second * 2 ^ a)) (snd (run_state (ListRemote E u auth) w)))) (a + 1)"

text \<open>The listing after \<open>k\<close> rate-limited ones answers with \<open>refs\<close>.\<close>

definition listed_after :: "'w env \<Rightarrow> string \<Rightarrow> (string \<times> string) option \<Rightarrow> nat \<Rightarrow> 'w \<Rightarrow> nat \<Rightarrow>
    (string \<times> string) list \<Rightarrow> 'w \<Rightarrow> bool" where
  "listed_after E u auth k w a refs w' \<longleftrightarrow>
     (\<forall>j<k. \<exists>e. fst (run_state (ListRemote E u auth) (retried E u auth j w a)) = Inl e \<and> IsRateLimitError e) \<and>
     run_state (ListRemote E u auth) (retried E u auth k w a) = (Inr refs, w')"

lemma listed_after_Suc:
  "listed_after E u auth (Suc k) w a refs w' \<longleftrightarrow>
   (\<exists>e. fst (run_state (ListRemote E u auth) w) = Inl e \<and> IsRateLimitError e) \<and>
   listed_after E u auth k
     (snd (run_state (Sleep E (2 * second * 2 ^ a)) (snd (run_state (ListRemote E u auth) w)))) (a + 1) refs w'"
  unfolding listed_after_def by (auto simp: All_less_Suc2)

lemma list_refs_listed:
  "run_state (list_refs E u auth a n) w = (Inr refs, w') \<longleftrightarrow> (\<exists>k\<le>n. listed_after E u auth k w a refs w')"
proof (induction n arbitrary: a w)
  case 0
  then show ?case
    by (cases "run_state (ListRemote E u auth) w") (auto simp: listed_after_def split: sum.splits)
next
  case (Suc n)
  obtain res w1 where list: "run_state (ListRemote E u auth) w = (res, w1)"
    by (cases "run_state (ListRemote E u auth) w")
  have "(\<exists>k\<le>Suc n. listed_after E u auth k w a refs w') \<longleftrightarrow>
      listed_after E u auth 0 w a refs w' \<or> (\<exists>k\<le>n. listed_after E u auth (Suc k) w a refs w')"
    by (metis Suc_le_mono not0_implies_Suc zero_le)
  then show ?case
    using list Suc.IH [of "a + 1" "snd (run_state (Sleep E (2 * second * 2 ^ a)) w1)"]
    by (cases res) (auto simp: listed_after_Suc listed_after_def [of _ _ _ 0] split: prod.splits)
qed

text \<open>The first entry of that name.\<close>

definition branch_head :: "string \<Rightarrow> (string \<times> string) list \<Rightarrow> string \<Rightarrow> bool" where
  "branch_head revision refs sha \<longleftrightarrow> (\<exists>xs ys. refs = xs @ (''refs/heads/'' @ revision, sha) # ys \<and>
     ''refs/heads/'' @ revision \<notin> fst ` set xs)"

lemma find_ref_first: "find_ref n refs = Some h \<longleftrightarrow> (\<exists>xs ys. refs = xs @ (n, h) # ys \<and> n \<notin> fst ` set xs)"
proof (induction refs)
  case (Cons r refs)
  obtain m g where r: "r = (m, g)" by (cases r)
  show ?case
  proof (cases "m = n")
    case True
    then show ?thesis unfolding r by (auto simp: Cons_eq_append_conv)
  next
    case False
    have "(\<exists>xs ys. r # refs = xs @ (n, h) # ys \<and> n \<notin> fst ` set xs) \<longleftrightarrow>
        (\<exists>xs ys. refs = xs @ (n, h) # ys \<and> n \<notin> fst ` set xs)"
      using False unfolding r by (fastforce simp: Cons_eq_append_conv)
    then show ?thesis using Cons False by (simp add: r)
  qed
qed simp

text \<open>The repository that is asked: GitHub gets the suffix it wants, any other URL is used as it is.\<close>

definition listed_url :: "lib \<Rightarrow> string \<Rightarrow> string" where
  "listed_url K url = (if IsGitHubURL K url \<and> \<not> hasSuffix (to_lower url) ''.git'' then url @ ''.git'' else url)"

text \<open>
  C32. A revision is resolved in exactly these cases: to itself, when it is already a commit hash; or to
  the hash of the branch of that name, when the repository of that URL, asked with the credentials for
  that URL, lists it after at most three listings that were turned down for their rate. No tag and no
  other branch or repository stands in.
\<close>

theorem ResolveBranchToSHA_exact:
  assumes "run_state (remoteListOptions E url) w = (auth, w0)"
  shows "run_state (ResolveBranchToSHA E url revision) w = (Inr sha, w') \<longleftrightarrow>
    url \<noteq> [] \<and> revision \<noteq> [] \<and>
    (if IsSHA revision then sha = revision \<and> w' = w
     else \<exists>k\<le>3. \<exists>refs. listed_after E (listed_url (lib E) url) auth k w0 0 refs w' \<and> branch_head revision refs sha)"
proof -
  obtain res w1 where res: "run_state (list_refs E (listed_url (lib E) url) auth 0 3) w0 = (res, w1)"
    by (cases "run_state (list_refs E (listed_url (lib E) url) auth 0 3) w0")
  have listed: "(\<exists>k\<le>3. \<exists>refs. listed_after E (listed_url (lib E) url) auth k w0 0 refs w' \<and> Q refs) \<longleftrightarrow>
      (\<exists>refs. res = Inr refs \<and> w1 = w' \<and> Q refs)" for Q
  proof -
    let ?L = "\<lambda>k refs. listed_after E (listed_url (lib E) url) auth k w0 0 refs w'"
    have eq: "(\<exists>k\<le>3. ?L k refs) \<longleftrightarrow> res = Inr refs \<and> w1 = w'" for refs
      using list_refs_listed [of E "listed_url (lib E) url" auth 0 3 w0 refs w'] res by simp
    have "(\<exists>k\<le>3. \<exists>refs. ?L k refs \<and> Q refs) \<longleftrightarrow> (\<exists>refs. (\<exists>k\<le>3. ?L k refs) \<and> Q refs)" by blast
    then show ?thesis unfolding eq by simp
  qed
  define branch where "branch = ''refs/heads/'' @ revision"
  show ?thesis
    unfolding listed branch_head_def find_ref_first [symmetric] ResolveBranchToSHA_def listed_url_def [symmetric]
      branch_def [symmetric]
    using assms res by (cases res) (auto split: option.splits)
qed

section \<open>Where the token goes\<close>

text \<open>
  The environment in which variables answer something else and the remote never sees credentials.
\<close>

definition without_token :: "(string \<Rightarrow> ('w, string) state) \<Rightarrow> 'w env \<Rightarrow> 'w env" where
  "without_token vars E = E\<lparr>Getenv := vars, ListRemote := (\<lambda>url auth. ListRemote E url None)\<rparr>"

lemma without_token_simps [simp]:
  "lib (without_token vars E) = lib E" "ListRemote (without_token vars E) url auth = ListRemote E url None"
  "Sleep (without_token vars E) = Sleep E"
  by (simp_all add: without_token_def)

lemma list_refs_without_token: "list_refs (without_token vars E) url None a n = list_refs E url None a n"
  by (induction n arbitrary: a) (simp_all cong del: sum.case_cong_weak if_weak_cong)

lemma ResolveBranchToSHA_without_token:
  "\<not> IsGitHubURL (lib E) url \<Longrightarrow>
   ResolveBranchToSHA (without_token vars E) url revision = ResolveBranchToSHA E url revision"
  by (simp add: ResolveBranchToSHA_def remoteListOptions_def list_refs_without_token)

section \<open>The retry loop ends\<close>

text \<open>
  A meter of the world that counts the listings and adds up the time slept; reading the
  environment does not move it.
\<close>

definition metered :: "'w env \<Rightarrow> ('w \<Rightarrow> nat \<times> duration) \<Rightarrow> bool" where
  "metered E meter \<longleftrightarrow>
     (\<forall>v. keeps meter (Getenv E v)) \<and>
     (\<forall>url auth w. meter (snd (run_state (ListRemote E url auth) w)) = (Suc (fst (meter w)), snd (meter w))) \<and>
     (\<forall>d w. meter (snd (run_state (Sleep E d) w)) = (fst (meter w), snd (meter w) + d))"

lemma metered_calls:
  assumes "metered E meter"
  shows "meter (snd (run_state (ListRemote E url auth) w)) = (Suc (fst (meter w)), snd (meter w))"
    and "meter (snd (run_state (Sleep E d) w)) = (fst (meter w), snd (meter w) + d)"
    and "keeps meter (Getenv E v)"
  using assms by (simp_all add: metered_def)

lemma list_refs_metered:
  assumes "metered E meter"
  shows "fst (meter (snd (run_state (list_refs E url auth a n) w))) \<le> fst (meter w) + Suc n \<and>
    snd (meter (snd (run_state (list_refs E url auth a n) w))) \<le> snd (meter w) + 2 * second * (2 ^ (a + n) - 2 ^ a)"
proof (induction n arbitrary: a w)
  case 0
  obtain res w1 where list: "run_state (ListRemote E url auth) w = (res, w1)"
    by (cases "run_state (ListRemote E url auth) w")
  then have "meter w1 = (Suc (fst (meter w)), snd (meter w))" using metered_calls(1) [OF assms] by (metis snd_conv)
  then show ?case using list by (cases res) auto
next
  case (Suc n)
  obtain res w1 where list: "run_state (ListRemote E url auth) w = (res, w1)"
    by (cases "run_state (ListRemote E url auth) w")
  obtain u w2 where slept: "run_state (Sleep E (2 * second * 2 ^ a)) w1 = (u, w2)"
    by (cases "run_state (Sleep E (2 * second * 2 ^ a)) w1")
  have "meter w1 = (Suc (fst (meter w)), snd (meter w))" "meter w2 = (fst (meter w1), snd (meter w1) + 2 * second * 2 ^ a)"
    using list slept metered_calls [OF assms] by (metis snd_conv)+
  moreover have "(2::int) ^ a \<le> 2 ^ (a + Suc n)" by (rule power_increasing) simp_all
  ultimately show ?case
    using Suc.IH [of "a + 1" w2] list slept
    by (cases res) (auto simp: algebra_simps second_def)
qed

text \<open>
  C33. Resolving a branch always returns: it lists the remote at most four times and sleeps at most
  fourteen seconds in all, whatever the remote answers.
\<close>

theorem ResolveBranchToSHA_bounded:
  assumes "metered E meter" "run_state (ResolveBranchToSHA E url revision) w = (res, w')"
  shows "fst (meter w') \<le> fst (meter w) + 4 \<and> snd (meter w') \<le> snd (meter w) + 14 * second"
proof -
  define u where "u = (if IsGitHubURL (lib E) url \<and> \<not> hasSuffix (to_lower url) ''.git''
    then url @ ''.git'' else url)"
  obtain auth w1 where auth: "run_state (remoteListOptions E url) w = (auth, w1)"
    by (cases "run_state (remoteListOptions E url) w")
  have "keeps meter (remoteListOptions E url)"
    unfolding remoteListOptions_def by (intro frame_intro metered_calls(3) [OF assms(1)])
  then have w1: "meter w1 = meter w" using auth by (metis keepsD snd_conv)
  show ?thesis
    using assms(2) auth w1 list_refs_metered [OF assms(1), of u auth 0 3 w1]
    unfolding ResolveBranchToSHA_def u_def [symmetric]
    by (auto simp: second_def split: if_splits prod.splits sum.splits option.splits)
qed

end
