(* ===== verification/PipelineRun_Builder.thy ===== *)
theory PipelineRun_Builder
  imports Git_References
begin

text \<open>
  \<open>src/tekton/utils/pipeline_run_builder.go\<close>. A builder carries the PipelineRun under
  construction and the errors collected so far (\<open>multierror\<close>). Indexing the first letter of an
  empty Kind panics in Go: the builder then latches \<open>b_panicked\<close>, the one later step with an
  effect (\<open>WithPipelineRef\<close>) does nothing, and \<open>Build\<close> reports the panic.
\<close>

record PipelineRunBuilder =
  b_err :: "error list"
  b_pipelineRun :: PipelineRun
  b_panicked :: bool

definition NewPipelineRunBuilder :: "string \<Rightarrow> string \<Rightarrow> PipelineRunBuilder" where
  "NewPipelineRunBuilder namePrefix namespace =
     \<lparr>b_err = [], b_pipelineRun = new_PipelineRun (namePrefix @ ''-'') namespace,
      b_panicked = False\<rparr>"

definition Build :: "lib \<Rightarrow> PipelineRunBuilder \<Rightarrow> (PipelineRun \<times> error option) outcome" where
  "Build K b =
     (if b_panicked b then Panicked else Returned (b_pipelineRun b, ErrorOrNil K (b_err b)))"

abbreviation upd_run :: "(PipelineRun \<Rightarrow> PipelineRun) \<Rightarrow> PipelineRunBuilder \<Rightarrow> PipelineRunBuilder" where
  "upd_run \<equiv> b_pipelineRun_update"

abbreviation upd_meta :: "(object_meta \<Rightarrow> object_meta) \<Rightarrow> PipelineRunBuilder \<Rightarrow> PipelineRunBuilder" where
  "upd_meta f \<equiv> b_pipelineRun_update (pr_meta_update f)"

definition append_error :: "error \<Rightarrow> PipelineRunBuilder \<Rightarrow> PipelineRunBuilder" where
  "append_error e b = b\<lparr>b_err := b_err b @ [e]\<rparr>"

text \<open>Entries written over an existing (or fresh) map.\<close>

definition overlay :: "strmap \<Rightarrow> strmap \<Rightarrow> strmap" where
  "overlay old new =
     Some (\<lambda>k. case map_read new k of Some v \<Rightarrow> Some v | None \<Rightarrow> map_read old k)"

lemma map_read_overlay [simp]:
  "map_read (overlay old new) k =
     (case map_read new k of Some v \<Rightarrow> Some v | None \<Rightarrow> map_read old k)"
  by (simp add: overlay_def)

definition WithAnnotations :: "strmap \<Rightarrow> PipelineRunBuilder \<Rightarrow> PipelineRunBuilder" where
  "WithAnnotations annotations =
     upd_meta (\<lambda>m. m\<lparr>om_Annotations := overlay (om_Annotations m) annotations\<rparr>)"

definition WithLabels :: "strmap \<Rightarrow> PipelineRunBuilder \<Rightarrow> PipelineRunBuilder" where
  "WithLabels labels = upd_meta (\<lambda>m. m\<lparr>om_Labels := overlay (om_Labels m) labels\<rparr>)"

definition invalid_size :: "error \<Rightarrow> error" where
  "invalid_size e = plain_error (''invalid size format: '' @ e_msg e)"

definition WithEmptyDirVolume :: "lib \<Rightarrow> string \<Rightarrow> string \<Rightarrow> PipelineRunBuilder \<Rightarrow> PipelineRunBuilder" where
  "WithEmptyDirVolume K name sz b =
     (case ParseQuantity K sz of
        Inl err \<Rightarrow> append_error (invalid_size err) b
      | Inr q \<Rightarrow> upd_run (\<lambda>p. p\<lparr>pr_Workspaces := pr_Workspaces p @
          [\<lparr>ws_Name = name, ws_EmptyDir = Some q, ws_VolumeClaim = None\<rparr>]\<rparr>) b)"

definition WithWorkspaceFromVolumeTemplate ::
  "lib \<Rightarrow> string \<Rightarrow> string \<Rightarrow> PipelineRunBuilder \<Rightarrow> PipelineRunBuilder" where
  "WithWorkspaceFromVolumeTemplate K name sz b =
     (case ParseQuantity K sz of
        Inl err \<Rightarrow> append_error (invalid_size err) b
      | Inr q \<Rightarrow> upd_run (\<lambda>p. p\<lparr>pr_Workspaces := pr_Workspaces p @
          [\<lparr>ws_Name = name, ws_EmptyDir = None, ws_VolumeClaim = Some q\<rparr>]\<rparr>) b)"

definition WithFinalizer :: "lib \<Rightarrow> string \<Rightarrow> PipelineRunBuilder \<Rightarrow> PipelineRunBuilder" where
  "WithFinalizer K finalizer =
     upd_meta (\<lambda>m. m\<lparr>om_Finalizers := AddFinalizer K (om_Finalizers m) finalizer\<rparr>)"

definition WithParams :: "Param list \<Rightarrow> PipelineRunBuilder \<Rightarrow> PipelineRunBuilder" where
  "WithParams params = upd_run (\<lambda>p. p\<lparr>pr_Params := pr_Params p @ params\<rparr>)"

definition string_param :: "string \<Rightarrow> string \<Rightarrow> Param" where
  "string_param n v = \<lparr>p_Name = n, p_Value = v\<rparr>"

definition lower_first :: "string \<Rightarrow> string option" where
  "lower_first kind = (case kind of [] \<Rightarrow> None | c # cs \<Rightarrow> Some (lower_char c # cs))"

fun WithObjectReferences :: "object_meta list \<Rightarrow> PipelineRunBuilder \<Rightarrow> PipelineRunBuilder" where
  "WithObjectReferences [] b = b"
| "WithObjectReferences (obj # objects) b =
     (case lower_first (om_Kind obj) of
        None \<Rightarrow> b\<lparr>b_panicked := True\<rparr>
      | Some name \<Rightarrow>
          WithObjectReferences objects
            (WithParams [string_param name (om_Namespace obj @ ''/'' @ om_Name obj)] b))"

text \<open>
  An object here is its metadata, and its \<open>Spec\<close> field if the type has one: the result of
  marshalling it.
\<close>

fun WithObjectSpecsAsJson ::
  "(object_meta \<times> (error + string) option) list \<Rightarrow> PipelineRunBuilder \<Rightarrow> PipelineRunBuilder" where
  "WithObjectSpecsAsJson [] b = b"
| "WithObjectSpecsAsJson ((obj, spec) # objects) b =
     (case lower_first (om_Kind obj) of
        None \<Rightarrow> b\<lparr>b_panicked := True\<rparr>
      | Some name \<Rightarrow>
          WithObjectSpecsAsJson objects
            (case spec of
               None \<Rightarrow> append_error
                 (plain_error (''failed to extract spec for object: '' @ name)) b
             | Some (Inl err) \<Rightarrow> append_error
                 (plain_error (''failed to serialize spec of object '' @ name @ '' to JSON: '' @ e_msg err)) b
             | Some (Inr jsonData) \<Rightarrow> WithParams [string_param name jsonData] b))"

definition WithOwner :: "lib \<Rightarrow> object_meta \<Rightarrow> PipelineRunBuilder \<Rightarrow> PipelineRunBuilder" where
  "WithOwner K obj b =
     (case SetOwnerAnnotations K obj (pr_meta (b_pipelineRun b)) of (err, m) \<Rightarrow>
        let b' = upd_meta (\<lambda>_. m) b
        in (case err of None \<Rightarrow> b'
            | Some e \<Rightarrow> append_error
                (plain_error (''failed to set owner annotations: '' @ e_msg e)) b'))"

definition ref_params :: "Param list \<Rightarrow> string \<times> string \<times> string" where
  "ref_params ps = foldl (\<lambda>(url, revision, pathInRepo) param.
     if p_Name param = ''url'' then (p_Value param, revision, pathInRepo)
     else if p_Name param = ''revision'' then (url, p_Value param, pathInRepo)
     else if p_Name param = ''pathInRepo'' then (url, revision, p_Value param)
     else (url, revision, pathInRepo)) ([], [], []) ps"

text \<open>
  Whether a failed resolution falls back to the branch name: not on a rate limit, and not when
  GitHub rejects a configured token.
\<close>

definition canFallback :: "bool \<Rightarrow> bool \<Rightarrow> error \<Rightarrow> bool" where
  "canFallback github token err \<longleftrightarrow>
     \<not> (IsRateLimitError err \<or> (IsAuthenticationError err \<and> github \<and> token)) \<and>
     (IsAuthenticationError err \<or> contains (e_msg err) ''remote repository access failed'')"

definition WithPipelineRef ::
  "'w env \<Rightarrow> tekton_PipelineRef option \<Rightarrow> PipelineRunBuilder \<Rightarrow> ('w, PipelineRunBuilder) state" where
  "WithPipelineRef E pipelineRef b =
     (if b_panicked b then State_Monad.return b
      else let b1 = upd_run (\<lambda>p. p\<lparr>pr_PipelineRef := pipelineRef\<rparr>) b
      in (case pipelineRef of None \<Rightarrow> State_Monad.return b1
          | Some ref \<Rightarrow>
              if tr_Resolver ref \<noteq> ''git'' then State_Monad.return b1
              else (case ref_params (tr_Params ref) of (gitURL, revision, pathInRepo) \<Rightarrow>
                (case ValidateGitResolverConfig gitURL revision pathInRepo of
                   Some err \<Rightarrow>
                     State_Monad.return (append_error (wrap_error ''git resolution failed: '' err) b1)
                 | None \<Rightarrow> do {
                     res \<leftarrow> ResolveBranchToSHA E gitURL revision;
                     (case res of
                        Inr resolvedSHA \<Rightarrow> State_Monad.return (WithParams
                          [string_param ''taskGitUrl'' gitURL,
                           string_param ''taskGitRevision'' resolvedSHA] b1)
                      | Inl err \<Rightarrow> do {
                          token \<leftarrow>
                            (if \<not> IsRateLimitError err \<and> IsAuthenticationError err \<and>
                                IsGitHubURL (lib E) gitURL
                             then HasGitHubToken E else State_Monad.return False);
                          (if canFallback (IsGitHubURL (lib E) gitURL) token err
                           then State_Monad.return (WithParams
                             [string_param ''taskGitUrl'' gitURL,
                              string_param ''taskGitRevision'' revision] b1)
                           else State_Monad.return
                             (append_error (wrap_error ''git resolution failed: '' err) b1))
                        })
                   }))))"

definition WithServiceAccount :: "string \<Rightarrow> PipelineRunBuilder \<Rightarrow> PipelineRunBuilder" where
  "WithServiceAccount serviceAccount = upd_run (\<lambda>p. p\<lparr>pr_ServiceAccountName := serviceAccount\<rparr>)"

definition WithTaskRunSpecs :: "PipelineTaskRunSpec slice \<Rightarrow> PipelineRunBuilder \<Rightarrow> PipelineRunBuilder" where
  "WithTaskRunSpecs taskRunSpecs = upd_run (\<lambda>p. p\<lparr>pr_TaskRunSpecs := taskRunSpecs\<rparr>)"

definition WithTimeouts ::
  "TimeoutFields option \<Rightarrow> TimeoutFields option \<Rightarrow> PipelineRunBuilder \<Rightarrow> PipelineRunBuilder" where
  "WithTimeouts timeouts defaultTimeouts =
     upd_run (\<lambda>p. p\<lparr>pr_Timeouts :=
       (if timeouts = None \<or> timeouts = Some no_timeouts then defaultTimeouts else timeouts)\<rparr>)"

section \<open>The GitHub token stays with GitHub\<close>

text \<open>
  C34. Building a run for a pipeline whose URL is not an HTTPS URL of github.com neither reads the
  GitHub token nor sends credentials: the result, and every effect on the world, is the one of an
  environment in which variables have any other values and the remote is listed without
  credentials.
\<close>

theorem token_only_for_github:
  assumes "\<not> IsGitHubURL (lib E) (fst (ref_params (tr_Params ref)))"
  shows "WithPipelineRef (without_token vars E) (Some ref) b = WithPipelineRef E (Some ref) b"
proof -
  obtain url revision path where "ref_params (tr_Params ref) = (url, revision, path)"
    by (cases "ref_params (tr_Params ref)")
  with assms show ?thesis
    by (simp add: WithPipelineRef_def ResolveBranchToSHA_without_token Let_def
        cong del: sum.case_cong_weak option.case_cong_weak if_weak_cong)
qed

end
