(* ===== verification/Release_Phases.thy ===== *)
theory Release_Phases
  imports Release_Types
begin

text \<open>
  The abstract phase machine behind the conditions of a Release, and the proof that the
  \<open>Mark\<close> methods of \<open>release_types.go\<close> implement it for each of the five pipeline phases. The
  contract of a phase is the locale \<open>startable_phase\<close> (and \<open>pipeline_phase\<close> where the phase
  also has a success method); every locale below is interpreted on the methods of the source.
\<close>

section \<open>Abstract phases\<close>

datatype phase = Absent | InProgress | Succeeded | Skipped | Failed | Ended

text \<open>\<open>Ended\<close> is a false condition with a reason the service never writes.\<close>

fun finished :: "phase \<Rightarrow> bool" where
  "finished Absent = False"
| "finished InProgress = False"
| "finished _ = True"

fun phase_start :: "phase \<Rightarrow> phase" where
  "phase_start Absent = InProgress"
| "phase_start p = p"

fun phase_succeed :: "phase \<Rightarrow> phase" where
  "phase_succeed InProgress = Succeeded"
| "phase_succeed p = p"

fun phase_fail :: "phase \<Rightarrow> phase" where
  "phase_fail InProgress = Failed"
| "phase_fail p = p"

fun phase_skip :: "phase \<Rightarrow> phase" where
  "phase_skip Absent = Skipped"
| "phase_skip InProgress = Skipped"
| "phase_skip p = p"

text \<open>The transitions a phase can make, and what a run of them can reach.\<close>

inductive phase_step :: "phase \<Rightarrow> phase \<Rightarrow> bool" where
  start: "phase_step Absent InProgress"
| succeed: "phase_step InProgress Succeeded"
| fail: "phase_step InProgress Failed"
| skip: "\<not> finished p \<Longrightarrow> phase_step p Skipped"

inductive_cases phase_step_from: "phase_step p q"

lemma phase_step_finished: "phase_step p q \<Longrightarrow> \<not> finished p"
  by (auto elim: phase_step_from)

lemma phase_steps_finished: "phase_step\<^sup>*\<^sup>* p q \<Longrightarrow> finished p \<Longrightarrow> q = p"
  by (induction rule: rtranclp_induct) (auto dest: phase_step_finished)

lemma phase_op_steps:
  "phase_step\<^sup>*\<^sup>* p (phase_start p)" "phase_step\<^sup>*\<^sup>* p (phase_succeed p)"
  "phase_step\<^sup>*\<^sup>* p (phase_fail p)" "phase_step\<^sup>*\<^sup>* p (phase_skip p)"
  by (cases p; simp add: r_into_rtranclp phase_step.intros)+

lemma finished_ops [simp]:
  "finished p \<Longrightarrow> phase_start p = p" "finished p \<Longrightarrow> phase_succeed p = p"
  "finished p \<Longrightarrow> phase_fail p = p" "finished p \<Longrightarrow> phase_skip p = p"
  by (cases p; simp)+

section \<open>The phase a condition list shows\<close>

fun view_phase :: "(cstatus \<times> string) option \<Rightarrow> phase" where
  "view_phase None = Absent"
| "view_phase (Some (ConditionTrue, rs)) = (if rs = SkippedReason then Skipped else Succeeded)"
| "view_phase (Some (ConditionFalse, rs)) =
     (if rs = ProgressingReason then InProgress else if rs = FailedReason then Failed else Ended)"
| "view_phase (Some (ConditionUnknown, rs)) = Absent"

definition phase_of :: "conditions_lib \<Rightarrow> Release \<Rightarrow> string \<Rightarrow> phase" where
  "phase_of L r t = view_phase (cond_view L (Conditions (Status r)) t)"

lemma hasPhaseFinished_phase: "hasPhaseFinished L r t \<longleftrightarrow> finished (phase_of L r t)"
proof (cases "FindStatusCondition L (Conditions (Status r)) t")
  case (Some c)
  then show ?thesis
    by (cases "c_Status c") (auto simp: hasPhaseFinished_def phase_of_def cond_view_def)
qed (simp add: hasPhaseFinished_def phase_of_def cond_view_def)

lemma isPhaseProgressing_phase: "isPhaseProgressing L r t \<longleftrightarrow> phase_of L r t = InProgress"
proof (cases "FindStatusCondition L (Conditions (Status r)) t")
  case (Some c)
  then show ?thesis
    by (cases "c_Status c") (auto simp: isPhaseProgressing_def phase_of_def cond_view_def)
qed (simp add: isPhaseProgressing_def phase_of_def cond_view_def)

lemma isPhaseSkipped_phase: "isPhaseSkipped L r t \<longleftrightarrow> phase_of L r t = Skipped"
proof (cases "FindStatusCondition L (Conditions (Status r)) t")
  case (Some c)
  then show ?thesis
    by (cases "c_Status c") (auto simp: isPhaseSkipped_def phase_of_def cond_view_def)
qed (simp add: isPhaseSkipped_def phase_of_def cond_view_def)

lemma IsFailed_phase: "IsFailed L r \<longleftrightarrow> phase_of L r releasedConditionType = Failed"
proof (cases "FindStatusCondition L (Conditions (Status r)) releasedConditionType")
  case (Some c)
  then show ?thesis
    by (cases "c_Status c") (auto simp: IsFailed_def phase_of_def cond_view_def)
qed (simp add: IsFailed_def phase_of_def cond_view_def)

lemma any_phase_failed_phase:
  "any_phase_failed L r ts \<longleftrightarrow> (\<exists>t\<in>set ts. phase_of L r t = Failed)"
proof (induction ts)
  case (Cons t ts)
  show ?case
  proof (cases "FindStatusCondition L (Conditions (Status r)) t")
    case (Some c)
    with Cons show ?thesis
      by (cases "c_Status c") (auto simp: phase_of_def cond_view_def)
  qed (use Cons in \<open>simp add: phase_of_def cond_view_def\<close>)
qed simp

text \<open>Every phase query of the source is a question about \<open>phase_of\<close>.\<close>

lemmas phase_queries =
  HasFinalPipelineProcessingFinished_def
  IsFinalPipelineProcessing_def
  IsFinalPipelineSkipped_def
  HasManagedCollectorsPipelineProcessingFinished_def
  IsManagedCollectorsPipelineProcessing_def
  IsManagedCollectorsPipelineSkipped_def
  HasManagedPipelineProcessingFinished_def
  IsManagedPipelineProcessing_def
  IsManagedPipelineSkipped_def
  HasTenantCollectorsPipelineProcessingFinished_def
  IsTenantCollectorsPipelineProcessing_def
  IsTenantCollectorsPipelineSkipped_def
  HasTenantPipelineProcessingFinished_def
  IsTenantPipelineProcessing_def
  IsTenantPipelineSkipped_def
  HasReleaseFinished_def IsReleasing_def AreAllProcessingPhasesFinished_def
  HasPipelinePhaseFailed_def
  hasPhaseFinished_phase isPhaseProgressing_phase isPhaseSkipped_phase IsFailed_phase
  any_phase_failed_phase

text \<open>Updates of the status that leave the conditions alone leave every phase alone.\<close>

lemma phase_of_cong:
  "Conditions (Status r') = Conditions (Status r) \<Longrightarrow> phase_of L r' t = phase_of L r t"
  by (simp add: phase_of_def)

lemma attempts_set_cond [simp]:
  "ManagedPipelineAttempts (Status (set_cond L now t st rs r)) = ManagedPipelineAttempts (Status r)"
  "ManagedPipelineAttempts (Status (set_cond_msg L now t st rs msg r)) =
     ManagedPipelineAttempts (Status r)"
  by (simp_all add: set_cond_def set_cond_msg_def)

lemma conditions_upd_attempt [simp]:
  "Conditions (Status (upd_current_attempt f r)) = Conditions (Status r)"
  by (simp add: upd_current_attempt_def)

lemma attempts_upd_attempt [simp]:
  "ManagedPipelineAttempts (Status (upd_current_attempt f r)) =
     upd_last f (ManagedPipelineAttempts (Status r))"
  by (simp add: upd_current_attempt_def)

lemma phase_of_upd_attempt [simp]: "phase_of L (upd_current_attempt f r) t = phase_of L r t"
  by (rule phase_of_cong) simp

context conditions_api
begin

lemma phase_of_set_cond [simp]:
  "phase_of L (set_cond L now t st rs r) t' =
     (if t' = t then view_phase (Some (st, rs)) else phase_of L r t')"
  by (simp add: phase_of_def set_cond_def view_set)

lemma phase_of_set_cond_msg [simp]:
  "phase_of L (set_cond_msg L now t st rs msg r) t' =
     (if t' = t then view_phase (Some (st, rs)) else phase_of L r t')"
  by (simp add: phase_of_def set_cond_msg_def view_set_message)

lemma is_true_phase:
  "IsStatusConditionTrue L (Conditions (Status r)) t \<longleftrightarrow> phase_of L r t \<in> {Succeeded, Skipped}"
proof (cases "FindStatusCondition L (Conditions (Status r)) t")
  case (Some c)
  then show ?thesis
    by (cases "c_Status c") (auto simp: is_true phase_of_def cond_view_def)
qed (simp add: is_true phase_of_def cond_view_def)

lemma phase_of_no_status: "Conditions (Status r) = [] \<Longrightarrow> phase_of L r t = Absent"
  by (simp add: phase_of_def view_empty)

lemmas success_queries =
  IsFinalPipelineProcessedSuccessfully_def
  IsManagedCollectorsPipelineProcessedSuccessfully_def
  IsManagedPipelineProcessedSuccessfully_def
  IsTenantCollectorsPipelineProcessedSuccessfully_def
  IsTenantPipelineProcessedSuccessfully_def
  IsReleased_def IsValid_def is_true_phase

end

section \<open>The contract of a pipeline phase\<close>

locale startable_phase =
  fixes L :: conditions_lib
    and ct :: string
    and isProcessing hasFinished :: "Release \<Rightarrow> bool"
    and markProcessing markSkipped :: "time \<Rightarrow> mark"
    and markFailed :: "time \<Rightarrow> string \<Rightarrow> mark"
  assumes processing: "isProcessing r \<longleftrightarrow> phase_of L r ct = InProgress"
    and has_finished: "hasFinished r \<longleftrightarrow> finished (phase_of L r ct)"
    and start_phase: "phase_of L (fst (markProcessing now r)) t =
      (if t = ct then phase_start (phase_of L r ct) else phase_of L r t)"
    and skip_phase: "phase_of L (fst (markSkipped now r)) t =
      (if t = ct then phase_skip (phase_of L r ct) else phase_of L r t)"
    and fail_phase: "phase_of L (fst (markFailed now msg r)) t =
      (if t = ct then phase_fail (phase_of L r ct) else phase_of L r t)"
    and start_attempts: "ManagedPipelineAttempts (Status (fst (markProcessing now r))) =
      ManagedPipelineAttempts (Status r)"
    and skip_attempts: "ManagedPipelineAttempts (Status (fst (markSkipped now r))) =
      ManagedPipelineAttempts (Status r)"
    and fail_attempts: "ManagedPipelineAttempts (Status (fst (markFailed now msg r))) =
      ManagedPipelineAttempts (Status r)"
    and start_finished: "hasFinished r \<Longrightarrow> markProcessing now r = (r, [])"
    and skip_finished: "hasFinished r \<Longrightarrow> markSkipped now r = (r, [])"
    and fail_inert: "\<not> isProcessing r \<Longrightarrow> markFailed now msg r = (r, [])"
begin

lemma failed_in_one_step:
  "\<not> hasFinished r \<Longrightarrow>
   phase_of L (fst (markFailed now' msg (fst (markProcessing now r)))) ct = Failed"
  by (cases "phase_of L r ct") (simp_all add: fail_phase start_phase has_finished)

lemma finished_is_final:
  assumes "hasFinished r"
  shows "markProcessing now r = (r, [])" "markSkipped now r = (r, [])"
    "markFailed now msg r = (r, [])"
  using assms by (simp_all add: start_finished skip_finished)
    (rule fail_inert, auto simp: has_finished processing)

end

locale pipeline_phase = startable_phase +
  fixes markProcessed :: "time \<Rightarrow> mark"
  assumes succeed_phase: "phase_of L (fst (markProcessed now r)) t =
      (if t = ct then phase_succeed (phase_of L r ct) else phase_of L r t)"
    and succeed_attempts: "ManagedPipelineAttempts (Status (fst (markProcessed now r))) =
      ManagedPipelineAttempts (Status r)"
    and succeed_inert: "\<not> isProcessing r \<Longrightarrow> markProcessed now r = (r, [])"
begin

text \<open>Any interleaving of the four methods is a run of the abstract machine.\<close>

lemma methods_run:
  assumes "m \<in> {markProcessing now, markProcessed now, markSkipped now, markFailed now msg}"
  shows "phase_step\<^sup>*\<^sup>* (phase_of L r ct) (phase_of L (fst (m r)) ct)"
  using assms phase_op_steps [of "phase_of L r ct"]
  by (auto simp: start_phase succeed_phase skip_phase fail_phase)

lemma run_of_methods:
  assumes "\<And>m. m \<in> set ms \<Longrightarrow>
    \<exists>now msg. m \<in> {markProcessing now, markProcessed now, markSkipped now, markFailed now msg}"
  shows "phase_step\<^sup>*\<^sup>* (phase_of L r ct) (phase_of L (fold (\<lambda>m r. fst (m r)) ms r) ct)"
  using assms
proof (induction ms arbitrary: r)
  case (Cons m ms)
  then have "phase_step\<^sup>*\<^sup>* (phase_of L r ct) (phase_of L (fst (m r)) ct)"
    using methods_run by (metis list.set_intros(1))
  also have "phase_step\<^sup>*\<^sup>* (phase_of L (fst (m r)) ct) (phase_of L (fold (\<lambda>m r. fst (m r)) ms (fst (m r))) ct)"
    using Cons by simp
  finally show ?case by simp
qed simp

end

section \<open>The methods of the source meet the contract\<close>

named_theorems mark_defs \<open>definitions of the status methods\<close>

declare
  MarkFinalPipelineProcessed_def [mark_defs]
  MarkFinalPipelineProcessing_def [mark_defs]
  MarkFinalPipelineProcessingFailed_def [mark_defs]
  MarkFinalPipelineProcessingSkipped_def [mark_defs]
  MarkManagedCollectorsPipelineProcessed_def [mark_defs]
  MarkManagedCollectorsPipelineProcessing_def [mark_defs]
  MarkManagedCollectorsPipelineProcessingFailed_def [mark_defs]
  MarkManagedCollectorsPipelineProcessingSkipped_def [mark_defs]
  MarkManagedPipelineProcessing_def [mark_defs]
  MarkManagedPipelineProcessingFailed_def [mark_defs]
  MarkManagedPipelineProcessingSkipped_def [mark_defs]
  MarkTenantCollectorsPipelineProcessed_def [mark_defs]
  MarkTenantCollectorsPipelineProcessing_def [mark_defs]
  MarkTenantCollectorsPipelineProcessingFailed_def [mark_defs]
  MarkTenantCollectorsPipelineProcessingSkipped_def [mark_defs]
  MarkTenantPipelineProcessed_def [mark_defs]
  MarkTenantPipelineProcessing_def [mark_defs]
  MarkTenantPipelineProcessingFailed_def [mark_defs]
  MarkTenantPipelineProcessingSkipped_def [mark_defs]
  MarkCurrentManagedPipelineAttemptProcessed_def [mark_defs]
  MarkCurrentManagedPipelineAttemptProcessing_def [mark_defs]
  MarkCurrentManagedPipelineAttemptFailed_def [mark_defs]
  MarkCurrentManagedPipelineAttemptRetryDisabled_def [mark_defs]
  MarkReleased_def [mark_defs]
  MarkReleasing_def [mark_defs]
  MarkReleaseFailed_def [mark_defs]
  MarkValidated_def [mark_defs]
  MarkValidationFailed_def [mark_defs]

sublocale conditions_api \<subseteq> managed: startable_phase L managedProcessedConditionType
  "IsManagedPipelineProcessing L" "HasManagedPipelineProcessingFinished L"
  "MarkManagedPipelineProcessing L" "MarkManagedPipelineProcessingSkipped L"
  "MarkManagedPipelineProcessingFailed L"
proof unfold_locales
  fix now r t
  show "phase_of L (fst (MarkManagedPipelineProcessing L now r)) t =
      (if t = managedProcessedConditionType then phase_start (phase_of L r managedProcessedConditionType)
       else phase_of L r t)"
    by (cases "phase_of L r managedProcessedConditionType")
       (auto simp: mark_defs phase_queries phase_of_def set_cond_def view_set Let_def)
next
  fix now r t
  show "phase_of L (fst (MarkManagedPipelineProcessingSkipped L now r)) t =
      (if t = managedProcessedConditionType then phase_skip (phase_of L r managedProcessedConditionType)
       else phase_of L r t)"
    by (cases "phase_of L r managedProcessedConditionType") (auto simp: mark_defs phase_queries)
next
  fix now msg r t
  show "phase_of L (fst (MarkManagedPipelineProcessingFailed L now msg r)) t =
      (if t = managedProcessedConditionType then phase_fail (phase_of L r managedProcessedConditionType)
       else phase_of L r t)"
    by (cases "phase_of L r managedProcessedConditionType")
       (auto simp: mark_defs phase_queries phase_of_def set_cond_msg_def view_set_message Let_def)
qed (auto simp: mark_defs phase_queries Let_def)

sublocale conditions_api \<subseteq> tenantCollectors: pipeline_phase L tenantCollectorsProcessedConditionType
  "IsTenantCollectorsPipelineProcessing L" "HasTenantCollectorsPipelineProcessingFinished L"
  "MarkTenantCollectorsPipelineProcessing L" "MarkTenantCollectorsPipelineProcessingSkipped L"
  "MarkTenantCollectorsPipelineProcessingFailed L" "MarkTenantCollectorsPipelineProcessed L"
proof unfold_locales
  fix now r t
  show "phase_of L (fst (MarkTenantCollectorsPipelineProcessing L now r)) t =
      (if t = tenantCollectorsProcessedConditionType then phase_start (phase_of L r tenantCollectorsProcessedConditionType) else phase_of L r t)"
    by (cases "phase_of L r tenantCollectorsProcessedConditionType")
       (auto simp: mark_defs phase_queries phase_of_def set_cond_def view_set Let_def)
next
  fix now r t
  show "phase_of L (fst (MarkTenantCollectorsPipelineProcessingSkipped L now r)) t =
      (if t = tenantCollectorsProcessedConditionType then phase_skip (phase_of L r tenantCollectorsProcessedConditionType) else phase_of L r t)"
    by (cases "phase_of L r tenantCollectorsProcessedConditionType") (auto simp: mark_defs phase_queries)
next
  fix now msg r t
  show "phase_of L (fst (MarkTenantCollectorsPipelineProcessingFailed L now msg r)) t =
      (if t = tenantCollectorsProcessedConditionType then phase_fail (phase_of L r tenantCollectorsProcessedConditionType) else phase_of L r t)"
    by (cases "phase_of L r tenantCollectorsProcessedConditionType")
       (auto simp: mark_defs phase_queries phase_of_def set_cond_msg_def view_set_message Let_def)
next
  fix now r t
  show "phase_of L (fst (MarkTenantCollectorsPipelineProcessed L now r)) t =
      (if t = tenantCollectorsProcessedConditionType then phase_succeed (phase_of L r tenantCollectorsProcessedConditionType) else phase_of L r t)"
    by (cases "phase_of L r tenantCollectorsProcessedConditionType")
       (auto simp: mark_defs phase_queries phase_of_def set_cond_def view_set Let_def)
qed (auto simp: mark_defs phase_queries Let_def)

sublocale conditions_api \<subseteq> managedCollectors: pipeline_phase L managedCollectorsProcessedConditionType
  "IsManagedCollectorsPipelineProcessing L" "HasManagedCollectorsPipelineProcessingFinished L"
  "MarkManagedCollectorsPipelineProcessing L" "MarkManagedCollectorsPipelineProcessingSkipped L"
  "MarkManagedCollectorsPipelineProcessingFailed L" "MarkManagedCollectorsPipelineProcessed L"
proof unfold_locales
  fix now r t
  show "phase_of L (fst (MarkManagedCollectorsPipelineProcessing L now r)) t =
      (if t = managedCollectorsProcessedConditionType then phase_start (phase_of L r managedCollectorsProcessedConditionType) else phase_of L r t)"
    by (cases "phase_of L r managedCollectorsProcessedConditionType")
       (auto simp: mark_defs phase_queries phase_of_def set_cond_def view_set Let_def)
next
  fix now r t
  show "phase_of L (fst (MarkManagedCollectorsPipelineProcessingSkipped L now r)) t =
      (if t = managedCollectorsProcessedConditionType then phase_skip (phase_of L r managedCollectorsProcessedConditionType) else phase_of L r t)"
    by (cases "phase_of L r managedCollectorsProcessedConditionType") (auto simp: mark_defs phase_queries)
next
  fix now msg r t
  show "phase_of L (fst (MarkManagedCollectorsPipelineProcessingFailed L now msg r)) t =
      (if t = managedCollectorsProcessedConditionType then phase_fail (phase_of L r managedCollectorsProcessedConditionType) else phase_of L r t)"
    by (cases "phase_of L r managedCollectorsProcessedConditionType")
       (auto simp: mark_defs phase_queries phase_of_def set_cond_msg_def view_set_message Let_def)
next
  fix now r t
  show "phase_of L (fst (MarkManagedCollectorsPipelineProcessed L now r)) t =
      (if t = managedCollectorsProcessedConditionType then phase_succeed (phase_of L r managedCollectorsProcessedConditionType) else phase_of L r t)"
    by (cases "phase_of L r managedCollectorsProcessedConditionType")
       (auto simp: mark_defs phase_queries phase_of_def set_cond_def view_set Let_def)
qed (auto simp: mark_defs phase_queries Let_def)

sublocale conditions_api \<subseteq> tenant: pipeline_phase L tenantProcessedConditionType
  "IsTenantPipelineProcessing L" "HasTenantPipelineProcessingFinished L"
  "MarkTenantPipelineProcessing L" "MarkTenantPipelineProcessingSkipped L"
  "MarkTenantPipelineProcessingFailed L" "MarkTenantPipelineProcessed L"
proof unfold_locales
  fix now r t
  show "phase_of L (fst (MarkTenantPipelineProcessing L now r)) t =
      (if t = tenantProcessedConditionType then phase_start (phase_of L r tenantProcessedConditionType) else phase_of L r t)"
    by (cases "phase_of L r tenantProcessedConditionType")
       (auto simp: mark_defs phase_queries phase_of_def set_cond_def view_set Let_def)
next
  fix now r t
  show "phase_of L (fst (MarkTenantPipelineProcessingSkipped L now r)) t =
      (if t = tenantProcessedConditionType then phase_skip (phase_of L r tenantProcessedConditionType) else phase_of L r t)"
    by (cases "phase_of L r tenantProcessedConditionType") (auto simp: mark_defs phase_queries)
next
  fix now msg r t
  show "phase_of L (fst (MarkTenantPipelineProcessingFailed L now msg r)) t =
      (if t = tenantProcessedConditionType then phase_fail (phase_of L r tenantProcessedConditionType) else phase_of L r t)"
    by (cases "phase_of L r tenantProcessedConditionType")
       (auto simp: mark_defs phase_queries phase_of_def set_cond_msg_def view_set_message Let_def)
next
  fix now r t
  show "phase_of L (fst (MarkTenantPipelineProcessed L now r)) t =
      (if t = tenantProcessedConditionType then phase_succeed (phase_of L r tenantProcessedConditionType) else phase_of L r t)"
    by (cases "phase_of L r tenantProcessedConditionType")
       (auto simp: mark_defs phase_queries phase_of_def set_cond_def view_set Let_def)
qed (auto simp: mark_defs phase_queries Let_def)

sublocale conditions_api \<subseteq> final: pipeline_phase L finalProcessedConditionType
  "IsFinalPipelineProcessing L" "HasFinalPipelineProcessingFinished L"
  "MarkFinalPipelineProcessing L" "MarkFinalPipelineProcessingSkipped L"
  "MarkFinalPipelineProcessingFailed L" "MarkFinalPipelineProcessed L"
proof unfold_locales
  fix now r t
  show "phase_of L (fst (MarkFinalPipelineProcessing L now r)) t =
      (if t = finalProcessedConditionType then phase_start (phase_of L r finalProcessedConditionType) else phase_of L r t)"
    by (cases "phase_of L r finalProcessedConditionType")
       (auto simp: mark_defs phase_queries phase_of_def set_cond_def view_set Let_def)
next
  fix now r t
  show "phase_of L (fst (MarkFinalPipelineProcessingSkipped L now r)) t =
      (if t = finalProcessedConditionType then phase_skip (phase_of L r finalProcessedConditionType) else phase_of L r t)"
    by (cases "phase_of L r finalProcessedConditionType") (auto simp: mark_defs phase_queries)
next
  fix now msg r t
  show "phase_of L (fst (MarkFinalPipelineProcessingFailed L now msg r)) t =
      (if t = finalProcessedConditionType then phase_fail (phase_of L r finalProcessedConditionType) else phase_of L r t)"
    by (cases "phase_of L r finalProcessedConditionType")
       (auto simp: mark_defs phase_queries phase_of_def set_cond_msg_def view_set_message Let_def)
next
  fix now r t
  show "phase_of L (fst (MarkFinalPipelineProcessed L now r)) t =
      (if t = finalProcessedConditionType then phase_succeed (phase_of L r finalProcessedConditionType) else phase_of L r t)"
    by (cases "phase_of L r finalProcessedConditionType")
       (auto simp: mark_defs phase_queries phase_of_def set_cond_def view_set Let_def)
qed (auto simp: mark_defs phase_queries Let_def)

section \<open>The methods of the Release, of its validation and of the managed attempts\<close>

context conditions_api
begin

lemma release_marks:
  "phase_of L (fst (MarkReleasing L now msg r)) t =
     (if t = releasedConditionType then phase_start (phase_of L r t) else phase_of L r t)"
  "phase_of L (fst (MarkReleased L now r)) t =
     (if t = releasedConditionType then phase_succeed (phase_of L r t) else phase_of L r t)"
  "phase_of L (fst (MarkReleaseFailed L now msg r)) t =
     (if t = releasedConditionType then phase_fail (phase_of L r t) else phase_of L r t)"
  by (cases "phase_of L r releasedConditionType";
      auto simp: mark_defs phase_queries Let_def phase_of_def set_cond_def set_cond_msg_def
        view_set view_set_message)+

lemma validation_marks:
  "phase_of L (fst (MarkValidated L now r)) t =
     (if t = validatedConditionType \<and> \<not> IsValid L r then Succeeded else phase_of L r t)"
  "phase_of L (fst (MarkValidationFailed L now msg r)) t =
     (if t = validatedConditionType then Failed else phase_of L r t)"
  by (auto simp: mark_defs Let_def phase_of_def set_cond_def set_cond_msg_def view_set view_set_message)

text \<open>
  An attempt that fails leaves the managed phase in progress, so that it can be retried; a
  successful one ends it.
\<close>

lemma attempt_marks:
  "phase_of L (fst (MarkCurrentManagedPipelineAttemptFailed L now msg reason task step n r)) t =
     phase_of L r t"
  "phase_of L (fst (MarkCurrentManagedPipelineAttemptRetryDisabled reason r)) t = phase_of L r t"
  "phase_of L (fst (MarkCurrentManagedPipelineAttemptProcessed L now r)) t =
     (if t = managedProcessedConditionType \<and> \<not> IsCurrentManagedPipelineAttemptDone r \<and>
         ManagedPipelineAttempts (Status r) \<noteq> []
      then phase_succeed (phase_of L r t) else phase_of L r t)"
  "\<lbrakk>\<not> finished (phase_of L r managedProcessedConditionType); ManagedPipelineAttempts (Status r) \<noteq> []\<rbrakk>
   \<Longrightarrow> phase_of L (fst (MarkCurrentManagedPipelineAttemptProcessing L now r)) t =
     (if t = managedProcessedConditionType then phase_start (phase_of L r t) else phase_of L r t)"
  by (cases "phase_of L r managedProcessedConditionType";
      auto simp: mark_defs phase_queries success_queries Let_def phase_of_def set_cond_def view_set
        GetCurrentManagedPipelineAttempt_def upd_current_attempt_def split: if_splits)+

end

section \<open>The methods of each phase\<close>

text \<open>
  The status methods of a Release that move one of its five phases, by the condition type the
  phase is recorded under.
\<close>

definition phase_methods :: "conditions_lib \<Rightarrow> string \<Rightarrow> time \<Rightarrow> string \<Rightarrow> mark list" where
  "phase_methods L t now msg =
     (if t = tenantCollectorsProcessedConditionType then
        [MarkTenantCollectorsPipelineProcessing L now, MarkTenantCollectorsPipelineProcessed L now,
         MarkTenantCollectorsPipelineProcessingSkipped L now,
         MarkTenantCollectorsPipelineProcessingFailed L now msg]
      else if t = managedCollectorsProcessedConditionType then
        [MarkManagedCollectorsPipelineProcessing L now, MarkManagedCollectorsPipelineProcessed L now,
         MarkManagedCollectorsPipelineProcessingSkipped L now,
         MarkManagedCollectorsPipelineProcessingFailed L now msg]
      else if t = tenantProcessedConditionType then
        [MarkTenantPipelineProcessing L now, MarkTenantPipelineProcessed L now,
         MarkTenantPipelineProcessingSkipped L now, MarkTenantPipelineProcessingFailed L now msg]
      else if t = managedProcessedConditionType then
        [MarkManagedPipelineProcessing L now, MarkCurrentManagedPipelineAttemptProcessed L now,
         MarkManagedPipelineProcessingSkipped L now, MarkManagedPipelineProcessingFailed L now msg]
      else if t = finalProcessedConditionType then
        [MarkFinalPipelineProcessing L now, MarkFinalPipelineProcessed L now,
         MarkFinalPipelineProcessingSkipped L now, MarkFinalPipelineProcessingFailed L now msg]
      else [])"

context conditions_api
begin

lemma managed_success_inert:
  "finished (phase_of L r managedProcessedConditionType) \<Longrightarrow>
   MarkCurrentManagedPipelineAttemptProcessed L now r = (r, [])"
  by (simp add: MarkCurrentManagedPipelineAttemptProcessed_def phase_queries)

lemma methods_inert:
  assumes "finished (phase_of L r t)" "m \<in> set (phase_methods L t now msg)"
  shows "m r = (r, [])"
proof -
  have "\<not> phase_of L r t = InProgress" using assms(1) by auto
  with assms show ?thesis
    by (auto simp: phase_methods_def managed_success_inert
        tenantCollectors.finished_is_final tenantCollectors.succeed_inert tenantCollectors.has_finished
        tenantCollectors.processing managedCollectors.finished_is_final managedCollectors.succeed_inert
        managedCollectors.has_finished managedCollectors.processing tenant.finished_is_final
        tenant.succeed_inert tenant.has_finished tenant.processing managed.finished_is_final
        managed.has_finished final.finished_is_final final.succeed_inert final.has_finished
        final.processing split: if_splits)
qed

lemma methods_phase:
  assumes "m \<in> set (phase_methods L t now msg)"
  shows "phase_step\<^sup>*\<^sup>* (phase_of L r t) (phase_of L (fst (m r)) t)"
    and "t' \<noteq> t \<Longrightarrow> phase_of L (fst (m r)) t' = phase_of L r t'"
  using assms
  by (auto simp: phase_methods_def tenantCollectors.start_phase tenantCollectors.skip_phase
      tenantCollectors.fail_phase tenantCollectors.succeed_phase managedCollectors.start_phase
      managedCollectors.skip_phase managedCollectors.fail_phase managedCollectors.succeed_phase
      tenant.start_phase tenant.skip_phase tenant.fail_phase tenant.succeed_phase managed.start_phase
      managed.skip_phase managed.fail_phase attempt_marks(3) final.start_phase final.skip_phase
      final.fail_phase final.succeed_phase phase_op_steps split: if_splits)

end

end
