(* ===== verification/KubeArchive.thy ===== *)
theory KubeArchive
  imports Git_References
begin

text \<open>
  \<open>src/kubearchive/client.go\<close>: the fallback that reads a resource from the archive when it is gone
  from the cluster. The object is a Snapshot, the only kind the service asks for; a call answers
  the decoded object, or \<open>None\<close> when it leaves the object alone, with the error. The logger calls
  are left out. \<open>strconv.ParseInt\<close> and \<open>url.QueryEscape\<close> are written out.
\<close>

record gvr =
  gvr_Group :: string
  gvr_Version :: string
  gvr_Resource :: string

section \<open>Library functions\<close>

text \<open>
  \<open>strconv.ParseInt(s, 10, 64)\<close> with its error ignored: 0 for text that is not a number, and the
  nearest bound for a number that does not fit.
\<close>

definition is_digit :: "char \<Rightarrow> bool" where
  "is_digit c \<longleftrightarrow> (of_char c :: nat) \<in> {48..57}"

definition digits_value :: "string \<Rightarrow> int" where
  "digits_value s = foldl (\<lambda>n c. 10 * n + (of_char c - 48)) 0 s"

definition parse_int64 :: "string \<Rightarrow> int" where
  "parse_int64 s =
     (let neg = (s \<noteq> [] \<and> hd s = CHR ''-'');
          ds = (if s \<noteq> [] \<and> (hd s = CHR ''-'' \<or> hd s = CHR ''+'') then tl s else s)
      in if ds = [] \<or> \<not> list_all is_digit ds then 0
         else if neg then max (- (2 ^ 63)) (- digits_value ds)
         else min (2 ^ 63 - 1) (digits_value ds))"

text \<open>\<open>url.QueryEscape\<close>: a space becomes a plus sign, reserved bytes become \<open>%XX\<close>.\<close>

definition unreserved :: "char \<Rightarrow> bool" where
  "unreserved c \<longleftrightarrow> (let n = (of_char c :: nat) in
     n \<in> {48..57} \<or> n \<in> {65..90} \<or> n \<in> {97..122}) \<or> c \<in> set ''-_.~''"

definition hex_digit :: "nat \<Rightarrow> char" where
  "hex_digit d = (if d < 10 then char_of (48 + d) else char_of (55 + d))"

definition QueryEscape :: "string \<Rightarrow> string" where
  "QueryEscape s = concat (map (\<lambda>c. if unreserved c then [c] else if c = CHR '' '' then ''+''
     else CHR ''%'' # (let n = (of_char c :: nat) in [hex_digit (n div 16), hex_digit (n mod 16)])) s)"

section \<open>client.go\<close>

definition apiURLConfigMapName :: string where
  "apiURLConfigMapName = ''kubearchive-api-url''"

definition kaNamespace :: string where
  "kaNamespace = ''product-kubearchive''"

definition kaServiceName :: string where
  "kaServiceName = ''kubearchive-api-server''"

definition kaServicePort :: nat where
  "kaServicePort = 8081"

definition serviceCAConfigMapName :: string where
  "serviceCAConfigMapName = ''openshift-service-ca.crt''"

definition serviceCAConfigMapKey :: string where
  "serviceCAConfigMapKey = ''service-ca.crt''"

definition truncate :: "string \<Rightarrow> nat \<Rightarrow> string" where
  "truncate s maxLen = (if length s \<le> maxLen then s else take maxLen s @ ''...'')"

definition buildAPIPath :: "gvr \<Rightarrow> string \<Rightarrow> string \<Rightarrow> string" where
  "buildAPIPath g namespace name =
     (if gvr_Group g = []
      then ''/api/'' @ gvr_Version g @ ''/namespaces/'' @ namespace @ ''/'' @ gvr_Resource g @ ''/'' @ name
      else ''/apis/'' @ gvr_Group g @ ''/'' @ gvr_Version g @ ''/namespaces/'' @ namespace @ ''/'' @
        gvr_Resource g @ ''/'' @ name)"

definition buildListAPIPath :: "gvr \<Rightarrow> string \<Rightarrow> string" where
  "buildListAPIPath g namespace =
     (if gvr_Group g = []
      then ''/api/'' @ gvr_Version g @ ''/namespaces/'' @ namespace @ ''/'' @ gvr_Resource g
      else ''/apis/'' @ gvr_Group g @ ''/'' @ gvr_Version g @ ''/namespaces/'' @ namespace @ ''/'' @
        gvr_Resource g)"

definition doGet :: "'w env \<Rightarrow> string \<Rightarrow> string \<Rightarrow> ('w, error + (string \<times> int)) state" where
  "doGet E ca url =
     (case NewRequest (lib E) url of
        Some e \<Rightarrow> State_Monad.return (Inl (wrap_error ''building kubearchive request: '' e))
      | None \<Rightarrow> do {
          resp \<leftarrow> HttpDo E ca url;
          (case resp of
             Inl e \<Rightarrow> State_Monad.return
               (Inl (wrap_error (''kubearchive request to '' @ url @ '' failed: '') e))
           | Inr (statusCode, body) \<Rightarrow>
               (case body of
                  Inl e \<Rightarrow> State_Monad.return (Inl (wrap_error ''reading kubearchive response: '' e))
                | Inr b \<Rightarrow> State_Monad.return (Inr (b, statusCode))))
        })"

text \<open>
  The loop over the raw items: the best item so far with its resource version, which starts at -1.
\<close>

fun best_item ::
  "(string \<Rightarrow> (string \<times> string) option) \<Rightarrow> string \<Rightarrow> string option \<Rightarrow> int \<Rightarrow> string list \<Rightarrow> string option" where
  "best_item meta name bestRaw bestRV [] = bestRaw"
| "best_item meta name bestRaw bestRV (item # rest) =
     (case meta item of
        None \<Rightarrow> best_item meta name bestRaw bestRV rest
      | Some (n, resourceVersion) \<Rightarrow>
          if n \<noteq> name then best_item meta name bestRaw bestRV rest
          else let rv = parse_int64 resourceVersion
            in if rv > bestRV then best_item meta name (Some item) rv rest
               else best_item meta name bestRaw bestRV rest)"

definition getFromList ::
  "'w env \<Rightarrow> string \<Rightarrow> string \<Rightarrow> gvr \<Rightarrow> string \<Rightarrow> string \<Rightarrow> ('w, Snapshot option \<times> error option) state" where
  "getFromList E ca apiURL g namespace name =
     (let listURL = apiURL @ buildListAPIPath g namespace @ ''?fieldSelector='' @
        QueryEscape (''metadata.name='' @ name)
      in do {
        res \<leftarrow> doGet E ca listURL;
        (case res of
           Inl e \<Rightarrow> State_Monad.return (None, Some e)
         | Inr (body, statusCode) \<Rightarrow>
             if statusCode \<noteq> 200
             then State_Monad.return (None, Some (plain_error
               (''kubearchive list returned HTTP '' @ show_int statusCode @ '' for '' @ listURL @ '': '' @
                truncate body 200)))
             else (case DecodeItems (lib E) body of
                 Inl e \<Rightarrow> State_Monad.return
                   (None, Some (wrap_error ''parsing kubearchive list response: '' e))
               | Inr raws \<Rightarrow>
                   (case best_item (DecodeMeta (lib E)) name None (-1) raws of
                      None \<Rightarrow> State_Monad.return
                        (None, Some (NewNotFound (lib E) (gvr_Group g) (gvr_Resource g) name))
                    | Some raw \<Rightarrow> State_Monad.return
                        (Some (fst (DecodeSnapshot (lib E) raw)), snd (DecodeSnapshot (lib E) raw)))))
      })"

definition discoverAPIURL :: "'w env \<Rightarrow> ('w, error + string) state" where
  "discoverAPIURL E = do {
     (cm, err) \<leftarrow> api_GetConfigMap E apiURLConfigMapName kaNamespace;
     (case err of
        Some e \<Rightarrow> State_Monad.return (Inl (wrap_error
          (''ConfigMap '' @ Quote (lib E) apiURLConfigMapName @ '' not found in namespace '' @
           Quote (lib E) kaNamespace @ '': '') e))
      | None \<Rightarrow> State_Monad.return (Inr
          (''https://'' @ kaServiceName @ ''.'' @ kaNamespace @ ''.svc.cluster.local:'' @
           show_nat kaServicePort)))
   }"

definition loadServiceCA :: "'w env \<Rightarrow> ('w, error + string) state" where
  "loadServiceCA E = do {
     (cm, err) \<leftarrow> api_GetConfigMap E serviceCAConfigMapName kaNamespace;
     (case err of
        Some e \<Rightarrow> State_Monad.return (Inl (wrap_error
          (''ConfigMap '' @ Quote (lib E) serviceCAConfigMapName @ '' not found in namespace '' @
           Quote (lib E) kaNamespace @ '': '') e))
      | None \<Rightarrow>
          if map_index cm serviceCAConfigMapKey = []
          then State_Monad.return (Inl (plain_error
            (''ConfigMap '' @ Quote (lib E) serviceCAConfigMapName @ '' in namespace '' @
             Quote (lib E) kaNamespace @ '' has no '' @ Quote (lib E) serviceCAConfigMapKey @ '' key'')))
          else State_Monad.return (Inr (map_index cm serviceCAConfigMapKey)))
   }"

text \<open>The client it builds is determined by the CA bundle it trusts.\<close>

definition newHTTPClient :: "'w env \<Rightarrow> ('w, error + string) state" where
  "newHTTPClient E = do {
     ca \<leftarrow> loadServiceCA E;
     (case ca of
        Inl e \<Rightarrow> State_Monad.return (Inl (wrap_error ''loading service-serving CA: '' e))
      | Inr caData \<Rightarrow> do {
          cfg \<leftarrow> InClusterConfig E;
          (case cfg of
             Some e \<Rightarrow> State_Monad.return (Inl (wrap_error ''loading in-cluster config: '' e))
           | None \<Rightarrow>
               if \<not> AppendCertsFromPEM (lib E) caData
               then State_Monad.return (Inl (plain_error ''failed to parse service-serving CA bundle''))
               else do {
                 transport \<leftarrow> TransportFor E caData;
                 (case transport of
                    Some e \<Rightarrow> State_Monad.return (Inl (wrap_error ''building transport: '' e))
                  | None \<Rightarrow> State_Monad.return (Inr caData))
               })
        })
   }"

definition kubearchive_Get ::
  "'w env \<Rightarrow> gvr \<Rightarrow> string \<Rightarrow> string \<Rightarrow> ('w, Snapshot option \<times> error option) state" where
  "kubearchive_Get E g namespace name = do {
     api \<leftarrow> discoverAPIURL E;
     (case api of
        Inl e \<Rightarrow> State_Monad.return (None, Some e)
      | Inr apiURL \<Rightarrow> do {
          httpClient \<leftarrow> newHTTPClient E;
          (case httpClient of
             Inl e \<Rightarrow> State_Monad.return (None, Some e)
           | Inr ca \<Rightarrow> do {
               res \<leftarrow> doGet E ca (apiURL @ buildAPIPath g namespace name);
               (case res of
                  Inl e \<Rightarrow> State_Monad.return (None, Some e)
                | Inr (body, statusCode) \<Rightarrow>
                    if statusCode = 200
                    then State_Monad.return
                      (Some (fst (DecodeSnapshot (lib E) body)), snd (DecodeSnapshot (lib E) body))
                    else if statusCode = 404
                    then State_Monad.return
                      (None, Some (NewNotFound (lib E) (gvr_Group g) (gvr_Resource g) name))
                    else if statusCode = 500 \<and> contains body ''more than one resource found''
                    then getFromList E ca apiURL g namespace name
                    else State_Monad.return (None, Some (plain_error
                      (''kubearchive returned HTTP '' @ show_int statusCode @ '' for '' @ namespace @
                       ''/'' @ name @ '': '' @ truncate body 200))))
             })
        })
   }"

section \<open>Which archived version is chosen\<close>

definition archived_version ::
  "(string \<Rightarrow> (string \<times> string) option) \<Rightarrow> string \<Rightarrow> string \<Rightarrow> int option" where
  "archived_version meta name item =
     (case meta item of None \<Rightarrow> None
      | Some (n, rv) \<Rightarrow> if n = name then Some (parse_int64 rv) else None)"

lemma best_item_step:
  "best_item meta name b v (item # rest) =
     (case archived_version meta name item of
        Some rv \<Rightarrow> if v < rv then best_item meta name (Some item) rv rest else best_item meta name b v rest
      | None \<Rightarrow> best_item meta name b v rest)"
  by (auto simp: archived_version_def Let_def split: option.splits)

definition versions_below ::
  "(string \<Rightarrow> (string \<times> string) option) \<Rightarrow> string \<Rightarrow> int \<Rightarrow> string list \<Rightarrow> bool" where
  "versions_below meta name v xs \<longleftrightarrow>
     list_all (\<lambda>x. case archived_version meta name x of None \<Rightarrow> True | Some rv \<Rightarrow> rv \<le> v) xs"

lemma best_item_spec:
  "best_item meta name b v xs = b \<and> versions_below meta name v xs \<or>
   (\<exists>x rv. best_item meta name b v xs = Some x \<and> x \<in> set xs \<and> archived_version meta name x = Some rv \<and>
      v < rv \<and> versions_below meta name rv xs)"
proof (induction xs arbitrary: b v)
  case (Cons y ys)
  show ?case
  proof (cases "\<exists>rv. archived_version meta name y = Some rv \<and> v < rv")
    case True
    then obtain rv where rv: "archived_version meta name y = Some rv" "v < rv" by blast
    then show ?thesis
      using Cons.IH [of "Some y" rv]
      by (auto simp: best_item_step versions_below_def simp del: best_item.simps)
  next
    case False
    then have "versions_below meta name v [y]"
      and "best_item meta name b v (y # ys) = best_item meta name b v ys"
      by (auto simp: best_item_step versions_below_def simp del: best_item.simps split: option.splits)
    then show ?thesis
      using Cons.IH [of b v] by (auto simp: versions_below_def split: option.splits)
  qed
qed (simp add: versions_below_def)

text \<open>
  C39. When the archive holds several versions, the one returned is decoded from an item of the
  requested name whose resource version is the highest, and the answer is NotFound exactly when no
  item of that name has a version; items that cannot be parsed never shadow the others.
\<close>

theorem getFromList_newest:
  assumes "run_state (doGet E ca (apiURL @ buildListAPIPath g namespace @ ''?fieldSelector='' @
      QueryEscape (''metadata.name='' @ name))) w = (Inr (body, 200), w')"
    and "DecodeItems (lib E) body = Inr raws"
  shows "run_state (getFromList E ca apiURL g namespace name) w =
      ((None, Some (NewNotFound (lib E) (gvr_Group g) (gvr_Resource g) name)), w') \<and>
      versions_below (DecodeMeta (lib E)) name (-1) raws \<or>
    (\<exists>raw rv. run_state (getFromList E ca apiURL g namespace name) w =
       ((Some (fst (DecodeSnapshot (lib E) raw)), snd (DecodeSnapshot (lib E) raw)), w') \<and>
       raw \<in> set raws \<and> archived_version (DecodeMeta (lib E)) name raw = Some rv \<and> 0 \<le> rv \<and>
       versions_below (DecodeMeta (lib E)) name rv raws)"
proof -
  let ?best = "best_item (DecodeMeta (lib E)) name None (-1) raws"
  have run: "run_state (getFromList E ca apiURL g namespace name) w =
      ((case ?best of None \<Rightarrow> (None, Some (NewNotFound (lib E) (gvr_Group g) (gvr_Resource g) name))
        | Some raw \<Rightarrow> (Some (fst (DecodeSnapshot (lib E) raw)), snd (DecodeSnapshot (lib E) raw))), w')"
    unfolding getFromList_def Let_def using assms by (simp split: option.split)
  show ?thesis
    using best_item_spec [of "DecodeMeta (lib E)" name None "-1" raws] unfolding run
    by (cases ?best) auto
qed

end
