(* ===== verification/Loader.thy ===== *)
theory Loader
  imports PipelineRun_Builder Release_Phases KubeArchive
begin

text \<open>
  \<open>src/loader/loader.go\<close>: how the service finds the resources of a Release. A Go function that
  returns a non-nil object together with its error is modelled by a pair; one whose object is nil
  on error by a sum. The listing calls of the client are given the namespace, the indexed field
  and the labels the source passes.
\<close>

section \<open>ReleasePlans and ReleasePlanAdmissions\<close>

definition GetApplication :: "'w env \<Rightarrow> ReleasePlan \<Rightarrow> ('w, Application_obj \<times> error option) state" where
  "GetApplication E releasePlan =
     api_GetApplication E (Application (rp_Spec releasePlan)) (om_Namespace (rp_meta releasePlan))"

definition GetEnterpriseContractPolicy ::
  "'w env \<Rightarrow> ReleasePlanAdmission \<Rightarrow> ('w, EnterpriseContractPolicy \<times> error option) state" where
  "GetEnterpriseContractPolicy E rpa =
     api_GetEnterpriseContractPolicy E (Policy (rpa_Spec rpa)) (om_Namespace (rpa_meta rpa))"

definition GetRelease :: "'w env \<Rightarrow> string \<Rightarrow> string \<Rightarrow> ('w, Release \<times> error option) state" where
  "GetRelease E name namespace = api_GetRelease E name namespace"

definition GetReleasePlan :: "'w env \<Rightarrow> Release \<Rightarrow> ('w, ReleasePlan \<times> error option) state" where
  "GetReleasePlan E r =
     api_GetReleasePlan E (ReleasePlan (Spec r)) (om_Namespace (rel_meta r))"

definition GetReleaseServiceConfig ::
  "'w env \<Rightarrow> string \<Rightarrow> string \<Rightarrow> ('w, ReleaseServiceConfig \<times> error option) state" where
  "GetReleaseServiceConfig E name namespace = api_GetReleaseServiceConfig E name namespace"

text \<open>The search loop: the only admission that matches, or the error of the loop.\<close>

definition no_rpa_error :: "ReleasePlan \<Rightarrow> error" where
  "no_rpa_error rp = plain_error (''no ReleasePlanAdmission found in namespace ('' @
     Target (rp_Spec rp) @ '') with the origin ('' @ om_Namespace (rp_meta rp) @ '') for '' @
     [CHR 0x27] @ GetGroupName rp @ [CHR 0x27])"

definition multiple_rpa_error :: "ReleasePlan \<Rightarrow> error" where
  "multiple_rpa_error rp = plain_error (''multiple ReleasePlanAdmissions found in namespace ('' @
     Target (rp_Spec rp) @ '') with the origin ('' @ om_Namespace (rp_meta rp) @ '') for '' @
     [CHR 0x27] @ GetGroupName rp @ [CHR 0x27])"

fun unique_match ::
  "ReleasePlan \<Rightarrow> ReleasePlanAdmission option \<Rightarrow> ReleasePlanAdmission list \<Rightarrow>
   error + ReleasePlanAdmission" where
  "unique_match rp found [] =
     (case found of None \<Rightarrow> Inl (no_rpa_error rp) | Some rpa \<Rightarrow> Inr rpa)"
| "unique_match rp found (rpa # rpas) =
     (if \<not> MatchesReleasePlan rpa rp then unique_match rp found rpas
      else if found \<noteq> None then Inl (multiple_rpa_error rp)
      else unique_match rp (Some rpa) rpas)"

definition GetMatchingReleasePlanAdmission ::
  "'w env \<Rightarrow> ReleasePlan \<Rightarrow> ('w, error + ReleasePlanAdmission) state" where
  "GetMatchingReleasePlanAdmission E rp =
     (let designated = map_index (om_Labels (rp_meta rp)) ReleasePlanAdmissionLabel
      in if designated \<noteq> [] then do {
           (rpa, err) \<leftarrow> api_GetReleasePlanAdmission E designated (Target (rp_Spec rp));
           (case err of
              Some e \<Rightarrow> State_Monad.return (Inl e)
            | None \<Rightarrow>
                if Origin (rpa_Spec rpa) \<noteq> om_Namespace (rp_meta rp)
                then State_Monad.return (Inl (plain_error (''releasePlan ('' @ om_Name (rp_meta rp) @
                  '') targets releasePlanAdmission ('' @ designated @ '') by label, but the Origin'' @
                  '' of the releasePlanAdmission ('' @ Origin (rpa_Spec rpa) @
                  '') does not match the namespace of the releasePlan ('' @
                  om_Namespace (rp_meta rp) @ '')'')))
                else State_Monad.return (Inr rpa))
         }
         else if Target (rp_Spec rp) = []
         then State_Monad.return
           (Inl (plain_error ''releasePlan has no target, so no ReleasePlanAdmissions can be found''))
         else do {
           res \<leftarrow> api_ListReleasePlanAdmissions E (Target (rp_Spec rp)) (om_Namespace (rp_meta rp));
           (case res of
              Inl e \<Rightarrow> State_Monad.return (Inl e)
            | Inr rpas \<Rightarrow> State_Monad.return (unique_match rp None rpas))
         })"

definition GetActiveReleasePlanAdmission ::
  "'w env \<Rightarrow> ReleasePlan \<Rightarrow> ('w, error + ReleasePlanAdmission) state" where
  "GetActiveReleasePlanAdmission E rp = do {
     res \<leftarrow> GetMatchingReleasePlanAdmission E rp;
     (case res of
        Inl e \<Rightarrow> State_Monad.return (Inl e)
      | Inr rpa \<Rightarrow>
          (case map_read (om_Labels (rpa_meta rpa)) BlockReleasesLabel of
             Some labelValue \<Rightarrow>
               if labelValue = ''true''
               then State_Monad.return (Inl (plain_error (''found ReleasePlanAdmission '' @ [CHR 0x27] @
                 om_Name (rpa_meta rpa) @ [CHR 0x27] @ '' with block-releases label set to true'')))
               else State_Monad.return (Inr rpa)
           | None \<Rightarrow> State_Monad.return (Inr rpa)))
   }"

definition GetActiveReleasePlanAdmissionFromRelease ::
  "'w env \<Rightarrow> Release \<Rightarrow> ('w, error + ReleasePlanAdmission) state" where
  "GetActiveReleasePlanAdmissionFromRelease E r = do {
     (rp, err) \<leftarrow> GetReleasePlan E r;
     (case err of
        Some e \<Rightarrow> State_Monad.return (Inl e)
      | None \<Rightarrow> GetActiveReleasePlanAdmission E rp)
   }"

text \<open>The removal loop runs from the last index down and deletes in place.\<close>

definition remove_at :: "nat \<Rightarrow> 'a list \<Rightarrow> 'a list" where
  "remove_at i xs = take i xs @ drop (Suc i) xs"

fun prune :: "ReleasePlanAdmission \<Rightarrow> nat \<Rightarrow> ReleasePlan list \<Rightarrow> ReleasePlan list" where
  "prune rpa 0 rps = rps"
| "prune rpa (Suc i) rps =
     (if \<not> MatchesReleasePlan rpa (rps ! i) then prune rpa i (remove_at i rps)
      else (case map_read (om_Labels (rp_meta (rps ! i))) ReleasePlanAdmissionLabel of
          Some labelValue \<Rightarrow>
            if labelValue \<noteq> om_Name (rpa_meta rpa) then prune rpa i (remove_at i rps)
            else prune rpa i rps
        | None \<Rightarrow> prune rpa i rps))"

definition GetMatchingReleasePlans ::
  "'w env \<Rightarrow> ReleasePlanAdmission \<Rightarrow> ('w, error + ReleasePlan list) state" where
  "GetMatchingReleasePlans E rpa =
     (if Origin (rpa_Spec rpa) = []
      then State_Monad.return
        (Inl (plain_error ''releasePlanAdmission has no origin, so no ReleasePlans can be found''))
      else do {
        res \<leftarrow> api_ListReleasePlans E (Origin (rpa_Spec rpa)) (om_Namespace (rpa_meta rpa))
          (Some (om_Name (rpa_meta rpa)));
        (case res of
           Inl e \<Rightarrow> State_Monad.return (Inl e)
         | Inr labelled \<Rightarrow> do {
             res' \<leftarrow> (if length labelled = 0
               then api_ListReleasePlans E (Origin (rpa_Spec rpa)) (om_Namespace (rpa_meta rpa)) None
               else State_Monad.return (Inr labelled));
             (case res' of
                Inl e \<Rightarrow> State_Monad.return (Inl e)
              | Inr rps \<Rightarrow> State_Monad.return (Inr (prune rpa (length rps) rps)))
           })
      })"

section \<open>Releases\<close>

fun previous_loop :: "conditions_lib \<Rightarrow> Release \<Rightarrow> Release option \<Rightarrow> Release list \<Rightarrow> Release option" where
  "previous_loop L r previous [] = previous"
| "previous_loop L r previous (c # cs) =
     (if om_Name (rel_meta c) = om_Name (rel_meta r) \<or>
         om_CreationTimestamp (rel_meta c) > om_CreationTimestamp (rel_meta r)
      then previous_loop L r previous cs
      else if IsFailed L c then previous_loop L r previous cs
      else if Snapshot (Spec c) = Snapshot (Spec r) then previous_loop L r previous cs
      else (case previous of
          None \<Rightarrow> previous_loop L r (Some c) cs
        | Some p \<Rightarrow>
            if om_CreationTimestamp (rel_meta c) > om_CreationTimestamp (rel_meta p)
            then previous_loop L r (Some c) cs
            else previous_loop L r previous cs))"

definition GetPreviousRelease :: "'w env \<Rightarrow> Release \<Rightarrow> ('w, error + Release) state" where
  "GetPreviousRelease E r = do {
     res \<leftarrow> api_ListReleases E (om_Namespace (rel_meta r)) (ReleasePlan (Spec r));
     (case res of
        Inl e \<Rightarrow> State_Monad.return (Inl e)
      | Inr releases \<Rightarrow>
          (case previous_loop (lib_cond (lib E)) r None releases of
             None \<Rightarrow> State_Monad.return (Inl (NewNotFound (lib E) ''appstudio.redhat.com''
               (om_Kind (rel_meta r)) (om_Name (rel_meta r))))
           | Some p \<Rightarrow> State_Monad.return (Inr p)))
   }"

section \<open>RoleBindings and PipelineRuns\<close>

definition invalid_ref_error :: "lib \<Rightarrow> string \<Rightarrow> error" where
  "invalid_ref_error K ref = sentinel_error ErrInvalidRoleBindingRef
     (''pipelineInfo doesn'' @ [CHR 0x27] @ ''t contain a valid reference to a RoleBinding: '' @
      Quote K ref)"

definition get_role_binding :: "'w env \<Rightarrow> string \<Rightarrow> ('w, error + RoleBinding) state" where
  "get_role_binding E ref =
     (case split_on (CHR ''/'') ref of
        [namespace, name] \<Rightarrow> do {
          (rb, err) \<leftarrow> api_GetRoleBinding E name namespace;
          (case err of
             Some e \<Rightarrow> State_Monad.return (Inl e)
           | None \<Rightarrow> State_Monad.return (Inr rb))
        }
      | _ \<Rightarrow> State_Monad.return (Inl (invalid_ref_error (lib E) ref)))"

definition GetRoleBindingFromReleaseStatusPipelineInfo ::
  "'w env \<Rightarrow> PipelineInfo \<Rightarrow> string \<Rightarrow> ('w, error + RoleBinding) state" where
  "GetRoleBindingFromReleaseStatusPipelineInfo E pipelineInfo roleBindingType =
     (if roleBindingType = ''tenant''
      then get_role_binding E (TenantRoleBinding (pi_RoleBindings pipelineInfo))
      else if roleBindingType = ''managed''
      then get_role_binding E (ManagedRoleBinding (pi_RoleBindings pipelineInfo))
      else if roleBindingType = ''secret''
      then get_role_binding E (SecretRoleBinding (pi_RoleBindings pipelineInfo))
      else State_Monad.return (Inl (plain_error
        (''invalid role binding type ('' @ [CHR 0x27] @ roleBindingType @ [CHR 0x27] @ '')''))))"

definition GetRoleBindingFromPipelineAttempt ::
  "'w env \<Rightarrow> PipelineAttempt option \<Rightarrow> ('w, RoleBinding option \<times> error option) state" where
  "GetRoleBindingFromPipelineAttempt E attempt =
     (case attempt of None \<Rightarrow> State_Monad.return (None, None)
      | Some a \<Rightarrow>
          if TenantRoleBinding (pa_RoleBindings a) = [] then State_Monad.return (None, None)
          else do {
            res \<leftarrow> get_role_binding E (TenantRoleBinding (pa_RoleBindings a));
            (case res of
               Inl e \<Rightarrow> State_Monad.return (None, Some e)
             | Inr rb \<Rightarrow> State_Monad.return (Some rb, None))
          })"

definition first_run ::
  "error + PipelineRun list \<Rightarrow> PipelineRun option \<times> error option" where
  "first_run res =
     (case res of Inl e \<Rightarrow> (None, Some e)
      | Inr [] \<Rightarrow> (None, None)
      | Inr (p # _) \<Rightarrow> (Some p, None))"

definition run_labels :: "Release \<Rightarrow> PipelineType \<Rightarrow> (string \<rightharpoonup> string)" where
  "run_labels r pipelineType =
     [ReleaseNameLabel \<mapsto> om_Name (rel_meta r),
      ReleaseNamespaceLabel \<mapsto> om_Namespace (rel_meta r),
      PipelinesTypeLabel \<mapsto> PipelineType_String pipelineType]"

text \<open>The pipeline types are the five of the enumeration, so its error branch cannot be taken.\<close>

definition GetReleasePipelineRun ::
  "'w env \<Rightarrow> Release \<Rightarrow> PipelineType \<Rightarrow> ('w, PipelineRun option \<times> error option) state" where
  "GetReleasePipelineRun E r pipelineType = do {
     res \<leftarrow> api_ListPipelineRuns E (run_labels r pipelineType) 1;
     State_Monad.return (first_run res)
   }"

definition GetReleasePipelineRunAttempt ::
  "'w env \<Rightarrow> Release \<Rightarrow> int \<Rightarrow> ('w, PipelineRun option \<times> error option) state" where
  "GetReleasePipelineRunAttempt E r attempt =
     (if attempt < 0
      then State_Monad.return
        (None, Some (plain_error (''invalid attempt index: '' @ show_int attempt)))
      else do {
        res \<leftarrow> api_ListPipelineRuns E
          ((run_labels r ManagedPipelineType)(ReleaseAttemptLabel \<mapsto> show_int attempt)) 1;
        State_Monad.return (first_run res)
      })"

section \<open>Snapshots and the resources of a managed run\<close>

definition GetSnapshot :: "'w env \<Rightarrow> Release \<Rightarrow> ('w, Snapshot \<times> error option) state" where
  "GetSnapshot E r = do {
     (snapshot, err) \<leftarrow> api_GetSnapshot E (Snapshot (Spec r)) (om_Namespace (rel_meta r));
     (case err of
        Some e \<Rightarrow>
          if IsNotFound e then do {
            (archived, kaErr) \<leftarrow> kubearchive_Get E
              \<lparr>gvr_Group = ''appstudio.redhat.com'', gvr_Version = ''v1alpha1'', gvr_Resource = ''snapshots''\<rparr>
              (om_Namespace (rel_meta r)) (Snapshot (Spec r));
            State_Monad.return
              (case archived of Some s \<Rightarrow> s | None \<Rightarrow> snapshot, if kaErr = None then None else err)
          }
          else State_Monad.return (snapshot, err)
      | None \<Rightarrow> State_Monad.return (snapshot, None))
   }"

record ProcessingResources =
  res_EnterpriseContractPolicy :: EnterpriseContractPolicy
  res_ReleasePlan :: ReleasePlan
  res_ReleasePlanAdmission :: ReleasePlanAdmission
  res_Snapshot :: Snapshot

text \<open>On error the callers discard the partly filled struct, so the model returns the error alone.\<close>

definition GetProcessingResources :: "'w env \<Rightarrow> Release \<Rightarrow> ('w, error + ProcessingResources) state" where
  "GetProcessingResources E r = do {
     (rp, err) \<leftarrow> GetReleasePlan E r;
     (case err of Some e \<Rightarrow> State_Monad.return (Inl e)
      | None \<Rightarrow> do {
          res \<leftarrow> GetActiveReleasePlanAdmissionFromRelease E r;
          (case res of Inl e \<Rightarrow> State_Monad.return (Inl e)
           | Inr rpa \<Rightarrow> do {
               (ecp, err) \<leftarrow> GetEnterpriseContractPolicy E rpa;
               (case err of Some e \<Rightarrow> State_Monad.return (Inl e)
                | None \<Rightarrow> do {
                    (snapshot, err) \<leftarrow> GetSnapshot E r;
                    (case err of Some e \<Rightarrow> State_Monad.return (Inl e)
                     | None \<Rightarrow> State_Monad.return (Inr
                         \<lparr>res_EnterpriseContractPolicy = ecp, res_ReleasePlan = rp,
                          res_ReleasePlanAdmission = rpa, res_Snapshot = snapshot\<rparr>))
                  })
             })
        })
   }"

section \<open>What the searches return\<close>

lemma unique_match_found:
  "unique_match rp (Some rpa) rpas =
     (if \<exists>x\<in>set rpas. MatchesReleasePlan x rp then Inl (multiple_rpa_error rp) else Inr rpa)"
  by (induction rpas) auto

lemma unique_match_filter:
  "unique_match rp None rpas =
     (case filter (\<lambda>x. MatchesReleasePlan x rp) rpas of
        [] \<Rightarrow> Inl (no_rpa_error rp) | [rpa] \<Rightarrow> Inr rpa | _ \<Rightarrow> Inl (multiple_rpa_error rp))"
proof (induction rpas)
  case (Cons x rpas)
  show ?case
  proof (cases "MatchesReleasePlan x rp")
    case True
    then show ?thesis
      using unique_match_found [of rp x rpas]
      by (auto simp: filter_empty_conv split: list.splits)
  qed (use Cons in simp)
qed simp

text \<open>
  Without a designating label, \<open>GetMatchingReleasePlanAdmission\<close> succeeds exactly when one
  admission of the target namespace matches, and returns that one: none and several are errors,
  and so is a ReleasePlan without target.
\<close>

lemma GetMatchingReleasePlanAdmission_unique:
  assumes "map_index (om_Labels (rp_meta rp)) ReleasePlanAdmissionLabel = []"
    and "run_state (api_ListReleasePlanAdmissions E (Target (rp_Spec rp)) (om_Namespace (rp_meta rp))) w
      = (Inr rpas, w')"
  shows "(\<exists>w''. run_state (GetMatchingReleasePlanAdmission E rp) w = (Inr rpa, w'')) \<longleftrightarrow>
    Target (rp_Spec rp) \<noteq> [] \<and> filter (\<lambda>x. MatchesReleasePlan x rp) rpas = [rpa]"
  using assms
  by (auto simp: GetMatchingReleasePlanAdmission_def unique_match_filter split: list.splits)

text \<open>A blocked admission is never active.\<close>

lemma GetActive_not_blocked:
  "run_state (GetActiveReleasePlanAdmission E rp) w = (Inr rpa, w') \<Longrightarrow>
   map_read (om_Labels (rpa_meta rpa)) BlockReleasesLabel \<noteq> Some ''true''"
  by (auto simp: GetActiveReleasePlanAdmission_def
      split: prod.splits sum.splits option.splits if_splits)

lemma GetActive_matching:
  "run_state (GetActiveReleasePlanAdmission E rp) w = (Inr rpa, w') \<Longrightarrow>
   run_state (GetMatchingReleasePlanAdmission E rp) w = (Inr rpa, w')"
  by (auto simp: GetActiveReleasePlanAdmission_def
      split: prod.splits sum.splits option.splits if_splits)

section \<open>The removal loop is a filter\<close>

definition plan_kept :: "ReleasePlanAdmission \<Rightarrow> ReleasePlan \<Rightarrow> bool" where
  "plan_kept rpa rp \<longleftrightarrow> MatchesReleasePlan rpa rp \<and>
     (case map_read (om_Labels (rp_meta rp)) ReleasePlanAdmissionLabel of
        None \<Rightarrow> True | Some labelValue \<Rightarrow> labelValue = om_Name (rpa_meta rpa))"

lemma prune_step:
  "prune rpa (Suc i) rps = prune rpa i (if plan_kept rpa (rps ! i) then rps else remove_at i rps)"
  by (auto simp: plan_kept_def split: option.splits)

lemma prune_prefix:
  "i \<le> length rps \<Longrightarrow> prune rpa i rps = filter (plan_kept rpa) (take i rps) @ drop i rps"
proof (induction i arbitrary: rps)
  case (Suc i)
  then have i: "i < length rps" by simp
  let ?rps = "if plan_kept rpa (rps ! i) then rps else remove_at i rps"
  have "prune rpa (Suc i) rps = prune rpa i ?rps" by (rule prune_step)
  also have "\<dots> = filter (plan_kept rpa) (take i ?rps) @ drop i ?rps"
    using i by (intro Suc.IH) (auto simp: remove_at_def)
  also have "take i ?rps = take i rps" using i by (simp add: remove_at_def)
  also have "drop i ?rps = (if plan_kept rpa (rps ! i) then [rps ! i] else []) @ drop (Suc i) rps"
    using i by (simp add: remove_at_def Cons_nth_drop_Suc)
  finally show ?case using i by (simp add: take_Suc_conv_app_nth)
qed simp

text \<open>
  The backward loop of \<open>GetMatchingReleasePlans\<close>, which deletes elements of the slice in
  place while indexing it, keeps exactly the ReleasePlans that match the admission and carry no
  label for another one, in their original order.
\<close>

lemma prune_filter:
  "prune rpa (length rps) rps = filter (plan_kept rpa) rps"
  by (simp add: prune_prefix)

section \<open>The previous Release\<close>

definition previous_candidate :: "conditions_lib \<Rightarrow> Release \<Rightarrow> Release \<Rightarrow> bool" where
  "previous_candidate L r c \<longleftrightarrow>
     om_Name (rel_meta c) \<noteq> om_Name (rel_meta r) \<and>
     om_CreationTimestamp (rel_meta c) \<le> om_CreationTimestamp (rel_meta r) \<and>
     \<not> IsFailed L c \<and> Snapshot (Spec c) \<noteq> Snapshot (Spec r)"

definition newest_of :: "Release set \<Rightarrow> Release option \<Rightarrow> bool" where
  "newest_of S p =
     (case p of None \<Rightarrow> S = {}
      | Some q \<Rightarrow> q \<in> S \<and>
          (\<forall>c\<in>S. om_CreationTimestamp (rel_meta c) \<le> om_CreationTimestamp (rel_meta q)))"

lemma previous_loop_skip:
  "\<not> previous_candidate L r c \<Longrightarrow> previous_loop L r p (c # cs) = previous_loop L r p cs"
  by (auto simp: previous_candidate_def)

lemma previous_loop_take:
  "previous_candidate L r c \<Longrightarrow> previous_loop L r p (c # cs) =
     previous_loop L r
       (case p of None \<Rightarrow> Some c
        | Some q \<Rightarrow> if om_CreationTimestamp (rel_meta c) > om_CreationTimestamp (rel_meta q)
                   then Some c else p) cs"
  by (auto simp: previous_candidate_def split: option.splits)

lemma previous_loop_newest:
  "newest_of S p \<Longrightarrow>
   newest_of (S \<union> {c \<in> set cs. previous_candidate L r c}) (previous_loop L r p cs)"
proof (induction cs arbitrary: S p)
  case (Cons c cs)
  show ?case
  proof (cases "previous_candidate L r c")
    case True
    let ?p = "case p of None \<Rightarrow> Some c
        | Some q \<Rightarrow> if om_CreationTimestamp (rel_meta c) > om_CreationTimestamp (rel_meta q)
                   then Some c else p"
    have "newest_of (insert c S) ?p"
      using Cons.prems by (auto simp: newest_of_def split: option.splits if_splits)
    from Cons.IH [OF this] have
      "newest_of (insert c S \<union> {d \<in> set cs. previous_candidate L r d}) (previous_loop L r p (c # cs))"
      unfolding previous_loop_take [OF True] .
    moreover have "insert c S \<union> {d \<in> set cs. previous_candidate L r d} =
      S \<union> {d \<in> set (c # cs). previous_candidate L r d}" using True by auto
    ultimately show ?thesis by simp
  next
    case False
    then have "{d \<in> set (c # cs). previous_candidate L r d} = {d \<in> set cs. previous_candidate L r d}"
      by auto
    then show ?thesis
      using Cons.IH [OF Cons.prems] unfolding previous_loop_skip [OF False] by simp
  qed
qed simp

text \<open>
  \<open>GetPreviousRelease\<close> returns a newest Release among those of the same plan that have
  another name and another snapshot, did not fail and were not created later; it is a NotFound
  error exactly when there is none.
\<close>

lemma GetPreviousRelease_newest:
  assumes "run_state (api_ListReleases E (om_Namespace (rel_meta r)) (ReleasePlan (Spec r))) w =
    (Inr releases, w')"
  shows "case run_state (GetPreviousRelease E r) w of
      (Inr p, w'') \<Rightarrow> w'' = w' \<and>
        newest_of {c \<in> set releases. previous_candidate (lib_cond (lib E)) r c} (Some p)
    | (Inl e, w'') \<Rightarrow> w'' = w' \<and> {c \<in> set releases. previous_candidate (lib_cond (lib E)) r c} = {} \<and>
        e = NewNotFound (lib E) ''appstudio.redhat.com'' (om_Kind (rel_meta r)) (om_Name (rel_meta r))"
proof -
  have "newest_of {c \<in> set releases. previous_candidate (lib_cond (lib E)) r c}
      (previous_loop (lib_cond (lib E)) r None releases)"
    using previous_loop_newest [of "{}" None releases] by (simp add: newest_of_def)
  then show ?thesis
    using assms by (auto simp: GetPreviousRelease_def newest_of_def split: option.splits)
qed

section \<open>References stored in the status are found again\<close>

lemma get_namespaced_binding:
  assumes "CHR ''/'' \<notin> set ns" "CHR ''/'' \<notin> set name"
    and "run_state (api_GetRoleBinding E name ns) w = ((rb, err), w')"
  shows "run_state (get_role_binding E (namespaced ns name)) w =
    (case err of None \<Rightarrow> Inr rb | Some e \<Rightarrow> Inl e, w')"
  using assms by (simp add: get_role_binding_def split_namespaced split: option.splits)

end
