(* ===== verification/Adapter_State.thy ===== *)
theory Adapter_State
  imports Loader
begin

text \<open>
  The state of the Release adapter (\<open>type adapter\<close> of \<open>src/controllers/release/adapter.go\<close>) and
  the vocabulary its operations are written in: reading through the loader, marking the Release,
  patching it, and the results an operation hands to the toolkit's reconcile loop. The metrics
  goroutines and the tracing spans an operation starts are recorded in the state.
\<close>

section \<open>State\<close>

datatype span =
    TimingSpans PipelineRun
  | ReleaseValidationFailureWait string string string strmap time time string

record 'w adapter =
  release :: Release
  releaseServiceConfig :: "ReleaseServiceConfig option"
  spawned :: "metric list"
  spans :: "span list"
  world :: 'w

definition newAdapter :: "Release \<Rightarrow> 'w \<Rightarrow> 'w adapter" where
  "newAdapter r w = \<lparr>release = r, releaseServiceConfig = None, spawned = [], spans = [], world = w\<rparr>"

section \<open>Operation results of the toolkit\<close>

text \<open>
  The constructors of \<open>operator-toolkit/controller\<close> the source calls, with their argument; a Go
  panic that reaches the operation's caller is \<open>OperationPanic\<close>.
\<close>

datatype operation_result =
    ContinueProcessing
  | StopProcessing
  | Requeue
  | RequeueWithError error
  | RequeueOnErrorOrContinue "error option"
  | RequeueOnErrorOrStop "error option"
  | OperationPanic

text \<open>The results after which the toolkit calls the next operation.\<close>

fun goes_on :: "operation_result \<Rightarrow> bool" where
  "goes_on ContinueProcessing = True"
| "goes_on (RequeueOnErrorOrContinue None) = True"
| "goes_on _ = False"

section \<open>Steps of an operation\<close>

definition load :: "('w, 'a) state \<Rightarrow> ('w adapter, 'a) state" where
  "load m = State (\<lambda>s. case run_state m (world s) of (a, w) \<Rightarrow> (a, s\<lparr>world := w\<rparr>))"

text \<open>Continue with the value of a call, or handle its error.\<close>

definition attempt ::
  "('s, error + 'a) state \<Rightarrow> (error \<Rightarrow> ('s, 'b) state) \<Rightarrow> ('a \<Rightarrow> ('s, 'b) state) \<Rightarrow> ('s, 'b) state" where
  "attempt m h k = do { res \<leftarrow> m; (case res of Inl e \<Rightarrow> h e | Inr a \<Rightarrow> k a) }"

abbreviation requeue :: "error \<Rightarrow> ('s, operation_result) state" where
  "requeue e \<equiv> State_Monad.return (RequeueWithError e)"

text \<open>Continue unless the call panicked.\<close>

definition unless_panic ::
  "('s, 'a outcome) state \<Rightarrow> ('s, 'b) state \<Rightarrow> ('a \<Rightarrow> ('s, 'b) state) \<Rightarrow> ('s, 'b) state" where
  "unless_panic m p k = do { o1 \<leftarrow> m; (case o1 of Panicked \<Rightarrow> p | Returned a \<Rightarrow> k a) }"

definition mark :: "'w env \<Rightarrow> (time \<Rightarrow> mark) \<Rightarrow> ('w adapter, unit) state" where
  "mark E f = do {
     t \<leftarrow> load (Now E);
     modify (\<lambda>s. case f t (release s) of (r, ms) \<Rightarrow> s\<lparr>release := r, spawned := spawned s @ ms\<rparr>)
   }"

definition edit :: "(Release \<Rightarrow> Release) \<Rightarrow> ('w adapter, unit) state" where
  "edit f = modify (\<lambda>s. s\<lparr>release := f (release s)\<rparr>)"

text \<open>
  \<open>a.client.Status().Patch(a.ctx, a.release, patch)\<close> with \<open>patch := client.MergeFrom(base)\<close>: on
  success the client decodes the server's answer into \<open>a.release\<close>.
\<close>

definition patch_status :: "'w env \<Rightarrow> Release \<Rightarrow> ('w adapter, error option) state" where
  "patch_status E base = do {
     r \<leftarrow> gets release;
     res \<leftarrow> load (api_PatchReleaseStatus E base r);
     (case res of
        Inl e \<Rightarrow> State_Monad.return (Some e)
      | Inr r' \<Rightarrow> do { edit (\<lambda>_. r'); State_Monad.return None })
   }"

definition patch_release :: "'w env \<Rightarrow> Release \<Rightarrow> ('w adapter, error option) state" where
  "patch_release E base = do {
     r \<leftarrow> gets release;
     res \<leftarrow> load (api_PatchRelease E base r);
     (case res of
        Inl e \<Rightarrow> State_Monad.return (Some e)
      | Inr r' \<Rightarrow> do { edit (\<lambda>_. r'); State_Monad.return None })
   }"

text \<open>
  The two idioms \<open>err != nil && !IsNotFound(err)\<close> (an absent PipelineRun is no error) and
  \<open>err != nil && !IsNotFound(err) && !errors.Is(err, ErrInvalidRoleBindingRef)\<close>.
\<close>

definition expect_run :: "PipelineRun option \<times> error option \<Rightarrow> error + PipelineRun option" where
  "expect_run res =
     (case res of (p, err) \<Rightarrow>
        if unexpected err then Inl (the err) else Inr p)"

definition expect_binding :: "RoleBinding option \<times> error option \<Rightarrow> error + RoleBinding option" where
  "expect_binding res =
     (case res of (rb, err) \<Rightarrow>
        if unexpected_ref err then Inl (the err) else Inr rb)"

definition run_or_error :: "PipelineRun option \<times> error option \<Rightarrow> error + PipelineRun option" where
  "run_or_error res = (case res of (p, None) \<Rightarrow> Inr p | (p, Some e) \<Rightarrow> Inl e)"

definition get_run :: "'w env \<Rightarrow> PipelineType \<Rightarrow> ('w adapter, PipelineRun option \<times> error option) state" where
  "get_run E T = do { r \<leftarrow> gets release; load (GetReleasePipelineRun E r T) }"

definition get_run_attempt :: "'w env \<Rightarrow> int \<Rightarrow> ('w adapter, PipelineRun option \<times> error option) state" where
  "get_run_attempt E i = do { r \<leftarrow> gets release; load (GetReleasePipelineRunAttempt E r i) }"

definition get_binding ::
  "'w env \<Rightarrow> (Release \<Rightarrow> PipelineInfo) \<Rightarrow> string \<Rightarrow> ('w adapter, error + RoleBinding option) state" where
  "get_binding E info kind = do {
     r \<leftarrow> gets release;
     res \<leftarrow> load (GetRoleBindingFromReleaseStatusPipelineInfo E (info r) kind);
     State_Monad.return (expect_binding
       (case res of Inl e \<Rightarrow> (None, Some e) | Inr rb \<Rightarrow> (Some rb, None)))
   }"

definition get_attempt_binding ::
  "'w env \<Rightarrow> PipelineAttempt option \<Rightarrow> ('w adapter, error + RoleBinding option) state" where
  "get_attempt_binding E a = do {
     res \<leftarrow> load (GetRoleBindingFromPipelineAttempt E a);
     State_Monad.return (expect_binding res)
   }"

definition get_plan :: "'w env \<Rightarrow> ('w adapter, error + ReleasePlan) state" where
  "get_plan E = do {
     r \<leftarrow> gets release;
     (rp, err) \<leftarrow> load (GetReleasePlan E r);
     State_Monad.return (case err of None \<Rightarrow> Inr rp | Some e \<Rightarrow> Inl e)
   }"

definition get_snapshot :: "'w env \<Rightarrow> ('w adapter, error + Snapshot) state" where
  "get_snapshot E = do {
     r \<leftarrow> gets release;
     (sn, err) \<leftarrow> load (GetSnapshot E r);
     State_Monad.return (case err of None \<Rightarrow> Inr sn | Some e \<Rightarrow> Inl e)
   }"

text \<open>The library of conditions the environment uses, and the status fields of the phases.\<close>

abbreviation conds :: "'w env \<Rightarrow> conditions_lib" where
  "conds E \<equiv> lib_cond (lib E)"

abbreviation tenantCollectors_info :: "Release \<Rightarrow> PipelineInfo" where
  "tenantCollectors_info r \<equiv> TenantCollectorsProcessing (CollectorsProcessing (Status r))"

abbreviation managedCollectors_info :: "Release \<Rightarrow> PipelineInfo" where
  "managedCollectors_info r \<equiv> ManagedCollectorsProcessing (CollectorsProcessing (Status r))"

definition upd_tenantCollectors :: "(PipelineInfo \<Rightarrow> PipelineInfo) \<Rightarrow> Release \<Rightarrow> Release" where
  "upd_tenantCollectors f =
     Status_update (CollectorsProcessing_update (TenantCollectorsProcessing_update f))"

definition upd_managedCollectors :: "(PipelineInfo \<Rightarrow> PipelineInfo) \<Rightarrow> Release \<Rightarrow> Release" where
  "upd_managedCollectors f =
     Status_update (CollectorsProcessing_update (ManagedCollectorsProcessing_update f))"

definition upd_tenant :: "(PipelineInfo \<Rightarrow> PipelineInfo) \<Rightarrow> Release \<Rightarrow> Release" where
  "upd_tenant f = Status_update (TenantProcessing_update f)"

definition upd_managed :: "(PipelineInfo \<Rightarrow> PipelineInfo) \<Rightarrow> Release \<Rightarrow> Release" where
  "upd_managed f = Status_update (ManagedProcessing_update f)"

definition upd_final :: "(PipelineInfo \<Rightarrow> PipelineInfo) \<Rightarrow> Release \<Rightarrow> Release" where
  "upd_final f = Status_update (FinalProcessing_update f)"

text \<open>Storing a reference to a RoleBinding, if there is one.\<close>

definition put_tenantRB :: "RoleBinding option \<Rightarrow> PipelineInfo \<Rightarrow> PipelineInfo" where
  "put_tenantRB rb = (case rb of None \<Rightarrow> (\<lambda>i. i)
     | Some b \<Rightarrow> pi_RoleBindings_update (TenantRoleBinding_update (\<lambda>_. ref_of (rb_meta b))))"

definition put_managedRB :: "RoleBinding option \<Rightarrow> PipelineInfo \<Rightarrow> PipelineInfo" where
  "put_managedRB rb = (case rb of None \<Rightarrow> (\<lambda>i. i)
     | Some b \<Rightarrow> pi_RoleBindings_update (ManagedRoleBinding_update (\<lambda>_. ref_of (rb_meta b))))"

definition put_secretRB :: "RoleBinding option \<Rightarrow> PipelineInfo \<Rightarrow> PipelineInfo" where
  "put_secretRB rb = (case rb of None \<Rightarrow> (\<lambda>i. i)
     | Some b \<Rightarrow> pi_RoleBindings_update (SecretRoleBinding_update (\<lambda>_. ref_of (rb_meta b))))"

section \<open>utils.go: errors while creating resources\<close>

definition maxConditionMessageLength :: nat where
  "maxConditionMessageLength = 31000"

definition pipelineCreationResult :: "bool \<times> error option \<Rightarrow> operation_result" where
  "pipelineCreationResult res =
     (case res of
        (True, Some e) \<Rightarrow> RequeueWithError e
      | (True, None) \<Rightarrow> Requeue
      | (False, err) \<Rightarrow> RequeueOnErrorOrContinue err)"

definition handlePipelineCreationError ::
  "'w env \<Rightarrow> error \<Rightarrow> (time \<Rightarrow> mark) \<Rightarrow> (time \<Rightarrow> string \<Rightarrow> mark) \<Rightarrow> string \<Rightarrow> (Release \<Rightarrow> Release) list \<Rightarrow>
   ('w adapter, bool \<times> error option) state" where
  "handlePipelineCreationError E err markProcessing markPipelineFailed releaseFailedMsg
      extraStatusUpdates =
     (if IsRetryableCreationError (Some err) then State_Monad.return (True, Some err)
      else do {
        base \<leftarrow> gets release;
        edit (\<lambda>r. foldl (\<lambda>r update. update r) r extraStatusUpdates);
        mark E markProcessing;
        mark E (\<lambda>t. markPipelineFailed t
          (if length (e_msg err) > maxConditionMessageLength
           then take maxConditionMessageLength (e_msg err) else e_msg err));
        mark E (\<lambda>t. MarkReleaseFailed (conds E) t releaseFailedMsg);
        perr \<leftarrow> patch_status E base;
        State_Monad.return (False, perr)
      })"

definition creation_failed ::
  "'w env \<Rightarrow> (time \<Rightarrow> mark) \<Rightarrow> (time \<Rightarrow> string \<Rightarrow> mark) \<Rightarrow> string \<Rightarrow> (Release \<Rightarrow> Release) list \<Rightarrow> error \<Rightarrow>
   ('w adapter, operation_result) state" where
  "creation_failed E markProcessing markPipelineFailed releaseFailedMsg updates err = do {
     res \<leftarrow> handlePipelineCreationError E err markProcessing markPipelineFailed releaseFailedMsg updates;
     State_Monad.return (pipelineCreationResult res)
   }"

text \<open>\<open>patch := MergeFrom(copy)\<close>, one mark, \<open>RequeueOnErrorOrContinue(Status().Patch(...))\<close>.\<close>

definition mark_and_patch_from ::
  "'w env \<Rightarrow> Release \<Rightarrow> (time \<Rightarrow> mark) \<Rightarrow> ('w adapter, operation_result) state" where
  "mark_and_patch_from E base f = do {
     mark E f;
     err \<leftarrow> patch_status E base;
     State_Monad.return (RequeueOnErrorOrContinue err)
   }"

definition mark_and_patch :: "'w env \<Rightarrow> (time \<Rightarrow> mark) \<Rightarrow> ('w adapter, operation_result) state" where
  "mark_and_patch E f = do { base \<leftarrow> gets release; mark_and_patch_from E base f }"

end
