(* ===== verification/Adapter_Create.thy ===== *)
theory Adapter_Create
  imports Adapter_State
begin

text \<open>
  The parts of \<open>src/controllers/release/adapter.go\<close> that create resources: the PipelineRuns of the
  five pipeline types, the RoleBindings and Roles their service accounts need, and the overrides
  of a retried managed run. A nil pointer the source dereferences is an explicit panic.
\<close>

section \<open>RoleBindings\<close>

definition createRoleBindingForClusterRole ::
  "'w env \<Rightarrow> string \<Rightarrow> string \<Rightarrow> string \<Rightarrow> string \<Rightarrow> ('w adapter, error + RoleBinding) state" where
  "createRoleBindingForClusterRole E clusterRole roleBindingNamespace serviceAccountName
      serviceAccountNamespace = do {
     r \<leftarrow> gets release;
     load (api_CreateRoleBinding E
       \<lparr>rb_meta = no_meta\<lparr>
          om_GenerateName := om_Name (rel_meta r) @ ''-rolebinding-for-'' @ clusterRole @ ''-'',
          om_Namespace := roleBindingNamespace\<rparr>,
        RoleRef_APIGroup = ''rbac.authorization.k8s.io'', RoleRef_Kind = ''ClusterRole'',
        RoleRef_Name = clusterRole,
        Subjects = [\<lparr>sub_Kind = ''ServiceAccount'', sub_Name = serviceAccountName,
          sub_Namespace = serviceAccountNamespace\<rparr>]\<rparr>)
   }"

definition createRoleBindingForCollectorSecrets ::
  "'w env \<Rightarrow> string \<Rightarrow> string \<Rightarrow> string \<Rightarrow> string list \<Rightarrow> ('w adapter, error + RoleBinding) state" where
  "createRoleBindingForCollectorSecrets E collectorType namespace serviceAccount secrets = do {
     r \<leftarrow> gets release;
     attempt (load (api_CreateRole E
       \<lparr>role_meta = no_meta\<lparr>
          om_GenerateName := om_Name (rel_meta r) @ ''-role-for-'' @ collectorType @ ''-'',
          om_Namespace := namespace\<rparr>,
        Rules = [\<lparr>APIGroups = [[]], Resources = [''secrets''], ResourceNames = secrets,
          Verbs = [''get'']\<rparr>]\<rparr>))
       (\<lambda>e. State_Monad.return (Inl e))
       (\<lambda>role. load (api_CreateRoleBinding E
         \<lparr>rb_meta = no_meta\<lparr>
            om_GenerateName := om_Name (rel_meta r) @ ''-rolebinding-for-'' @ collectorType @ ''-'',
            om_Namespace := namespace\<rparr>,
          RoleRef_APIGroup = ''rbac.authorization.k8s.io'', RoleRef_Kind = ''Role'',
          RoleRef_Name = om_Name (role_meta role),
          Subjects = [\<lparr>sub_Kind = ''ServiceAccount'', sub_Name = serviceAccount,
            sub_Namespace = namespace\<rparr>]\<rparr>))
   }"

text \<open>Create a RoleBinding when there is none and one is needed.\<close>

definition binding_if_needed ::
  "bool \<Rightarrow> RoleBinding option \<Rightarrow> ('w adapter, error + RoleBinding) state \<Rightarrow>
   ('w adapter, error + RoleBinding option) state" where
  "binding_if_needed needed rb create =
     (if rb = None \<and> needed
      then attempt create (\<lambda>e. State_Monad.return (Inl e)) (\<lambda>b. State_Monad.return (Inr (Some b)))
      else State_Monad.return (Inr rb))"

section \<open>PipelineRuns\<close>

definition workspace ::
  "'w env \<Rightarrow> bool \<Rightarrow> PipelineRunBuilder \<Rightarrow> ('w adapter, PipelineRunBuilder) state" where
  "workspace E emptyDir b = do {
     name \<leftarrow> load (Getenv E ''DEFAULT_RELEASE_WORKSPACE_NAME'');
     sz \<leftarrow> load (Getenv E ''DEFAULT_RELEASE_WORKSPACE_SIZE'');
     State_Monad.return
       (if emptyDir then WithEmptyDirVolume (lib E) name sz b
        else WithWorkspaceFromVolumeTemplate (lib E) name sz b)
   }"

text \<open>\<open>Build\<close>, then \<open>a.client.Create\<close>.\<close>

definition build_and_create ::
  "'w env \<Rightarrow> PipelineRunBuilder \<Rightarrow> ('w adapter, (error + PipelineRun) outcome) state" where
  "build_and_create E b =
     (case Build (lib E) b of
        Panicked \<Rightarrow> State_Monad.return Panicked
      | Returned (pipelineRun, err) \<Rightarrow>
          (case err of
             Some e \<Rightarrow> State_Monad.return (Returned (Inl e))
           | None \<Rightarrow> do {
               res \<leftarrow> load (api_CreatePipelineRun E pipelineRun);
               State_Monad.return (Returned res)
             }))"

definition run_annotations :: "lib \<Rightarrow> Release \<Rightarrow> PipelineRunBuilder \<Rightarrow> PipelineRunBuilder" where
  "run_annotations K r b =
     WithAnnotations (GetAnnotationsWithPrefix (rel_meta r) SpanContextAnnotation)
       (WithAnnotations (GetAnnotationsWithPrefix (rel_meta r) (gitops_PipelinesAsCodePrefix K)) b)"

definition getCollectorsPipelineRunBuilder ::
  "'w env \<Rightarrow> PipelineType \<Rightarrow> string \<Rightarrow> string \<Rightarrow> string \<Rightarrow> ('w adapter, PipelineRunBuilder) state" where
  "getCollectorsPipelineRunBuilder E pipelineType namespace url revision = do {
     r \<leftarrow> gets release;
     previous \<leftarrow> load (GetPreviousRelease E r);
     b \<leftarrow> load (WithPipelineRef E
       (Some (ToTektonPipelineRef \<lparr>Resolver = ''git'',
          Params = [\<lparr>p_Name = ''url'', p_Value = url\<rparr>, \<lparr>p_Name = ''revision'', p_Value = revision\<rparr>,
            \<lparr>p_Name = ''pathInRepo'', p_Value = DefaultCollectorPipelinePath\<rparr>],
          OciStorage = [], UseEmptyDir = False\<rparr>))
       (WithParams [string_param ''previousRelease''
          (case previous of Inl _ \<Rightarrow> [] | Inr p \<Rightarrow> ref_of (rel_meta p))]
       (WithOwner (lib E) (rel_meta r)
       (WithObjectReferences [rel_meta r]
       (WithLabels (Some [
          PipelinesTypeLabel \<mapsto> PipelineType_String pipelineType,
          ServiceNameLabel \<mapsto> ServiceName,
          ReleaseNameLabel \<mapsto> om_Name (rel_meta r),
          ReleaseNamespaceLabel \<mapsto> om_Namespace (rel_meta r)])
       (WithFinalizer (lib E) ReleaseFinalizer
       (run_annotations (lib E) r
       (NewPipelineRunBuilder (PipelineType_String pipelineType) namespace))))))));
     workspace E False b
   }"

definition collectors_params :: "string \<Rightarrow> object_meta \<Rightarrow> PipelineRunBuilder \<Rightarrow> PipelineRunBuilder" where
  "collectors_params resourceType m =
     WithParams [string_param ''collectorsResourceType'' resourceType,
       string_param ''collectorsResource'' (ref_of m)]"

definition createManagedCollectorsPipelineRun ::
  "'w env \<Rightarrow> ReleasePlanAdmission \<Rightarrow> ('w adapter, (error + PipelineRun) outcome) state" where
  "createManagedCollectorsPipelineRun E rpa =
     (case rpas_Pipeline (rpa_Spec rpa) of
        None \<Rightarrow> State_Monad.return Panicked
      | Some pipeline \<Rightarrow> do {
          b \<leftarrow> getCollectorsPipelineRunBuilder E ManagedCollectorsPipelineType
            (om_Namespace (rpa_meta rpa))
            (case GetUrl (pl_PipelineRef pipeline) of Inl _ \<Rightarrow> DefaultReleaseCatalogUrl | Inr u \<Rightarrow> u)
            (case GetRevision (pl_PipelineRef pipeline) of
               Inl _ \<Rightarrow> DefaultReleaseCatalogRevision | Inr v \<Rightarrow> v);
          (case rpas_Collectors (rpa_Spec rpa) of
             None \<Rightarrow> State_Monad.return Panicked
           | Some collectors \<Rightarrow>
               build_and_create E
                 (WithServiceAccount (col_ServiceAccountName collectors)
                 (collectors_params ''releaseplanadmission'' (rpa_meta rpa) b)))
        })"

text \<open>Without an admission, \<open>url\<close> and \<open>revision\<close> stay empty.\<close>

definition createTenantCollectorsPipelineRun ::
  "'w env \<Rightarrow> ReleasePlan \<Rightarrow> ReleasePlanAdmission option \<Rightarrow>
   ('w adapter, (error + PipelineRun) outcome) state" where
  "createTenantCollectorsPipelineRun E rp rpa =
     (let catalog = (case rpa of
          None \<Rightarrow> Some ([], [])
        | Some a \<Rightarrow> (case rpas_Pipeline (rpa_Spec a) of
            None \<Rightarrow> None
          | Some pipeline \<Rightarrow> Some
              (case GetUrl (pl_PipelineRef pipeline) of
                 Inl _ \<Rightarrow> DefaultReleaseCatalogUrl
               | Inr u \<Rightarrow> if u = [] then DefaultReleaseCatalogUrl else u,
               case GetRevision (pl_PipelineRef pipeline) of
                 Inl _ \<Rightarrow> DefaultReleaseCatalogRevision
               | Inr v \<Rightarrow> if v = [] then DefaultReleaseCatalogRevision else v)))
      in (case catalog of
          None \<Rightarrow> State_Monad.return Panicked
        | Some (url, revision) \<Rightarrow> do {
            b \<leftarrow> getCollectorsPipelineRunBuilder E TenantCollectorsPipelineType
              (om_Namespace (rp_meta rp)) url revision;
            (case rps_Collectors (rp_Spec rp) of
               None \<Rightarrow> State_Monad.return Panicked
             | Some collectors \<Rightarrow>
                 build_and_create E
                   (WithServiceAccount (col_ServiceAccountName collectors)
                   (collectors_params ''releaseplan'' (rp_meta rp) b)))
          }))"

definition release_labels :: "Release \<Rightarrow> PipelineType \<Rightarrow> string \<Rightarrow> (string \<rightharpoonup> string)" where
  "release_labels r T application =
     [ApplicationNameLabel \<mapsto> application,
      PipelinesTypeLabel \<mapsto> PipelineType_String T,
      ServiceNameLabel \<mapsto> ServiceName,
      ReleaseNameLabel \<mapsto> om_Name (rel_meta r),
      ReleaseNamespaceLabel \<mapsto> om_Namespace (rel_meta r),
      ReleaseSnapshotLabel \<mapsto> Snapshot (Spec r)]"

text \<open>
  \<open>createFinalPipelineRun\<close> and \<open>createTenantPipelineRun\<close> have the same body, but for the pipeline
  of the ReleasePlan they run and its type.
\<close>

definition create_plan_run ::
  "'w env \<Rightarrow> PipelineType \<Rightarrow> ParameterizedPipeline option \<Rightarrow> ReleasePlan \<Rightarrow> Snapshot \<Rightarrow>
   ('w adapter, (error + PipelineRun) outcome) state" where
  "create_plan_run E T pipeline rp snapshot =
     (case pipeline of None \<Rightarrow> State_Monad.return Panicked
      | Some pp \<Rightarrow> do {
          r \<leftarrow> gets release;
          b \<leftarrow> load (WithPipelineRef E (Some (ToTektonPipelineRef (pl_PipelineRef (pp_Pipeline pp))))
            (WithOwner (lib E) (rel_meta r)
            (WithParams (GetTektonParams pp)
            (WithObjectReferences [rel_meta r, rp_meta rp, sn_meta snapshot]
            (WithLabels (Some (release_labels r T (Application (rp_Spec rp))))
            (WithFinalizer (lib E) ReleaseFinalizer
            (run_annotations (lib E) r
            (NewPipelineRunBuilder (PipelineType_String T) (om_Namespace (rp_meta rp))))))))));
          config \<leftarrow> gets releaseServiceConfig;
          (case config of None \<Rightarrow> State_Monad.return Panicked
           | Some rsc \<Rightarrow> do {
               b' \<leftarrow> workspace E (UseEmptyDir (pl_PipelineRef (pp_Pipeline pp)))
                 (WithTimeouts (AdjustTimeouts (Some (pl_Timeouts (pp_Pipeline pp))))
                    (Some (DefaultTimeouts (rsc_Spec rsc)))
                 (WithTaskRunSpecs (pl_TaskRunSpecs (pp_Pipeline pp))
                 (WithServiceAccount (pl_ServiceAccountName (pp_Pipeline pp)) b)));
               build_and_create E b'
             })
        })"

definition createFinalPipelineRun ::
  "'w env \<Rightarrow> ReleasePlan \<Rightarrow> Snapshot \<Rightarrow> ('w adapter, (error + PipelineRun) outcome) state" where
  "createFinalPipelineRun E rp snapshot =
     create_plan_run E FinalPipelineType (FinalPipeline (rp_Spec rp)) rp snapshot"

definition createTenantPipelineRun ::
  "'w env \<Rightarrow> ReleasePlan \<Rightarrow> Snapshot \<Rightarrow> ('w adapter, (error + PipelineRun) outcome) state" where
  "createTenantPipelineRun E rp snapshot =
     create_plan_run E TenantPipelineType (TenantPipeline (rp_Spec rp)) rp snapshot"

definition managed_labels :: "Release \<Rightarrow> string \<Rightarrow> (string \<rightharpoonup> string)" where
  "managed_labels r application =
     (release_labels r ManagedPipelineType application)
       (ReleaseAttemptLabel \<mapsto> show_int (int (length (ManagedPipelineAttempts (Status r)))))"

definition createManagedPipelineRun ::
  "'w env \<Rightarrow> ProcessingResources \<Rightarrow> PipelineTaskRunSpec slice \<Rightarrow> TimeoutFields \<Rightarrow>
   ('w adapter, (error + PipelineRun) outcome) state" where
  "createManagedPipelineRun E resources taskRunSpecs timeouts = do {
     r \<leftarrow> gets release;
     config \<leftarrow> gets releaseServiceConfig;
     (case (config, rpas_Pipeline (rpa_Spec (res_ReleasePlanAdmission resources))) of
        (Some rsc, Some pipeline) \<Rightarrow> do {
          b \<leftarrow> load (WithPipelineRef E (Some (ToTektonPipelineRef (pl_PipelineRef pipeline)))
            (WithOwner (lib E) (rel_meta r)
            (WithObjectSpecsAsJson
              [(ecp_meta (res_EnterpriseContractPolicy resources),
                Some (ecp_json (res_EnterpriseContractPolicy resources)))]
            (WithObjectReferences [rel_meta r, rp_meta (res_ReleasePlan resources),
               rpa_meta (res_ReleasePlanAdmission resources), rsc_meta rsc,
               sn_meta (res_Snapshot resources)]
            (WithLabels (Some (managed_labels r
               (Application (rp_Spec (res_ReleasePlan resources)))))
            (WithFinalizer (lib E) ReleaseFinalizer
            (run_annotations (lib E) r
            (NewPipelineRunBuilder (PipelineType_String ManagedPipelineType)
               (om_Namespace (rpa_meta (res_ReleasePlanAdmission resources)))))))))));
          b' \<leftarrow> workspace E
            (case GetGitResolverParams (pl_PipelineRef pipeline) of
               Inl _ \<Rightarrow> False
             | Inr (url, revision, pathInRepo) \<Rightarrow>
                 IsPipelineOverridden (Compile (lib E)) rsc url revision pathInRepo)
            (WithParams (Pipeline_GetOciStorageParam pipeline)
            (WithTimeouts (AdjustTimeouts (Some timeouts)) (Some (DefaultTimeouts (rsc_Spec rsc)))
            (WithTaskRunSpecs taskRunSpecs
            (WithServiceAccount (pl_ServiceAccountName pipeline) b))));
          build_and_create E b'
        }
      | _ \<Rightarrow> State_Monad.return Panicked)
   }"

section \<open>TaskRuns of a PipelineRun\<close>

definition listTaskRunsForPipelineRun ::
  "'w env \<Rightarrow> PipelineRun option \<Rightarrow> ('w adapter, error + TaskRun list) state" where
  "listTaskRunsForPipelineRun E pipelineRun =
     (case pipelineRun of None \<Rightarrow> State_Monad.return (Inr [])
      | Some p \<Rightarrow> do {
          res \<leftarrow> load (api_ListTaskRuns E (om_Namespace (pr_meta p))
            [''tekton.dev/pipelineRun'' \<mapsto> om_Name (pr_meta p)]);
          State_Monad.return (case res of
              Inl e \<Rightarrow> Inl (wrap_error ''failed to list TaskRuns: '' e)
            | Inr ts \<Rightarrow> Inr ts)
        })"

section \<open>Overrides of a retry\<close>

fun task_run_of :: "string \<Rightarrow> TaskRun list \<Rightarrow> TaskRun option" where
  "task_run_of task [] = None"
| "task_run_of task (t # ts) =
     (if map_index (om_Labels (tr_meta t)) ''tekton.dev/pipelineTask'' = task then Some t
      else task_run_of task ts)"

type_synonym overrides = "PipelineTaskRunSpec slice \<times> TimeoutFields \<times> AppliedMitigation option"

definition memory_overrides ::
  "lib \<Rightarrow> MemoryMitigation option \<Rightarrow> PipelineRun \<Rightarrow> TaskRun option \<Rightarrow> PipelineAttempt \<Rightarrow>
   PipelineTaskRunSpec slice \<Rightarrow> TimeoutFields \<Rightarrow> overrides" where
  "memory_overrides K mitigation run taskRun failed baseSpecs baseTimeouts =
     (case mitigation of None \<Rightarrow> (baseSpecs, baseTimeouts, None)
      | Some mit \<Rightarrow>
         (case ApplyMemoryMitigation (lib_float K)
                 (GetStepComputeResources (Some run) taskRun (pa_LastTask failed) (pa_LastStep failed))
                 (Some mit) of
            None \<Rightarrow> (baseSpecs, baseTimeouts, None)
          | Some res \<Rightarrow>
              (Some (MergeTaskRunSpecs (items baseSpecs)
                 [\<lparr>PipelineTaskName = pa_LastTask failed,
                   StepSpecs = [\<lparr>ss_Name = pa_LastStep failed, ss_ComputeResources = res\<rparr>],
                   trs_ComputeResources = None, trs_Timeout = None\<rparr>]),
               baseTimeouts,
               Some (no_mitigation\<lparr>
                 MemoryLimit := (case Limits res ResourceMemory of None \<Rightarrow> [] | Some q \<Rightarrow> QuantityString K q),
                 MemoryRequest :=
                   (case Requests res ResourceMemory of None \<Rightarrow> [] | Some q \<Rightarrow> QuantityString K q)\<rparr>))))"

definition task_timeout_overrides ::
  "lib \<Rightarrow> TimeoutMitigation option \<Rightarrow> PipelineRun \<Rightarrow> TaskRun option \<Rightarrow> PipelineAttempt \<Rightarrow>
   PipelineTaskRunSpec slice \<Rightarrow> TimeoutFields \<Rightarrow> overrides" where
  "task_timeout_overrides K mitigation run taskRun failed baseSpecs baseTimeouts =
     (case Option.bind mitigation tm_Task of None \<Rightarrow> (baseSpecs, baseTimeouts, None)
      | Some mit \<Rightarrow>
         (case ApplyTaskTimeoutMitigation (GetTaskRunTimeout (Some run) taskRun (pa_LastTask failed))
                 (GetPipelineRunTimeouts (Some run)) (Some mit) of
            (None, _) \<Rightarrow> (baseSpecs, baseTimeouts, None)
          | (Some newTimeout, adjustedTimeouts) \<Rightarrow>
              (Some (MergeTaskRunSpecs (items baseSpecs)
                 [\<lparr>PipelineTaskName = pa_LastTask failed, StepSpecs = [], trs_ComputeResources = None,
                   trs_Timeout = Some newTimeout\<rparr>]),
               (case adjustedTimeouts of None \<Rightarrow> baseTimeouts | Some t \<Rightarrow> t),
               Some (no_mitigation\<lparr>TaskTimeout := DurationString K newTimeout\<rparr>))))"

definition pipeline_timeout_overrides ::
  "lib \<Rightarrow> TimeoutMitigation option \<Rightarrow> PipelineRun \<Rightarrow> PipelineTaskRunSpec slice \<Rightarrow> TimeoutFields \<Rightarrow>
   overrides" where
  "pipeline_timeout_overrides K mitigation run baseSpecs baseTimeouts =
     (case Option.bind mitigation tm_Pipeline of None \<Rightarrow> (baseSpecs, baseTimeouts, None)
      | Some mit \<Rightarrow>
         (case ApplyPipelineTimeoutMitigation (GetPipelineRunTimeouts (Some run)) (Some mit) of
            None \<Rightarrow> (baseSpecs, baseTimeouts, None)
          | Some t \<Rightarrow>
              if tf_Pipeline t = None \<and> tf_Tasks t = None then (baseSpecs, baseTimeouts, None)
              else (baseSpecs, t,
                Some (no_mitigation\<lparr>
                  PipelinesTimeout := (case tf_Pipeline t of None \<Rightarrow> [] | Some d \<Rightarrow> DurationString K d),
                  TasksTimeout := (case tf_Tasks t of None \<Rightarrow> [] | Some d \<Rightarrow> DurationString K d)\<rparr>))))"

definition computeRetryOverrides ::
  "'w env \<Rightarrow> ProcessingResources \<Rightarrow> ('w adapter, overrides outcome) state" where
  "computeRetryOverrides E resources =
     (case rpas_Pipeline (rpa_Spec (res_ReleasePlanAdmission resources)) of
        None \<Rightarrow> State_Monad.return Panicked
      | Some pipeline \<Rightarrow> do {
          r \<leftarrow> gets release;
          (case (GetCurrentManagedPipelineAttempt r,
                 GetMitigations (res_ReleasePlanAdmission resources)) of
             (Some failed, Some mitigations) \<Rightarrow> do {
               (found, err) \<leftarrow> get_run_attempt E (GetManagedPipelineRetryCount r);
               (case (err, found) of
                  (None, Some run) \<Rightarrow> do {
                    taskRuns \<leftarrow>
                      (if pa_LastTask failed \<noteq> [] then listTaskRunsForPipelineRun E (Some run)
                       else State_Monad.return (Inr []));
                    (let
                       baseSpecs = (case pr_TaskRunSpecs run of
                           None \<Rightarrow> pl_TaskRunSpecs pipeline | Some specs \<Rightarrow> Some specs);
                       baseTimeouts = (case pr_Timeouts run of
                           None \<Rightarrow> pl_Timeouts pipeline | Some t \<Rightarrow> t);
                       taskRun = (case taskRuns of Inl _ \<Rightarrow> None
                         | Inr ts \<Rightarrow> if pa_LastTask failed \<noteq> [] then task_run_of (pa_LastTask failed) ts
                                    else None)
                     in State_Monad.return (Returned
                       (if pa_FailureReason failed = AttemptFailureOOMKillReason
                        then memory_overrides (lib E) (OOMKill mitigations) run taskRun failed
                               baseSpecs baseTimeouts
                        else if pa_FailureReason failed = AttemptFailureTaskRunTimeoutReason
                        then task_timeout_overrides (lib E) (mit_Timeout mitigations) run taskRun
                               failed baseSpecs baseTimeouts
                        else if pa_FailureReason failed = AttemptFailurePipelineRunTimeoutReason
                        then pipeline_timeout_overrides (lib E) (mit_Timeout mitigations) run
                               baseSpecs baseTimeouts
                        else (baseSpecs, baseTimeouts, None))))
                  }
                | _ \<Rightarrow> State_Monad.return (Returned
                    (pl_TaskRunSpecs pipeline, pl_Timeouts pipeline, None)))
             }
           | _ \<Rightarrow> State_Monad.return (Returned
               (pl_TaskRunSpecs pipeline, pl_Timeouts pipeline, None)))
        })"

definition getEmptyReleaseServiceConfig :: "string \<Rightarrow> ReleaseServiceConfig" where
  "getEmptyReleaseServiceConfig namespace =
     \<lparr>rsc_meta = no_meta\<lparr>om_Kind := ''ReleaseServiceConfig'',
        om_Name := ReleaseServiceConfigResourceName, om_Namespace := namespace\<rparr>,
      rsc_Spec = \<lparr>Debug = False, DefaultTimeouts = no_timeouts, rsc_EmptyDirOverrides = [],
        RetryablePipelines = None\<rparr>\<rparr>"

section \<open>The label of a managed attempt\<close>

text \<open>
  The labels a managed PipelineRun is created with are those its attempt is looked up by: the
  selector of \<open>GetReleasePipelineRunAttempt\<close> for attempt \<open>j\<close> of a Release selects them exactly when
  they were made for that Release and \<open>j\<close> attempts were recorded before. So a retry never finds
  the run of an earlier attempt, nor that of another Release.
\<close>

theorem attempt_selector_exact:
  assumes "0 \<le> j"
  shows "(run_labels r' ManagedPipelineType)(ReleaseAttemptLabel \<mapsto> show_int j)
      \<subseteq>\<^sub>m managed_labels r application \<longleftrightarrow>
    om_Name (rel_meta r') = om_Name (rel_meta r) \<and> om_Namespace (rel_meta r') = om_Namespace (rel_meta r) \<and>
    j = int (length (ManagedPipelineAttempts (Status r)))"
proof -
  have keys: "run_labels r' ManagedPipelineType ReleaseAttemptLabel = None"
    using labels_distinct by (auto simp: run_labels_def)
  show ?thesis
    using assms labels_distinct show_int_inj [of j] unfolding map_le_upd_iff [of "run_labels r' ManagedPipelineType", OF keys]
    by (auto simp: run_labels_def managed_labels_def release_labels_def map_le_upd_iff)
qed

theorem attempt_selector_exact_witness:
  "\<not> (run_labels \<lparr>rel_meta = no_meta, Spec = \<lparr>Snapshot = [], ReleasePlan = [], rel_Data = None,
       GracePeriodDays = 0\<rparr>, Status = no_status\<rparr> ManagedPipelineType)(ReleaseAttemptLabel \<mapsto> show_int 1)
     \<subseteq>\<^sub>m managed_labels \<lparr>rel_meta = no_meta, Spec = \<lparr>Snapshot = [], ReleasePlan = [], rel_Data = None,
       GracePeriodDays = 0\<rparr>, Status = no_status\<rparr> ''app''"
  by (simp add: attempt_selector_exact no_status_def)

end
