(* ===== verification/Adapter_Register.thy ===== *)
theory Adapter_Register
  imports Adapter_Create
begin

text \<open>
  The parts of \<open>src/controllers/release/adapter.go\<close> that write the status of a Release: recording
  a created PipelineRun, following it until it ends, the message taken from the logs of the first
  failed TaskRun, and the spans emitted once the status is stored.
\<close>

section \<open>Recording a created PipelineRun\<close>

definition put_run :: "PipelineRun \<Rightarrow> PipelineInfo \<Rightarrow> PipelineInfo" where
  "put_run p = pi_PipelineRun_update (\<lambda>_. ref_of (pr_meta p))"

definition registerTenantCollectorsProcessingData ::
  "'w env \<Rightarrow> PipelineRun option \<Rightarrow> RoleBinding option \<Rightarrow> RoleBinding option \<Rightarrow>
   ('w adapter, error option) state" where
  "registerTenantCollectorsProcessingData E run tenantRB secretRB =
     (case run of None \<Rightarrow> State_Monad.return None
      | Some p \<Rightarrow> do {
          base \<leftarrow> gets release;
          edit (upd_tenantCollectors (put_secretRB secretRB \<circ> put_tenantRB tenantRB \<circ> put_run p));
          mark E (MarkTenantCollectorsPipelineProcessing (conds E));
          patch_status E base
        })"

definition registerTenantProcessingData ::
  "'w env \<Rightarrow> PipelineRun option \<Rightarrow> ('w adapter, error option) state" where
  "registerTenantProcessingData E run =
     (case run of None \<Rightarrow> State_Monad.return None
      | Some p \<Rightarrow> do {
          base \<leftarrow> gets release;
          edit (upd_tenant (put_run p));
          mark E (MarkTenantPipelineProcessing (conds E));
          patch_status E base
        })"

definition registerFinalProcessingData ::
  "'w env \<Rightarrow> PipelineRun option \<Rightarrow> ('w adapter, error option) state" where
  "registerFinalProcessingData E run =
     (case run of None \<Rightarrow> State_Monad.return None
      | Some p \<Rightarrow> do {
          base \<leftarrow> gets release;
          edit (upd_final (put_run p));
          mark E (MarkFinalPipelineProcessing (conds E));
          patch_status E base
        })"

definition registerManagedCollectorsProcessingData ::
  "'w env \<Rightarrow> PipelineRun option \<Rightarrow> RoleBinding option \<Rightarrow> RoleBinding option \<Rightarrow> RoleBinding option \<Rightarrow>
   ('w adapter, error option) state" where
  "registerManagedCollectorsProcessingData E run tenantRB managedRB secretRB =
     (case run of None \<Rightarrow> State_Monad.return None
      | Some p \<Rightarrow> do {
          base \<leftarrow> gets release;
          edit (upd_managedCollectors
            (put_secretRB secretRB \<circ> put_managedRB managedRB \<circ> put_tenantRB tenantRB \<circ> put_run p));
          mark E (MarkManagedCollectorsPipelineProcessing (conds E));
          patch_status E base
        })"

definition new_attempt :: "string \<Rightarrow> string \<Rightarrow> AppliedMitigation option \<Rightarrow> PipelineAttempt" where
  "new_attempt run tenantRB mitigation =
     \<lparr>pa_PipelineRun = run,
      pa_RoleBindings = no_role_bindings\<lparr>TenantRoleBinding := tenantRB\<rparr>,
      pa_StartTime = None, pa_CompletionTime = None, pa_Status = [], pa_FailureReason = [],
      pa_LastTask = [], pa_LastStep = [], pa_SuccessfulTasks = 0, pa_RetryDisabledReason = [],
      pa_Mitigation = mitigation\<rparr>"

definition append_attempt :: "PipelineAttempt \<Rightarrow> Release \<Rightarrow> Release" where
  "append_attempt a = Status_update (ManagedPipelineAttempts_update (\<lambda>as. as @ [a]))"

definition registerManagedProcessingData ::
  "'w env \<Rightarrow> PipelineRun option \<Rightarrow> RoleBinding option \<Rightarrow> AppliedMitigation option \<Rightarrow>
   ('w adapter, error option) state" where
  "registerManagedProcessingData E run tenantRB mitigation =
     (case run of None \<Rightarrow> State_Monad.return None
      | Some p \<Rightarrow> do {
          base \<leftarrow> gets release;
          (let
             pipelineRunName = ref_of (pr_meta p);
             tenantRoleBindingName = (case tenantRB of None \<Rightarrow> [] | Some rb \<Rightarrow> ref_of (rb_meta rb))
           in do {
             edit (upd_managed (\<lambda>i. i\<lparr>pi_PipelineRun := pipelineRunName,
               pi_RoleBindings := (pi_RoleBindings i)\<lparr>TenantRoleBinding := tenantRoleBindingName\<rparr>\<rparr>));
             edit (append_attempt (new_attempt pipelineRunName tenantRoleBindingName mitigation));
             mark E (MarkCurrentManagedPipelineAttemptProcessing (conds E));
             patch_status E base
           })
        })"

section \<open>Logs of the first failed TaskRun\<close>

text \<open>
  \<open>PodLogs\<close> of the environment stands for the clientset, the log stream and its reading, with
  the errors wrapped as the source wraps them.
\<close>

definition getTaskRunLogs :: "'w env \<Rightarrow> TaskRun \<Rightarrow> ('w adapter, string \<times> error option) state" where
  "getTaskRunLogs E taskRun =
     (if tr_PodName taskRun = [] then State_Monad.return ([], None)
      else do {
        res \<leftarrow> load (PodLogs E (om_Namespace (tr_meta taskRun)) (tr_PodName taskRun));
        State_Monad.return (case res of Inl e \<Rightarrow> ([], Some e) | Inr logs \<Rightarrow> (logs, None))
      })"

definition truncationMarker :: string where
  "truncationMarker = ''...(truncated)'' @ [CHR 0x0A]"

text \<open>Go's \<open>int\<close> arithmetic and the slice \<open>message[startIdx:]\<close>.\<close>

definition truncate_logs :: "int \<Rightarrow> string \<Rightarrow> string" where
  "truncate_logs maxLen message =
     (if int (length message) > maxLen
      then let
        start = int (length message) - maxLen + int (length truncationMarker);
        startIdx = (if start < 0 then 0
                    else if start \<ge> int (length message) then int (length message) else start)
      in truncationMarker @ drop (nat startIdx) message
      else message)"

definition failed_message :: "string \<Rightarrow> string \<Rightarrow> string" where
  "failed_message task message =
     (let pre = ''task '' @ task @ '' failed: ''
      in pre @ truncate_logs (int maxConditionMessageLength - int (length pre)) message)"

fun failed_logs_loop ::
  "'w env \<Rightarrow> (string \<rightharpoonup> TaskRun) \<Rightarrow> ChildReference list \<Rightarrow> ('w adapter, string \<times> error option) state" where
  "failed_logs_loop E m [] = State_Monad.return ([], None)"
| "failed_logs_loop E m (childRef # rest) =
     (if cr_Kind childRef \<noteq> ''TaskRun'' then failed_logs_loop E m rest
      else (case m (cr_Name childRef) of
        None \<Rightarrow> failed_logs_loop E m rest
      | Some taskRun \<Rightarrow>
          if \<not> k_nil (tr_Condition taskRun) \<and> k_IsFalse (tr_Condition taskRun)
          then do {
            (message, err) \<leftarrow> getTaskRunLogs E taskRun;
            State_Monad.return (failed_message (cr_PipelineTaskName childRef)
              (if message = [] then k_Message (tr_Condition taskRun) else message), err)
          }
          else failed_logs_loop E m rest))"

definition getFailedTaskRunLogsFromList ::
  "'w env \<Rightarrow> PipelineRun option \<Rightarrow> TaskRun list \<Rightarrow> ('w adapter, string \<times> error option) state" where
  "getFailedTaskRunLogsFromList E pipelineRun taskRuns =
     (case pipelineRun of None \<Rightarrow> State_Monad.return ([], None)
      | Some p \<Rightarrow> failed_logs_loop E (taskRunMap taskRuns) (ChildReferences p))"

definition getFailedTaskRunLogs ::
  "'w env \<Rightarrow> PipelineRun option \<Rightarrow> ('w adapter, string \<times> error option) state" where
  "getFailedTaskRunLogs E pipelineRun =
     attempt (listTaskRunsForPipelineRun E pipelineRun)
       (\<lambda>e. State_Monad.return ([], Some e))
       (\<lambda>taskRuns. getFailedTaskRunLogsFromList E pipelineRun taskRuns)"

section \<open>Spans\<close>

text \<open>Go's zero time, in nanoseconds before the Unix epoch.\<close>

definition zero_time :: time where
  "zero_time = - 62135596800000000000"

definition emitValidationFailureWaitSpan :: "'w env \<Rightarrow> ('w adapter, unit) state" where
  "emitValidationFailureWaitSpan E = do {
     r \<leftarrow> gets release;
     (case GetValidatedCondition (conds E) r of
        None \<Rightarrow> State_Monad.return ()
      | Some cond \<Rightarrow> do {
          validatedAt \<leftarrow> (if c_LastTransitionTime cond = zero_time then load (Now E)
                          else State_Monad.return (c_LastTransitionTime cond));
          modify (\<lambda>s. s\<lparr>spans := spans s @ [ReleaseValidationFailureWait
            (map_index (om_Annotations (rel_meta r)) SpanContextAnnotation)
            (om_Name (rel_meta r)) (om_Namespace (rel_meta r)) (om_Labels (rel_meta r))
            (om_CreationTimestamp (rel_meta r)) validatedAt (c_Message cond)]\<rparr>)
        })
   }"

definition emitTimingSpans :: "PipelineRun option \<Rightarrow> ('w adapter, unit) state" where
  "emitTimingSpans pipelineRun =
     (case pipelineRun of None \<Rightarrow> State_Monad.return ()
      | Some p \<Rightarrow> modify (\<lambda>s. s\<lparr>spans := spans s @ [TimingSpans p]\<rparr>))"

definition patchStatusAndEmitSpans ::
  "'w env \<Rightarrow> Release \<Rightarrow> PipelineRun option \<Rightarrow> ('w adapter, error option) state" where
  "patchStatusAndEmitSpans E base pipelineRun = do {
     err \<leftarrow> patch_status E base;
     (case err of
        Some e \<Rightarrow> State_Monad.return (Some e)
      | None \<Rightarrow> do { emitTimingSpans pipelineRun; State_Monad.return None })
   }"

section \<open>Following a PipelineRun until it ends\<close>

text \<open>
  The failure message: logs, or else the condition's message, whose pointer must not be nil.
  \<open>logs\<close> is the call that fetches the logs.
\<close>

definition failure_message ::
  "PipelineRun \<Rightarrow> ('w adapter, string \<times> error option) state \<Rightarrow> ('w adapter, string outcome) state" where
  "failure_message p logs =
     (if om_DeletionTimestamp (pr_meta p) \<noteq> None \<and> k_IsUnknown (pr_Condition p)
      then State_Monad.return (Returned ''PipelineRun was deleted while still running'')
      else do {
        (message, err) \<leftarrow> logs;
        State_Monad.return
          (if message \<noteq> [] then Returned message
           else if k_nil (pr_Condition p) then Panicked
           else Returned (k_Message (pr_Condition p)))
      })"

text \<open>
  The four functions \<open>registerTenantCollectorsProcessingStatus\<close>, \<open>registerTenantProcessingStatus\<close>,
  \<open>registerManagedCollectorsProcessingStatus\<close> and \<open>registerFinalProcessingStatus\<close> repeat one
  body for their phase.
\<close>

definition register_status ::
  "'w env \<Rightarrow> (time \<Rightarrow> mark) \<Rightarrow> (time \<Rightarrow> string \<Rightarrow> mark) \<Rightarrow> string \<Rightarrow> PipelineRun option \<Rightarrow>
   ('w adapter, error option outcome) state" where
  "register_status E markProcessed markFailed releaseMsg pipelineRun =
     (case pipelineRun of None \<Rightarrow> State_Monad.return (Returned None)
      | Some p \<Rightarrow>
          if \<not> IsPipelineRunDone (Some p) then State_Monad.return (Returned None)
          else do {
            base \<leftarrow> gets release;
            (if k_IsTrue (pr_Condition p)
             then do {
               mark E markProcessed;
               err \<leftarrow> patchStatusAndEmitSpans E base (Some p);
               State_Monad.return (Returned err)
             }
             else unless_panic (failure_message p (getFailedTaskRunLogs E (Some p)))
               (State_Monad.return Panicked)
               (\<lambda>message. do {
                 mark E (\<lambda>t. markFailed t message);
                 mark E (\<lambda>t. MarkReleaseFailed (conds E) t releaseMsg);
                 err \<leftarrow> patchStatusAndEmitSpans E base (Some p);
                 State_Monad.return (Returned err)
               }))
          })"

definition registerTenantCollectorsProcessingStatus ::
  "'w env \<Rightarrow> PipelineRun option \<Rightarrow> ('w adapter, error option outcome) state" where
  "registerTenantCollectorsProcessingStatus E =
     register_status E (MarkTenantCollectorsPipelineProcessed (conds E))
       (MarkTenantCollectorsPipelineProcessingFailed (conds E))
       ''Release processing failed on tenant collectors pipelineRun''"

definition registerTenantProcessingStatus ::
  "'w env \<Rightarrow> PipelineRun option \<Rightarrow> ('w adapter, error option outcome) state" where
  "registerTenantProcessingStatus E =
     register_status E (MarkTenantPipelineProcessed (conds E))
       (MarkTenantPipelineProcessingFailed (conds E))
       ''Release processing failed on tenant pipelineRun''"

definition registerManagedCollectorsProcessingStatus ::
  "'w env \<Rightarrow> PipelineRun option \<Rightarrow> ('w adapter, error option outcome) state" where
  "registerManagedCollectorsProcessingStatus E =
     register_status E (MarkManagedCollectorsPipelineProcessed (conds E))
       (MarkManagedCollectorsPipelineProcessingFailed (conds E))
       ''Release processing failed on managed collectors pipelineRun''"

definition registerFinalProcessingStatus ::
  "'w env \<Rightarrow> PipelineRun option \<Rightarrow> ('w adapter, error option outcome) state" where
  "registerFinalProcessingStatus E =
     register_status E (MarkFinalPipelineProcessed (conds E))
       (MarkFinalPipelineProcessingFailed (conds E))
       ''Release processing failed on final pipelineRun''"

definition failure_reason :: "PipelineRunFailureInfo \<Rightarrow> string" where
  "failure_reason info =
     (if fi_IsOOMKill info then AttemptFailureOOMKillReason
      else if fi_IsTaskRunTimeout info then AttemptFailureTaskRunTimeoutReason
      else if fi_IsPipelineRunTimeout info then AttemptFailurePipelineRunTimeoutReason
      else AttemptFailureErrorReason)"

definition registerManagedProcessingStatus ::
  "'w env \<Rightarrow> PipelineRun option \<Rightarrow> ('w adapter, error option outcome) state" where
  "registerManagedProcessingStatus E pipelineRun =
     (case pipelineRun of None \<Rightarrow> State_Monad.return (Returned None)
      | Some p \<Rightarrow> do {
          base \<leftarrow> gets release;
          (if \<not> IsPipelineRunDone (Some p) \<or> IsCurrentManagedPipelineAttemptDone base
           then State_Monad.return (Returned None)
           else if k_IsTrue (pr_Condition p)
           then do {
             mark E (MarkCurrentManagedPipelineAttemptProcessed (conds E));
             err \<leftarrow> patchStatusAndEmitSpans E base (Some p);
             State_Monad.return (Returned err)
           }
           else do {
             listed \<leftarrow> listTaskRunsForPipelineRun E (Some p);
             (let taskRuns = (case listed of Inl _ \<Rightarrow> [] | Inr ts \<Rightarrow> ts);
                  info = GetPipelineRunFailureInfo (Some p) taskRuns
              in unless_panic
                (failure_message p (getFailedTaskRunLogsFromList E (Some p) taskRuns))
                (State_Monad.return Panicked)
                (\<lambda>message. do {
                  mark E (\<lambda>t. MarkCurrentManagedPipelineAttemptFailed (conds E) t message
                    (failure_reason info) (fi_TaskName info) (fi_StepName info)
                    (fi_SuccessfulTasks info));
                  err \<leftarrow> patchStatusAndEmitSpans E base (Some p);
                  State_Monad.return (Returned err)
                }))
           })
        })"

section \<open>The message of a failed run fits into a condition\<close>

lemma truncate_logs_length:
  assumes "0 \<le> maxLen" "int (length truncationMarker) \<le> maxLen"
  shows "int (length (truncate_logs maxLen message)) \<le> maxLen"
  using assms by (auto simp: truncate_logs_def Let_def)

lemma truncationMarker_length: "length truncationMarker = 15"
  by (simp add: truncationMarker_def)

text \<open>
  The message built from the logs of a failed TaskRun never exceeds the limit the service
  keeps to stay below the API server's bound for condition messages, however long the logs are, as
  long as the task name itself leaves room for the prefix and the truncation marker.
\<close>

lemma failed_message_bounded:
  assumes "length task + 29 \<le> maxConditionMessageLength"
  shows "length (failed_message task message) \<le> maxConditionMessageLength"
proof -
  let ?pre = "''task '' @ task @ '' failed: ''"
  have pre: "length ?pre + 15 \<le> maxConditionMessageLength" using assms by simp
  then have "int (length (truncate_logs (int maxConditionMessageLength - int (length ?pre)) message))
      \<le> int maxConditionMessageLength - int (length ?pre)"
    by (intro truncate_logs_length) (auto simp: truncationMarker_length)
  then show ?thesis by (simp add: failed_message_def Let_def)
qed

end
