(* ===== verification/Adapter_Processing.thy ===== *)
theory Adapter_Processing
  imports Adapter_Register
begin

text \<open>
  The operations of \<open>src/controllers/release/adapter.go\<close> that start a pipeline phase
  (\<open>Ensure...IsProcessed\<close>), follow it (\<open>Ensure...IsTracked\<close>) and, for the managed phase, retry
  or end it (\<open>EnsureManagedPipelineProcessingIsCompleted\<close>).
\<close>

section \<open>Collectors\<close>

text \<open>The active admission of a plan with a target; none for a plan without one.\<close>

definition active_admission ::
  "'w env \<Rightarrow> ReleasePlan \<Rightarrow> ('w adapter, error + ReleasePlanAdmission option) state" where
  "active_admission E rp =
     (if Target (rp_Spec rp) \<noteq> []
      then attempt (load (GetActiveReleasePlanAdmission E rp))
        (\<lambda>e. State_Monad.return (Inl e)) (\<lambda>rpa. State_Monad.return (Inr (Some rpa)))
      else State_Monad.return (Inr None))"

definition EnsureManagedCollectorsPipelineIsProcessed ::
  "'w env \<Rightarrow> ('w adapter, operation_result) state" where
  "EnsureManagedCollectorsPipelineIsProcessed E = do {
     r \<leftarrow> gets release;
     (if HasManagedCollectorsPipelineProcessingFinished (conds E) r \<or>
         \<not> HasTenantCollectorsPipelineProcessingFinished (conds E) r
      then State_Monad.return ContinueProcessing
      else if IsFailed (conds E) r
      then mark_and_patch E (MarkManagedCollectorsPipelineProcessingSkipped (conds E))
      else do {
        run \<leftarrow> get_run E ManagedCollectorsPipelineType;
        attempt (State_Monad.return (expect_run run)) requeue (\<lambda>pipelineRun.
        attempt (get_binding E managedCollectors_info ''tenant'') requeue (\<lambda>tenantRB0.
        attempt (get_binding E managedCollectors_info ''managed'') requeue (\<lambda>managedRB0.
        attempt (get_binding E managedCollectors_info ''secret'') requeue (\<lambda>secretRB0.
          if pipelineRun = None \<or> \<not> IsManagedCollectorsPipelineProcessing (conds E) r
          then attempt (get_plan E) requeue (\<lambda>rp.
            attempt (active_admission E rp) requeue (\<lambda>admission.
              case admission of
                None \<Rightarrow> mark_and_patch E (MarkManagedCollectorsPipelineProcessingSkipped (conds E))
              | Some rpa \<Rightarrow> (case rpas_Collectors (rpa_Spec rpa) of
                  None \<Rightarrow> mark_and_patch E (MarkManagedCollectorsPipelineProcessingSkipped (conds E))
                | Some collectors \<Rightarrow>
                    if pipelineRun = None
                    then (let
                      ns = om_Namespace (rpa_meta rpa);
                      account = col_ServiceAccountName collectors;
                      failed = (\<lambda>msg updates. creation_failed E
                        (MarkManagedCollectorsPipelineProcessing (conds E))
                        (MarkManagedCollectorsPipelineProcessingFailed (conds E)) msg updates)
                    in
                      attempt (binding_if_needed (account \<noteq> []) tenantRB0
                          (createRoleBindingForClusterRole E ''release-pipeline-resource-role''
                             (Origin (rpa_Spec rpa)) account ns))
                        (failed ''Release processing failed on managed collectors RoleBinding creation'' [])
                        (\<lambda>tenantRB.
                      attempt (binding_if_needed (account \<noteq> []) managedRB0
                          (createRoleBindingForClusterRole E ''release-pipeline-resource-role''
                             ns account ns))
                        (failed ''Release processing failed on managed collectors RoleBinding creation''
                           [upd_managedCollectors (put_tenantRB tenantRB)])
                        (\<lambda>managedRB.
                      attempt (binding_if_needed (account \<noteq> [] \<and> Secrets collectors \<noteq> None) secretRB0
                          (createRoleBindingForCollectorSecrets E ''managed-collectors'' ns account
                             (items (Secrets collectors))))
                        (failed ''Release processing failed on managed collectors RoleBinding creation''
                           [upd_managedCollectors (put_managedRB managedRB \<circ> put_tenantRB tenantRB)])
                        (\<lambda>secretRB.
                      unless_panic (createManagedCollectorsPipelineRun E rpa)
                        (State_Monad.return OperationPanic)
                        (\<lambda>res. attempt (State_Monad.return res)
                          (failed ''Release processing failed on managed collectors pipelineRun creation''
                             [upd_managedCollectors (put_secretRB secretRB \<circ> put_managedRB managedRB \<circ>
                                put_tenantRB tenantRB)])
                          (\<lambda>created. do {
                            err \<leftarrow> registerManagedCollectorsProcessingData E (Some created) tenantRB
                              managedRB secretRB;
                            State_Monad.return (RequeueOnErrorOrContinue err)
                          }))))))
                    else do {
                      err \<leftarrow> registerManagedCollectorsProcessingData E pipelineRun tenantRB0 managedRB0
                        secretRB0;
                      State_Monad.return (RequeueOnErrorOrContinue err)
                    })))
          else State_Monad.return ContinueProcessing))))
      })
   }"

definition EnsureTenantCollectorsPipelineIsProcessed ::
  "'w env \<Rightarrow> ('w adapter, operation_result) state" where
  "EnsureTenantCollectorsPipelineIsProcessed E = do {
     r \<leftarrow> gets release;
     (if HasTenantCollectorsPipelineProcessingFinished (conds E) r
      then State_Monad.return ContinueProcessing
      else do {
        run \<leftarrow> get_run E TenantCollectorsPipelineType;
        attempt (State_Monad.return (expect_run run)) requeue (\<lambda>pipelineRun.
        attempt (get_binding E tenantCollectors_info ''tenant'') requeue (\<lambda>tenantRB0.
        attempt (get_binding E tenantCollectors_info ''secret'') requeue (\<lambda>secretRB0.
          if pipelineRun = None \<or> \<not> IsTenantCollectorsPipelineProcessedSuccessfully (conds E) r
          then attempt (get_plan E) requeue (\<lambda>rp.
            case rps_Collectors (rp_Spec rp) of
              None \<Rightarrow> mark_and_patch E (MarkTenantCollectorsPipelineProcessingSkipped (conds E))
            | Some collectors \<Rightarrow>
                attempt (active_admission E rp) requeue (\<lambda>admission.
                  if pipelineRun = None
                  then (let
                    ns = om_Namespace (rp_meta rp);
                    account = col_ServiceAccountName collectors;
                    failed = (\<lambda>msg updates. creation_failed E
                      (MarkTenantCollectorsPipelineProcessing (conds E))
                      (MarkTenantCollectorsPipelineProcessingFailed (conds E)) msg updates)
                  in
                    attempt (binding_if_needed (account \<noteq> []) tenantRB0
                        (createRoleBindingForClusterRole E ''release-pipeline-resource-role''
                           ns account ns))
                      (failed ''Release processing failed on tenant collectors RoleBinding creation'' [])
                      (\<lambda>tenantRB.
                    attempt (binding_if_needed (account \<noteq> [] \<and> Secrets collectors \<noteq> None) secretRB0
                        (createRoleBindingForCollectorSecrets E ''tenant-collectors'' ns account
                           (items (Secrets collectors))))
                      (failed ''Release processing failed on tenant collectors RoleBinding creation''
                         [upd_tenantCollectors (put_tenantRB tenantRB)])
                      (\<lambda>secretRB.
                    unless_panic (createTenantCollectorsPipelineRun E rp admission)
                      (State_Monad.return OperationPanic)
                      (\<lambda>res. attempt (State_Monad.return res)
                        (failed ''Release processing failed on tenant collectors pipelineRun creation''
                           [upd_tenantCollectors (put_secretRB secretRB \<circ> put_tenantRB tenantRB)])
                        (\<lambda>created. do {
                          err \<leftarrow> registerTenantCollectorsProcessingData E (Some created) tenantRB secretRB;
                          State_Monad.return (RequeueOnErrorOrContinue err)
                        })))))
                  else do {
                    err \<leftarrow> registerTenantCollectorsProcessingData E pipelineRun tenantRB0 secretRB0;
                    State_Monad.return (RequeueOnErrorOrContinue err)
                  }))
          else State_Monad.return ContinueProcessing)))
      })
   }"

section \<open>Tenant and final pipelines\<close>

definition EnsureTenantPipelineIsProcessed :: "'w env \<Rightarrow> ('w adapter, operation_result) state" where
  "EnsureTenantPipelineIsProcessed E = do {
     r \<leftarrow> gets release;
     (if HasTenantPipelineProcessingFinished (conds E) r \<or>
         \<not> HasManagedCollectorsPipelineProcessingFinished (conds E) r
      then State_Monad.return ContinueProcessing
      else if IsFailed (conds E) r
      then mark_and_patch E (MarkTenantPipelineProcessingSkipped (conds E))
      else do {
        run \<leftarrow> get_run E TenantPipelineType;
        attempt (State_Monad.return (expect_run run)) requeue (\<lambda>pipelineRun.
          if pipelineRun = None \<or> \<not> IsTenantPipelineProcessing (conds E) r
          then attempt (get_plan E) requeue (\<lambda>rp.
            if TenantPipeline (rp_Spec rp) = None
            then mark_and_patch E (MarkTenantPipelineProcessingSkipped (conds E))
            else if pipelineRun = None
            then attempt (get_snapshot E) requeue (\<lambda>snapshot.
              unless_panic (createTenantPipelineRun E rp snapshot) (State_Monad.return OperationPanic)
                (\<lambda>res. attempt (State_Monad.return res)
                  (creation_failed E (MarkTenantPipelineProcessing (conds E))
                     (MarkTenantPipelineProcessingFailed (conds E))
                     ''Release processing failed on tenant pipelineRun creation'' [])
                  (\<lambda>created. do {
                    err \<leftarrow> registerTenantProcessingData E (Some created);
                    State_Monad.return (RequeueOnErrorOrContinue err)
                  })))
            else do {
              err \<leftarrow> registerTenantProcessingData E pipelineRun;
              State_Monad.return (RequeueOnErrorOrContinue err)
            })
          else State_Monad.return ContinueProcessing)
      })
   }"

definition EnsureFinalPipelineIsProcessed :: "'w env \<Rightarrow> ('w adapter, operation_result) state" where
  "EnsureFinalPipelineIsProcessed E = do {
     r \<leftarrow> gets release;
     (if HasFinalPipelineProcessingFinished (conds E) r \<or>
         \<not> HasManagedPipelineProcessingFinished (conds E) r
      then State_Monad.return ContinueProcessing
      else do {
        run \<leftarrow> get_run E FinalPipelineType;
        attempt (State_Monad.return (expect_run run)) requeue (\<lambda>pipelineRun.
          if pipelineRun = None \<or> \<not> IsFinalPipelineProcessing (conds E) r
          then attempt (get_plan E) requeue (\<lambda>rp.
            if FinalPipeline (rp_Spec rp) = None
            then mark_and_patch E (MarkFinalPipelineProcessingSkipped (conds E))
            else if pipelineRun = None
            then attempt (get_snapshot E) requeue (\<lambda>snapshot.
              unless_panic (createFinalPipelineRun E rp snapshot) (State_Monad.return OperationPanic)
                (\<lambda>res. attempt (State_Monad.return res)
                  (creation_failed E (MarkFinalPipelineProcessing (conds E))
                     (MarkFinalPipelineProcessingFailed (conds E))
                     ''Release processing failed on final pipelineRun creation'' [])
                  (\<lambda>created. do {
                    err \<leftarrow> registerFinalProcessingData E (Some created);
                    State_Monad.return (RequeueOnErrorOrContinue err)
                  })))
            else do {
              err \<leftarrow> registerFinalProcessingData E pipelineRun;
              State_Monad.return (RequeueOnErrorOrContinue err)
            })
          else State_Monad.return ContinueProcessing)
      })
   }"

section \<open>The managed pipeline\<close>

definition EnsureManagedPipelineIsProcessed :: "'w env \<Rightarrow> ('w adapter, operation_result) state" where
  "EnsureManagedPipelineIsProcessed E = do {
     r \<leftarrow> gets release;
     (if HasManagedPipelineProcessingFinished (conds E) r \<or>
         \<not> HasTenantPipelineProcessingFinished (conds E) r
      then State_Monad.return ContinueProcessing
      else if IsFailed (conds E) r
      then mark_and_patch E (MarkManagedPipelineProcessingSkipped (conds E))
      else if IsCurrentManagedPipelineAttemptFailed r
      then State_Monad.return ContinueProcessing
      else do {
        run \<leftarrow> get_run_attempt E (GetManagedPipelineRetryCount r);
        attempt (State_Monad.return (expect_run run)) requeue (\<lambda>pipelineRun.
        attempt (get_attempt_binding E (GetCurrentManagedPipelineAttempt r)) requeue (\<lambda>tenantRB0.
          if pipelineRun = None \<or> \<not> IsManagedPipelineProcessing (conds E) r
          then attempt (load (GetProcessingResources E r))
            (\<lambda>e. if contains (e_msg e) ''no ReleasePlanAdmissions can be found''
                 then mark_and_patch E (MarkManagedPipelineProcessingSkipped (conds E))
                 else requeue e)
            (\<lambda>resources.
              if pipelineRun = None
              then (case rpas_Pipeline (rpa_Spec (res_ReleasePlanAdmission resources)) of
                  None \<Rightarrow> mark_and_patch E (MarkManagedPipelineProcessingSkipped (conds E))
                | Some pipeline \<Rightarrow> (let
                    rpa = res_ReleasePlanAdmission resources;
                    failed = (\<lambda>msg updates. creation_failed E
                      (MarkManagedPipelineProcessing (conds E))
                      (MarkManagedPipelineProcessingFailed (conds E)) msg updates)
                  in
                    attempt (binding_if_needed (pl_ServiceAccountName pipeline \<noteq> []) tenantRB0
                        (createRoleBindingForClusterRole E ''release-pipeline-resource-role''
                           (Origin (rpa_Spec rpa)) (pl_ServiceAccountName pipeline)
                           (om_Namespace (rpa_meta rpa))))
                      (failed ''Release processing failed on managed pipeline RoleBinding creation'' [])
                      (\<lambda>tenantRB.
                    unless_panic (createManagedPipelineRun E resources (pl_TaskRunSpecs pipeline)
                        (pl_Timeouts pipeline))
                      (State_Monad.return OperationPanic)
                      (\<lambda>res. attempt (State_Monad.return res)
                        (failed ''Release processing failed on managed pipelineRun creation''
                           [upd_managed (put_tenantRB tenantRB)])
                        (\<lambda>created. do {
                          err \<leftarrow> registerManagedProcessingData E (Some created) tenantRB None;
                          State_Monad.return (RequeueOnErrorOrContinue err)
                        })))))
              else do {
                err \<leftarrow> registerManagedProcessingData E pipelineRun tenantRB0 None;
                State_Monad.return (RequeueOnErrorOrContinue err)
              })
          else State_Monad.return ContinueProcessing))
      })
   }"

section \<open>Tracking\<close>

text \<open>
  The five tracking operations share one body: find the PipelineRun and register its status.
\<close>

definition track_run ::
  "('w adapter, PipelineRun option \<times> error option) state \<Rightarrow>
   (PipelineRun option \<Rightarrow> ('w adapter, error option outcome) state) \<Rightarrow>
   ('w adapter, operation_result) state" where
  "track_run lookup register = do {
     run \<leftarrow> lookup;
     attempt (State_Monad.return (run_or_error run)) requeue (\<lambda>pipelineRun.
       if pipelineRun = None then State_Monad.return ContinueProcessing
       else unless_panic (register pipelineRun) (State_Monad.return OperationPanic)
         (\<lambda>err. case err of
             Some e \<Rightarrow> requeue e
           | None \<Rightarrow> State_Monad.return ContinueProcessing))
   }"

definition EnsureTenantCollectorsPipelineIsTracked ::
  "'w env \<Rightarrow> ('w adapter, operation_result) state" where
  "EnsureTenantCollectorsPipelineIsTracked E = do {
     r \<leftarrow> gets release;
     (if \<not> IsTenantCollectorsPipelineProcessing (conds E) r \<or>
         HasTenantCollectorsPipelineProcessingFinished (conds E) r
      then State_Monad.return ContinueProcessing
      else track_run (get_run E TenantCollectorsPipelineType)
        (registerTenantCollectorsProcessingStatus E))
   }"

definition EnsureManagedCollectorsPipelineIsTracked ::
  "'w env \<Rightarrow> ('w adapter, operation_result) state" where
  "EnsureManagedCollectorsPipelineIsTracked E = do {
     r \<leftarrow> gets release;
     (if \<not> IsManagedCollectorsPipelineProcessing (conds E) r \<or>
         HasManagedCollectorsPipelineProcessingFinished (conds E) r
      then State_Monad.return ContinueProcessing
      else track_run (get_run E ManagedCollectorsPipelineType)
        (registerManagedCollectorsProcessingStatus E))
   }"

definition EnsureTenantPipelineProcessingIsTracked ::
  "'w env \<Rightarrow> ('w adapter, operation_result) state" where
  "EnsureTenantPipelineProcessingIsTracked E = do {
     r \<leftarrow> gets release;
     (if \<not> IsTenantPipelineProcessing (conds E) r \<or> HasTenantPipelineProcessingFinished (conds E) r
      then State_Monad.return ContinueProcessing
      else track_run (get_run E TenantPipelineType) (registerTenantProcessingStatus E))
   }"

definition EnsureManagedPipelineProcessingIsTracked ::
  "'w env \<Rightarrow> ('w adapter, operation_result) state" where
  "EnsureManagedPipelineProcessingIsTracked E = do {
     r \<leftarrow> gets release;
     (if \<not> IsManagedPipelineProcessing (conds E) r \<or> HasManagedPipelineProcessingFinished (conds E) r
      then State_Monad.return ContinueProcessing
      else track_run (get_run_attempt E (GetManagedPipelineRetryCount r))
        (registerManagedProcessingStatus E))
   }"

definition EnsureFinalPipelineProcessingIsTracked ::
  "'w env \<Rightarrow> ('w adapter, operation_result) state" where
  "EnsureFinalPipelineProcessingIsTracked E = do {
     r \<leftarrow> gets release;
     (if \<not> IsFinalPipelineProcessing (conds E) r \<or> HasFinalPipelineProcessingFinished (conds E) r
      then State_Monad.return ContinueProcessing
      else track_run (get_run E FinalPipelineType) (registerFinalProcessingStatus E))
   }"

section \<open>Retrying the managed pipeline\<close>

definition canRetryManagedPipeline :: "Release \<Rightarrow> ReleasePlanAdmission \<Rightarrow> bool" where
  "canRetryManagedPipeline r rpa \<longleftrightarrow>
     IsCurrentManagedPipelineAttemptRetriable r \<and> IsRetryEnabled rpa \<and>
     (case rpast_RetryInfo (rpa_Status rpa) of
        Some ri \<Rightarrow> (case ri_MaxRetries ri of
            Some m \<Rightarrow> GetManagedPipelineRetryCount r < m | None \<Rightarrow> False)
      | None \<Rightarrow> False)"

definition retryManagedPipeline :: "'w env \<Rightarrow> ('w adapter, error option outcome) state" where
  "retryManagedPipeline E = do {
     r \<leftarrow> gets release;
     run \<leftarrow> get_run_attempt E (GetManagedPipelineRetryCount r + 1);
     attempt (State_Monad.return (expect_run run)) (\<lambda>e. State_Monad.return (Returned (Some e)))
       (\<lambda>pipelineRun.
     attempt (get_attempt_binding E (GetCurrentManagedPipelineAttempt r))
       (\<lambda>e. State_Monad.return (Returned (Some e))) (\<lambda>tenantRB.
       if pipelineRun = None
       then attempt (load (GetProcessingResources E r))
         (\<lambda>e. State_Monad.return (Returned (Some e))) (\<lambda>resources.
         unless_panic (computeRetryOverrides E resources) (State_Monad.return Panicked)
           (\<lambda>(taskRunSpecs, timeouts, appliedMitigation).
         unless_panic (createManagedPipelineRun E resources taskRunSpecs timeouts)
           (State_Monad.return Panicked)
           (\<lambda>res. attempt (State_Monad.return res) (\<lambda>e. State_Monad.return (Returned (Some e)))
             (\<lambda>created. do {
               err \<leftarrow> registerManagedProcessingData E (Some created) tenantRB appliedMitigation;
               State_Monad.return (Returned err)
             }))))
       else do {
         err \<leftarrow> registerManagedProcessingData E pipelineRun tenantRB None;
         State_Monad.return (Returned err)
       }))
   }"

definition EnsureManagedPipelineProcessingIsCompleted ::
  "'w env \<Rightarrow> ('w adapter, operation_result) state" where
  "EnsureManagedPipelineProcessingIsCompleted E = do {
     r \<leftarrow> gets release;
     (if \<not> IsManagedPipelineProcessing (conds E) r \<or> HasManagedPipelineProcessingFinished (conds E) r
      then State_Monad.return ContinueProcessing
      else if \<not> IsCurrentManagedPipelineAttemptFailed r
      then State_Monad.return ContinueProcessing
      else attempt (load (GetActiveReleasePlanAdmissionFromRelease E r)) requeue (\<lambda>rpa.
        case MatchDisablingTags (Compile (lib E)) (ExtractTags (Unmarshal (lib E)) (rel_Data (Spec r)))
               (items (GetDisablingTags rpa)) of
          (matchedReleaseTags, disabledByRelease) \<Rightarrow>
            if canRetryManagedPipeline r rpa \<and> \<not> disabledByRelease
            then unless_panic (retryManagedPipeline E) (State_Monad.return OperationPanic)
              (\<lambda>err. case err of
                  Some e \<Rightarrow> creation_failed E (MarkManagedPipelineProcessing (conds E))
                    (MarkManagedPipelineProcessingFailed (conds E))
                    ''Release processing failed on managed pipelineRun creation'' [] e
                | None \<Rightarrow> State_Monad.return ContinueProcessing)
            else do {
              base \<leftarrow> gets release;
              (if canRetryManagedPipeline r rpa \<and> disabledByRelease
               then mark E (\<lambda>_. MarkCurrentManagedPipelineAttemptRetryDisabled
                 (''disabled by Release tag(s): '' @ matchedReleaseTags))
               else State_Monad.return ());
              mark E (\<lambda>t. MarkManagedPipelineProcessingFailed (conds E) t
                ''Release processing failed on managed pipelineRun'');
              mark E (\<lambda>t. MarkReleaseFailed (conds E) t
                ''Release processing failed on managed pipelineRun'');
              err \<leftarrow> patch_status E base;
              State_Monad.return (RequeueOnErrorOrContinue err)
            }))
   }"

end
