(* ===== verification/Adapter_Cleanup.thy ===== *)
theory Adapter_Cleanup
  imports Adapter_Register
begin

text \<open>
  The parts of \<open>src/controllers/release/adapter.go\<close> that release resources: deleting RoleBindings
  and Roles, removing the finalizer of the PipelineRuns once their phase has ended, and
  finalizing a Release that is being deleted.
\<close>

text \<open>Run a call that may fail, and go on only if it did not.\<close>

definition and_then ::
  "('s, error option) state \<Rightarrow> ('s, error option) state \<Rightarrow> ('s, error option) state" where
  "and_then m k = do {
     err \<leftarrow> m;
     (case err of Some e \<Rightarrow> State_Monad.return (Some e) | None \<Rightarrow> k)
   }"

section \<open>One PipelineRun with its RoleBindings\<close>

definition delete_binding :: "'w env \<Rightarrow> RoleBinding \<Rightarrow> ('w adapter, unit) state" where
  "delete_binding E rb = do {
     _ \<leftarrow> load (api_DeleteRoleBinding E rb);
     (if RoleRef_Kind rb = ''Role''
      then do {
        (role, err) \<leftarrow> load (api_GetRole E (RoleRef_Name rb) (om_Namespace (rb_meta rb)));
        (case err of
           None \<Rightarrow> do { _ \<leftarrow> load (api_DeleteRole E role); State_Monad.return () }
         | Some _ \<Rightarrow> State_Monad.return ())
      }
      else State_Monad.return ())
   }"

fun delete_bindings :: "'w env \<Rightarrow> RoleBinding option list \<Rightarrow> ('w adapter, unit) state" where
  "delete_bindings E [] = State_Monad.return ()"
| "delete_bindings E (None # rbs) = delete_bindings E rbs"
| "delete_bindings E (Some rb # rbs) = do { delete_binding E rb; delete_bindings E rbs }"

definition cleanupProcessingResources ::
  "'w env \<Rightarrow> PipelineRun option \<Rightarrow> RoleBinding option list \<Rightarrow> ('w adapter, error option) state" where
  "cleanupProcessingResources E pipelineRun roleBindings = do {
     delete_bindings E roleBindings;
     (case pipelineRun of None \<Rightarrow> State_Monad.return None
      | Some p \<Rightarrow>
          if ContainsFinalizer (lib E) (om_Finalizers (pr_meta p)) ReleaseFinalizer
          then do {
            (fresh, err) \<leftarrow> load (api_GetPipelineRun E (om_Name (pr_meta p)) (om_Namespace (pr_meta p)));
            (case err of
               Some e \<Rightarrow> State_Monad.return (if IsNotFound e then None else Some e)
             | None \<Rightarrow>
                 if ContainsFinalizer (lib E) (om_Finalizers (pr_meta fresh)) ReleaseFinalizer
                 then load (api_PatchFinalizers E fresh
                   (filter (\<lambda>f. f \<noteq> ReleaseFinalizer) (om_Finalizers (pr_meta fresh))))
                 else State_Monad.return None)
          }
          else State_Monad.return None)
   }"

definition cleanupPipelineResources ::
  "'w env \<Rightarrow> PipelineRun option \<Rightarrow> RoleBinding option list \<Rightarrow> ('w adapter, error option) state" where
  "cleanupPipelineResources E pipelineRun roleBindings = do {
     err \<leftarrow> cleanupProcessingResources E pipelineRun roleBindings;
     State_Monad.return (if unexpected err then err else None)
   }"

section \<open>Cleaning up after a phase\<close>

fun cleanup_attempts ::
  "'w env \<Rightarrow> int \<Rightarrow> PipelineAttempt list \<Rightarrow> ('w adapter, error option) state" where
  "cleanup_attempts E i [] = State_Monad.return None"
| "cleanup_attempts E i (a # as) =
     (if pa_PipelineRun a = [] then cleanup_attempts E (i + 1) as
      else do {
        run \<leftarrow> get_run_attempt E i;
        attempt (State_Monad.return (expect_run run)) (\<lambda>e. State_Monad.return (Some e))
          (\<lambda>pipelineRun. case pipelineRun of
              None \<Rightarrow> cleanup_attempts E (i + 1) as
            | Some p \<Rightarrow> and_then (cleanupPipelineResources E (Some p) [])
                (cleanup_attempts E (i + 1) as))
      })"

definition cleanupManagedPipelineResources :: "'w env \<Rightarrow> ('w adapter, error option) state" where
  "cleanupManagedPipelineResources E = do {
     r \<leftarrow> gets release;
     (case ManagedPipelineAttempts (Status r) of
        [] \<Rightarrow> State_Monad.return None
      | first # rest \<Rightarrow>
          and_then
            (if TenantRoleBinding (pa_RoleBindings first) \<noteq> []
             then attempt (get_attempt_binding E (Some first)) (\<lambda>e. State_Monad.return (Some e))
               (\<lambda>rb. case rb of
                   None \<Rightarrow> State_Monad.return None
                 | Some b \<Rightarrow> cleanupProcessingResources E None [Some b])
             else State_Monad.return None)
            (cleanup_attempts E 0 (first # rest)))
   }"

definition cleanupPipeline :: "'w env \<Rightarrow> PipelineType \<Rightarrow> ('w adapter, error option) state" where
  "cleanupPipeline E pipelineType =
     (if pipelineType = ManagedPipelineType then cleanupManagedPipelineResources E
      else if pipelineType \<noteq> TenantPipelineType \<and> pipelineType \<noteq> FinalPipelineType
      then State_Monad.return (Some (plain_error
        (''unsupported pipeline type: '' @ PipelineType_String pipelineType)))
      else do {
        run \<leftarrow> get_run E pipelineType;
        attempt (State_Monad.return (expect_run run)) (\<lambda>e. State_Monad.return (Some e))
          (\<lambda>pipelineRun. if pipelineRun = None then State_Monad.return None
             else cleanupPipelineResources E pipelineRun [])
      })"

text \<open>An object or an error collected under a prefix.\<close>

definition collect :: "string \<Rightarrow> error + 'a option \<Rightarrow> 'a option \<times> error list" where
  "collect pre res = (case res of Inl e \<Rightarrow> (None, [wrap_error pre e]) | Inr x \<Rightarrow> (x, []))"

definition as_error :: "string \<Rightarrow> error option \<Rightarrow> error list" where
  "as_error pre err = (case err of None \<Rightarrow> [] | Some e \<Rightarrow> [wrap_error pre e])"

text \<open>The end of both cleanup operations: one retriable error requeues, others are logged.\<close>

definition cleanup_result :: "lib \<Rightarrow> error list \<Rightarrow> operation_result" where
  "cleanup_result K errs =
     (if \<exists>e\<in>set errs. IsRetriable (Some e)
      then RequeueWithError (plain_error (''cleanup failed: '' @ ErrorList K errs))
      else ContinueProcessing)"

definition EnsureCollectorsProcessingResourcesAreCleanedUp ::
  "'w env \<Rightarrow> ('w adapter, operation_result) state" where
  "EnsureCollectorsProcessingResourcesAreCleanedUp E = do {
     r \<leftarrow> gets release;
     (if \<not> HasTenantCollectorsPipelineProcessingFinished (conds E) r \<or>
         \<not> HasManagedCollectorsPipelineProcessingFinished (conds E) r
      then State_Monad.return ContinueProcessing
      else do {
        run1 \<leftarrow> get_run E TenantCollectorsPipelineType;
        rb1 \<leftarrow> get_binding E tenantCollectors_info ''tenant'';
        rb2 \<leftarrow> get_binding E tenantCollectors_info ''secret'';
        (let
           (tenantRun, e1) = collect ''failed to get tenant collectors pipeline: '' (expect_run run1);
           (tenantTenantRB, e2) = collect ''failed to get tenant collectors tenant rolebinding: '' rb1;
           (tenantSecretRB, e3) = collect ''failed to get tenant collectors secret rolebinding: '' rb2
         in do {
           c1 \<leftarrow> cleanupPipelineResources E tenantRun [tenantTenantRB, tenantSecretRB];
           run2 \<leftarrow> get_run E ManagedCollectorsPipelineType;
           rb3 \<leftarrow> get_binding E managedCollectors_info ''tenant'';
           rb4 \<leftarrow> get_binding E managedCollectors_info ''managed'';
           rb5 \<leftarrow> get_binding E managedCollectors_info ''secret'';
           (let
              (managedRun, e4) =
                collect ''failed to get managed collectors pipeline: '' (expect_run run2);
              (managedTenantRB, e5) =
                collect ''failed to get managed collectors tenant rolebinding: '' rb3;
              (managedManagedRB, e6) =
                collect ''failed to get managed collectors managed rolebinding: '' rb4;
              (managedSecretRB, e7) =
                collect ''failed to get managed collectors secret rolebinding: '' rb5
            in do {
              c2 \<leftarrow> cleanupPipelineResources E managedRun
                [managedTenantRB, managedManagedRB, managedSecretRB];
              State_Monad.return (cleanup_result (lib E)
                (e1 @ e2 @ e3 @ as_error ''tenant collectors cleanup failed: '' c1 @
                 e4 @ e5 @ e6 @ e7 @ as_error ''managed collectors cleanup failed: '' c2))
            })
         })
      })
   }"

definition EnsureReleaseProcessingResourcesAreCleanedUp ::
  "'w env \<Rightarrow> ('w adapter, operation_result) state" where
  "EnsureReleaseProcessingResourcesAreCleanedUp E = do {
     r \<leftarrow> gets release;
     (if \<not> HasTenantPipelineProcessingFinished (conds E) r
      then State_Monad.return ContinueProcessing
      else do {
        c1 \<leftarrow> cleanupPipeline E TenantPipelineType;
        (if \<not> HasManagedPipelineProcessingFinished (conds E) r
         then State_Monad.return ContinueProcessing
         else do {
           c2 \<leftarrow> cleanupPipeline E ManagedPipelineType;
           (if \<not> HasFinalPipelineProcessingFinished (conds E) r
            then State_Monad.return ContinueProcessing
            else do {
              c3 \<leftarrow> cleanupPipeline E FinalPipelineType;
              State_Monad.return (cleanup_result (lib E)
                (as_error ''tenant pipeline cleanup failed: '' c1 @
                 as_error ''managed pipeline cleanup failed: '' c2 @
                 as_error ''final pipeline cleanup failed: '' c3))
            })
         })
      })
   }"

section \<open>Finalizing a Release\<close>

definition delete_run :: "'w env \<Rightarrow> bool \<Rightarrow> PipelineRun option \<Rightarrow> ('w adapter, error option) state" where
  "delete_run E del pipelineRun =
     (case pipelineRun of
        Some p \<Rightarrow>
          if del then do {
            err \<leftarrow> load (api_DeletePipelineRun E p);
            State_Monad.return (if unexpected err then err else None)
          }
          else State_Monad.return None
      | None \<Rightarrow> State_Monad.return None)"

abbreviation fail_op :: "error \<Rightarrow> ('s, error option) state" where
  "fail_op e \<equiv> State_Monad.return (Some e)"

fun finalize_attempts ::
  "'w env \<Rightarrow> bool \<Rightarrow> int \<Rightarrow> PipelineAttempt list \<Rightarrow> ('w adapter, error option) state" where
  "finalize_attempts E del i [] = State_Monad.return None"
| "finalize_attempts E del i (a # as) =
     (if pa_PipelineRun a = [] then finalize_attempts E del (i + 1) as
      else do {
        run \<leftarrow> get_run_attempt E i;
        attempt (State_Monad.return (expect_run run)) fail_op
          (\<lambda>pipelineRun. case pipelineRun of
              None \<Rightarrow> finalize_attempts E del (i + 1) as
            | Some p \<Rightarrow> and_then (cleanupProcessingResources E (Some p) [])
                (and_then (delete_run E del (Some p)) (finalize_attempts E del (i + 1) as)))
      })"

definition finalizeRelease :: "'w env \<Rightarrow> bool \<Rightarrow> ('w adapter, error option) state" where
  "finalizeRelease E del = do {
     r \<leftarrow> gets release;
     run \<leftarrow> get_run E ManagedCollectorsPipelineType;
     attempt (State_Monad.return (expect_run run)) fail_op (\<lambda>mcRun.
     attempt (get_binding E managedCollectors_info ''tenant'') fail_op (\<lambda>mcTenant.
     attempt (get_binding E managedCollectors_info ''managed'') fail_op (\<lambda>mcManaged.
     attempt (get_binding E managedCollectors_info ''secret'') fail_op (\<lambda>mcSecret.
     and_then (cleanupProcessingResources E mcRun [mcTenant, mcManaged, mcSecret]) (
     and_then (delete_run E del mcRun) (do {
     run \<leftarrow> get_run E TenantCollectorsPipelineType;
     attempt (State_Monad.return (expect_run run)) fail_op (\<lambda>tcRun.
     attempt (get_binding E tenantCollectors_info ''tenant'') fail_op (\<lambda>tcTenant.
     attempt (get_binding E tenantCollectors_info ''secret'') fail_op (\<lambda>tcSecret.
     and_then (cleanupProcessingResources E tcRun [tcTenant, tcSecret]) (
     and_then (delete_run E del tcRun) (do {
     run \<leftarrow> get_run E TenantPipelineType;
     attempt (State_Monad.return (expect_run run)) fail_op (\<lambda>tRun.
     and_then (cleanupProcessingResources E tRun [None]) (
     and_then (delete_run E del tRun) (
     attempt (get_attempt_binding E
         (case ManagedPipelineAttempts (Status r) of [] \<Rightarrow> None | a # _ \<Rightarrow> Some a)) fail_op (\<lambda>mTenant.
     and_then (cleanupProcessingResources E None [mTenant]) (
     and_then (finalize_attempts E del 0 (ManagedPipelineAttempts (Status r))) (do {
     run \<leftarrow> get_run E FinalPipelineType;
     attempt (State_Monad.return (expect_run run)) fail_op (\<lambda>fRun.
     and_then (cleanupProcessingResources E fRun [None]) (
     delete_run E del fRun))
     }))))))
     })))))
     }))))))
   }"

end
