(* ===== verification/Adapter_Lifecycle.thy ===== *)
theory Adapter_Lifecycle
  imports Adapter_Cleanup
begin

text \<open>
  The operations of \<open>src/controllers/release/adapter.go\<close> around the pipelines: loading the
  configuration, finalizers, starting, validating, dating and completing the Release. The
  toolkit's \<open>Validate\<close> is a field of the \<open>toolkit\<close> argument; locale \<open>validate_api\<close> states what its
  documentation promises.
\<close>

datatype validation_result =
    ValidationResult (vr_Valid: bool) (vr_Err: "error option")
  | ValidationPanic

record 's toolkit =
  Validate :: "('s, validation_result) state list \<Rightarrow> ('s, validation_result) state"
  ReconcileHandler :: "('s, operation_result) state list \<Rightarrow> ('s, operation_result option) state"

section \<open>Configuration and finalizers\<close>

definition EnsureConfigIsLoaded :: "'w env \<Rightarrow> ('w adapter, operation_result) state" where
  "EnsureConfigIsLoaded E = do {
     namespace \<leftarrow> load (Getenv E ''SERVICE_NAMESPACE'');
     (if namespace = []
      then do {
        base \<leftarrow> gets release;
        mark E (\<lambda>t. MarkValidationFailed (conds E) t ''SERVICE_NAMESPACE env var not set'');
        mark E (\<lambda>t. MarkReleaseFailed (conds E) t ''Release validation failed'');
        err \<leftarrow> patch_status E base;
        State_Monad.return (RequeueOnErrorOrStop err)
      }
      else do {
        (rsc, err) \<leftarrow> load (GetReleaseServiceConfig E ReleaseServiceConfigResourceName namespace);
        modify (\<lambda>s. s\<lparr>releaseServiceConfig := Some rsc\<rparr>);
        (case err of
           Some e \<Rightarrow>
             if \<not> IsNotFound e then requeue e
             else do {
               modify (\<lambda>s. s\<lparr>releaseServiceConfig := Some (getEmptyReleaseServiceConfig namespace)\<rparr>);
               State_Monad.return ContinueProcessing
             }
         | None \<Rightarrow> State_Monad.return ContinueProcessing)
      })
   }"

definition upd_finalizers :: "(string list \<Rightarrow> string list) \<Rightarrow> Release \<Rightarrow> Release" where
  "upd_finalizers f = rel_meta_update (om_Finalizers_update f)"

definition EnsureFinalizersAreCalled :: "'w env \<Rightarrow> ('w adapter, operation_result) state" where
  "EnsureFinalizersAreCalled E = do {
     r \<leftarrow> gets release;
     (if om_DeletionTimestamp (rel_meta r) = None then State_Monad.return ContinueProcessing
      else if ContainsFinalizer (lib E) (om_Finalizers (rel_meta r)) ReleaseFinalizer
      then do {
        ferr \<leftarrow> finalizeRelease E True;
        (case ferr of
           Some e \<Rightarrow> requeue e
         | None \<Rightarrow> do {
             base \<leftarrow> gets release;
             edit (upd_finalizers (\<lambda>fs. RemoveFinalizer (lib E) fs ReleaseFinalizer));
             err \<leftarrow> patch_release E base;
             (case err of
                Some e \<Rightarrow> requeue e
              | None \<Rightarrow> State_Monad.return Requeue)
           })
      }
      else State_Monad.return Requeue)
   }"

definition EnsureFinalizerIsAdded :: "'w env \<Rightarrow> ('w adapter, operation_result) state" where
  "EnsureFinalizerIsAdded E = do {
     r \<leftarrow> gets release;
     (if \<not> (\<exists>f\<in>set (om_Finalizers (rel_meta r)). f = ReleaseFinalizer)
      then do {
        edit (upd_finalizers (\<lambda>fs. AddFinalizer (lib E) fs ReleaseFinalizer));
        err \<leftarrow> patch_release E r;
        State_Monad.return (RequeueOnErrorOrContinue err)
      }
      else State_Monad.return ContinueProcessing)
   }"

section \<open>Start and end\<close>

definition EnsureReleaseIsCompleted :: "'w env \<Rightarrow> ('w adapter, operation_result) state" where
  "EnsureReleaseIsCompleted E = do {
     r \<leftarrow> gets release;
     (if HasReleaseFinished (conds E) r then State_Monad.return ContinueProcessing
      else if \<not> IsFinalPipelineProcessedSuccessfully (conds E) r
      then State_Monad.return ContinueProcessing
      else mark_and_patch E (MarkReleased (conds E)))
   }"

definition EnsureReleaseIsRunning :: "'w env \<Rightarrow> ('w adapter, operation_result) state" where
  "EnsureReleaseIsRunning E = do {
     r \<leftarrow> gets release;
     (if HasReleaseFinished (conds E) r
      then if \<not> AreAllProcessingPhasesFinished (conds E) r
           then State_Monad.return ContinueProcessing
           else State_Monad.return StopProcessing
      else if \<not> IsReleasing (conds E) r
      then mark_and_patch E (\<lambda>t. MarkReleasing (conds E) t [])
      else State_Monad.return ContinueProcessing)
   }"

section \<open>Metadata and expiration\<close>

text \<open>One of the four copies, which stops the operation on an error.\<close>

definition copy_meta ::
  "(object_meta \<Rightarrow> object_meta \<Rightarrow> string \<Rightarrow> error option \<times> object_meta) \<Rightarrow> object_meta \<Rightarrow> string \<Rightarrow>
   ('w adapter, error + unit) state" where
  "copy_meta f src pre = do {
     r \<leftarrow> gets release;
     (case f src (rel_meta r) pre of (err, m) \<Rightarrow> do {
        edit (rel_meta_update (\<lambda>_. m));
        State_Monad.return (case err of None \<Rightarrow> Inr () | Some e \<Rightarrow> Inl e)
      })
   }"

definition EnsureApplicationMetadataIsSet :: "'w env \<Rightarrow> ('w adapter, operation_result) state" where
  "EnsureApplicationMetadataIsSet E =
     attempt (get_snapshot E) requeue (\<lambda>snapshot. do {
       base \<leftarrow> gets release;
       attempt (copy_meta (CopyAnnotationsByPrefix (lib E)) (sn_meta snapshot) PipelinesAsCodePrefix)
         requeue (\<lambda>_.
       attempt (copy_meta (CopyLabelsByPrefix (lib E)) (sn_meta snapshot) PipelinesAsCodePrefix)
         requeue (\<lambda>_.
       attempt (copy_meta (CopyAnnotationsByPrefix (lib E)) (sn_meta snapshot) RhtapDomain)
         requeue (\<lambda>_.
       attempt (copy_meta (CopyLabelsByPrefix (lib E)) (sn_meta snapshot) RhtapDomain)
         requeue (\<lambda>_. do {
           err \<leftarrow> patch_release E base;
           (if unexpected err then requeue (the err) else State_Monad.return ContinueProcessing)
         }))))
     })"

definition EnsureReleaseExpirationTimeIsAdded :: "'w env \<Rightarrow> ('w adapter, operation_result) state" where
  "EnsureReleaseExpirationTimeIsAdded E = do {
     r \<leftarrow> gets release;
     (if ExpirationTime (Status r) = None
      then do {
        (rp, err) \<leftarrow> load (GetReleasePlan E r);
        (if unexpected err then requeue (the err)
         else do {
           edit (\<lambda>r. if GracePeriodDays (Spec r) = 0
             then Spec_update (GracePeriodDays_update (\<lambda>_. ReleaseGracePeriodDays (rp_Spec rp))) r
             else r);
           edit (\<lambda>r. SetExpirationTime (GracePeriodDays (Spec r)) r);
           perr \<leftarrow> patch_status E r;
           State_Monad.return (RequeueOnErrorOrContinue perr)
         })
      }
      else State_Monad.return ContinueProcessing)
   }"

section \<open>Validation\<close>

abbreviation valid :: "('w adapter, validation_result) state" where
  "valid \<equiv> State_Monad.return (ValidationResult True None)"

abbreviation invalid :: "('w adapter, validation_result) state" where
  "invalid \<equiv> State_Monad.return (ValidationResult False None)"

definition invalidate :: "'w env \<Rightarrow> string \<Rightarrow> ('w adapter, validation_result) state" where
  "invalidate E msg = do {
     mark E (\<lambda>t. MarkValidationFailed (conds E) t msg);
     invalid
   }"

definition validationError :: "'w env \<Rightarrow> error \<Rightarrow> ('w adapter, validation_result) state" where
  "validationError E err =
     (if IsRetriable (Some err) then State_Monad.return (ValidationResult False (Some err))
      else invalidate E (e_msg err))"

definition validatePipelineDefined :: "'w env \<Rightarrow> ('w adapter, validation_result) state" where
  "validatePipelineDefined E =
     attempt (get_plan E) (validationError E) (\<lambda>rp. do {
       edit (Status_update (st_Target_update (\<lambda>_.
         if Target (rp_Spec rp) = [] then om_Namespace (rp_meta rp) else Target (rp_Spec rp))));
       (if TenantPipeline (rp_Spec rp) = None
        then if Target (rp_Spec rp) = []
          then invalidate E (''releasePlan has no pipeline or target. Each Release should define a '' @
            ''tenant pipeline, managed pipeline, or both'')
          else do {
            r \<leftarrow> gets release;
            attempt (load (GetActiveReleasePlanAdmissionFromRelease E r)) (validationError E) (\<lambda>rpa.
              if rpas_Pipeline (rpa_Spec rpa) = None
              then invalidate E (''releasePlan and releasePlanAdmission both have no pipeline. Each '' @
                ''Release should define a tenant pipeline, managed pipeline, or both'')
              else valid)
          }
        else valid)
     })"

definition validateProcessingResources :: "'w env \<Rightarrow> ('w adapter, validation_result) state" where
  "validateProcessingResources E =
     attempt (get_plan E) (validationError E) (\<lambda>rp.
       if TenantPipeline (rp_Spec rp) = None
       then do {
         r \<leftarrow> gets release;
         attempt (load (GetProcessingResources E r)) (validationError E) (\<lambda>_. valid)
       }
       else valid)"

definition validateApplication :: "'w env \<Rightarrow> ('w adapter, validation_result) state" where
  "validateApplication E =
     attempt (get_plan E) (validationError E) (\<lambda>rp.
     attempt (get_snapshot E) (validationError E) (\<lambda>snapshot.
       if Application (rp_Spec rp) \<noteq> sn_Application snapshot
       then invalidate E ''different Application referenced in ReleasePlan and Snapshot''
       else valid))"

definition automated_label :: "Release \<Rightarrow> bool" where
  "automated_label r \<longleftrightarrow> map_index (om_Labels (rel_meta r)) AutomatedLabel = ''true''"

definition set_author :: "string \<Rightarrow> Release \<Rightarrow> Release" where
  "set_author a = Status_update (Attribution_update (Author_update (\<lambda>_. a)))"

definition set_standing :: "Release \<Rightarrow> Release" where
  "set_standing = Status_update (Attribution_update (StandingAuthorization_update (\<lambda>_. True)))"

definition validateAuthor :: "'w env \<Rightarrow> ('w adapter, validation_result) state" where
  "validateAuthor E = do {
     r \<leftarrow> gets release;
     (if IsAttributed r then valid
      else if automated_label r \<and> \<not> IsAutomated r
      then do {
        mark E (\<lambda>t. MarkValidationFailed (conds E) t
          ''automated not set in status for automated release'');
        t \<leftarrow> load (Now E);
        (if om_CreationTimestamp (rel_meta r) + 5 * minute < t then invalid
         else State_Monad.return (ValidationResult False
           (Some (plain_error ''automated not set in status for automated release''))))
      }
      else attempt (get_plan E) (validationError E) (\<lambda>rp.
        if automated_label r
        then (let author = map_index (om_Labels (rp_meta rp)) AuthorLabel
          in if author = []
             then invalidate E ''no author in the ReleasePlan found for automated release''
             else do { edit set_standing; edit (set_author author); valid })
        else (let author = map_index (om_Labels (rel_meta r)) AuthorLabel
          in if author = [] then invalidate E ''no author found for manual release''
             else do { edit (set_author author); valid })))
   }"

definition debug_only_error :: string where
  "debug_only_error =
     ''tried using debug only options while debug mode is disabled in the ReleaseServiceConfig''"

text \<open>
  One of the three checks; reading \<open>a.releaseServiceConfig.Spec.Debug\<close> panics when no
  configuration is loaded.
\<close>

definition check_source ::
  "'w env \<Rightarrow> PipelineRef option \<Rightarrow> ('w adapter, validation_result) state \<Rightarrow>
   ('w adapter, validation_result) state" where
  "check_source E ref k =
     (case ref of None \<Rightarrow> k
      | Some pipelineRef \<Rightarrow> do {
          config \<leftarrow> gets releaseServiceConfig;
          (case config of
             None \<Rightarrow> State_Monad.return ValidationPanic
           | Some rsc \<Rightarrow>
               if \<not> Debug (rsc_Spec rsc) \<and> IsClusterScoped pipelineRef
               then invalidate E debug_only_error
               else k)
        })"

definition validatePipelineSource :: "'w env \<Rightarrow> ('w adapter, validation_result) state" where
  "validatePipelineSource E =
     attempt (get_plan E) (validationError E) (\<lambda>rp.
       check_source E (map_option (pl_PipelineRef \<circ> pp_Pipeline) (TenantPipeline (rp_Spec rp)))
      (check_source E (map_option (pl_PipelineRef \<circ> pp_Pipeline) (FinalPipeline (rp_Spec rp)))
      (if Target (rp_Spec rp) \<noteq> []
       then do {
         r \<leftarrow> gets release;
         attempt (load (GetActiveReleasePlanAdmissionFromRelease E r)) (validationError E) (\<lambda>rpa.
           check_source E (map_option pl_PipelineRef (rpas_Pipeline (rpa_Spec rpa))) valid)
       }
       else valid)))"

definition validations :: "'w env \<Rightarrow> ('w adapter, validation_result) state list" where
  "validations E = [validatePipelineDefined E, validateProcessingResources E,
     validateApplication E, validateAuthor E, validatePipelineSource E]"

definition EnsureReleaseIsValid :: "'w env \<Rightarrow> 'w adapter toolkit \<Rightarrow> ('w adapter, operation_result) state" where
  "EnsureReleaseIsValid E T = do {
     base \<leftarrow> gets release;
     result \<leftarrow> Validate T (validations E);
     (case result of
        ValidationPanic \<Rightarrow> State_Monad.return OperationPanic
      | ValidationResult ok verr \<Rightarrow>
          if \<not> ok \<and> verr \<noteq> None then requeue (the verr)
          else do {
            (if \<not> ok then mark E (\<lambda>t. MarkReleaseFailed (conds E) t ''Release validation failed'')
             else State_Monad.return ());
            r \<leftarrow> gets release;
            (if IsReleasing (conds E) r
             then mark_and_patch_from E base (MarkValidated (conds E))
             else do {
               err \<leftarrow> patch_status E base;
               (if err = None \<and> \<not> HasReleaseFinished (conds E) base \<and> \<not> ok
                then emitValidationFailureWaitSpan E else State_Monad.return ());
               r' \<leftarrow> gets release;
               (if \<not> AreAllProcessingPhasesFinished (conds E) r'
                then State_Monad.return (RequeueOnErrorOrContinue err)
                else State_Monad.return (RequeueOnErrorOrStop err))
             })
          })
   }"

end
