(* ===== verification/Release_Controller.thy ===== *)
theory Release_Controller
  imports Adapter_Processing Adapter_Lifecycle
begin

text \<open>
  \<open>Reconcile\<close> of \<open>src/controllers/release/controller.go\<close>: it loads the Release and hands the list
  of operations to the toolkit. Locale \<open>toolkit_api\<close> states what the documentation of
  \<open>operator-toolkit\<close> promises of its two loops; \<open>standard_toolkit\<close> is the instance that runs them
  as documented.
\<close>

definition operations :: "'w env \<Rightarrow> 'w adapter toolkit \<Rightarrow> ('w adapter, operation_result) state list" where
  "operations E T =
     [EnsureFinalizersAreCalled E,
      EnsureConfigIsLoaded E,
      EnsureCollectorsProcessingResourcesAreCleanedUp E,
      EnsureReleaseProcessingResourcesAreCleanedUp E,
      EnsureReleaseIsRunning E,
      EnsureReleaseIsValid E T,
      EnsureApplicationMetadataIsSet E,
      EnsureFinalizerIsAdded E,
      EnsureReleaseExpirationTimeIsAdded E,
      EnsureTenantCollectorsPipelineIsProcessed E,
      EnsureTenantCollectorsPipelineIsTracked E,
      EnsureManagedCollectorsPipelineIsProcessed E,
      EnsureManagedCollectorsPipelineIsTracked E,
      EnsureTenantPipelineIsProcessed E,
      EnsureTenantPipelineProcessingIsTracked E,
      EnsureManagedPipelineIsProcessed E,
      EnsureManagedPipelineProcessingIsTracked E,
      EnsureManagedPipelineProcessingIsCompleted E,
      EnsureFinalPipelineIsProcessed E,
      EnsureFinalPipelineProcessingIsTracked E,
      EnsureReleaseIsCompleted E]"

text \<open>How a reconcile ends: no Release, a failed read, or the loop over the operations.\<close>

datatype reconcile_result =
    ReleaseGone
  | GetFailed error
  | Handled "operation_result option"

definition Reconcile :: "'w env \<Rightarrow> 'w adapter toolkit \<Rightarrow> string \<Rightarrow> string \<Rightarrow> ('w, reconcile_result) state" where
  "Reconcile E T name namespace = do {
     (r, err) \<leftarrow> api_GetRelease E name namespace;
     (case err of
        Some e \<Rightarrow> State_Monad.return (if IsNotFound e then ReleaseGone else GetFailed e)
      | None \<Rightarrow> State (\<lambda>w.
          case run_state (ReconcileHandler T (operations E T)) (newAdapter r w) of
            (res, s) \<Rightarrow> (Handled res, world s)))
   }"

section \<open>The toolkit's loops\<close>

locale toolkit_api =
  fixes T :: "'s toolkit"
  assumes handler_nil: "ReconcileHandler T [] = State_Monad.return None"
    and handler_cons: "ReconcileHandler T (op # ops) =
      do { res \<leftarrow> op; (if goes_on res then ReconcileHandler T ops else State_Monad.return (Some res)) }"
    and validate_nil: "Validate T [] = State_Monad.return (ValidationResult True None)"
    and validate_cons: "Validate T (f # fs) =
      do { res \<leftarrow> f;
           (case res of
              ValidationResult True e \<Rightarrow> Validate T fs
            | _ \<Rightarrow> State_Monad.return res) }"
begin

text \<open>An invariant of every operation is an invariant of the loop.\<close>

lemma handler_invariant:
  assumes "\<And>op s. op \<in> set ops \<Longrightarrow> I s \<Longrightarrow> wp op (\<lambda>_. I) s" and "I s"
  shows "wp (ReconcileHandler T ops) (\<lambda>_. I) s"
  using assms
proof (induction ops arbitrary: s)
  case Nil
  then show ?case by (simp add: handler_nil wp_ret)
next
  case (Cons op ops)
  have "wp op (\<lambda>res s. wp (if goes_on res then ReconcileHandler T ops
      else State_Monad.return (Some res)) (\<lambda>_. I) s) s"
  proof (rule wp_mono [of op "\<lambda>_. I"])
    show "wp op (\<lambda>_. I) s" using Cons.prems by simp
  next
    fix res s' assume "I s'"
    then show "wp (if goes_on res then ReconcileHandler T ops
      else State_Monad.return (Some res)) (\<lambda>_. I) s'"
      using Cons by (auto intro!: wp_ret)
  qed
  then show ?case by (simp add: handler_cons wp_bind)
qed

text \<open>Operations that go on only with \<open>I\<close>, before operations that need it.\<close>

lemma handler_append:
  assumes "\<And>op s. op \<in> set pre \<Longrightarrow> I s \<Longrightarrow> wp op (\<lambda>res s. if goes_on res then I s else Q s) s"
    and "\<And>s. I s \<Longrightarrow> wp (ReconcileHandler T ops) (\<lambda>_. Q) s" and "I s"
  shows "wp (ReconcileHandler T (pre @ ops)) (\<lambda>_. Q) s"
  using assms(1,3)
proof (induction pre arbitrary: s)
  case Nil
  then show ?case using assms(2) by simp
next
  case (Cons op pre)
  have "wp op (\<lambda>res s. wp (if goes_on res then ReconcileHandler T (pre @ ops)
      else State_Monad.return (Some res)) (\<lambda>_. Q) s) s"
  proof (rule wp_mono)
    show "wp op (\<lambda>res s. if goes_on res then I s else Q s) s" using Cons.prems by simp
  next
    fix res s' assume "if goes_on res then I s' else Q s'"
    then show "wp (if goes_on res then ReconcileHandler T (pre @ ops)
      else State_Monad.return (Some res)) (\<lambda>_. Q) s'"
      using Cons by (auto intro!: wp_ret split: if_splits)
  qed
  then show ?case by (simp add: handler_cons wp_bind)
qed

lemma validate_invariant:
  assumes "\<And>f s. f \<in> set fs \<Longrightarrow> I s \<Longrightarrow> wp f (\<lambda>_. I) s" and "I s"
  shows "wp (Validate T fs) (\<lambda>_. I) s"
  using assms
proof (induction fs arbitrary: s)
  case Nil
  then show ?case by (simp add: validate_nil wp_ret)
next
  case (Cons f fs)
  have "wp f (\<lambda>res s. wp (case res of ValidationResult True e \<Rightarrow> Validate T fs
      | _ \<Rightarrow> State_Monad.return res) (\<lambda>_. I) s) s"
  proof (rule wp_mono [of f "\<lambda>_. I"])
    show "wp f (\<lambda>_. I) s" using Cons.prems by simp
  next
    fix res s' assume "I s'"
    then show "wp (case res of ValidationResult True e \<Rightarrow> Validate T fs
      | _ \<Rightarrow> State_Monad.return res) (\<lambda>_. I) s'"
      using Cons by (auto intro!: wp_ret split: validation_result.split bool.split)
  qed
  then show ?case by (simp add: validate_cons wp_bind)
qed

end

fun run_operations ::
  "('s, operation_result) state list \<Rightarrow> ('s, operation_result option) state" where
  "run_operations [] = State_Monad.return None"
| "run_operations (op # ops) =
     do { res \<leftarrow> op; (if goes_on res then run_operations ops else State_Monad.return (Some res)) }"

fun run_validations ::
  "('s, validation_result) state list \<Rightarrow> ('s, validation_result) state" where
  "run_validations [] = State_Monad.return (ValidationResult True None)"
| "run_validations (f # fs) =
     do { res \<leftarrow> f;
          (case res of
             ValidationResult True e \<Rightarrow> run_validations fs
           | _ \<Rightarrow> State_Monad.return res) }"

definition standard_toolkit :: "'s toolkit" where
  "standard_toolkit = \<lparr>Validate = run_validations, ReconcileHandler = run_operations\<rparr>"

interpretation standard_toolkit: toolkit_api standard_toolkit
  by (unfold_locales; unfold standard_toolkit_def toolkit.simps; rule run_operations.simps run_validations.simps)

end
