(* ===== verification/Release_Lifecycle.thy ===== *)
theory Release_Lifecycle
  imports Release_Phases
begin

text \<open>
  The abstract lifecycle of a Release: a transition system on the phase of each condition type,
  which is the specification the adapter's operations refine (theory \<open>Adapter_Refinement\<close>). Its
  invariant says what the status of a Release promises: the phases run in order, a failed phase
  fails the Release, and a Release is released only when every phase has ended without failure.
\<close>

type_synonym phases = "string \<Rightarrow> phase"

definition processing_types :: "string list" where
  "processing_types = [tenantCollectorsProcessedConditionType,
     managedCollectorsProcessedConditionType, tenantProcessedConditionType,
     managedProcessedConditionType, finalProcessedConditionType]"

text \<open>The phase that has to end before a phase can start.\<close>

definition previous_type :: "string \<Rightarrow> string option" where
  "previous_type t =
     (if t = managedCollectorsProcessedConditionType then Some tenantCollectorsProcessedConditionType
      else if t = tenantProcessedConditionType then Some managedCollectorsProcessedConditionType
      else if t = managedProcessedConditionType then Some tenantProcessedConditionType
      else if t = finalProcessedConditionType then Some managedProcessedConditionType
      else None)"

definition ready :: "phases \<Rightarrow> string \<Rightarrow> bool" where
  "ready f t = (case previous_type t of None \<Rightarrow> True | Some p \<Rightarrow> finished (f p))"

inductive release_step :: "phases \<Rightarrow> phases \<Rightarrow> bool" where
  begin_release: "f releasedConditionType = Absent \<Longrightarrow>
    release_step f (f(releasedConditionType := InProgress))"
| start_phase: "\<lbrakk>t \<in> set processing_types; ready f t; f t = Absent; f releasedConditionType \<noteq> Absent\<rbrakk>
    \<Longrightarrow> release_step f (f(t := InProgress))"
| skip_phase: "\<lbrakk>t \<in> set processing_types; ready f t; \<not> finished (f t);
    f releasedConditionType \<noteq> Absent\<rbrakk> \<Longrightarrow> release_step f (f(t := Skipped))"
| succeed_phase: "\<lbrakk>t \<in> set processing_types; f t = InProgress\<rbrakk> \<Longrightarrow>
    release_step f (f(t := Succeeded))"
| fail_phase: "\<lbrakk>t \<in> set processing_types; f t = InProgress; f releasedConditionType \<noteq> Absent\<rbrakk> \<Longrightarrow>
    release_step f (f(t := Failed, releasedConditionType := phase_fail (f releasedConditionType)))"
| fail_release: "f releasedConditionType = InProgress \<Longrightarrow>
    release_step f (f(releasedConditionType := Failed))"
| complete_release: "\<lbrakk>f releasedConditionType = InProgress;
    f finalProcessedConditionType \<in> {Succeeded, Skipped}\<rbrakk> \<Longrightarrow>
    release_step f (f(releasedConditionType := Succeeded))"
| pass_validation: "f releasedConditionType = InProgress \<Longrightarrow>
    release_step f (f(validatedConditionType := Succeeded))"
| fail_validation: "release_step f (f(validatedConditionType := Failed))"

inductive_cases release_stepE: "release_step f g"

abbreviation release_steps :: "phases \<Rightarrow> phases \<Rightarrow> bool" where
  "release_steps \<equiv> release_step\<^sup>*\<^sup>*"

lemma processing_types_simps [simp]:
  "tenantCollectorsProcessedConditionType \<in> set processing_types"
  "managedCollectorsProcessedConditionType \<in> set processing_types"
  "tenantProcessedConditionType \<in> set processing_types"
  "managedProcessedConditionType \<in> set processing_types"
  "finalProcessedConditionType \<in> set processing_types"
  "releasedConditionType \<notin> set processing_types"
  "validatedConditionType \<notin> set processing_types"
  by (simp_all add: processing_types_def)

lemma previous_type_simps [simp]:
  "previous_type tenantCollectorsProcessedConditionType = None"
  "previous_type managedCollectorsProcessedConditionType = Some tenantCollectorsProcessedConditionType"
  "previous_type tenantProcessedConditionType = Some managedCollectorsProcessedConditionType"
  "previous_type managedProcessedConditionType = Some tenantProcessedConditionType"
  "previous_type finalProcessedConditionType = Some managedProcessedConditionType"
  by (simp_all add: previous_type_def)

lemma ready_simps [simp]:
  "ready f tenantCollectorsProcessedConditionType"
  "ready f managedCollectorsProcessedConditionType = finished (f tenantCollectorsProcessedConditionType)"
  "ready f tenantProcessedConditionType = finished (f managedCollectorsProcessedConditionType)"
  "ready f managedProcessedConditionType = finished (f tenantProcessedConditionType)"
  "ready f finalProcessedConditionType = finished (f managedProcessedConditionType)"
  by (simp_all add: ready_def)

lemma ready_release [simp]:
  "t \<in> set processing_types \<Longrightarrow> ready (f(releasedConditionType := p)) t = ready f t"
  by (auto simp: processing_types_def)

section \<open>The invariant\<close>

definition consistent :: "phases \<Rightarrow> bool" where
  "consistent f \<longleftrightarrow>
     f releasedConditionType \<in> {Absent, InProgress, Succeeded, Failed} \<and>
     (\<forall>t\<in>set processing_types. f t \<noteq> Absent \<longrightarrow> ready f t \<and> f releasedConditionType \<noteq> Absent) \<and>
     (\<forall>t\<in>set processing_types. f t = Failed \<longrightarrow> f releasedConditionType = Failed) \<and>
     (f releasedConditionType = Succeeded \<longrightarrow>
        f finalProcessedConditionType \<in> {Succeeded, Skipped})"

lemma consistent_initial: "consistent (\<lambda>_. Absent)"
  by (simp add: consistent_def)

text \<open>The order of the phases, read backwards from the last one.\<close>

lemma finished_chain:
  assumes order: "\<And>u. u \<in> set processing_types \<Longrightarrow> f u \<noteq> Absent \<Longrightarrow> ready f u"
    and fin: "finished (f finalProcessedConditionType)" and t: "t \<in> set processing_types"
  shows "finished (f t)"
proof -
  have na: "finished p \<Longrightarrow> p \<noteq> Absent" for p by (cases p) simp_all
  have ma: "finished (f managedProcessedConditionType)"
    using order [of finalProcessedConditionType] na [OF fin] by simp
  have te: "finished (f tenantProcessedConditionType)"
    using order [of managedProcessedConditionType] na [OF ma] by simp
  have mc: "finished (f managedCollectorsProcessedConditionType)"
    using order [of tenantProcessedConditionType] na [OF te] by simp
  have tc: "finished (f tenantCollectorsProcessedConditionType)"
    using order [of managedCollectorsProcessedConditionType] na [OF mc] by simp
  show ?thesis using t fin ma te mc tc by (auto simp: processing_types_def)
qed

lemma consistent_succeeded_all:
  assumes "consistent f" "f releasedConditionType = Succeeded" "t \<in> set processing_types"
  shows "finished (f t)"
  using assms by (intro finished_chain [of f t]) (auto simp: consistent_def)

lemma consistent_release_upd:
  assumes "consistent f" "f releasedConditionType = InProgress"
    and "p = Failed \<or> p = Succeeded \<and> f finalProcessedConditionType \<in> {Succeeded, Skipped}"
  shows "consistent (f(releasedConditionType := p))"
  unfolding consistent_def
proof (intro conjI ballI impI)
  fix t assume t: "t \<in> set processing_types"
  then have neq: "t \<noteq> releasedConditionType" by auto
  {
    assume "(f(releasedConditionType := p)) t \<noteq> Absent"
    then show "ready (f(releasedConditionType := p)) t"
      using t neq assms by (simp add: consistent_def)
  }
  {
    assume "(f(releasedConditionType := p)) t = Failed"
    then show "(f(releasedConditionType := p)) releasedConditionType = Failed"
      using t neq assms by (auto simp: consistent_def)
  }
qed (use assms in \<open>auto simp: consistent_def\<close>)

text \<open>Ending or starting a phase that has not ended keeps the order.\<close>

lemma ready_upd:
  assumes "ready f u" "u \<in> set processing_types" "t \<in> set processing_types"
    and "finished (f t) \<Longrightarrow> finished p"
  shows "ready (f(t := p)) u"
  using assms by (auto simp: processing_types_def)

lemma consistent_phase_upd:
  assumes f: "consistent f" and t: "t \<in> set processing_types" "ready f t" "\<not> finished (f t)"
    and p: "p \<noteq> Failed" "f releasedConditionType \<noteq> Absent"
  shows "consistent (f(t := p))"
proof -
  have "f releasedConditionType = Succeeded \<Longrightarrow> t \<noteq> finalProcessedConditionType"
    using f t by (auto simp: consistent_def)
  moreover have "ready (f(t := p)) u" if "u \<in> set processing_types" "u = t \<or> f u \<noteq> Absent" for u
    using that f t by (intro ready_upd) (auto simp: consistent_def)
  moreover have "t \<noteq> releasedConditionType" using t by auto
  ultimately show ?thesis
    using f t p by (auto simp: consistent_def)
qed

lemma consistent_fail:
  assumes f: "consistent f" and t: "t \<in> set processing_types" "f t = InProgress"
    "f releasedConditionType \<noteq> Absent"
  shows "consistent (f(t := Failed, releasedConditionType := phase_fail (f releasedConditionType)))"
proof -
  have neq: "t \<noteq> releasedConditionType" using t by auto
  have "ready (f(t := Failed)) u" if "u \<in> set processing_types" "u = t \<or> f u \<noteq> Absent" for u
    using that f t by (intro ready_upd) (auto simp: consistent_def)
  then have rdy: "ready (f(t := Failed, releasedConditionType := phase_fail (f releasedConditionType))) u"
    if "u \<in> set processing_types" "u = t \<or> f u \<noteq> Absent" for u
    using that by simp
  have "f releasedConditionType \<noteq> Succeeded"
    using consistent_succeeded_all [OF f _ t(1)] t(2) by auto
  then have "phase_fail (f releasedConditionType) = Failed"
    using f t by (auto simp: consistent_def)
  then show ?thesis
    using f t rdy neq by (auto simp: consistent_def)
qed

lemma consistent_validation [simp]: "consistent (f(validatedConditionType := p)) = consistent f"
  by (auto simp: consistent_def processing_types_def)

lemma release_step_consistent: "release_step f g \<Longrightarrow> consistent f \<Longrightarrow> consistent g"
proof (induction rule: release_step.induct)
  case (begin_release f)
  then show ?case by (auto simp: consistent_def)
next
  case (start_phase t f)
  then show ?case by (intro consistent_phase_upd) auto
next
  case (skip_phase t f)
  then show ?case by (intro consistent_phase_upd) auto
next
  case (succeed_phase t f)
  then show ?case by (intro consistent_phase_upd) (auto simp: consistent_def)
next
  case (fail_phase t f)
  then show ?case by (intro consistent_fail) auto
next
  case (fail_release f)
  then show ?case by (intro consistent_release_upd) auto
next
  case (complete_release f)
  then show ?case by (intro consistent_release_upd) auto
qed simp_all

lemma release_steps_consistent: "release_steps f g \<Longrightarrow> consistent f \<Longrightarrow> consistent g"
  by (induction rule: rtranclp_induct) (auto dest: release_step_consistent)

text \<open>In a consistent status, a released Release has ended every phase and failed none.\<close>

lemma consistent_released:
  assumes f: "consistent f" and s: "f releasedConditionType = Succeeded"
    and t: "t \<in> set processing_types"
  shows "finished (f t) \<and> f t \<noteq> Failed"
  using consistent_succeeded_all [OF f s t] f s t by (auto simp: consistent_def)

section \<open>Each phase moves along the phase machine\<close>

lemma release_step_phase:
  assumes "release_step f g" "t \<in> insert releasedConditionType (set processing_types)"
  shows "phase_step\<^sup>*\<^sup>* (f t) (g t)"
  using assms
proof (induction rule: release_step.induct)
  case (fail_phase u f)
  then show ?case
    using phase_op_steps(3) [of "f releasedConditionType"]
    by (auto intro: r_into_rtranclp phase_step.intros)
qed (auto simp: processing_types_def intro!: r_into_rtranclp phase_step.intros)

lemma release_steps_phase:
  "release_steps f g \<Longrightarrow> t \<in> insert releasedConditionType (set processing_types) \<Longrightarrow>
   phase_step\<^sup>*\<^sup>* (f t) (g t)"
  by (induction rule: rtranclp_induct) (auto intro: rtranclp_trans release_step_phase)

text \<open>What has ended stays as it is.\<close>

lemma release_steps_finished:
  "release_steps f g \<Longrightarrow> t \<in> insert releasedConditionType (set processing_types) \<Longrightarrow>
   finished (f t) \<Longrightarrow> g t = f t"
  using release_steps_phase phase_steps_finished by blast

lemma release_steps_started:
  "release_steps f g \<Longrightarrow> f releasedConditionType \<noteq> Absent \<Longrightarrow> g releasedConditionType \<noteq> Absent"
proof -
  assume s: "release_steps f g" and a: "f releasedConditionType \<noteq> Absent"
  have "phase_step\<^sup>*\<^sup>* (f releasedConditionType) (g releasedConditionType)"
    using release_steps_phase [OF s] by simp
  then show ?thesis
    using a by (induction rule: rtranclp_induct) (auto elim: phase_step_from)
qed

end
