(* ===== verification/Adapter_Frames.thy ===== *)
theory Adapter_Frames
  imports Release_Controller Release_Lifecycle
begin

text \<open>
  What the adapter needs of the cluster to reason about the status it stores, and which of its
  functions leave that status alone. The locale \<open>release_store\<close> observes the stored conditions
  and attempts of the reconciled Release: only a successful status patch changes them, as a JSON
  merge patch does, and the answer of a patch carries them. That is the API server's contract for
  fields that one controller writes.
\<close>

type_synonym status_view = "condition list \<times> PipelineAttempt list"

definition view :: "Release \<Rightarrow> status_view" where
  "view r = (Conditions (Status r), ManagedPipelineAttempts (Status r))"

definition view_phases :: "conditions_lib \<Rightarrow> status_view \<Rightarrow> phases" where
  "view_phases L v t = view_phase (cond_view L (fst v) t)"

lemma phase_of_view: "phase_of L r = view_phases L (view r)"
  by (auto simp: fun_eq_iff phase_of_def view_phases_def view_def)

text \<open>
  A merge patch of the difference between a base and a changed object (\<open>client.MergeFrom\<close>) replaces
  a list that differs and does not mention one that does not.
\<close>

definition merge_view :: "status_view \<Rightarrow> status_view \<Rightarrow> status_view \<Rightarrow> status_view" where
  "merge_view base new old =
     (if fst new = fst base then fst old else fst new, if snd new = snd base then snd old else snd new)"

lemma merge_view_synced [simp]: "merge_view base new base = new"
  by (auto simp: merge_view_def prod_eq_iff)

lemma merge_view_phases:
  "view_phases L (merge_view base new old) \<in> {view_phases L new, view_phases L old}"
  by (auto simp: merge_view_def view_phases_def)

text \<open>
  The calls that read leave an observation \<open>seen\<close> of the world alone. What is observed differs: the
  status of the Release below, the PipelineRuns and the RoleBindings later.
\<close>

locale quiet_reads =
  fixes E :: "'w env" and seen :: "'w \<Rightarrow> 'v"
  assumes quiet_effects [frame_intro]:
    "keeps seen (Now E)"
    "\<And>a. keeps seen (Getenv E a)"
    "\<And>a b. keeps seen (api_GetRelease E a b)"
    "\<And>a b. keeps seen (api_GetReleasePlan E a b)"
    "\<And>a b. keeps seen (api_GetReleasePlanAdmission E a b)"
    "\<And>a b. keeps seen (api_GetReleaseServiceConfig E a b)"
    "\<And>a b. keeps seen (api_GetSnapshot E a b)"
    "\<And>a b. keeps seen (api_GetApplication E a b)"
    "\<And>a b. keeps seen (api_GetEnterpriseContractPolicy E a b)"
    "\<And>a b. keeps seen (api_GetRoleBinding E a b)"
    "\<And>a b. keeps seen (api_GetRole E a b)"
    "\<And>a b. keeps seen (api_GetPipelineRun E a b)"
    "\<And>a b. keeps seen (api_ListReleasePlanAdmissions E a b)"
    "\<And>a b c. keeps seen (api_ListReleasePlans E a b c)"
    "\<And>a b. keeps seen (api_ListReleases E a b)"
    "\<And>a n. keeps seen (api_ListPipelineRuns E a n)"
    "\<And>a b. keeps seen (api_ListTaskRuns E a b)"
    "\<And>a b. keeps seen (api_GetConfigMap E a b)"
    "keeps seen (api_ListAllReleasePlanAdmissions E)"
    "keeps seen (InClusterConfig E)"
    "\<And>a. keeps seen (TransportFor E a)"
    "\<And>a b. keeps seen (HttpDo E a b)"
    "\<And>a b. keeps seen (ListRemote E a b)"
    "\<And>d. keeps seen (Sleep E d)"
    "\<And>a b. keeps seen (PodLogs E a b)"
begin

lemma keeps_list_refs [frame_intro]: "keeps seen (list_refs E url auth n k)"
  by (induction k arbitrary: n) (auto intro!: frame_intro)

lemma keeps_git [frame_intro]:
  "keeps seen (HasGitHubToken E)" "keeps seen (remoteListOptions E url)"
  "keeps seen (ResolveBranchToSHA E url revision)"
  by (auto simp: HasGitHubToken_def remoteListOptions_def ResolveBranchToSHA_def intro!: frame_intro)

lemma keeps_WithPipelineRef [frame_intro]: "keeps seen (WithPipelineRef E ref b)"
  unfolding WithPipelineRef_def by (intro frame_intro)

lemma keeps_doGet [frame_intro]: "keeps seen (doGet E ca url)"
  unfolding doGet_def by (intro frame_intro)

lemma keeps_KubeArchive [frame_intro]:
  "keeps seen (getFromList E ca url gvr ns name)" "keeps seen (discoverAPIURL E)"
  "keeps seen (loadServiceCA E)"
  unfolding getFromList_def discoverAPIURL_def loadServiceCA_def Let_def by (intro frame_intro)+

lemma keeps_newHTTPClient [frame_intro]: "keeps seen (newHTTPClient E)"
  unfolding newHTTPClient_def by (intro frame_intro)

lemma keeps_kaGet [frame_intro]: "keeps seen (kubearchive_Get E gvr ns name)"
  unfolding kubearchive_Get_def by (intro frame_intro)

lemma keeps_loader [frame_intro]:
  "keeps seen (GetReleasePlan E r)"
  "keeps seen (GetReleaseServiceConfig E a b)"
  "keeps seen (GetEnterpriseContractPolicy E rpa)"
  "keeps seen (GetMatchingReleasePlanAdmission E rp)"
  "keeps seen (get_role_binding E ref)"
  "keeps seen (GetReleasePipelineRun E r T)"
  "keeps seen (GetReleasePipelineRunAttempt E r i)"
  "keeps seen (GetSnapshot E r)"
  "keeps seen (GetPreviousRelease E r)"
  unfolding GetReleasePlan_def GetReleaseServiceConfig_def GetEnterpriseContractPolicy_def
    GetMatchingReleasePlanAdmission_def get_role_binding_def GetReleasePipelineRun_def
    GetReleasePipelineRunAttempt_def GetSnapshot_def GetPreviousRelease_def Let_def
  by (auto intro!: frame_intro split: list.splits)

lemma keeps_GetActive [frame_intro]:
  "keeps seen (GetActiveReleasePlanAdmission E rp)"
  unfolding GetActiveReleasePlanAdmission_def by (intro frame_intro)

lemma keeps_GetActiveFromRelease [frame_intro]:
  "keeps seen (GetActiveReleasePlanAdmissionFromRelease E r)"
  unfolding GetActiveReleasePlanAdmissionFromRelease_def by (intro frame_intro)

lemma keeps_GetProcessingResources [frame_intro]: "keeps seen (GetProcessingResources E r)"
  unfolding GetProcessingResources_def by (intro frame_intro)

lemma keeps_bindings [frame_intro]:
  "keeps seen (GetRoleBindingFromReleaseStatusPipelineInfo E info kind)"
  "keeps seen (GetRoleBindingFromPipelineAttempt E a)"
  unfolding GetRoleBindingFromReleaseStatusPipelineInfo_def GetRoleBindingFromPipelineAttempt_def
  by (intro frame_intro)+

section \<open>The functions of the adapter that write nothing\<close>

text \<open>The Release in memory and what is observed of the cluster.\<close>

definition obs :: "'w adapter \<Rightarrow> Release \<times> 'v" where
  "obs s = (release s, seen (world s))"

lemma keeps_load [frame_intro]: "keeps seen m \<Longrightarrow> keeps obs (load m)"
  by (auto simp: keeps_def load_def obs_def split: prod.splits) (metis snd_conv)

lemma keeps_attempt [frame_intro]:
  "keeps obs m \<Longrightarrow> (\<And>e. keeps obs (h e)) \<Longrightarrow> (\<And>a. keeps obs (k a)) \<Longrightarrow> keeps obs (attempt m h k)"
  unfolding attempt_def by (intro frame_intro)

lemma keeps_unless_panic [frame_intro]:
  assumes "keeps obs m" "keeps obs p" "\<And>a. keeps obs (k a)"
  shows "keeps obs (unless_panic m p k)"
proof -
  have "\<And>x. keeps obs (case x of Panicked \<Rightarrow> p | Returned a \<Rightarrow> k a)"
    using assms by (auto split: outcome.split)
  then show ?thesis
    unfolding unless_panic_def using assms by (intro frame_intro)
qed

lemma keeps_get [frame_intro]:
  "keeps obs (get_run E T)" "keeps obs (get_run_attempt E i)" "keeps obs (get_binding E info kind)"
  "keeps obs (get_attempt_binding E a)" "keeps obs (get_plan E)" "keeps obs (get_snapshot E)"
  unfolding get_run_def get_run_attempt_def get_binding_def get_attempt_binding_def get_plan_def
    get_snapshot_def
  by (intro frame_intro)+

lemma keeps_and_then [frame_intro]: "keeps obs m \<Longrightarrow> keeps obs k \<Longrightarrow> keeps obs (and_then m k)"
  unfolding and_then_def by (intro frame_intro)

end

text \<open>Where the observation does not show them, Roles and RoleBindings may also be created.\<close>

locale quiet_calls = quiet_reads E seen
  for E :: "'w env" and seen :: "'w \<Rightarrow> 'v" +
  assumes quiet_creates [frame_intro]:
    "\<And>ro. keeps seen (api_CreateRole E ro)" "\<And>rb. keeps seen (api_CreateRoleBinding E rb)"
begin

lemma keeps_create_binding [frame_intro]:
  "keeps obs (createRoleBindingForClusterRole E a b c d)"
  "keeps obs (createRoleBindingForCollectorSecrets E a b c ss)"
  unfolding createRoleBindingForClusterRole_def createRoleBindingForCollectorSecrets_def
  by (intro frame_intro)+

lemma keeps_binding_if_needed [frame_intro]:
  "keeps obs m \<Longrightarrow> keeps obs (binding_if_needed b rb m)"
  unfolding binding_if_needed_def by (intro frame_intro)

lemma keeps_workspace [frame_intro]: "keeps obs (workspace E b bu)"
  unfolding workspace_def by (intro frame_intro)

lemma keeps_collectors_builder [frame_intro]:
  "keeps obs (getCollectorsPipelineRunBuilder E T ns url revision)"
  unfolding getCollectorsPipelineRunBuilder_def by (intro frame_intro)

lemma keeps_listTaskRuns [frame_intro]: "keeps obs (listTaskRunsForPipelineRun E p)"
  unfolding listTaskRunsForPipelineRun_def by (intro frame_intro)

lemma keeps_computeRetryOverrides [frame_intro]: "keeps obs (computeRetryOverrides E res)"
  unfolding computeRetryOverrides_def Let_def by (intro frame_intro)

lemma keeps_logs [frame_intro]:
  "keeps obs (getTaskRunLogs E t)" "keeps obs (failed_logs_loop E m crs)"
proof -
  show *: "keeps obs (getTaskRunLogs E t)" for t
    unfolding getTaskRunLogs_def by (intro frame_intro)
  show "keeps obs (failed_logs_loop E m crs)"
    by (induction crs) (auto intro!: frame_intro * split: option.split)
qed

lemma keeps_failed_logs [frame_intro]:
  "keeps obs (getFailedTaskRunLogsFromList E p ts)" "keeps obs (getFailedTaskRunLogs E p)"
  unfolding getFailedTaskRunLogsFromList_def getFailedTaskRunLogs_def by (intro frame_intro)+

lemma keeps_failure_message [frame_intro]: "keeps obs m \<Longrightarrow> keeps obs (failure_message p m)"
  unfolding failure_message_def by (intro frame_intro)

lemma keeps_modify_other [frame_intro]:
  "keeps obs (modify (\<lambda>s. s\<lparr>spans := f s\<rparr>))" "keeps obs (modify (\<lambda>s. s\<lparr>releaseServiceConfig := g s\<rparr>))"
  by (auto simp: obs_def intro!: frame_intro)

lemma keeps_spans [frame_intro]:
  "keeps obs (emitTimingSpans p)" "keeps obs (emitValidationFailureWaitSpan E)"
  unfolding emitTimingSpans_def emitValidationFailureWaitSpan_def by (intro frame_intro)+

lemma keeps_active_admission [frame_intro]: "keeps obs (active_admission E rp)"
  unfolding active_admission_def by (intro frame_intro)

end

text \<open>The API server's contract for the status of the reconciled Release.\<close>

locale release_store = conditions_api "lib_cond (lib E)" + quiet_calls E stored
  for E :: "'w env" and stored :: "'w \<Rightarrow> status_view" +
  fixes rname rnamespace :: string
  assumes other_effects [frame_intro]:
    "\<And>p. keeps stored (api_CreatePipelineRun E p)"
    "\<And>p. keeps stored (api_DeletePipelineRun E p)"
    "\<And>ro. keeps stored (api_DeleteRole E ro)"
    "\<And>rb. keeps stored (api_DeleteRoleBinding E rb)"
    "\<And>p fs. keeps stored (api_PatchFinalizers E p fs)"
    "\<And>a b. keeps stored (api_PatchRelease E a b)"
    "\<And>a. keeps stored (api_CreateSnapshot E a)"
    "\<And>a b. keeps stored (api_PatchReleasePlanStatus E a b)"
    "\<And>a b. keeps stored (api_PatchReleasePlanAdmissionStatus E a b)"
  and get_release:
    "run_state (api_GetRelease E rname rnamespace) w = ((r, None), w') \<Longrightarrow> view r = stored w"
  and patch_release_answer:
    "run_state (api_PatchRelease E base r) w = (Inr r', w') \<Longrightarrow> view r' = stored w"
  and patch_status_stores:
    "run_state (api_PatchReleaseStatus E base r) w = (Inr r', w') \<Longrightarrow>
       stored w' = merge_view (view base) (view r) (stored w) \<and> view r' = stored w'"
  and patch_status_fails:
    "run_state (api_PatchReleaseStatus E base r) w = (Inl e, w') \<Longrightarrow> stored w' = stored w"
begin

lemma keeps_build_and_create [frame_intro]: "keeps obs (build_and_create E bu)"
  unfolding build_and_create_def by (auto intro!: frame_intro split: outcome.split option.split)

lemma keeps_create_run [frame_intro]:
  "keeps obs (createManagedCollectorsPipelineRun E rpa)"
  "keeps obs (createTenantCollectorsPipelineRun E rp orpa)"
  "keeps obs (create_plan_run E T pp rp sn)"
  "keeps obs (createManagedPipelineRun E res specs timeouts)"
  unfolding createManagedCollectorsPipelineRun_def createTenantCollectorsPipelineRun_def
    create_plan_run_def createManagedPipelineRun_def Let_def
  by (auto intro!: frame_intro split: option.split prod.split)

lemma keeps_create_plan_run [frame_intro]:
  "keeps obs (createTenantPipelineRun E rp sn)" "keeps obs (createFinalPipelineRun E rp sn)"
  unfolding createTenantPipelineRun_def createFinalPipelineRun_def by (intro frame_intro)+

lemma keeps_delete_bindings [frame_intro]: "keeps obs (delete_bindings E rbs)"
proof -
  have *: "keeps obs (delete_binding E rb)" for rb
    unfolding delete_binding_def by (intro frame_intro)
  show ?thesis
  proof (induction rbs)
    case (Cons rb rbs)
    then show ?case by (cases rb) (auto intro!: frame_intro *)
  qed (auto intro!: frame_intro)
qed

lemma keeps_cleanup [frame_intro]:
  "keeps obs (cleanupProcessingResources E p rbs)" "keeps obs (cleanupPipelineResources E p rbs)"
proof -
  show "keeps obs (cleanupProcessingResources E p rbs)" for p rbs
    unfolding cleanupProcessingResources_def by (intro frame_intro)
  then show "keeps obs (cleanupPipelineResources E p rbs)"
    unfolding cleanupPipelineResources_def by (intro frame_intro)
qed

lemma keeps_delete_run [frame_intro]: "keeps obs (delete_run E b p)"
  unfolding delete_run_def by (intro frame_intro)

lemma keeps_attempt_loops [frame_intro]:
  "keeps obs (cleanup_attempts E i as)" "keeps obs (finalize_attempts E b i as)"
  by (induction as arbitrary: i) (auto intro!: frame_intro)

lemma keeps_cleanupPipeline [frame_intro]:
  "keeps obs (cleanupManagedPipelineResources E)" "keeps obs (cleanupPipeline E T)"
proof -
  show *: "keeps obs (cleanupManagedPipelineResources E)"
    unfolding cleanupManagedPipelineResources_def
    by (auto intro!: frame_intro split: list.split)
  show "keeps obs (cleanupPipeline E T)"
    unfolding cleanupPipeline_def by (intro frame_intro *)
qed

lemma keeps_finalizeRelease [frame_intro]: "keeps obs (finalizeRelease E b)"
  unfolding finalizeRelease_def by (intro frame_intro)

lemma keeps_cleanup_operations:
  "keeps obs (EnsureCollectorsProcessingResourcesAreCleanedUp E)"
  "keeps obs (EnsureReleaseProcessingResourcesAreCleanedUp E)"
  unfolding EnsureCollectorsProcessingResourcesAreCleanedUp_def
    EnsureReleaseProcessingResourcesAreCleanedUp_def Let_def
  by (intro frame_intro)+

end

end
