(* ===== verification/Adapter_Refinement.thy ===== *)
theory Adapter_Refinement
  imports Adapter_Frames
begin

text \<open>
  The operations of the adapter refine the abstract lifecycle: whatever the cluster answers, and
  wherever an operation stops, the status in memory and the stored status are both reached from
  the status the operation started with by steps of \<open>release_step\<close>.
\<close>

section \<open>Steps of the abstract lifecycle taken by the status methods\<close>

definition open_phase :: "phases \<Rightarrow> string \<Rightarrow> bool" where
  "open_phase f t \<longleftrightarrow> t \<in> set processing_types \<and> ready f t \<and> \<not> finished (f t) \<and>
     f releasedConditionType \<noteq> Absent"

lemma steps_start: "open_phase f t \<Longrightarrow> release_steps f (f(t := phase_start (f t)))"
  by (cases "f t") (auto simp: open_phase_def fun_upd_idem intro: r_into_rtranclp release_step.start_phase)

lemma steps_skip: "open_phase f t \<Longrightarrow> release_steps f (f(t := phase_skip (f t)))"
  by (cases "f t") (auto simp: open_phase_def fun_upd_idem intro!: r_into_rtranclp release_step.skip_phase)

lemma steps_succeed:
  "f t = InProgress \<Longrightarrow> t \<in> set processing_types \<Longrightarrow> release_steps f (f(t := phase_succeed (f t)))"
  by (auto intro: r_into_rtranclp release_step.succeed_phase)

lemma steps_fail:
  "\<lbrakk>f t = InProgress; t \<in> set processing_types; f releasedConditionType \<noteq> Absent\<rbrakk> \<Longrightarrow>
   release_steps f (f(t := phase_fail (f t), releasedConditionType := phase_fail (f releasedConditionType)))"
  by (auto intro: r_into_rtranclp release_step.fail_phase)

lemma steps_start_fail:
  assumes "open_phase f t"
  shows "release_steps f (f(t := phase_fail (phase_start (f t)),
    releasedConditionType := phase_fail (f releasedConditionType)))"
proof -
  let ?g = "f(t := phase_start (f t))"
  have neq: "t \<noteq> releasedConditionType"
    using assms by (auto simp: open_phase_def)
  have "?g t = InProgress"
    using assms by (cases "f t") (auto simp: open_phase_def)
  then have "release_steps ?g (?g(t := phase_fail (?g t),
      releasedConditionType := phase_fail (?g releasedConditionType)))"
    using assms by (intro steps_fail) (auto simp: open_phase_def)
  then have "release_steps ?g (f(t := phase_fail (phase_start (f t)),
      releasedConditionType := phase_fail (f releasedConditionType)))"
    using neq by simp
  then show ?thesis using steps_start [OF assms] by (rule rtranclp_trans [rotated])
qed

lemma steps_begin: "release_steps f (f(releasedConditionType := phase_start (f releasedConditionType)))"
  by (cases "f releasedConditionType")
     (auto simp: fun_upd_idem intro: r_into_rtranclp release_step.begin_release)

lemma steps_fail_release:
  "release_steps f (f(releasedConditionType := phase_fail (f releasedConditionType)))"
  by (cases "f releasedConditionType")
     (auto simp: fun_upd_idem intro: r_into_rtranclp release_step.fail_release)

lemma steps_complete:
  "f finalProcessedConditionType \<in> {Succeeded, Skipped} \<Longrightarrow>
   release_steps f (f(releasedConditionType := phase_succeed (f releasedConditionType)))"
  by (cases "f releasedConditionType")
     (auto simp: fun_upd_idem intro: r_into_rtranclp release_step.complete_release)

section \<open>The refinement invariant\<close>

named_theorems refine_intro \<open>rules that follow an operation under the refinement invariant\<close>

context release_store
begin

abbreviation phases_of :: "Release \<Rightarrow> phases" where
  "phases_of r \<equiv> phase_of (conds E) r"

text \<open>A mark that changes the phase of one condition type by a function.\<close>

definition acts :: "string \<Rightarrow> (phase \<Rightarrow> phase) \<Rightarrow> (time \<Rightarrow> mark) \<Rightarrow> bool" where
  "acts ct g m \<longleftrightarrow> (\<forall>now r. phases_of (fst (m now r)) = (phases_of r)(ct := g (phases_of r ct)))"

definition acts_msg :: "string \<Rightarrow> (phase \<Rightarrow> phase) \<Rightarrow> (time \<Rightarrow> string \<Rightarrow> mark) \<Rightarrow> bool" where
  "acts_msg ct g m \<longleftrightarrow> (\<forall>msg. acts ct g (\<lambda>now. m now msg))"

lemma actsI:
  "(\<And>now r t. phases_of (fst (m now r)) t = (if t = ct then g (phases_of r ct) else phases_of r t)) \<Longrightarrow>
   acts ct g m"
  by (auto simp: acts_def fun_eq_iff)

lemma phase_acts:
  "acts tenantCollectorsProcessedConditionType phase_start (MarkTenantCollectorsPipelineProcessing (conds E))"
  "acts tenantCollectorsProcessedConditionType phase_skip (MarkTenantCollectorsPipelineProcessingSkipped (conds E))"
  "acts_msg tenantCollectorsProcessedConditionType phase_fail (MarkTenantCollectorsPipelineProcessingFailed (conds E))"
  "acts tenantCollectorsProcessedConditionType phase_succeed (MarkTenantCollectorsPipelineProcessed (conds E))"
  "acts managedCollectorsProcessedConditionType phase_start (MarkManagedCollectorsPipelineProcessing (conds E))"
  "acts managedCollectorsProcessedConditionType phase_skip (MarkManagedCollectorsPipelineProcessingSkipped (conds E))"
  "acts_msg managedCollectorsProcessedConditionType phase_fail (MarkManagedCollectorsPipelineProcessingFailed (conds E))"
  "acts managedCollectorsProcessedConditionType phase_succeed (MarkManagedCollectorsPipelineProcessed (conds E))"
  "acts tenantProcessedConditionType phase_start (MarkTenantPipelineProcessing (conds E))"
  "acts tenantProcessedConditionType phase_skip (MarkTenantPipelineProcessingSkipped (conds E))"
  "acts_msg tenantProcessedConditionType phase_fail (MarkTenantPipelineProcessingFailed (conds E))"
  "acts tenantProcessedConditionType phase_succeed (MarkTenantPipelineProcessed (conds E))"
  "acts managedProcessedConditionType phase_start (MarkManagedPipelineProcessing (conds E))"
  "acts managedProcessedConditionType phase_skip (MarkManagedPipelineProcessingSkipped (conds E))"
  "acts_msg managedProcessedConditionType phase_fail (MarkManagedPipelineProcessingFailed (conds E))"
  "acts finalProcessedConditionType phase_start (MarkFinalPipelineProcessing (conds E))"
  "acts finalProcessedConditionType phase_skip (MarkFinalPipelineProcessingSkipped (conds E))"
  "acts_msg finalProcessedConditionType phase_fail (MarkFinalPipelineProcessingFailed (conds E))"
  "acts finalProcessedConditionType phase_succeed (MarkFinalPipelineProcessed (conds E))"
  unfolding acts_msg_def
  by (intro allI actsI, simp add: tenantCollectors.start_phase tenantCollectors.skip_phase
      tenantCollectors.fail_phase tenantCollectors.succeed_phase managedCollectors.start_phase
      managedCollectors.skip_phase managedCollectors.fail_phase managedCollectors.succeed_phase
      tenant.start_phase tenant.skip_phase tenant.fail_phase tenant.succeed_phase
      managed.start_phase managed.skip_phase managed.fail_phase
      final.start_phase final.skip_phase final.fail_phase final.succeed_phase)+

lemma release_acts:
  "acts releasedConditionType phase_start (\<lambda>t. MarkReleasing (conds E) t msg)"
  "acts releasedConditionType phase_succeed (MarkReleased (conds E))"
  "acts_msg releasedConditionType phase_fail (MarkReleaseFailed (conds E))"
  unfolding acts_msg_def by (intro allI actsI, simp add: release_marks)+

definition J :: "phases \<Rightarrow> 'w adapter \<Rightarrow> bool" where
  "J f s \<longleftrightarrow> release_steps f (phases_of (release s)) \<and>
     release_steps f (view_phases (conds E) (stored (world s)))"

definition R :: "phases \<Rightarrow> Release \<Rightarrow> 'w adapter \<Rightarrow> bool" where
  "R f r s \<longleftrightarrow> J f s \<and> release s = r"

lemma J_R: "J f s \<Longrightarrow> R f (release s) s"
  by (simp add: R_def)

lemma R_J: "R f r s \<Longrightarrow> J f s"
  by (simp add: R_def)

lemma J_started: "J f s \<Longrightarrow> f releasedConditionType \<noteq> Absent \<Longrightarrow>
    phases_of (release s) releasedConditionType \<noteq> Absent"
  by (auto simp: J_def dest: release_steps_started)

lemma wp_quiet:
  "R f r s \<Longrightarrow> keeps obs m \<Longrightarrow> (\<And>a s'. R f r s' \<Longrightarrow> Q a s') \<Longrightarrow> wp m Q s"
  by (rule wp_keeps [of obs]) (auto simp: R_def J_def obs_def)

lemma wp_release [refine_intro]: "R f r s \<Longrightarrow> Q r s \<Longrightarrow> wp (gets release) Q s"
  by (intro wp_gets) (simp add: R_def)

lemma wp_attempt [refine_intro]:
  assumes "R f r s" "keeps obs m" "\<And>e s'. R f r s' \<Longrightarrow> wp (h e) Q s'" "\<And>a s'. R f r s' \<Longrightarrow> wp (k a) Q s'"
  shows "wp (attempt m h k) Q s"
  unfolding attempt_def
  by (rule wp_bind, rule wp_quiet [OF assms(1,2)]) (auto intro!: wp_case_sum assms)

lemma wp_unless_panic [refine_intro]:
  assumes "R f r s" "keeps obs m" "\<And>s'. R f r s' \<Longrightarrow> wp p Q s'" "\<And>a s'. R f r s' \<Longrightarrow> wp (k a) Q s'"
  shows "wp (unless_panic m p k) Q s"
  unfolding unless_panic_def
  by (rule wp_bind, rule wp_quiet [OF assms(1,2)]) (auto split: outcome.split intro!: assms)

lemma wp_mark:
  assumes "\<And>t s'. \<lbrakk>stored (world s') = stored (world s); release s' = fst (m t (release s))\<rbrakk> \<Longrightarrow> Q () s'"
  shows "wp (mark E m) Q s"
  unfolding mark_def
proof (rule wp_bind, rule wp_keeps [of obs])
  fix t s' assume "obs s' = obs s"
  then show "wp (modify (\<lambda>s. case m t (release s) of (r, ms) \<Rightarrow>
      s\<lparr>release := r, spawned := spawned s @ ms\<rparr>)) Q s'"
    by (intro wp_modify assms [of _ t]) (auto simp: obs_def split: prod.splits)
qed (intro frame_intro)

lemma wp_edit:
  assumes "\<And>s'. \<lbrakk>stored (world s') = stored (world s); release s' = g (release s)\<rbrakk> \<Longrightarrow> Q () s'"
  shows "wp (edit g) Q s"
  unfolding edit_def by (intro wp_modify assms) simp_all

text \<open>A change in memory that is a run of the lifecycle.\<close>

lemma R_change:
  "\<lbrakk>R f r s; release_steps (phases_of r) (phases_of r'); stored (world s') = stored (world s);
    release s' = r'\<rbrakk> \<Longrightarrow> R f r' s'"
  by (auto simp: R_def J_def)

lemma wp_mark_step:
  assumes "R f r s" "\<And>t. release_steps (phases_of r) (phases_of (fst (m t r)))"
    "\<And>t s'. R f (fst (m t r)) s' \<Longrightarrow> Q () s'"
  shows "wp (mark E m) Q s"
proof (rule wp_mark)
  fix t and s' :: "'w adapter"
  assume "stored (world s') = stored (world s)" "release s' = fst (m t (release s))"
  moreover have "release s = r" using assms(1) by (simp add: R_def)
  ultimately show "Q () s'" using assms(1,2) by (intro assms(3) [of t]) (auto intro: R_change)
qed

lemma wp_edit_step:
  assumes "R f r s" "Conditions (Status (g r)) = Conditions (Status r)"
    "\<And>s'. R f (g r) s' \<Longrightarrow> Q () s'"
  shows "wp (edit g) Q s"
proof (rule wp_edit)
  have eq: "phases_of (g r) = phases_of r"
    using assms(2) by (auto intro: phase_of_cong)
  fix s' :: "'w adapter"
  assume "stored (world s') = stored (world s)" "release s' = g (release s)"
  moreover have "release s = r" using assms(1) by (simp add: R_def)
  ultimately show "Q () s'" using assms(1) eq by (intro assms(3)) (auto intro: R_change)
qed

text \<open>
  Storing the status: whatever the base of the patch, what is stored afterwards is what was in
  memory or what was stored before. When the base was up to date it is what was in memory.
\<close>

lemma wp_patch_status:
  assumes "R f r s"
    and "\<And>e s'. \<lbrakk>J f s'; e \<noteq> None \<Longrightarrow> release s' = r;
      e = None \<Longrightarrow> view base = stored (world s) \<Longrightarrow> stored (world s') = view r \<and> view (release s') = view r\<rbrakk>
      \<Longrightarrow> Q e s'"
  shows "wp (patch_status E base) Q s"
proof -
  obtain res w where run: "run_state (api_PatchReleaseStatus E base r) (world s) = (res, w)"
    by (cases "run_state (api_PatchReleaseStatus E base r) (world s)")
  have r: "release s = r" and J: "J f s" using assms(1) by (simp_all add: R_def)
  show ?thesis
  proof (cases res)
    case (Inl e)
    then have "Q (Some e) (s\<lparr>world := w\<rparr>)"
      using r J patch_status_fails [OF run [unfolded Inl]]
      by (intro assms(2)) (auto simp: J_def)
    then show ?thesis
      using r run Inl by (simp add: wp_def patch_status_def load_def)
  next
    case (Inr r')
    note st = patch_status_stores [OF run [unfolded Inr]]
    have "view_phases (conds E) (stored w) \<in>
        {view_phases (conds E) (view r), view_phases (conds E) (stored (world s))}"
      using st merge_view_phases by metis
    then have "Q None (s\<lparr>world := w, release := r'\<rparr>)"
      using r J st by (intro assms(2)) (auto simp: J_def phase_of_view)
    then show ?thesis
      using r run Inr by (simp add: wp_def patch_status_def load_def edit_def)
  qed
qed

lemma wp_patch_status_J [refine_intro]: "R f r s \<Longrightarrow> wp (patch_status E base) (\<lambda>_. J f) s"
  by (rule wp_patch_status)

lemma wp_patch_release:
  assumes "R f r s" and "\<And>e s'. J f s' \<Longrightarrow> Q e s'"
  shows "wp (patch_release E base) Q s"
proof -
  obtain res w where run: "run_state (api_PatchRelease E base r) (world s) = (res, w)"
    by (cases "run_state (api_PatchRelease E base r) (world s)")
  have r: "release s = r" and J: "J f s" using assms(1) by (simp_all add: R_def)
  have w: "stored w = stored (world s)"
    using other_effects(6) run by (metis keepsD snd_conv)
  show ?thesis
  proof (cases res)
    case (Inl e)
    then have "Q (Some e) (s\<lparr>world := w\<rparr>)"
      using r J w by (intro assms(2)) (auto simp: J_def)
    then show ?thesis
      using r run Inl by (simp add: wp_def patch_release_def load_def)
  next
    case (Inr r')
    have "Q None (s\<lparr>world := w, release := r'\<rparr>)"
      using r J w patch_release_answer [OF run [unfolded Inr]]
      by (intro assms(2)) (auto simp: J_def phase_of_view)
    then show ?thesis
      using r run Inr by (simp add: wp_def patch_release_def load_def edit_def)
  qed
qed

section \<open>The shapes the operations share\<close>

definition open_for :: "phases \<Rightarrow> Release \<Rightarrow> string \<Rightarrow> bool" where
  "open_for f r t \<longleftrightarrow> f releasedConditionType \<noteq> Absent \<and> t \<in> set processing_types \<and>
     ready (phases_of r) t \<and> \<not> finished (phases_of r t)"

lemma open_for_phase: "R f r s \<Longrightarrow> open_for f r t \<Longrightarrow> open_phase (phases_of r) t"
  using J_started [of f s] by (auto simp: open_for_def open_phase_def R_def)

lemma wp_skip:
  assumes "R f r s" "open_for f r ct"
    and "acts ct phase_skip m"
  shows "wp (mark_and_patch E m) (\<lambda>_. J f) s"
proof -
  have "phases_of (fst (m now r)) = (phases_of r)(ct := phase_skip (phases_of r ct))" for now
    using assms(3) by (simp add: acts_def)
  then show ?thesis
    using steps_skip [OF open_for_phase [OF assms(1,2)]] assms(1)
    unfolding mark_and_patch_def mark_and_patch_from_def
    by (auto intro!: wp_bind wp_ret refine_intro wp_mark_step wp_patch_status)
qed

lemma foldl_conditions:
  "(\<And>u r. u \<in> set us \<Longrightarrow> Conditions (Status (u r)) = Conditions (Status r)) \<Longrightarrow>
   Conditions (Status (foldl (\<lambda>r u. u r) r us)) = Conditions (Status r)"
  by (induction us arbitrary: r) auto

text \<open>
  A phase that fails fails the Release in the same patch; in between, the status in memory is not
  a state of the lifecycle.
\<close>

lemma fail_both_phases:
  assumes "acts_msg ct phase_fail markFailed"
    and "ct \<noteq> releasedConditionType"
  shows "phases_of (fst (MarkReleaseFailed (conds E) t' msg' (fst (markFailed t msg r)))) =
    (phases_of r)(ct := phase_fail (phases_of r ct),
      releasedConditionType := phase_fail (phases_of r releasedConditionType))"
  using assms release_acts(3) by (simp add: acts_def acts_msg_def)

lemma wp_creation_failed:
  assumes R: "R f r s" and opn: "open_for f r ct"
    and start: "acts ct phase_start markProcessing"
    and fail: "acts_msg ct phase_fail markFailed"
    and us: "\<And>u r. u \<in> set us \<Longrightarrow> Conditions (Status (u r)) = Conditions (Status r)"
  shows "wp (creation_failed E markProcessing markFailed msg us err) (\<lambda>_. J f) s"
proof -
  let ?r1 = "foldl (\<lambda>r u. u r) r us"
  have neq: "ct \<noteq> releasedConditionType" using opn by (auto simp: open_for_def)
  have r1: "phases_of ?r1 = phases_of r"
    using us by (auto intro!: phase_of_cong foldl_conditions)
  have started: "phases_of (fst (markProcessing t1 ?r1)) = (phases_of r)(ct := phase_start (phases_of r ct))"
    for t1 using start r1 by (simp add: acts_def)
  have steps: "release_steps (phases_of r) (phases_of (fst (MarkReleaseFailed (conds E) t3 m3
      (fst (markFailed t2 m2 (fst (markProcessing t1 ?r1)))))))" for t1 t2 t3 m2 m3
    using steps_start_fail [OF open_for_phase [OF R opn]] neq
    by (simp add: fail_both_phases [OF fail neq] started)
  have R': "R f (release s') s'" if "stored (world s') = stored (world s)"
    "release s' = fst (MarkReleaseFailed (conds E) t3 m3
      (fst (markFailed t2 m2 (fst (markProcessing t1 ?r1)))))" for s' t1 t2 t3 m2 m3
    using R_change [OF R steps that] that by simp
  show ?thesis
    unfolding creation_failed_def handlePipelineCreationError_def
    apply (intro wp_bind wp_if wp_ret wp_gets)
     apply (rule R_J [OF R])
    apply (rule wp_edit, rule wp_bind, rule wp_mark, rule wp_bind, rule wp_mark, rule wp_bind,
        rule wp_mark, rule wp_bind)
    apply (rule wp_patch_status [OF R'])
    using R by (auto simp: R_def intro!: wp_ret)
qed

text \<open>Recording a PipelineRun: references in the status, then the phase is in progress.\<close>

lemma wp_record:
  assumes R: "R f r s" and opn: "open_for f r ct"
    and start: "acts ct phase_start markProcessing"
    and g: "\<And>r. Conditions (Status (g r)) = Conditions (Status r)"
  shows "wp (do { base \<leftarrow> gets release; edit g; mark E markProcessing; patch_status E base })
    (\<lambda>_. J f) s"
proof -
  have "phases_of (fst (markProcessing now (g r))) = (phases_of r)(ct := phase_start (phases_of r ct))"
    for now using start g by (simp add: acts_def phase_of_cong [of "g r" r] fun_eq_iff)
  moreover have "phases_of (g r) = phases_of r" using g by (auto intro: phase_of_cong)
  ultimately show ?thesis
    using steps_start [OF open_for_phase [OF R opn]] R
    by (intro wp_bind wp_release wp_edit_step wp_mark_step wp_patch_status_J) (auto intro: g)
qed

lemma wp_patch_and_spans:
  "R f r s \<Longrightarrow> wp (patchStatusAndEmitSpans E base p) (\<lambda>_. J f) s"
  unfolding patchStatusAndEmitSpans_def
  apply (intro wp_bind, erule wp_patch_status)
  apply (intro wp_case_option wp_bind wp_ret)
   apply (rule wp_quiet [OF J_R], assumption, rule frame_intro)
  by (auto intro!: wp_ret R_J)

lemma wp_mark_failures:
  assumes R: "R f r s" and f: "f releasedConditionType \<noteq> Absent" "ct \<in> set processing_types"
    and run: "phases_of r ct = InProgress"
    and fail: "acts_msg ct phase_fail markFailed"
    and k: "\<And>r' s'. R f r' s' \<Longrightarrow> wp k Q s'"
  shows "wp (do { mark E (\<lambda>t. markFailed t msg); mark E (\<lambda>t. MarkReleaseFailed (conds E) t rmsg); k }) Q s"
proof -
  have neq: "ct \<noteq> releasedConditionType" using f by auto
  have steps: "release_steps (phases_of r) (phases_of (fst (MarkReleaseFailed (conds E) t' rmsg
      (fst (markFailed t msg r)))))" for t t'
    using steps_fail [of "phases_of r" ct, OF run f(2)] J_started [of f s] R f neq
    by (simp add: fail_both_phases [OF fail neq] R_def)
  show ?thesis
    by (rule wp_bind, rule wp_mark, rule wp_bind, rule wp_mark, rule k, rule R_change [OF R steps])
       (use R in \<open>auto simp: R_def\<close>)
qed

lemma wp_register_status:
  assumes R: "R f r s" and f: "f releasedConditionType \<noteq> Absent" "ct \<in> set processing_types"
    and run: "phases_of r ct = InProgress"
    and succeed: "acts ct phase_succeed markProcessed"
    and fail: "acts_msg ct phase_fail markFailed"
  shows "wp (register_status E markProcessed markFailed msg p) (\<lambda>_. J f) s"
proof -
  have "phases_of (fst (markProcessed now r)) = (phases_of r)(ct := phase_succeed (phases_of r ct))"
    for now using succeed by (simp add: acts_def)
  then have ok: "release_steps (phases_of r) (phases_of (fst (markProcessed now r)))" for now
    using steps_succeed [of "phases_of r" ct] run f by simp
  have spans: "wp (patchStatusAndEmitSpans E base q) (\<lambda>a. wp (ret (Returned a)) (\<lambda>_. J f)) s'"
    if "R f r' s'" for base q r' s'
    by (rule wp_mono [OF wp_patch_and_spans [OF that]]) (rule wp_ret)
  show ?thesis
    unfolding register_status_def
  proof (intro wp_case_option wp_if wp_ret)
    fix q
    show "wp (do { base \<leftarrow> gets release;
       if k_IsTrue (pr_Condition q) then do { mark E markProcessed;
          err \<leftarrow> patchStatusAndEmitSpans E base (Some q); ret (Returned err) }
       else unless_panic (failure_message q (getFailedTaskRunLogs E (Some q))) (ret Panicked)
         (\<lambda>message. do { mark E (\<lambda>t. markFailed t message);
            mark E (\<lambda>t. MarkReleaseFailed (conds E) t msg);
            err \<leftarrow> patchStatusAndEmitSpans E base (Some q); ret (Returned err) }) }) (\<lambda>_. J f) s"
    proof (intro wp_bind wp_release [OF R] wp_if)
      show "wp (mark E markProcessed) (\<lambda>a. wp (do { err \<leftarrow> patchStatusAndEmitSpans E r (Some q);
          ret (Returned err) }) (\<lambda>_. J f)) s"
        by (intro wp_mark_step [where m = markProcessed, OF R ok] wp_bind spans)
      show "wp (unless_panic (failure_message q (getFailedTaskRunLogs E (Some q))) (ret Panicked)
         (\<lambda>message. do { mark E (\<lambda>t. markFailed t message);
            mark E (\<lambda>t. MarkReleaseFailed (conds E) t msg);
            err \<leftarrow> patchStatusAndEmitSpans E r (Some q); ret (Returned err) })) (\<lambda>_. J f) s"
        by (intro wp_unless_panic [OF R] frame_intro wp_ret wp_mark_failures [where f = f, OF _ f run fail] wp_bind spans)
           (auto intro: R_J)
    qed
  qed (use R in \<open>auto simp: R_def\<close>)
qed

lemma wp_track_run:
  assumes R: "R f r s" and q: "keeps obs lookup" and reg: "\<And>p s'. R f r s' \<Longrightarrow> wp (register p) (\<lambda>_. J f) s'"
  shows "wp (track_run lookup register) (\<lambda>_. J f) s"
proof -
  have *: "wp (unless_panic (register p) (ret OperationPanic)
     (\<lambda>err. case err of Some e \<Rightarrow> requeue e | None \<Rightarrow> ret ContinueProcessing)) (\<lambda>_. J f) s'"
    if "R f r s'" for p s'
    unfolding unless_panic_def
    by (rule wp_bind, rule wp_mono [OF reg [OF that]])
       (auto split: outcome.split option.split intro!: wp_ret)
  show ?thesis
    unfolding track_run_def
    by (rule wp_bind, rule wp_quiet [OF R q])
       (auto intro!: wp_attempt frame_intro wp_ret * R_J)
qed

section \<open>The operations that start a phase\<close>

lemma conditions_upd [simp]:
  "Conditions (Status (upd_tenantCollectors g r)) = Conditions (Status r)"
  "Conditions (Status (upd_managedCollectors g r)) = Conditions (Status r)"
  "Conditions (Status (upd_tenant g r)) = Conditions (Status r)"
  "Conditions (Status (upd_managed g r)) = Conditions (Status r)"
  "Conditions (Status (upd_final g r)) = Conditions (Status r)"
  "Conditions (Status (append_attempt a r)) = Conditions (Status r)"
  by (simp_all add: upd_tenantCollectors_def upd_managedCollectors_def upd_tenant_def upd_managed_def
      upd_final_def append_attempt_def)

lemma wp_register_data:
  assumes R: "R f r s" and k: "\<And>e s'. J f s' \<Longrightarrow> Q e s'"
  shows "open_for f r tenantCollectorsProcessedConditionType \<Longrightarrow>
      wp (registerTenantCollectorsProcessingData E p t1 t2) Q s"
    "open_for f r managedCollectorsProcessedConditionType \<Longrightarrow>
      wp (registerManagedCollectorsProcessingData E p t1 t2 t3) Q s"
    "open_for f r tenantProcessedConditionType \<Longrightarrow> wp (registerTenantProcessingData E p) Q s"
    "open_for f r finalProcessedConditionType \<Longrightarrow> wp (registerFinalProcessingData E p) Q s"
  unfolding registerTenantCollectorsProcessingData_def registerManagedCollectorsProcessingData_def
    registerTenantProcessingData_def registerFinalProcessingData_def
  by (intro wp_case_option wp_ret k [OF R_J [OF R]] wp_mono [OF wp_record [OF R _ phase_acts(1)] k]
      wp_mono [OF wp_record [OF R _ phase_acts(5)] k] wp_mono [OF wp_record [OF R _ phase_acts(9)] k]
      wp_mono [OF wp_record [OF R _ phase_acts(16)] k]; simp)+

text \<open>
  A new managed attempt: the phase is in progress and still open, so that a failed patch can be
  answered by failing the phase.
\<close>

lemma wp_registerManagedProcessingData:
  assumes R: "R f r s" and opn: "open_for f r managedProcessedConditionType"
  shows "wp (registerManagedProcessingData E p rb m)
    (\<lambda>e s'. J f s' \<and> (e \<noteq> None \<longrightarrow> open_for f (release s') managedProcessedConditionType)) s"
  unfolding registerManagedProcessingData_def Let_def
proof (intro wp_case_option wp_ret wp_bind wp_release [OF R])
  fix q :: PipelineRun
  let ?name = "ref_of (pr_meta q)" and ?rb = "case rb of None \<Rightarrow> [] | Some rb \<Rightarrow> ref_of (rb_meta rb)"
  let ?r1 = "upd_managed (\<lambda>i. i\<lparr>pi_PipelineRun := ?name,
      pi_RoleBindings := (pi_RoleBindings i)\<lparr>TenantRoleBinding := ?rb\<rparr>\<rparr>) r"
  let ?r2 = "append_attempt (new_attempt ?name ?rb m) ?r1"
  let ?r3 = "\<lambda>now. fst (MarkCurrentManagedPipelineAttemptProcessing (conds E) now ?r2)"
  have r2: "phases_of ?r2 = phases_of r" by (auto simp: fun_eq_iff intro!: phase_of_cong)
  have ne: "ManagedPipelineAttempts (Status ?r2) \<noteq> []" by (simp add: append_attempt_def)
  have r3: "phases_of (?r3 now) =
      (phases_of r)(managedProcessedConditionType := phase_start (phases_of r managedProcessedConditionType))"
    for now using opn ne by (auto simp: fun_eq_iff attempt_marks(4) r2 open_for_def)
  have steps: "release_steps (phases_of ?r2) (phases_of (?r3 now))" for now
    using steps_start [OF open_for_phase [OF R opn]] by (simp add: r2 r3)
  have opn': "open_for f (?r3 now) managedProcessedConditionType" for now
    using opn
    by (cases "phases_of r managedProcessedConditionType") (auto simp: open_for_def r3)
  show "wp (edit (upd_managed (\<lambda>i. i\<lparr>pi_PipelineRun := ?name,
      pi_RoleBindings := (pi_RoleBindings i)\<lparr>TenantRoleBinding := ?rb\<rparr>\<rparr>)))
    (\<lambda>a. wp (do { edit (append_attempt (new_attempt ?name ?rb m));
       mark E (MarkCurrentManagedPipelineAttemptProcessing (conds E)); patch_status E r })
     (\<lambda>e s'. J f s' \<and> (e \<noteq> None \<longrightarrow> open_for f (release s') managedProcessedConditionType))) s"
    by (intro wp_edit_step [OF R] wp_bind, simp)
       (erule wp_edit_step, simp, rule wp_bind, erule wp_mark_step, rule steps, erule wp_patch_status,
        auto simp: opn')
qed (use R opn in \<open>auto simp: R_def\<close>)

lemma wp_get:
  assumes "R f r s" "\<And>a s'. R f r s' \<Longrightarrow> Q a s'"
  shows "wp (get_run E T) Q s" "wp (get_run_attempt E i) Q s"
  using assms by (auto intro!: wp_quiet frame_intro)

lemmas skip_leaf = wp_skip [OF _ _ phase_acts(2)] wp_skip [OF _ _ phase_acts(6)]
  wp_skip [OF _ _ phase_acts(10)] wp_skip [OF _ _ phase_acts(14)] wp_skip [OF _ _ phase_acts(17)]

lemmas fail_leaf = wp_creation_failed [OF _ _ phase_acts(1,3)] wp_creation_failed [OF _ _ phase_acts(5,7)]
  wp_creation_failed [OF _ _ phase_acts(9,11)] wp_creation_failed [OF _ _ phase_acts(13,15)]
  wp_creation_failed [OF _ _ phase_acts(16,18)]

lemmas walk = wp_attempt wp_unless_panic wp_get skip_leaf fail_leaf wp_register_data

lemma wp_EnsureTenantPipelineIsProcessed:
  assumes "J f s" "f releasedConditionType \<noteq> Absent"
  shows "wp (EnsureTenantPipelineIsProcessed E) (\<lambda>_. J f) s"
  unfolding EnsureTenantPipelineIsProcessed_def Let_def
  using assms
  by (intro wp_bind wp_release [OF J_R [OF assms(1)]] wp_if wp_ret wp_case_option frame_intro
      walk [of f "release s"]; (auto simp: R_def open_for_def phase_queries)?)

lemma wp_EnsureFinalPipelineIsProcessed:
  assumes "J f s" "f releasedConditionType \<noteq> Absent"
  shows "wp (EnsureFinalPipelineIsProcessed E) (\<lambda>_. J f) s"
  unfolding EnsureFinalPipelineIsProcessed_def Let_def
  using assms
  by (intro wp_bind wp_release [OF J_R [OF assms(1)]] wp_if wp_ret wp_case_option frame_intro
      walk [of f "release s"]; (auto simp: R_def open_for_def phase_queries)?)

lemma wp_EnsureTenantCollectorsPipelineIsProcessed:
  assumes "J f s" "f releasedConditionType \<noteq> Absent"
  shows "wp (EnsureTenantCollectorsPipelineIsProcessed E) (\<lambda>_. J f) s"
  unfolding EnsureTenantCollectorsPipelineIsProcessed_def Let_def
  using assms
  by (intro wp_bind wp_release [OF J_R [OF assms(1)]] wp_if wp_ret wp_case_option frame_intro
      walk [of f "release s"]; (auto simp: R_def open_for_def phase_queries)?)

lemma wp_EnsureManagedCollectorsPipelineIsProcessed:
  assumes "J f s" "f releasedConditionType \<noteq> Absent"
  shows "wp (EnsureManagedCollectorsPipelineIsProcessed E) (\<lambda>_. J f) s"
  unfolding EnsureManagedCollectorsPipelineIsProcessed_def Let_def
  using assms
  by (intro wp_bind wp_release [OF J_R [OF assms(1)]] wp_if wp_ret wp_case_option frame_intro
      walk [of f "release s"]; (auto simp: R_def open_for_def phase_queries)?)

lemma wp_record_managed:
  assumes "R f r s" "open_for f r managedProcessedConditionType" "\<And>e s'. J f s' \<Longrightarrow> Q e s'"
  shows "wp (registerManagedProcessingData E p rb m) Q s"
  by (rule wp_mono [OF wp_registerManagedProcessingData [OF assms(1,2)]]) (use assms(3) in blast)

lemma wp_EnsureManagedPipelineIsProcessed:
  assumes "J f s" "f releasedConditionType \<noteq> Absent"
  shows "wp (EnsureManagedPipelineIsProcessed E) (\<lambda>_. J f) s"
  unfolding EnsureManagedPipelineIsProcessed_def Let_def
  using assms
  by (intro wp_bind wp_release [OF J_R [OF assms(1)]] wp_if wp_ret wp_case_option frame_intro
      walk [of f "release s"] wp_record_managed [of f "release s"];
      (auto simp: R_def open_for_def phase_queries)?)

section \<open>The operations that follow a phase\<close>

lemmas track_leaf =
  wp_register_status [OF _ _ _ _ phase_acts(4,3)] wp_register_status [OF _ _ _ _ phase_acts(8,7)]
  wp_register_status [OF _ _ _ _ phase_acts(12,11)] wp_register_status [OF _ _ _ _ phase_acts(19,18)]

lemma wp_tracked:
  assumes "J f s" "f releasedConditionType \<noteq> Absent"
  shows "wp (EnsureTenantCollectorsPipelineIsTracked E) (\<lambda>_. J f) s"
    "wp (EnsureManagedCollectorsPipelineIsTracked E) (\<lambda>_. J f) s"
    "wp (EnsureTenantPipelineProcessingIsTracked E) (\<lambda>_. J f) s"
    "wp (EnsureFinalPipelineProcessingIsTracked E) (\<lambda>_. J f) s"
  using assms
  unfolding EnsureTenantCollectorsPipelineIsTracked_def EnsureManagedCollectorsPipelineIsTracked_def
    EnsureTenantPipelineProcessingIsTracked_def EnsureFinalPipelineProcessingIsTracked_def
    registerTenantCollectorsProcessingStatus_def registerManagedCollectorsProcessingStatus_def
    registerTenantProcessingStatus_def registerFinalProcessingStatus_def
  by (intro wp_bind wp_release [OF J_R [OF assms(1)]] wp_if wp_ret wp_track_run [of f "release s"]
      track_leaf [of f "release s"] frame_intro; (auto simp: R_def phase_queries)?)+

lemma wp_registerManagedProcessingStatus:
  assumes R: "R f r s" and run: "phases_of r managedProcessedConditionType = InProgress"
  shows "wp (registerManagedProcessingStatus E p) (\<lambda>_. J f) s"
proof -
  have spans: "wp (patchStatusAndEmitSpans E base q) (\<lambda>a. wp (ret (Returned a)) (\<lambda>_. J f)) s'"
    if "R f r' s'" for base q r' s'
    by (rule wp_mono [OF wp_patch_and_spans [OF that]]) (rule wp_ret)
  have failed: "phases_of (fst (MarkCurrentManagedPipelineAttemptFailed (conds E) t m a b c n r)) = phases_of r"
    for t m a b c n by (auto simp: fun_eq_iff attempt_marks)
  have ok: "release_steps (phases_of r) (phases_of (fst (MarkCurrentManagedPipelineAttemptProcessed (conds E) t r)))"
    for t
  proof (cases "\<not> IsCurrentManagedPipelineAttemptDone r \<and> ManagedPipelineAttempts (Status r) \<noteq> []")
    case True
    then have "phases_of (fst (MarkCurrentManagedPipelineAttemptProcessed (conds E) t r)) =
        (phases_of r)(managedProcessedConditionType := phase_succeed (phases_of r managedProcessedConditionType))"
      by (auto simp: fun_eq_iff attempt_marks)
    then show ?thesis using steps_succeed [of "phases_of r"] run by simp
  next
    case False
    then have "phases_of (fst (MarkCurrentManagedPipelineAttemptProcessed (conds E) t r)) = phases_of r"
      by (auto simp: fun_eq_iff attempt_marks)
    then show ?thesis by simp
  qed
  show ?thesis
    unfolding registerManagedProcessingStatus_def Let_def
    apply (intro wp_case_option wp_bind wp_if wp_ret wp_release [OF R] R_J [OF R])
     apply (rule wp_mark_step [where m = "MarkCurrentManagedPipelineAttemptProcessed (conds E)", OF R ok],
        intro wp_bind spans, assumption)
    apply (rule wp_quiet [OF R], rule frame_intro)
    apply (intro wp_unless_panic [of f r] frame_intro wp_ret wp_bind)
      apply (auto intro: R_J)
    apply (erule wp_mark_step, simp add: failed)
    apply (intro wp_bind spans, assumption)
    done
qed

lemma wp_EnsureManagedPipelineProcessingIsTracked:
  assumes "J f s"
  shows "wp (EnsureManagedPipelineProcessingIsTracked E) (\<lambda>_. J f) s"
  using assms unfolding EnsureManagedPipelineProcessingIsTracked_def
  by (intro wp_bind wp_release [OF J_R [OF assms(1)]] wp_if wp_ret wp_track_run [of f "release s"]
      wp_registerManagedProcessingStatus [of f "release s"] frame_intro; (auto simp: R_def phase_queries)?)

section \<open>Retrying or ending the managed phase\<close>

lemma wp_retryManagedPipeline:
  assumes R: "R f r s" and opn: "open_for f r managedProcessedConditionType"
  shows "wp (retryManagedPipeline E) (\<lambda>res s'. J f s' \<and>
    (\<forall>e. res = Returned (Some e) \<longrightarrow> open_for f (release s') managedProcessedConditionType)) s"
proof -
  have reg: "wp (registerManagedProcessingData E p rb m)
      (\<lambda>a. wp (ret (Returned a)) (\<lambda>res s'. J f s' \<and>
        (\<forall>e. res = Returned (Some e) \<longrightarrow> open_for f (release s') managedProcessedConditionType))) s'"
    if "R f r s'" for p rb m s'
    by (rule wp_mono [OF wp_registerManagedProcessingData [OF that opn]]) (auto intro!: wp_ret)
  show ?thesis
    unfolding retryManagedPipeline_def
    by (intro wp_bind wp_release [OF R] wp_get [of f r] wp_attempt [of f r] wp_unless_panic [of f r] wp_if
        wp_case_prod wp_ret frame_intro reg R; (use opn in \<open>auto simp: R_def\<close>)?)
qed

lemma wp_EnsureManagedPipelineProcessingIsCompleted:
  assumes J: "J f s" and f: "f releasedConditionType \<noteq> Absent"
    and order: "IsManagedPipelineProcessing (conds E) (release s) \<Longrightarrow>
      ready (phases_of (release s)) managedProcessedConditionType"
  shows "wp (EnsureManagedPipelineProcessingIsCompleted E) (\<lambda>_. J f) s"
proof -
  let ?r = "release s"
  have opn: "open_for f ?r managedProcessedConditionType" if "IsManagedPipelineProcessing (conds E) ?r"
    using that order f by (simp add: open_for_def phase_queries)
  have retry: "wp (unless_panic (retryManagedPipeline E) (ret OperationPanic)
      (\<lambda>err. case err of
          Some e \<Rightarrow> creation_failed E (MarkManagedPipelineProcessing (conds E))
            (MarkManagedPipelineProcessingFailed (conds E)) msg [] e
        | None \<Rightarrow> ret ContinueProcessing)) (\<lambda>_. J f) s'"
    if "R f ?r s'" "IsManagedPipelineProcessing (conds E) ?r" for s' msg
    unfolding unless_panic_def
    by (rule wp_bind, rule wp_mono [OF wp_retryManagedPipeline [OF that(1) opn [OF that(2)]]])
       (auto split: outcome.split option.split intro!: wp_ret fail_leaf(4) J_R)
  have give_up: "wp (do { mark E (\<lambda>t. MarkManagedPipelineProcessingFailed (conds E) t msg);
      mark E (\<lambda>t. MarkReleaseFailed (conds E) t msg');
      err \<leftarrow> patch_status E base; ret (RequeueOnErrorOrContinue err) }) (\<lambda>_. J f) s'"
    if "R f r' s'" "phases_of r' managedProcessedConditionType = InProgress" for s' r' base msg msg'
    using that f
    by (intro wp_mark_failures [where f = f and r = r' and ct = managedProcessedConditionType] phase_acts
        wp_bind)
       (auto intro!: wp_patch_status wp_ret)
  have disabled: "phases_of (fst (MarkCurrentManagedPipelineAttemptRetryDisabled reason ?r)) = phases_of ?r"
    for reason by (auto simp: fun_eq_iff attempt_marks)
  show ?thesis
    unfolding EnsureManagedPipelineProcessingIsCompleted_def
    apply (intro wp_bind wp_release [OF J_R [OF J]] wp_if wp_ret J wp_attempt [of f ?r] wp_case_prod
        J_R [OF J] frame_intro)
       apply (erule R_J)
      apply (rule retry, assumption, simp)
     apply (rule wp_release, assumption, intro wp_bind wp_if)
      apply (erule wp_mark_step, simp add: disabled)
      apply (erule give_up, simp add: disabled phase_queries)
     apply (intro wp_ret, erule give_up, simp add: phase_queries)
    done
qed

end

end
