(* ===== verification/Reconcile_Refinement.thy ===== *)
theory Reconcile_Refinement
  imports Adapter_Refinement
begin

text \<open>
  The remaining operations and the whole \<open>Reconcile\<close> refine the abstract lifecycle. The first
  operations run before the Release is marked as releasing and go on only when they changed
  nothing; \<open>EnsureReleaseIsRunning\<close> goes on only with a started Release, after which every
  operation keeps the refinement invariant.
\<close>

context release_store
begin

section \<open>Marking the Release\<close>

lemma wp_mark_release:
  assumes R: "R f r s" and k: "\<And>r' s'. R f r' s' \<Longrightarrow> Q () s'"
  shows "wp (mark E (\<lambda>t. MarkReleaseFailed (conds E) t msg)) Q s"
    "wp (mark E (\<lambda>t. MarkValidationFailed (conds E) t msg)) Q s"
    "phases_of r releasedConditionType = InProgress \<Longrightarrow> wp (mark E (MarkValidated (conds E))) Q s"
proof -
  show "wp (mark E (\<lambda>t. MarkReleaseFailed (conds E) t msg)) Q s"
    using steps_fail_release [of "phases_of r"] release_acts(3)
    by (intro wp_mark_step [OF R] k) (auto simp: acts_def acts_msg_def)
  have "phases_of (fst (MarkValidationFailed (conds E) t msg r)) = (phases_of r)(validatedConditionType := Failed)"
    for t by (auto simp: fun_eq_iff validation_marks)
  then show "wp (mark E (\<lambda>t. MarkValidationFailed (conds E) t msg)) Q s"
    by (intro wp_mark_step [OF R] k) (auto intro: r_into_rtranclp release_step.fail_validation)
  assume run: "phases_of r releasedConditionType = InProgress"
  have "phases_of (fst (MarkValidated (conds E) t r)) =
      (if IsValid (conds E) r then phases_of r else (phases_of r)(validatedConditionType := Succeeded))"
    for t by (auto simp: fun_eq_iff validation_marks)
  then show "wp (mark E (MarkValidated (conds E))) Q s"
    using run by (intro wp_mark_step [OF R] k) (auto intro: r_into_rtranclp release_step.pass_validation)
qed

lemma wp_patch_status_any:
  assumes "R f r s" "\<And>e s'. J f s' \<Longrightarrow> Q e s'"
  shows "wp (patch_status E base) Q s"
  using assms(2) by (intro wp_patch_status [OF assms(1)])

lemma wp_EnsureReleaseIsCompleted:
  assumes J: "J f s"
  shows "wp (EnsureReleaseIsCompleted E) (\<lambda>_. J f) s"
proof -
  let ?r = "release s"
  have "phases_of (fst (MarkReleased (conds E) t ?r)) =
      (phases_of ?r)(releasedConditionType := phase_succeed (phases_of ?r releasedConditionType))" for t
    using release_acts(2) by (simp add: acts_def)
  then have *: "release_steps (phases_of ?r) (phases_of (fst (MarkReleased (conds E) t ?r)))"
    if "IsFinalPipelineProcessedSuccessfully (conds E) ?r" for t
    using that steps_complete [of "phases_of ?r"] by (simp add: success_queries)
  show ?thesis
    unfolding EnsureReleaseIsCompleted_def mark_and_patch_def mark_and_patch_from_def
    by (intro wp_bind wp_release [OF J_R [OF J]] wp_if wp_ret J
        wp_mark_step [where m = "MarkReleased (conds E)", OF J_R [OF J] *])
       (auto intro!: wp_patch_status_any wp_ret)
qed

section \<open>Metadata, finalizers and expiration\<close>

lemma wp_copy_meta:
  assumes "R f r s" "\<And>e r' s'. R f r' s' \<Longrightarrow> Q e s'"
  shows "wp (copy_meta g m pre) Q s"
  unfolding copy_meta_def
  by (intro wp_bind wp_release [OF assms(1)] wp_case_prod wp_edit_step [OF assms(1)] wp_ret assms(2)) auto

lemma wp_attempt_any:
  assumes "wp m (\<lambda>res s'. case res of Inl e \<Rightarrow> wp (h e) Q s' | Inr a \<Rightarrow> wp (k a) Q s') s"
  shows "wp (attempt m h k) Q s"
  unfolding attempt_def by (intro wp_bind wp_mono [OF assms]) (auto split: sum.splits)

lemma wp_attempt_copy:
  assumes "R f r s" "\<And>e s'. J f s' \<Longrightarrow> wp (h e) Q s'" "\<And>a r' s'. R f r' s' \<Longrightarrow> wp (k a) Q s'"
  shows "wp (attempt (copy_meta g m pre) h k) Q s"
  by (rule wp_attempt_any, rule wp_copy_meta [OF assms(1)]) (auto split: sum.split intro: assms R_J)

lemma wp_EnsureApplicationMetadataIsSet:
  assumes J: "J f s"
  shows "wp (EnsureApplicationMetadataIsSet E) (\<lambda>_. J f) s"
  unfolding EnsureApplicationMetadataIsSet_def
  apply (rule wp_attempt [OF J_R [OF J]], rule frame_intro)
   apply (intro wp_ret, erule R_J)
  apply (rule wp_bind, rule wp_release, assumption)
  apply (rule wp_attempt_copy, assumption, erule wp_ret)+
  apply (rule wp_bind, erule wp_patch_release)
  by (intro wp_if wp_ret)

lemma conditions_meta [simp]:
  "Conditions (Status (upd_finalizers g r)) = Conditions (Status r)"
  "Conditions (Status (SetExpirationTime d r)) = Conditions (Status r)"
  by (simp_all add: upd_finalizers_def SetExpirationTime_def)

lemma wp_EnsureFinalizerIsAdded:
  assumes J: "J f s"
  shows "wp (EnsureFinalizerIsAdded E) (\<lambda>_. J f) s"
  unfolding EnsureFinalizerIsAdded_def
  by (intro wp_bind wp_release [OF J_R [OF J]] wp_if wp_ret J wp_edit_step [OF J_R [OF J]])
     (auto intro!: wp_patch_release wp_ret)

lemma wp_EnsureReleaseExpirationTimeIsAdded:
  assumes J: "J f s"
  shows "wp (EnsureReleaseExpirationTimeIsAdded E) (\<lambda>_. J f) s"
  unfolding EnsureReleaseExpirationTimeIsAdded_def
  apply (intro wp_bind wp_release [OF J_R [OF J]] wp_if wp_ret J)
  apply (rule wp_quiet [OF J_R [OF J]], intro frame_intro)
  apply (intro wp_case_prod wp_if wp_ret wp_bind, erule R_J)
  apply (erule wp_edit_step, simp, rule wp_bind, erule wp_edit_step, simp, rule wp_bind)
  by (auto intro!: wp_patch_status_any wp_ret)

section \<open>Validation\<close>

lemma wp_invalid:
  assumes R: "R f r s"
  shows "wp (invalidate E msg) (\<lambda>_. J f) s" "wp (validationError E e) (\<lambda>_. J f) s"
proof -
  show *: "wp (invalidate E msg) (\<lambda>_. J f) s" for msg
    unfolding invalidate_def
    by (intro wp_bind wp_mark_release(2) [OF R] wp_ret) (rule R_J)
  show "wp (validationError E e) (\<lambda>_. J f) s"
    unfolding validationError_def by (intro wp_if wp_ret * R_J [OF R])
qed

lemma conditions_author [simp]:
  "Conditions (Status (set_author a r)) = Conditions (Status r)"
  "Conditions (Status (set_standing r)) = Conditions (Status r)"
  by (simp_all add: set_author_def set_standing_def)

lemma wp_check_source:
  assumes R: "R f r s" and k: "\<And>s'. R f r s' \<Longrightarrow> wp k (\<lambda>_. J f) s'"
  shows "wp (check_source E ref k) (\<lambda>_. J f) s"
  unfolding check_source_def
  by (intro wp_case_option k R wp_bind wp_gets wp_ret R_J [OF R] wp_if wp_invalid(1) [OF R])

lemma wp_validateAuthor:
  assumes J: "J f s"
  shows "wp (validateAuthor E) (\<lambda>_. J f) s"
proof -
  have late: "wp (do { mark E (\<lambda>t. MarkValidationFailed (conds E) t msg); t \<leftarrow> load (Now E);
      (if c t then invalid else ret x) }) (\<lambda>_. J f) s" for msg c x
    apply (rule wp_bind, rule wp_mark_release(2) [OF J_R [OF J]], rule wp_bind, erule wp_quiet)
     apply (intro frame_intro)
    by (intro wp_if wp_ret) (auto intro: R_J)
  show ?thesis
    unfolding validateAuthor_def Let_def
    apply (intro wp_bind [of "gets release"] wp_release [OF J_R [OF J]] wp_if wp_ret J late)
    apply (rule wp_attempt [OF J_R [OF J]], rule frame_intro, erule wp_invalid)
    apply (intro wp_if wp_bind)
       apply (erule wp_invalid)
      apply (erule wp_edit_step, simp, rule wp_bind, erule wp_edit_step, simp, intro wp_ret, erule R_J)
     apply (erule wp_invalid)
    apply (erule wp_edit_step, simp, intro wp_ret, erule R_J)
    done
qed

lemma wp_validatePipelineDefined:
  assumes J: "J f s"
  shows "wp (validatePipelineDefined E) (\<lambda>_. J f) s"
  unfolding validatePipelineDefined_def
  apply (rule wp_attempt [OF J_R [OF J]], rule frame_intro, erule wp_invalid)
  apply (rule wp_bind, erule wp_edit_step, simp)
  apply (intro wp_if wp_ret)
    apply (erule wp_invalid)
   apply (rule wp_bind, rule wp_release, assumption)
   apply (rule wp_attempt, assumption, intro frame_intro, erule wp_invalid)
   apply (intro wp_if wp_ret)
    apply (erule wp_invalid)
   apply (erule R_J)+
  done

lemma wp_validateProcessingResources:
  assumes J: "J f s"
  shows "wp (validateProcessingResources E) (\<lambda>_. J f) s"
  unfolding validateProcessingResources_def
  apply (rule wp_attempt [OF J_R [OF J]], rule frame_intro, erule wp_invalid)
  apply (intro wp_if wp_ret wp_bind)
   apply (rule wp_release, assumption)
   apply (rule wp_attempt, assumption, intro frame_intro, erule wp_invalid)
   apply (intro wp_ret)
   apply (erule R_J)+
  done

lemma wp_validateApplication:
  assumes J: "J f s"
  shows "wp (validateApplication E) (\<lambda>_. J f) s"
  unfolding validateApplication_def
  apply (rule wp_attempt [OF J_R [OF J]], rule frame_intro, erule wp_invalid)
  apply (rule wp_attempt, assumption, rule frame_intro, erule wp_invalid)
  apply (intro wp_if wp_ret)
   apply (erule wp_invalid)
  apply (erule R_J)
  done

lemma wp_validatePipelineSource:
  assumes J: "J f s"
  shows "wp (validatePipelineSource E) (\<lambda>_. J f) s"
  unfolding validatePipelineSource_def
  apply (rule wp_attempt [OF J_R [OF J]], rule frame_intro, erule wp_invalid)
  apply (erule wp_check_source)+
  apply (intro wp_if wp_ret wp_bind)
   apply (rule wp_release, assumption)
   apply (rule wp_attempt, assumption, intro frame_intro, erule wp_invalid)
   apply (erule wp_check_source, intro wp_ret)
   apply (erule R_J)+
  done

lemma wp_validation:
  assumes "v \<in> set (validations E)" "J f s"
  shows "wp v (\<lambda>_. J f) s"
  using assms
  by (auto simp: validations_def wp_validatePipelineDefined wp_validateProcessingResources
      wp_validateApplication wp_validateAuthor wp_validatePipelineSource)

lemma wp_EnsureReleaseIsValid:
  assumes T: "toolkit_api T" and J: "J f s"
  shows "wp (EnsureReleaseIsValid E T) (\<lambda>_. J f) s"
proof -
  have store: "wp (do { r \<leftarrow> gets release;
      (if IsReleasing (conds E) r then mark_and_patch_from E base (MarkValidated (conds E))
       else do {
         err \<leftarrow> patch_status E base;
         (if err = None \<and> c then emitValidationFailureWaitSpan E else ret ());
         r' \<leftarrow> gets release;
         (if \<not> AreAllProcessingPhasesFinished (conds E) r' then ret (RequeueOnErrorOrContinue err)
          else ret (RequeueOnErrorOrStop err)) }) }) (\<lambda>_. J f) s'"
    if "J f s'" for base c s'
    unfolding mark_and_patch_from_def
    apply (intro wp_bind wp_if wp_release [OF J_R [OF that]])
     apply (rule wp_mark_release(3) [OF J_R [OF that]])
      apply (rule wp_bind, erule wp_patch_status_any, erule wp_ret)
     apply (simp add: phase_queries)
    apply (rule wp_patch_status_any [OF J_R [OF that]], intro wp_bind wp_if)
     apply (rule wp_quiet [OF J_R], assumption, rule frame_intro)
     apply (auto intro!: wp_bind wp_gets wp_ret intro: R_J)
    done
  show ?thesis
    unfolding EnsureReleaseIsValid_def
    apply (intro wp_bind wp_release [OF J_R [OF J]])
    apply (rule wp_mono [OF toolkit_api.validate_invariant [OF T wp_validation J]], assumption+)
    subgoal for res s'
      by (cases res; simp only: validation_result.case; intro wp_bind [of "If _ _ _"] wp_if wp_ret)
        (auto intro!: store wp_mark_release(1) [OF J_R] elim: R_J)
    done
qed

section \<open>Before the Release runs\<close>

text \<open>What the Release in memory and the stored status have in common when an operation goes on.\<close>

definition synced :: "Release \<Rightarrow> 'w adapter \<Rightarrow> bool" where
  "synced r s \<longleftrightarrow> release s = r \<and> stored (world s) = view r"

lemma synced_J: "synced r s \<Longrightarrow> J (phases_of r) s"
  by (auto simp: synced_def J_def phase_of_view)

lemma synced_quiet: "synced r s \<Longrightarrow> keeps obs m \<Longrightarrow> (\<And>a s'. synced r s' \<Longrightarrow> Q a s') \<Longrightarrow> wp m Q s"
  by (rule wp_keeps [of obs]) (auto simp: synced_def obs_def)

lemma wp_EnsureFinalizersAreCalled:
  assumes "synced r s"
  shows "wp (EnsureFinalizersAreCalled E) (\<lambda>res s'. if goes_on res then synced r s' else J (phases_of r) s') s"
proof -
  note J = synced_J [OF assms]
  show ?thesis
    unfolding EnsureFinalizersAreCalled_def
    apply (intro wp_bind wp_release [OF J_R [OF J]] wp_if wp_ret)
      apply (simp add: assms)
     apply (rule wp_quiet [OF J_R [OF J]], rule frame_intro)
     apply (intro wp_case_option wp_bind wp_ret)
      apply (rule wp_release, assumption, rule wp_bind, erule wp_edit_step, simp)
      apply (rule wp_bind, erule wp_patch_release)
      apply (intro wp_case_option wp_ret)
       apply (simp_all add: J R_J)
    done
qed

lemma wp_EnsureConfigIsLoaded:
  assumes "synced r s"
  shows "wp (EnsureConfigIsLoaded E) (\<lambda>res s'. if goes_on res then synced r s' else J (phases_of r) s') s"
  unfolding EnsureConfigIsLoaded_def
  apply (rule wp_bind, rule synced_quiet [OF assms], intro frame_intro)
  apply (intro wp_if)
   apply (rule wp_bind, rule wp_release, erule J_R [OF synced_J])
   apply (rule wp_bind, rule wp_mark_release(2), erule J_R [OF synced_J])
   apply (rule wp_bind, erule wp_mark_release(1))
   apply (rule wp_bind, erule wp_patch_status_any, rule wp_ret, simp)
  apply (rule wp_bind, erule synced_quiet, intro frame_intro)
  apply (intro wp_case_prod wp_bind, erule synced_quiet, rule keeps_modify_other)
  apply (intro wp_case_option wp_if wp_ret wp_bind)
    apply (simp_all add: synced_J)
  apply (erule synced_quiet, rule keeps_modify_other)
  by (intro wp_ret, simp)

lemma wp_cleanup_operations:
  assumes "synced r s"
  shows "wp (EnsureCollectorsProcessingResourcesAreCleanedUp E)
      (\<lambda>res s'. if goes_on res then synced r s' else J (phases_of r) s') s"
    "wp (EnsureReleaseProcessingResourcesAreCleanedUp E)
      (\<lambda>res s'. if goes_on res then synced r s' else J (phases_of r) s') s"
  by (intro synced_quiet [OF assms keeps_cleanup_operations(1)]
      synced_quiet [OF assms keeps_cleanup_operations(2)]; simp add: synced_J)+

lemma wp_EnsureReleaseIsRunning:
  assumes sy: "synced r s"
  shows "wp (EnsureReleaseIsRunning E) (\<lambda>res s'. J (phases_of r) s' \<and>
    (goes_on res \<longrightarrow> (\<exists>r'. synced r' s' \<and> phases_of r' releasedConditionType \<noteq> Absent))) s"
proof -
  note R = J_R [OF synced_J [OF sy]]
  have s: "release s = r" "stored (world s) = view r" using sy by (auto simp: synced_def)
  let ?r1 = "\<lambda>t. fst (MarkReleasing (conds E) t [] r)"
  have r1: "phases_of (?r1 t) = (phases_of r)(releasedConditionType := phase_start (phases_of r releasedConditionType))"
    for t using release_acts(1) by (simp add: acts_def)
  have started: "phases_of (?r1 t) releasedConditionType \<noteq> Absent" for t
    by (cases "phases_of r releasedConditionType") (simp_all add: r1)
  have "wp (patch_status E (release s)) (\<lambda>e. wp (ret (RequeueOnErrorOrContinue e)) (\<lambda>res s'.
      J (phases_of r) s' \<and> (goes_on res \<longrightarrow>
        (\<exists>r'. synced r' s' \<and> phases_of r' releasedConditionType \<noteq> Absent)))) s'"
    if "stored (world s') = stored (world s)" "release s' = ?r1 t" for s' t
  proof (rule wp_patch_status [OF R_change [OF R _ that]])
    show "release_steps (phases_of (release s)) (phases_of (?r1 t))"
      using steps_begin [of "phases_of r"] by (simp add: r1 s)
    fix e :: "error option" and s2
    assume "J (phases_of r) s2" "e = None \<Longrightarrow> view (release s) = stored (world s') \<Longrightarrow>
      stored (world s2) = view (?r1 t) \<and> view (release s2) = view (?r1 t)"
    then show "wp (ret (RequeueOnErrorOrContinue e)) (\<lambda>res s'. J (phases_of r) s' \<and> (goes_on res \<longrightarrow>
        (\<exists>r'. synced r' s' \<and> phases_of r' releasedConditionType \<noteq> Absent))) s2"
      using that s started [of t]
      by (cases e) (auto simp: synced_def phase_of_view intro!: wp_ret exI [of _ "release s2"])
  qed
  then show ?thesis
    unfolding EnsureReleaseIsRunning_def mark_and_patch_def mark_and_patch_from_def
    using sy s synced_J [OF sy]
    by (intro wp_bind wp_if wp_ret wp_release [OF R] wp_mark) (force simp: phase_queries)+
qed

lemma wp_phase_operations:
  assumes "op \<in> set (drop 5 (operations E T))" and T: "toolkit_api T"
    and f: "f releasedConditionType \<noteq> Absent" "consistent f" and J: "J f s"
  shows "wp op (\<lambda>_. J f) s"
proof -
  have "consistent (phases_of (release s))"
    using J f release_steps_consistent by (auto simp: J_def)
  then have "ready (phases_of (release s)) managedProcessedConditionType"
    if "IsManagedPipelineProcessing (conds E) (release s)"
    using that by (auto simp: consistent_def phase_queries processing_types_def)
  then show ?thesis
    using assms
    by (auto simp: operations_def wp_EnsureReleaseIsValid wp_EnsureApplicationMetadataIsSet
        wp_EnsureFinalizerIsAdded wp_EnsureReleaseExpirationTimeIsAdded wp_EnsureReleaseIsCompleted
        wp_EnsureTenantCollectorsPipelineIsProcessed wp_EnsureManagedCollectorsPipelineIsProcessed
        wp_EnsureTenantPipelineIsProcessed wp_EnsureManagedPipelineIsProcessed
        wp_EnsureFinalPipelineIsProcessed wp_tracked wp_EnsureManagedPipelineProcessingIsTracked
        wp_EnsureManagedPipelineProcessingIsCompleted)
qed

section \<open>The whole reconcile\<close>

lemma wp_operations:
  assumes T: "toolkit_api T" and sy: "synced r s" and c: "consistent (phases_of r)"
  shows "wp (ReconcileHandler T (operations E T)) (\<lambda>_. J (phases_of r)) s"
proof -
  let ?pre = "take 4 (operations E T)" and ?rest = "drop 5 (operations E T)"
  have running: "wp (ReconcileHandler T (EnsureReleaseIsRunning E # ?rest)) (\<lambda>_. J (phases_of r)) s"
    if "synced r s" for s
    unfolding toolkit_api.handler_cons [OF T]
  proof (rule wp_bind, rule wp_mono [OF wp_EnsureReleaseIsRunning [OF that]])
    fix res s'
    assume p: "J (phases_of r) s' \<and> (goes_on res \<longrightarrow>
      (\<exists>r'. synced r' s' \<and> phases_of r' releasedConditionType \<noteq> Absent))"
    show "wp (if goes_on res then ReconcileHandler T ?rest else ret (Some res)) (\<lambda>_. J (phases_of r)) s'"
    proof (rule wp_if)
      assume "goes_on res"
      then obtain r' where r': "synced r' s'" "phases_of r' releasedConditionType \<noteq> Absent"
        using p by blast
      then have steps: "release_steps (phases_of r) (phases_of r')"
        using p by (auto simp: J_def synced_def)
      then have "consistent (phases_of r')" using c by (rule release_steps_consistent)
      then have "wp (ReconcileHandler T ?rest) (\<lambda>_. J (phases_of r')) s'"
        using r' T synced_J [OF r'(1)] by (intro toolkit_api.handler_invariant [OF T] wp_phase_operations)
      then show "wp (ReconcileHandler T ?rest) (\<lambda>_. J (phases_of r)) s'"
        using steps by (elim wp_mono) (auto simp: J_def)
    qed (use p in \<open>auto intro!: wp_ret\<close>)
  qed
  have "wp op (\<lambda>res s'. if goes_on res then synced r s' else J (phases_of r) s') s"
    if "op \<in> set ?pre" "synced r s" for op s
    using that wp_EnsureFinalizersAreCalled wp_EnsureConfigIsLoaded wp_cleanup_operations
    by (auto simp: operations_def split del: if_split)
  then have "wp (ReconcileHandler T (?pre @ EnsureReleaseIsRunning E # ?rest)) (\<lambda>_. J (phases_of r)) s"
    by (rule toolkit_api.handler_append [OF T]) (auto intro: running sy)
  then show ?thesis by (simp add: operations_def)
qed

lemma wp_Reconcile:
  assumes "toolkit_api T" "consistent (view_phases (conds E) (stored w))"
  shows "wp (Reconcile E T rname rnamespace)
    (\<lambda>_ w'. release_steps (view_phases (conds E) (stored w)) (view_phases (conds E) (stored w'))) w"
proof -
  obtain r err w1 where get: "run_state (api_GetRelease E rname rnamespace) w = ((r, err), w1)"
    by (metis surj_pair)
  have w1: "stored w1 = stored w"
    using quiet_effects(3) get by (metis keepsD snd_conv)
  show ?thesis
  proof (cases err)
    case (Some e)
    then show ?thesis using get w1 by (simp add: wp_def Reconcile_def)
  next
    case None
    then have v: "view r = stored w" using get get_release by blast
    then have "synced r (newAdapter r w1)" using w1 by (simp add: synced_def newAdapter_def)
    then have "wp (ReconcileHandler T (operations E T)) (\<lambda>_. J (phases_of r)) (newAdapter r w1)"
      using assms v by (intro wp_operations) (auto simp: phase_of_view)
    then show ?thesis
      using get None v by (auto simp: wp_def Reconcile_def J_def phase_of_view split: prod.splits)
  qed
qed

end

end
