(* ===== verification/Cluster.thy ===== *)
theory Cluster
  imports Reconcile_Refinement
begin

text \<open>
  A concrete cluster that meets the contract of \<open>release_store\<close>: the objects the service reads and
  writes are kept in lists, writes take effect at once, and the status of the Release is patched
  field by field. It interprets the locale and is the world of the executed runs.
\<close>

record cluster =
  cl_release :: Release
  cl_releases :: "Release list"
  cl_plans :: "ReleasePlan list"
  cl_admissions :: "ReleasePlanAdmission list"
  cl_config :: "ReleaseServiceConfig list"
  cl_snapshots :: "Snapshot list"
  cl_policies :: "EnterpriseContractPolicy list"
  cl_bindings :: "RoleBinding list"
  cl_roles :: "Role list"
  cl_runs :: "PipelineRun list"
  cl_tasks :: "TaskRun list"
  cl_clock :: time
  cl_serial :: nat

section \<open>Pure functions\<close>

definition not_found :: "string \<Rightarrow> error" where
  "not_found m = \<lparr>e_msg = m, e_class = [NotFound], e_net = None, e_sentinel = []\<rparr>"

text \<open>Sorting by a strict order.\<close>

primrec insert_by :: "('a \<Rightarrow> 'a \<Rightarrow> bool) \<Rightarrow> 'a \<Rightarrow> 'a list \<Rightarrow> 'a list" where
  "insert_by lt x [] = [x]"
| "insert_by lt x (y # ys) = (if lt y x then y # insert_by lt x ys else x # y # ys)"

definition insort_by :: "('a \<Rightarrow> 'a \<Rightarrow> bool) \<Rightarrow> 'a list \<Rightarrow> 'a list" where
  "insort_by lt xs = foldr (insert_by lt) xs []"

text \<open>Owner annotations as \<open>operator-lib\<close> writes them: the type and the namespaced name of the owner.\<close>

definition owner_entries :: "object_meta \<Rightarrow> (string \<rightharpoonup> string)" where
  "owner_entries owner =
     [''operator-sdk/primary-resource-type'' \<mapsto> om_Kind owner @ ''.appstudio.redhat.com'',
      ''operator-sdk/primary-resource'' \<mapsto> om_Namespace owner @ ''/'' @ om_Name owner]"

definition set_owner :: "object_meta \<Rightarrow> object_meta \<Rightarrow> error option \<times> object_meta" where
  "set_owner owner dst =
     (if om_Name owner = [] \<or> om_Kind owner = []
      then (Some (plain_error ''the owner has no name or no kind''), dst)
      else (None, dst\<lparr>om_Annotations := overlay (om_Annotations dst) (Some (owner_entries owner))\<rparr>))"

definition cluster_lib :: lib where
  "cluster_lib = \<lparr>lib_cond = status_conditions,
     lib_float = \<lparr>fe_hex = (\<lambda>_. None), fe_other = (\<lambda>_. 0), q_Value = (\<lambda>q. q_nano q div 10 ^ 9),
       q_Cmp = (\<lambda>a b. q_nano a - q_nano b),
       NewQuantity = (\<lambda>n f. \<lparr>q_nano = n * 10 ^ 9, q_format = f\<rparr>)\<rparr>,
     ContainsFinalizer = (\<lambda>fs f. f \<in> set fs), AddFinalizer = (\<lambda>fs f. List.insert f fs),
     RemoveFinalizer = (\<lambda>fs f. removeAll f fs),
     CopyAnnotationsByPrefix = (\<lambda>src dst pre. (None, dst)),
     CopyLabelsByPrefix = (\<lambda>src dst pre. (None, dst)),
     SetOwnerAnnotations = set_owner,
     ParseQuantity = (\<lambda>_. Inr \<lparr>q_nano = 10 ^ 9, q_format = []\<rparr>), QuantityString = (\<lambda>_. []),
     DurationString = show_int, Compile = (\<lambda>e. Some (\<lambda>s. s = e)), Unmarshal = (\<lambda>_. None),
     ErrorOrNil = (\<lambda>es. case es of [] \<Rightarrow> None | e # _ \<Rightarrow> Some e),
     ErrorList = (\<lambda>es. concat (map e_msg es)), Quote = (\<lambda>s. s),
     NewNotFound = (\<lambda>g k n. not_found n), ParseURL = (\<lambda>_. None),
     gitops_PipelinesAsCodePrefix = ''pac.test.appstudio.openshift.io'',
     SortSlice = (\<lambda>lt. insort_by lt), AppendCertsFromPEM = (\<lambda>pem. pem \<noteq> []), NewRequest = (\<lambda>_. None),
     DecodeSnapshot = (\<lambda>s. (\<lparr>sn_meta = no_meta\<lparr>om_Name := s\<rparr>, sn_Application = []\<rparr>, None)),
     DecodeItems = (\<lambda>s. Inr (split_on (CHR '','') s)), DecodeMeta = (\<lambda>s. Some (''snapshot'', s))\<rparr>"

section \<open>Effects\<close>

definition get_object ::
  "('o \<Rightarrow> object_meta) \<Rightarrow> (cluster \<Rightarrow> 'o list) \<Rightarrow> 'o \<Rightarrow> string \<Rightarrow> string \<Rightarrow> (cluster, 'o \<times> error option) state" where
  "get_object meta objs dflt name namespace = gets (\<lambda>w.
     case filter (\<lambda>x. om_Name (meta x) = name \<and> om_Namespace (meta x) = namespace) (objs w) of
       [] \<Rightarrow> (dflt, Some (not_found name)) | x # _ \<Rightarrow> (x, None))"

text \<open>\<open>generateName\<close> is completed by a serial number.\<close>

definition named :: "nat \<Rightarrow> object_meta \<Rightarrow> object_meta" where
  "named n m = (if om_Name m = [] then m\<lparr>om_Name := om_GenerateName m @ show_nat n\<rparr> else m)"

definition create_object ::
  "(nat \<Rightarrow> 'o \<Rightarrow> 'o) \<Rightarrow> ('o \<Rightarrow> cluster \<Rightarrow> cluster) \<Rightarrow> 'o \<Rightarrow> (cluster, error + 'o) state" where
  "create_object name add x = State (\<lambda>w.
     let y = name (cl_serial w) x in (Inr y, add y (w\<lparr>cl_serial := Suc (cl_serial w)\<rparr>)))"

definition selected_labels :: "string list" where
  "selected_labels = [ReleaseNameLabel, ReleaseNamespaceLabel, PipelinesTypeLabel, ReleaseAttemptLabel]"

definition selects :: "(string \<rightharpoonup> string) \<Rightarrow> strmap \<Rightarrow> bool" where
  "selects sel m = list_all (\<lambda>k. sel k = None \<or> map_read m k = sel k) selected_labels"

definition same_object :: "object_meta \<Rightarrow> object_meta \<Rightarrow> bool" where
  "same_object a b \<longleftrightarrow> om_Name a = om_Name b \<and> om_Namespace a = om_Namespace b"

definition drop_object :: "('o \<Rightarrow> object_meta) \<Rightarrow> 'o \<Rightarrow> 'o list \<Rightarrow> 'o list" where
  "drop_object meta x = filter (\<lambda>y. \<not> same_object (meta x) (meta y))"

text \<open>An object that is marked for deletion goes away with its last finalizer.\<close>

definition update_run :: "PipelineRun \<Rightarrow> (object_meta \<Rightarrow> object_meta) \<Rightarrow> PipelineRun list \<Rightarrow> PipelineRun list" where
  "update_run x f ys = filter (\<lambda>y. \<not> (same_object (pr_meta x) (pr_meta y) \<and>
       om_DeletionTimestamp (pr_meta y) \<noteq> None \<and> om_Finalizers (pr_meta y) = []))
     (map (\<lambda>y. if same_object (pr_meta x) (pr_meta y) then pr_meta_update f y else y) ys)"

definition empty_release :: Release where
  "empty_release = \<lparr>rel_meta = no_meta,
     Spec = \<lparr>Snapshot = [], ReleasePlan = [], rel_Data = None, GracePeriodDays = 0\<rparr>, Status = no_status\<rparr>"

definition empty_plan :: ReleasePlan where
  "empty_plan = \<lparr>rp_meta = no_meta,
     rp_Spec = \<lparr>Application = [], ComponentGroup = [], rps_Collectors = None, rps_Data = None,
       TenantPipeline = None, FinalPipeline = None, ReleaseGracePeriodDays = 0, Target = []\<rparr>,
     rp_Status = \<lparr>rpst_Conditions = [],
       rpst_ReleasePlanAdmission = \<lparr>mrpa_Name = [], mrpa_Active = False\<rparr>\<rparr>\<rparr>"

definition empty_admission :: ReleasePlanAdmission where
  "empty_admission = \<lparr>rpa_meta = no_meta,
     rpa_Spec = \<lparr>Applications = None, ComponentGroups = None, rpas_Collectors = None, rpas_Data = None,
       Environment = [], Origin = [], rpas_Pipeline = None, Policy = []\<rparr>,
     rpa_Status = \<lparr>rpast_Conditions = [], ReleasePlans = None, rpast_RetryInfo = None\<rparr>\<rparr>"

definition get_the_release :: "string \<Rightarrow> string \<Rightarrow> (cluster, Release \<times> error option) state" where
  "get_the_release name namespace = gets (\<lambda>w.
     if om_Name (rel_meta (cl_release w)) = name \<and> om_Namespace (rel_meta (cl_release w)) = namespace
     then (cl_release w, None) else (empty_release, Some (not_found name)))"

definition merge_status :: "Release \<Rightarrow> Release \<Rightarrow> ReleaseStatus \<Rightarrow> ReleaseStatus" where
  "merge_status base r old = (Status r)
     \<lparr>Conditions := (if Conditions (Status r) = Conditions (Status base) then Conditions old
        else Conditions (Status r)),
      ManagedPipelineAttempts :=
        (if ManagedPipelineAttempts (Status r) = ManagedPipelineAttempts (Status base)
         then ManagedPipelineAttempts old else ManagedPipelineAttempts (Status r))\<rparr>"

definition patch_the_release ::
  "(Release \<Rightarrow> Release \<Rightarrow> Release \<Rightarrow> Release) \<Rightarrow> Release \<Rightarrow> Release \<Rightarrow> (cluster, error + Release) state" where
  "patch_the_release f base r = State (\<lambda>w. let r' = f base r (cl_release w)
     in (Inr r', w\<lparr>cl_release := r'\<rparr>))"

definition cluster_env :: "cluster env" where
  "cluster_env = \<lparr>lib = cluster_lib,
     Now = gets cl_clock,
     Getenv = (\<lambda>v. ret (if v = ''SERVICE_NAMESPACE'' then ''service'' else [])),
     api_GetRelease = get_the_release,
     api_GetReleasePlan = get_object rp_meta cl_plans empty_plan,
     api_GetReleasePlanAdmission = get_object rpa_meta cl_admissions empty_admission,
     api_GetReleaseServiceConfig =
       get_object rsc_meta cl_config (getEmptyReleaseServiceConfig []),
     api_GetSnapshot = get_object sn_meta cl_snapshots \<lparr>sn_meta = no_meta, sn_Application = []\<rparr>,
     api_GetApplication = (\<lambda>n ns. ret (\<lparr>app_meta = no_meta\<rparr>, Some (not_found n))),
     api_GetEnterpriseContractPolicy =
       get_object ecp_meta cl_policies \<lparr>ecp_meta = no_meta, ecp_json = Inr []\<rparr>,
     api_GetRoleBinding = get_object rb_meta cl_bindings
       \<lparr>rb_meta = no_meta, RoleRef_APIGroup = [], RoleRef_Kind = [], RoleRef_Name = [], Subjects = []\<rparr>,
     api_GetRole = get_object role_meta cl_roles \<lparr>role_meta = no_meta, Rules = []\<rparr>,
     api_GetPipelineRun = get_object pr_meta cl_runs (new_PipelineRun [] []),
     api_ListReleasePlanAdmissions = (\<lambda>ns origin. gets (\<lambda>w. Inr (filter
       (\<lambda>x. om_Namespace (rpa_meta x) = ns \<and> Origin (rpa_Spec x) = origin) (cl_admissions w)))),
     api_ListReleasePlans = (\<lambda>ns target label. gets (\<lambda>w. Inr (filter
       (\<lambda>x. om_Namespace (rp_meta x) = ns \<and> Target (rp_Spec x) = target \<and>
          (case label of None \<Rightarrow> True
           | Some l \<Rightarrow> map_read (om_Labels (rp_meta x)) ReleasePlanAdmissionLabel = Some l)) (cl_plans w)))),
     api_ListReleases = (\<lambda>ns plan. gets (\<lambda>w. Inr (filter
       (\<lambda>x. om_Namespace (rel_meta x) = ns \<and> ReleasePlan (Spec x) = plan)
       (cl_release w # cl_releases w)))),
     api_ListPipelineRuns = (\<lambda>sel n. gets (\<lambda>w. Inr (take n (filter
       (\<lambda>x. selects sel (om_Labels (pr_meta x))) (cl_runs w))))),
     api_ListTaskRuns = (\<lambda>ns sel. gets (\<lambda>w. Inr (filter (\<lambda>x. om_Namespace (tr_meta x) = ns) (cl_tasks w)))),
     api_CreatePipelineRun = create_object (\<lambda>n. pr_meta_update (named n))
       (\<lambda>x w. w\<lparr>cl_runs := cl_runs w @ [x]\<rparr>),
     api_CreateRole = create_object (\<lambda>n. role_meta_update (named n))
       (\<lambda>x w. w\<lparr>cl_roles := cl_roles w @ [x]\<rparr>),
     api_CreateRoleBinding = create_object (\<lambda>n. rb_meta_update (named n))
       (\<lambda>x w. w\<lparr>cl_bindings := cl_bindings w @ [x]\<rparr>),
     api_DeletePipelineRun = (\<lambda>x. State (\<lambda>w. (None, w\<lparr>cl_runs :=
       update_run x (om_DeletionTimestamp_update (\<lambda>_. Some (cl_clock w))) (cl_runs w)\<rparr>))),
     api_DeleteRole = (\<lambda>x. State (\<lambda>w. (None, w\<lparr>cl_roles := drop_object role_meta x (cl_roles w)\<rparr>))),
     api_DeleteRoleBinding =
       (\<lambda>x. State (\<lambda>w. (None, w\<lparr>cl_bindings := drop_object rb_meta x (cl_bindings w)\<rparr>))),
     api_PatchFinalizers = (\<lambda>x fs. State (\<lambda>w. (None, w\<lparr>cl_runs :=
       update_run x (om_Finalizers_update (\<lambda>_. fs)) (cl_runs w)\<rparr>))),
     api_PatchRelease = patch_the_release (\<lambda>base r old. r\<lparr>Status := Status old\<rparr>),
     api_PatchReleaseStatus =
       patch_the_release (\<lambda>base r old. old\<lparr>Status := merge_status base r (Status old)\<rparr>),
     api_GetConfigMap = (\<lambda>n ns. ret (None, Some (not_found n))),
     api_ListAllReleasePlanAdmissions = gets (\<lambda>w. Inr (cl_admissions w)),
     api_CreateSnapshot = (\<lambda>x. State (\<lambda>w. (Inr x, w\<lparr>cl_snapshots := cl_snapshots w @ [x]\<rparr>))),
     api_PatchReleasePlanStatus = (\<lambda>base x. State (\<lambda>w. (Inr x, w\<lparr>cl_plans := map (\<lambda>y.
       if same_object (rp_meta x) (rp_meta y) then y\<lparr>rp_Status := rp_Status x\<rparr> else y) (cl_plans w)\<rparr>))),
     api_PatchReleasePlanAdmissionStatus = (\<lambda>base x. State (\<lambda>w. (Inr x, w\<lparr>cl_admissions := map (\<lambda>y.
       if same_object (rpa_meta x) (rpa_meta y) then y\<lparr>rpa_Status := rpa_Status x\<rparr> else y)
       (cl_admissions w)\<rparr>))),
     InClusterConfig = ret None, TransportFor = (\<lambda>ca. ret None),
     HttpDo = (\<lambda>ca url. ret (Inl (plain_error ''no route to host''))),
     ListRemote = (\<lambda>url auth. ret (Inr [(''refs/heads/main'', ''0123456789012345678901234567890123456789'')])),
     Sleep = (\<lambda>d. modify (\<lambda>w. w\<lparr>cl_clock := cl_clock w + d\<rparr>)),
     PodLogs = (\<lambda>ns pod. ret (Inr ''log''))\<rparr>"

definition cluster_view :: "cluster \<Rightarrow> status_view" where
  "cluster_view w = view (cl_release w)"

lemma keeps_cluster [frame_intro]:
  "keeps cluster_view (get_object meta objs e n ns)"
  "keeps cluster_view (get_the_release n ns)"
  "(\<And>y w. cl_release (add y w) = cl_release w) \<Longrightarrow> keeps cluster_view (create_object name add x)"
  "(\<And>w. view (cl_release (snd (g w))) = view (cl_release w)) \<Longrightarrow> keeps cluster_view (State g)"
  by (auto simp: keeps_def get_object_def get_the_release_def create_object_def cluster_view_def Let_def)

lemma cluster_lib_simps [simp]: "lib cluster_env = cluster_lib" "lib_cond cluster_lib = status_conditions"
  by (simp_all add: cluster_env_def cluster_lib_def)

lemma cluster_release_store: "release_store cluster_env cluster_view n ns"
proof (intro release_store.intro quiet_calls.intro quiet_reads.intro quiet_calls_axioms.intro release_store_axioms.intro)
  show "conditions_api (conds cluster_env)"
    by (simp add: status_conditions.conditions_api_axioms)
next
  fix r :: Release and w w'
  assume "run_state (api_GetRelease cluster_env n ns) w = ((r, None), w')"
  then show "view r = cluster_view w"
    by (auto simp: cluster_env_def get_the_release_def cluster_view_def split: if_splits)
next
  fix base r r' w w'
  assume "run_state (api_PatchRelease cluster_env base r) w = (Inr r', w')"
  then show "view r' = cluster_view w"
    by (auto simp: cluster_env_def patch_the_release_def cluster_view_def view_def Let_def)
next
  fix base r r' w w'
  assume "run_state (api_PatchReleaseStatus cluster_env base r) w = (Inr r', w')"
  then show "cluster_view w' = merge_view (view base) (view r) (cluster_view w) \<and> view r' = cluster_view w'"
    by (auto simp: cluster_env_def patch_the_release_def cluster_view_def view_def Let_def
        merge_view_def merge_status_def)
qed (auto simp: cluster_env_def patch_the_release_def Let_def cluster_view_def view_def intro!: frame_intro)

interpretation cluster: release_store cluster_env cluster_view n ns for n ns
  by (rule cluster_release_store)

section \<open>A cluster with one Release\<close>

definition demo_pipeline :: Pipeline where
  "demo_pipeline = \<lparr>pl_PipelineRef = \<lparr>Resolver = ''git'',
       Params = [string_param ''url'' ''https://github.com/org/repo.git'', string_param ''revision'' ''main'',
         string_param ''pathInRepo'' ''pipeline.yaml''], OciStorage = [], UseEmptyDir = True\<rparr>,
     pl_ServiceAccountName = ''builder'', pl_TaskRunSpecs = None, pl_MaxRetries = None,
     pl_Timeouts = no_timeouts\<rparr>"

definition demo_plan :: ReleasePlan where
  "demo_plan = empty_plan\<lparr>
     rp_meta := no_meta\<lparr>om_Kind := ''ReleasePlan'', om_Name := ''plan'', om_Namespace := ''dev''\<rparr>,
     rp_Spec := (rp_Spec empty_plan)\<lparr>Application := ''app'', Target := ''managed'',
       TenantPipeline := Some \<lparr>pp_Pipeline = demo_pipeline, pp_Params = []\<rparr>\<rparr>\<rparr>"

definition demo_admission :: ReleasePlanAdmission where
  "demo_admission = empty_admission\<lparr>
     rpa_meta := no_meta\<lparr>om_Kind := ''ReleasePlanAdmission'', om_Name := ''admission'',
       om_Namespace := ''managed''\<rparr>,
     rpa_Spec := (rpa_Spec empty_admission)\<lparr>Applications := Some [''app''], Origin := ''dev'',
       rpas_Pipeline := Some demo_pipeline, Policy := ''policy''\<rparr>\<rparr>"

definition demo_release :: Release where
  "demo_release = empty_release\<lparr>
     rel_meta := no_meta\<lparr>om_Kind := ''Release'', om_Name := ''release'', om_Namespace := ''dev'',
       om_Labels := Some [AuthorLabel \<mapsto> ''author''], om_CreationTimestamp := 90\<rparr>,
     Spec := (Spec empty_release)\<lparr>Snapshot := ''snapshot'', ReleasePlan := ''plan''\<rparr>\<rparr>"

definition older_release :: Release where
  "older_release = demo_release\<lparr>
     rel_meta := (rel_meta demo_release)\<lparr>om_Name := ''older'', om_CreationTimestamp := 50\<rparr>,
     Spec := (Spec demo_release)\<lparr>Snapshot := ''older-snapshot''\<rparr>\<rparr>"

definition demo_binding :: RoleBinding where
  "demo_binding = \<lparr>rb_meta = no_meta\<lparr>om_Name := ''binding'', om_Namespace := ''managed''\<rparr>,
     RoleRef_APIGroup = ''rbac.authorization.k8s.io'', RoleRef_Kind = ''ClusterRole'',
     RoleRef_Name = ''role'', Subjects = []\<rparr>"

definition demo_cluster :: cluster where
  "demo_cluster = \<lparr>cl_release = demo_release, cl_releases = [older_release], cl_plans = [demo_plan],
     cl_admissions = [demo_admission], cl_config = [],
     cl_snapshots = [\<lparr>sn_meta = no_meta\<lparr>om_Kind := ''Snapshot'', om_Name := ''snapshot'',
       om_Namespace := ''dev''\<rparr>, sn_Application = ''app''\<rparr>],
     cl_policies = [\<lparr>ecp_meta = no_meta\<lparr>om_Kind := ''EnterpriseContractPolicy'', om_Name := ''policy'',
       om_Namespace := ''managed''\<rparr>, ecp_json = Inr ''{}''\<rparr>],
     cl_bindings = [demo_binding], cl_roles = [], cl_runs = [], cl_tasks = [], cl_clock = 100,
     cl_serial = 0\<rparr>"

lemma demo_view [simp]: "cluster_view demo_cluster = ([], [])"
  by (simp add: cluster_view_def demo_cluster_def demo_release_def empty_release_def view_def no_status_def)

lemma no_phases [simp]: "view_phases status_conditions ([], as) = (\<lambda>_. Absent)"
  by (simp add: view_phases_def status_conditions.view_empty fun_eq_iff)

text \<open>The same cluster once the Release is released: every phase has ended without failure.\<close>

definition released_condition :: "string \<Rightarrow> condition" where
  "released_condition t = \<lparr>c_Type = t, c_Status = ConditionTrue, c_Reason = SucceededReason,
     c_Message = [], c_LastTransitionTime = 100\<rparr>"

definition released_cluster :: cluster where
  "released_cluster = demo_cluster\<lparr>cl_release := demo_release\<lparr>Status :=
     no_status\<lparr>Conditions := map released_condition (releasedConditionType # processing_types)\<rparr>\<rparr>\<rparr>"

lemma released_phases:
  "view_phases status_conditions (cluster_view released_cluster) =
     (\<lambda>t. if t \<in> set (releasedConditionType # processing_types) then Succeeded else Absent)"
proof -
  have "find_condition (map released_condition ts) t =
      (if t \<in> set ts then Some (released_condition t) else None)" for ts t
    by (induction ts) (auto simp: released_condition_def)
  then show ?thesis
    by (auto simp: fun_eq_iff view_phases_def cluster_view_def released_cluster_def view_def
        cond_view_def status_conditions_def released_condition_def simp del: list.map)
qed

lemma released_consistent: "consistent (view_phases status_conditions (cluster_view released_cluster))"
  by (simp add: released_phases consistent_def processing_types_def)

end
