(* ===== verification/Adapter_Errors.thy ===== *)
theory Adapter_Errors
  imports Cluster
begin

text \<open>
  What \<open>handlePipelineCreationError\<close> of \<open>src/controllers/release/utils.go\<close> leaves in the stored
  status when resources of a phase cannot be created.
\<close>

context release_store
begin

lemma wp_patch_synced:
  assumes "view base = stored (world s)"
    and "\<And>e s'. e \<noteq> None \<Longrightarrow> release s' = release s \<Longrightarrow> stored (world s') = stored (world s) \<Longrightarrow> Q e s'"
    and "\<And>s'. view (release s') = view (release s) \<Longrightarrow> stored (world s') = view (release s) \<Longrightarrow> Q None s'"
  shows "wp (patch_status E base) Q s"
proof -
  obtain res w where run: "run_state (api_PatchReleaseStatus E base (release s)) (world s) = (res, w)"
    by (cases "run_state (api_PatchReleaseStatus E base (release s)) (world s)")
  show ?thesis
  proof (cases res)
    case (Inl e)
    then have "Q (Some e) (s\<lparr>world := w\<rparr>)"
      using patch_status_fails [OF run [unfolded Inl]] by (intro assms(2)) auto
    then show ?thesis using run Inl by (simp add: wp_def patch_status_def load_def)
  next
    case (Inr r')
    have "Q None (s\<lparr>world := w, release := r'\<rparr>)"
      using patch_status_stores [OF run [unfolded Inr]] assms(1) by (intro assms(3)) auto
    then show ?thesis using run Inr by (simp add: wp_def patch_status_def load_def edit_def)
  qed
qed

lemma wp_permanent_error:
  assumes "\<not> IsRetryableCreationError (Some err)" "stored (world s) = view (release s)"
    and start: "acts ct phase_start mp" and fail: "acts_msg ct phase_fail mf" and "ct \<noteq> releasedConditionType"
    and us: "\<And>u r. u \<in> set us \<Longrightarrow> Conditions (Status (u r)) = Conditions (Status r)"
  shows "wp (handlePipelineCreationError E err mp mf msg us) (\<lambda>res s'. \<not> fst res \<and>
    (snd res = None \<longrightarrow> view_phases (conds E) (stored (world s')) = (phases_of (release s))
      (ct := phase_fail (phase_start (phases_of (release s) ct)),
       releasedConditionType := phase_fail (phases_of (release s) releasedConditionType)))) s"
proof -
  have r1: "phases_of (foldl (\<lambda>r u. u r) (release s) us) = phases_of (release s)"
    using us by (auto intro!: phase_of_cong foldl_conditions)
  have "phases_of (fst (MarkReleaseFailed (conds E) t3 m3 (fst (mf t2 m2 (fst (mp t1
      (foldl (\<lambda>r u. u r) (release s) us))))))) = (phases_of (release s))
      (ct := phase_fail (phase_start (phases_of (release s) ct)),
       releasedConditionType := phase_fail (phases_of (release s) releasedConditionType))" for t1 t2 t3 m2 m3
    using start r1 \<open>ct \<noteq> releasedConditionType\<close>
    by (simp add: fail_both_phases [OF fail \<open>ct \<noteq> releasedConditionType\<close>] acts_def)
  then show ?thesis
    using assms(1,2)
    unfolding handlePipelineCreationError_def
    apply (simp only: if_False)
    apply (rule wp_bind, rule wp_gets, rule wp_bind, rule wp_edit, rule wp_bind, rule wp_mark,
        rule wp_bind, rule wp_mark, rule wp_bind, rule wp_mark, rule wp_bind)
    apply (rule wp_patch_synced)
      apply (auto intro!: wp_ret simp: phase_of_view)
    done
qed

end

text \<open>
  C7. A creation error that will not go away fails the phase at once: if the status patch of
  \<open>handlePipelineCreationError\<close> succeeds, the stored status shows the phase and the Release as
  failed, in one write, every other condition keeps its phase, and the error is not retried.
\<close>

theorem permanent_creation_error_fails_phase:
  assumes "release_store E stored name namespace"
    and "startable_phase (conds E) ct isProcessing hasFinished markProcessing markSkipped markFailed"
    and "ct \<in> set processing_types" "\<not> IsRetryableCreationError (Some err)"
    and "\<And>u r. u \<in> set updates \<Longrightarrow> Conditions (Status (u r)) = Conditions (Status r)"
    and "stored (world s) = view (release s)"
    and "\<not> finished (phase_of (conds E) (release s) ct)" "IsReleasing (conds E) (release s)"
    and "run_state (handlePipelineCreationError E err markProcessing markFailed msg updates) s =
      ((again, None), s')"
  shows "\<not> again \<and> view_phases (conds E) (stored (world s')) =
    (phase_of (conds E) (release s))(ct := Failed, releasedConditionType := Failed)"
proof -
  have "release_store.acts E ct phase_start markProcessing"
    using startable_phase.start_phase [OF assms(2)]
    by (intro release_store.actsI [OF assms(1)])
  moreover have "release_store.acts_msg E ct phase_fail markFailed"
    using startable_phase.fail_phase [OF assms(2)]
    by (auto simp: release_store.acts_msg_def [OF assms(1)] intro!: release_store.actsI [OF assms(1)])
  moreover have "ct \<noteq> releasedConditionType" using assms(3) by auto
  moreover have "phase_fail (phase_start (phase_of (conds E) (release s) ct)) = Failed"
    using assms(7) by (cases "phase_of (conds E) (release s) ct") auto
  ultimately show ?thesis
    using release_store.wp_permanent_error [OF assms(1,4,6), of ct markProcessing markFailed updates msg]
      assms(5,8,9) by (simp add: wp_def phase_queries)
qed

definition running_release :: Release where
  "running_release = demo_release\<lparr>Status := no_status\<lparr>
     Conditions := [\<lparr>c_Type = releasedConditionType, c_Status = ConditionFalse,
       c_Reason = ProgressingReason, c_Message = [], c_LastTransitionTime = 100\<rparr>]\<rparr>\<rparr>"

definition running_state :: "cluster adapter" where
  "running_state = newAdapter running_release (demo_cluster\<lparr>cl_release := running_release\<rparr>)"

definition quota_error :: error where
  "quota_error = \<lparr>e_msg = ''exceeded quota'', e_class = [Forbidden], e_net = None, e_sentinel = []\<rparr>"

definition errored_run :: "(bool \<times> error option) \<times> cluster adapter" where
  "errored_run = run_state (handlePipelineCreationError cluster_env quota_error
     (MarkTenantPipelineProcessing status_conditions) (MarkTenantPipelineProcessingFailed status_conditions)
     ''failed'' []) running_state"

lemma cluster_patch: "wp (patch_status cluster_env base) (\<lambda>e _. e = None) s"
  by (simp add: wp_def patch_status_def load_def edit_def cluster_env_def patch_the_release_def Let_def)

lemma errored_run_result: "fst errored_run = (False, None)"
proof -
  have "wp (handlePipelineCreationError cluster_env quota_error mp mf msg []) (\<lambda>res _. res = (False, None)) s"
    for mp mf msg s
    unfolding handlePipelineCreationError_def
    apply (rule wp_if, simp add: IsRetryableCreationError_def isInvalidGitConfigError_def quota_error_def
        is_class_def is_sentinel_def)
    apply (intro wp_bind wp_gets, rule cluster.wp_edit, intro wp_bind, rule cluster.wp_mark, intro wp_bind,
        rule cluster.wp_mark, intro wp_bind, rule cluster.wp_mark, intro wp_bind)
    by (rule wp_mono [OF cluster_patch], intro wp_ret, simp)
  then show ?thesis by (simp add: wp_def errored_run_def case_prod_beta)
qed

theorem permanent_creation_error_fails_phase_witness:
  "view_phases status_conditions (cluster_view (world (snd errored_run))) =
     (phase_of status_conditions (release running_state))
       (tenantProcessedConditionType := Failed, releasedConditionType := Failed)"
proof -
  have run: "run_state (handlePipelineCreationError cluster_env quota_error
     (MarkTenantPipelineProcessing (conds cluster_env)) (MarkTenantPipelineProcessingFailed (conds cluster_env))
     ''failed'' []) running_state = ((False, None), snd errored_run)"
    using errored_run_result by (simp add: errored_run_def prod_eq_iff)
  have "startable_phase (conds cluster_env) tenantProcessedConditionType
      (IsTenantPipelineProcessing status_conditions) (HasTenantPipelineProcessingFinished status_conditions)
      (MarkTenantPipelineProcessing (conds cluster_env)) (MarkTenantPipelineProcessingSkipped status_conditions)
      (MarkTenantPipelineProcessingFailed (conds cluster_env))"
    by (simp add: status_conditions.tenant.startable_phase_axioms)
  moreover have "\<not> IsRetryableCreationError (Some quota_error)" by code_simp
  moreover have "cluster_view (world running_state) = view (release running_state)"
    by (simp add: running_state_def newAdapter_def cluster_view_def)
  moreover have "\<not> finished (phase_of (conds cluster_env) (release running_state) tenantProcessedConditionType)"
    by (simp, code_simp)
  moreover have "IsReleasing (conds cluster_env) (release running_state)"
    by (simp, code_simp)
  ultimately show ?thesis
    using permanent_creation_error_fails_phase [OF cluster_release_store _ _ _ _ _ _ _ run] by simp
qed

end
