(* ===== verification/Adapter_Tracking.thy ===== *)
theory Adapter_Tracking
  imports Cluster
begin

text \<open>
  The tracking operations of \<open>src/controllers/release/adapter.go\<close>, exactly: what is stored in the
  status once the PipelineRun of a phase has ended, on every branch.
\<close>

text \<open>For each of the five phases: how its run is looked up, its condition, the tracking operation.\<close>

definition tracked_phases :: "'w env \<Rightarrow> Release \<Rightarrow>
    (('w, PipelineRun option \<times> error option) state \<times> string \<times> ('w adapter, operation_result) state) list" where
  "tracked_phases E r =
     [(GetReleasePipelineRun E r TenantCollectorsPipelineType, tenantCollectorsProcessedConditionType,
         EnsureTenantCollectorsPipelineIsTracked E),
      (GetReleasePipelineRun E r ManagedCollectorsPipelineType, managedCollectorsProcessedConditionType,
         EnsureManagedCollectorsPipelineIsTracked E),
      (GetReleasePipelineRun E r TenantPipelineType, tenantProcessedConditionType,
         EnsureTenantPipelineProcessingIsTracked E),
      (GetReleasePipelineRunAttempt E r (GetManagedPipelineRetryCount r), managedProcessedConditionType,
         EnsureManagedPipelineProcessingIsTracked E),
      (GetReleasePipelineRun E r FinalPipelineType, finalProcessedConditionType,
         EnsureFinalPipelineProcessingIsTracked E)]"

text \<open>
  The stored status once the outcome of a run is recorded. A failure also fails the Release; but the
  managed phase may be retried: a failure there ends the current attempt only.
\<close>

definition recorded :: "conditions_lib \<Rightarrow> PipelineRun \<Rightarrow> string \<Rightarrow> status_view \<Rightarrow> status_view \<Rightarrow> bool" where
  "recorded L p t v v' \<longleftrightarrow>
     view_phases L v' = (let f = view_phases L v in
       if k_IsTrue (pr_Condition p) then f(t := Succeeded)
       else if t = managedProcessedConditionType then f
       else f(t := Failed, releasedConditionType := phase_fail (f releasedConditionType))) \<and>
     (t = managedProcessedConditionType \<longrightarrow> (\<exists>b. snd v' = butlast (snd v) @ [b] \<and>
       pa_PipelineRun b = pa_PipelineRun (last (snd v)) \<and>
       pa_Status b = (if k_IsTrue (pr_Condition p) then AttemptSucceededReason else AttemptFailedReason)))"

text \<open>The current attempt of the managed pipeline is there and has not ended.\<close>

definition attempt_open :: "status_view \<Rightarrow> bool" where
  "attempt_open v \<longleftrightarrow> snd v \<noteq> [] \<and> pa_Status (last (snd v)) \<notin> {AttemptFailedReason, AttemptSucceededReason}"

lemma attempt_open_view:
  "attempt_open (view r) \<longleftrightarrow> ManagedPipelineAttempts (Status r) \<noteq> [] \<and> \<not> IsCurrentManagedPipelineAttemptDone r"
  by (auto simp: attempt_open_def view_def IsCurrentManagedPipelineAttemptDone_def GetCurrentManagedPipelineAttempt_def)

context release_store
begin

lemma patch_and_spans_exact:
  assumes "view base = stored (world s)"
  shows "wp (patchStatusAndEmitSpans E base p)
    (\<lambda>err s'. stored (world s') = (if err = None then view (release s) else stored (world s))) s"
proof -
  obtain res w where run: "run_state (api_PatchReleaseStatus E base (release s)) (world s) = (res, w)"
    by (cases "run_state (api_PatchReleaseStatus E base (release s)) (world s)")
  show ?thesis
  proof (cases res)
    case (Inl e)
    then show ?thesis
      using run patch_status_fails [of base "release s" "world s" e w]
      by (simp add: wp_def patchStatusAndEmitSpans_def patch_status_def load_def)
  next
    case (Inr r')
    then have "stored w = view (release s)"
      using run patch_status_stores [of base "release s" "world s" r' w] assms by simp
    then show ?thesis
      using run Inr by (cases p) (simp_all add: wp_def patchStatusAndEmitSpans_def patch_status_def load_def
        emitTimingSpans_def edit_def)
  qed
qed

text \<open>The outcome of recording: stored, not stored because the patch failed, or a panic.\<close>

definition recording ::
  "PipelineRun \<Rightarrow> (status_view \<Rightarrow> bool) \<Rightarrow> status_view \<Rightarrow> error option outcome \<Rightarrow> 'w adapter \<Rightarrow> bool" where
  "recording p P v res s' \<longleftrightarrow>
     (case res of
        Returned None \<Rightarrow> P (stored (world s'))
      | Returned (Some _) \<Rightarrow> stored (world s') = v
      | Panicked \<Rightarrow> stored (world s') = v \<and> k_nil (pr_Condition p))"

lemma patch_recording:
  assumes "view base = stored (world s)" "stored (world s) = v" "P (view (release s))"
  shows "wp (do { err \<leftarrow> patchStatusAndEmitSpans E base q; ret (Returned err) }) (recording p P v) s"
proof (rule wp_bind, rule wp_mono [OF patch_and_spans_exact [OF assms(1)]], rule wp_ret)
  fix err :: "error option" and s' :: "'w adapter"
  assume "stored (world s') = (if err = None then view (release s) else stored (world s))"
  then show "recording p P v (Returned err) s'"
    using assms by (cases err) (auto simp: recording_def)
qed

lemma failure_message_panics:
  "keeps obs logs \<Longrightarrow> wp (failure_message p logs) (\<lambda>res s'. obs s' = obs s \<and> (res = Panicked \<longrightarrow> k_nil (pr_Condition p))) s"
  unfolding failure_message_def
  by (rule wp_if, (rule wp_ret, simp), rule wp_bind, rule wp_keeps [of obs], assumption)
     (auto intro!: wp_intro split: if_splits)

lemma recorded_phases:
  "t \<noteq> managedProcessedConditionType \<Longrightarrow> recorded L p t v v' \<longleftrightarrow> view_phases L v' =
     (if k_IsTrue (pr_Condition p) then (view_phases L v)(t := Succeeded)
      else (view_phases L v)(t := Failed, releasedConditionType := phase_fail (view_phases L v releasedConditionType)))"
  by (simp add: recorded_def Let_def)

lemma register_status_exact:
  assumes synced: "view (release s) = stored (world s)" and run: "phases_of (release s) ct = InProgress"
    and ct: "ct \<noteq> releasedConditionType" "ct \<noteq> managedProcessedConditionType" and don: "IsPipelineRunDone (Some p)"
    and succeed: "acts ct phase_succeed markProcessed" and fail: "acts_msg ct phase_fail markFailed"
  shows "wp (register_status E markProcessed markFailed msg (Some p))
    (recording p (recorded (conds E) p ct (stored (world s))) (stored (world s))) s"
proof -
  let ?g = "recorded (conds E) p ct (stored (world s))"
  have phases: "view_phases (conds E) (stored (world s)) = phases_of (release s)"
    using synced by (simp add: phase_of_view)
  let ?k = "do { err \<leftarrow> patchStatusAndEmitSpans E (release s) (Some p); ret (Returned err) }"
  have ok: "wp (mark E markProcessed) (\<lambda>_. wp ?k (recording p ?g (stored (world s)))) s"
    if "k_IsTrue (pr_Condition p)"
    by (rule wp_mark, rule patch_recording)
       (use that succeed synced run ct in \<open>auto simp: acts_def recorded_phases phases simp flip: phase_of_view\<close>)
  have failed: "wp (do { mark E (\<lambda>t. markFailed t message);
      mark E (\<lambda>t. MarkReleaseFailed (conds E) t msg); ?k }) (recording p ?g (stored (world s))) s'"
    if "\<not> k_IsTrue (pr_Condition p)" "obs s' = obs s" for message s'
    by (rule wp_bind, rule wp_mark, rule wp_bind, rule wp_mark, rule patch_recording)
       (use that synced run ct in \<open>auto simp: fail_both_phases [OF fail ct(1)] recorded_phases phases obs_def simp flip: phase_of_view\<close>)
  have "wp (unless_panic (failure_message p (getFailedTaskRunLogs E (Some p))) (ret Panicked)
      (\<lambda>message. do { mark E (\<lambda>t. markFailed t message);
        mark E (\<lambda>t. MarkReleaseFailed (conds E) t msg); ?k })) (recording p ?g (stored (world s))) s"
    if "\<not> k_IsTrue (pr_Condition p)"
    unfolding unless_panic_def
  proof (rule wp_bind, rule wp_mono [OF failure_message_panics])
    show "keeps obs (getFailedTaskRunLogs E (Some p))" by (intro frame_intro)
    fix res :: "string outcome" and s' assume "obs s' = obs s \<and> (res = Panicked \<longrightarrow> k_nil (pr_Condition p))"
    then show "wp (case res of Panicked \<Rightarrow> ret Panicked
      | Returned message \<Rightarrow> do { mark E (\<lambda>t. markFailed t message);
          mark E (\<lambda>t. MarkReleaseFailed (conds E) t msg); ?k }) (recording p ?g (stored (world s))) s'"
      using failed [OF that] by (cases res) (auto intro!: wp_ret simp: recording_def obs_def)
  qed
  then show ?thesis
    using ok don unfolding register_status_def by (auto intro!: wp_bind wp_gets)
qed

lemma attempt_ended_recorded:
  assumes "phases_of r managedProcessedConditionType = InProgress" "attempt_open (view r)"
  shows "k_IsTrue (pr_Condition p) \<Longrightarrow> recorded (conds E) p managedProcessedConditionType (view r)
      (view (fst (MarkCurrentManagedPipelineAttemptProcessed (conds E) now r)))"
    "\<not> k_IsTrue (pr_Condition p) \<Longrightarrow> recorded (conds E) p managedProcessedConditionType (view r)
      (view (fst (MarkCurrentManagedPipelineAttemptFailed (conds E) now msg reason task step n r)))"
proof -
  have ne: "ManagedPipelineAttempts (Status r) \<noteq> []" and opn: "\<not> IsCurrentManagedPipelineAttemptDone r"
    using assms(2) by (simp_all add: attempt_open_view)
  have ne': "snd (view r) \<noteq> []" using ne by (simp add: view_def)
  have phases: "view_phases (conds E) (view x) = phases_of x" for x by (simp add: phase_of_view)
  let ?ok = "fst (MarkCurrentManagedPipelineAttemptProcessed (conds E) now r)"
  let ?bad = "fst (MarkCurrentManagedPipelineAttemptFailed (conds E) now msg reason task step n r)"
  have ok: "phases_of ?ok = (phases_of r)(managedProcessedConditionType := Succeeded)"
    using assms(1) ne opn by (auto simp: fun_eq_iff attempt_marks)
  have bad: "phases_of ?bad = phases_of r" by (auto simp: fun_eq_iff attempt_marks)
  have "snd (view ?ok) = upd_last (\<lambda>a. a\<lparr>pa_Status := AttemptSucceededReason, pa_CompletionTime := Some now\<rparr>) (snd (view r))"
    using assms(1) ne opn by (simp add: MarkCurrentManagedPipelineAttemptProcessed_def phase_queries Let_def
        GetCurrentManagedPipelineAttempt_def view_def upd_current_attempt_def set_cond_def)
  then show "recorded (conds E) p managedProcessedConditionType (view r) (view ?ok)" if "k_IsTrue (pr_Condition p)"
    using that ok ne' by (simp add: recorded_def phases upd_last_def)
  have "snd (view ?bad) = upd_last (\<lambda>a. a\<lparr>pa_Status := AttemptFailedReason, pa_CompletionTime := Some now,
      pa_FailureReason := reason, pa_LastTask := task, pa_LastStep := step, pa_SuccessfulTasks := n\<rparr>) (snd (view r))"
    using assms(1) ne opn by (simp add: MarkCurrentManagedPipelineAttemptFailed_def phase_queries Let_def
        GetCurrentManagedPipelineAttempt_def view_def upd_current_attempt_def)
  then show "recorded (conds E) p managedProcessedConditionType (view r) (view ?bad)" if "\<not> k_IsTrue (pr_Condition p)"
    using that bad ne' by (simp add: recorded_def phases upd_last_def)
qed

lemma register_managed_exact:
  assumes synced: "view (release s) = stored (world s)"
    and run: "phases_of (release s) managedProcessedConditionType = InProgress"
    and opn: "attempt_open (view (release s))" and don: "IsPipelineRunDone (Some p)"
  shows "wp (registerManagedProcessingStatus E (Some p))
    (recording p (recorded (conds E) p managedProcessedConditionType (stored (world s))) (stored (world s))) s"
proof -
  let ?R = "recording p (recorded (conds E) p managedProcessedConditionType (stored (world s))) (stored (world s))"
  let ?k = "do { err \<leftarrow> patchStatusAndEmitSpans E (release s) (Some p); ret (Returned err) }"
  note ended = attempt_ended_recorded [OF run opn, of p, unfolded synced]
  have ok: "wp (mark E (MarkCurrentManagedPipelineAttemptProcessed (conds E))) (\<lambda>_. wp ?k ?R) s"
    if "k_IsTrue (pr_Condition p)"
    by (rule wp_mark, rule patch_recording) (use that synced ended(1) in auto)
  have bad: "wp (do { mark E (\<lambda>t. MarkCurrentManagedPipelineAttemptFailed (conds E) t message reason task step n); ?k }) ?R s'"
    if "\<not> k_IsTrue (pr_Condition p)" "obs s' = obs s" for message reason task step n s'
    by (rule wp_bind, rule wp_mark, rule patch_recording) (use that synced ended(2) in \<open>auto simp: obs_def\<close>)
  have message: "wp (unless_panic (failure_message p (getFailedTaskRunLogsFromList E (Some p) ts)) (ret Panicked)
      (\<lambda>message. do { mark E (\<lambda>t. MarkCurrentManagedPipelineAttemptFailed (conds E) t message reason task step n); ?k }))
      ?R s'" if "\<not> k_IsTrue (pr_Condition p)" "obs s' = obs s" for ts reason task step n s'
    unfolding unless_panic_def
  proof (rule wp_bind, rule wp_mono [OF failure_message_panics])
    show "keeps obs (getFailedTaskRunLogsFromList E (Some p) ts)" by (intro frame_intro)
    fix res :: "string outcome" and s2 assume "obs s2 = obs s' \<and> (res = Panicked \<longrightarrow> k_nil (pr_Condition p))"
    then show "wp (case res of Panicked \<Rightarrow> ret Panicked | Returned message \<Rightarrow>
        do { mark E (\<lambda>t. MarkCurrentManagedPipelineAttemptFailed (conds E) t message reason task step n); ?k }) ?R s2"
      using bad [OF that(1), of s2] that(2) by (cases res) (auto intro!: wp_ret simp: recording_def obs_def)
  qed
  have listed: "wp (listTaskRunsForPipelineRun E (Some p)) (\<lambda>_ s'. obs s' = obs s) s"
    by (rule wp_keeps [of obs]) (auto intro: frame_intro)
  show ?thesis
    unfolding registerManagedProcessingStatus_def Let_def option.case
    using don opn
    by (auto simp: attempt_open_view intro!: wp_bind wp_gets ok wp_mono [OF listed] message)
qed

text \<open>The result of a tracking operation, read off the recording.\<close>

definition tracking :: "PipelineRun \<Rightarrow> (status_view \<Rightarrow> bool) \<Rightarrow> status_view \<Rightarrow> operation_result \<Rightarrow> 'w adapter \<Rightarrow> bool" where
  "tracking p P v res s' \<longleftrightarrow>
     (res = ContinueProcessing \<and> P (stored (world s'))) \<or>
     (\<exists>e. res = RequeueWithError e \<and> stored (world s') = v) \<or>
     (res = OperationPanic \<and> k_nil (pr_Condition p) \<and> stored (world s') = v)"

lemma track_run_exact:
  assumes found: "run_state lookup (world s) = ((Some p, None), w1)" "keeps stored lookup"
    and look: "run_state fetch s = run_state (load lookup) s"
    and reg: "\<And>s'. obs s' = obs s \<Longrightarrow> wp (register (Some p)) (recording p P v) s'"
  shows "wp (track_run fetch register) (tracking p P v) s"
proof -
  have look: "run_state fetch s = ((Some p, None), s\<lparr>world := w1\<rparr>)"
    using found(1) look by (simp add: load_def)
  have "obs (s\<lparr>world := w1\<rparr>) = obs s" using keepsD [OF found(2), of "world s"] found(1) by (simp add: obs_def)
  from reg [OF this] obtain res s' where
    "run_state (register (Some p)) (s\<lparr>world := w1\<rparr>) = (res, s')" "recording p P v res s'"
    by (auto simp: wp_def split: prod.splits)
  then show ?thesis
    using look by (auto simp: wp_def track_run_def run_or_error_def attempt_def unless_panic_def recording_def
        tracking_def split: outcome.splits option.splits)
qed

text \<open>Four of the operations share one body.\<close>

lemma guarded_tracking:
  "\<lbrakk>op = do { r \<leftarrow> gets release; if \<not> isP r \<or> fin r then ret ContinueProcessing else body };
    isP (release s); \<not> fin (release s)\<rbrakk> \<Longrightarrow> wp op Q s = wp body Q s"
  by (simp add: wp_def)

lemma tracked_phase_body:
  assumes "(lookup, t, op) \<in> set (tracked_phases E (release s))" "phases_of (release s) t = InProgress"
    and "t \<noteq> managedProcessedConditionType"
  obtains mp mf msg T where "acts t phase_succeed mp" "acts_msg t phase_fail mf"
    "lookup = GetReleasePipelineRun E (release s) T"
    "\<And>Q. wp op Q s = wp (track_run (get_run E T) (register_status E mp mf msg)) Q s"
proof -
  consider "lookup = GetReleasePipelineRun E (release s) TenantCollectorsPipelineType"
      "t = tenantCollectorsProcessedConditionType" "op = EnsureTenantCollectorsPipelineIsTracked E"
    | "lookup = GetReleasePipelineRun E (release s) ManagedCollectorsPipelineType"
      "t = managedCollectorsProcessedConditionType" "op = EnsureManagedCollectorsPipelineIsTracked E"
    | "lookup = GetReleasePipelineRun E (release s) TenantPipelineType"
      "t = tenantProcessedConditionType" "op = EnsureTenantPipelineProcessingIsTracked E"
    | "lookup = GetReleasePipelineRun E (release s) FinalPipelineType"
      "t = finalProcessedConditionType" "op = EnsureFinalPipelineProcessingIsTracked E"
    using assms(1,3) by (auto simp: tracked_phases_def)
  then show ?thesis
  proof cases
    case 1
    show ?thesis
      by (rule that [of "MarkTenantCollectorsPipelineProcessed (conds E)" "MarkTenantCollectorsPipelineProcessingFailed (conds E)"])
         (use 1 assms(2) phase_acts guarded_tracking [OF EnsureTenantCollectorsPipelineIsTracked_def, where s = s]
           in \<open>simp_all add: phase_queries registerTenantCollectorsProcessingStatus_def\<close>)
  next
    case 2
    show ?thesis
      by (rule that [of "MarkManagedCollectorsPipelineProcessed (conds E)" "MarkManagedCollectorsPipelineProcessingFailed (conds E)"])
         (use 2 assms(2) phase_acts guarded_tracking [OF EnsureManagedCollectorsPipelineIsTracked_def, where s = s]
           in \<open>simp_all add: phase_queries registerManagedCollectorsProcessingStatus_def\<close>)
  next
    case 3
    show ?thesis
      by (rule that [of "MarkTenantPipelineProcessed (conds E)" "MarkTenantPipelineProcessingFailed (conds E)"])
         (use 3 assms(2) phase_acts guarded_tracking [OF EnsureTenantPipelineProcessingIsTracked_def, where s = s]
           in \<open>simp_all add: phase_queries registerTenantProcessingStatus_def\<close>)
  next
    case 4
    show ?thesis
      by (rule that [of "MarkFinalPipelineProcessed (conds E)" "MarkFinalPipelineProcessingFailed (conds E)"])
         (use 4 assms(2) phase_acts guarded_tracking [OF EnsureFinalPipelineProcessingIsTracked_def, where s = s]
           in \<open>simp_all add: phase_queries registerFinalProcessingStatus_def\<close>)
  qed
qed

lemma tracked_phase_exact:
  assumes op: "(lookup, t, op) \<in> set (tracked_phases E (release s))"
    and synced: "view (release s) = stored (world s)" and run: "phases_of (release s) t = InProgress"
    and opn: "t = managedProcessedConditionType \<Longrightarrow> attempt_open (stored (world s))"
    and found: "run_state lookup (world s) = ((Some p, None), w1)" and don: "IsPipelineRunDone (Some p)"
  shows "wp op (tracking p (recorded (conds E) p t (stored (world s))) (stored (world s))) s"
proof (cases "t = managedProcessedConditionType")
  case False
  obtain mp mf msg T where acts: "acts t phase_succeed mp" "acts_msg t phase_fail mf"
    and lookup: "lookup = GetReleasePipelineRun E (release s) T"
    and eq: "wp op Q s = wp (track_run (get_run E T) (register_status E mp mf msg)) Q s" for Q
    using tracked_phase_body [OF op run False] by metis
  have t: "t \<noteq> releasedConditionType" using op by (auto simp: tracked_phases_def)
  have "wp (register_status E mp mf msg (Some p))
      (recording p (recorded (conds E) p t (stored (world s))) (stored (world s))) s'" if "obs s' = obs s" for s'
    using register_status_exact [of s' t p mp mf msg] that synced run don t False acts by (simp add: obs_def)
  then show ?thesis unfolding eq
    by (intro track_run_exact [OF found]) (simp_all add: lookup get_run_def keeps_loader)
next
  case True
  then have lookup: "lookup = GetReleasePipelineRunAttempt E (release s) (GetManagedPipelineRetryCount (release s))"
    and op: "op = EnsureManagedPipelineProcessingIsTracked E" using op by (auto simp: tracked_phases_def)
  have "wp (registerManagedProcessingStatus E (Some p))
      (recording p (recorded (conds E) p t (stored (world s))) (stored (world s))) s'" if "obs s' = obs s" for s'
    using register_managed_exact [of s' p] that synced run don opn True by (simp add: obs_def)
  then have "wp (track_run (get_run_attempt E (GetManagedPipelineRetryCount (release s))) (registerManagedProcessingStatus E))
      (tracking p (recorded (conds E) p t (stored (world s))) (stored (world s))) s"
    by (intro track_run_exact [OF found]) (simp_all add: lookup get_run_attempt_def keeps_loader)
  moreover have "IsManagedPipelineProcessing (conds E) (release s)" "\<not> HasManagedPipelineProcessingFinished (conds E) (release s)"
    using run True by (simp_all add: phase_queries)
  ultimately show ?thesis unfolding op EnsureManagedPipelineProcessingIsTracked_def by (simp add: wp_def)
qed

end

text \<open>
  C8. Tracking records the outcome of a run, nothing else and nothing less. When the PipelineRun of
  a phase in progress has ended, the operation either goes on, with the outcome stored: the phase
  succeeded if the run did; if the run failed, phase and Release failed, or for the managed pipeline,
  which may be retried, only the current attempt. Or it reports an error, or panics (only on a run
  without condition), and leaves the stored status as it was.
\<close>

theorem tracked_run_recorded:
  assumes "release_store E stored name namespace" "(lookup, t, op) \<in> set (tracked_phases E (release s))"
    and "view (release s) = stored (world s)" "view_phases (conds E) (stored (world s)) t = InProgress"
    and "t = managedProcessedConditionType \<Longrightarrow> attempt_open (stored (world s))"
    and "run_state lookup (world s) = ((Some p, None), w1)" "IsPipelineRunDone (Some p)" "run_state op s = (res, s')"
  shows "(res = ContinueProcessing \<and> recorded (conds E) p t (stored (world s)) (stored (world s'))) \<or>
    (\<exists>e. res = RequeueWithError e \<and> stored (world s') = stored (world s)) \<or>
    (res = OperationPanic \<and> k_nil (pr_Condition p) \<and> stored (world s') = stored (world s))"
proof -
  have "phase_of (conds E) (release s) = view_phases (conds E) (stored (world s))"
    using assms(3) by (simp add: phase_of_view)
  then show ?thesis
    using release_store.tracked_phase_exact [OF assms(1,2,3) _ assms(5-7)] assms(4,8)
    by (simp add: release_store.tracking_def [OF assms(1)] wp_def)
qed

section \<open>A run on the concrete cluster\<close>

text \<open>The Release is running its tenant pipeline, and the PipelineRun has succeeded.\<close>

definition progressing :: "string \<Rightarrow> condition" where
  "progressing t = \<lparr>c_Type = t, c_Status = ConditionFalse, c_Reason = ProgressingReason, c_Message = [],
     c_LastTransitionTime = 100\<rparr>"

definition tenant_run :: PipelineRun where
  "tenant_run = (new_PipelineRun ''tenant'' ''dev'')\<lparr>
     pr_meta := no_meta\<lparr>om_Name := ''tenant-0'', om_Namespace := ''dev'',
       om_Labels := Some (run_labels demo_release TenantPipelineType)\<rparr>,
     pr_IsDone := True, pr_Condition := nil_condition\<lparr>k_nil := False, k_IsTrue := True, k_IsUnknown := False\<rparr>\<rparr>"

definition tenant_cluster :: cluster where
  "tenant_cluster = demo_cluster\<lparr>cl_release := demo_release\<lparr>Status := no_status\<lparr>Conditions :=
     map progressing [releasedConditionType, tenantProcessedConditionType]\<rparr>\<rparr>, cl_runs := [tenant_run]\<rparr>"

abbreviation tenant_state :: "cluster adapter" where
  "tenant_state \<equiv> newAdapter (cl_release tenant_cluster) tenant_cluster"

theorem tracked_run_recorded_witness:
  "view_phases status_conditions (cluster_view (world (snd (run_state
     (EnsureTenantPipelineProcessingIsTracked cluster_env) tenant_state)))) tenantProcessedConditionType = Succeeded"
proof -
  obtain res s' where run: "run_state (EnsureTenantPipelineProcessingIsTracked cluster_env) tenant_state = (res, s')"
    by (cases "run_state (EnsureTenantPipelineProcessingIsTracked cluster_env) tenant_state")
  have goes: "fst (run_state (EnsureTenantPipelineProcessingIsTracked cluster_env) tenant_state) = ContinueProcessing"
    by code_simp
  have labels: "selects (run_labels demo_release TenantPipelineType) (om_Labels (pr_meta tenant_run))" by code_simp
  have release: "rel_meta (release tenant_state) = rel_meta demo_release" "world tenant_state = tenant_cluster"
    by (simp_all add: newAdapter_def tenant_cluster_def)
  have found: "run_state (GetReleasePipelineRun cluster_env (release tenant_state) TenantPipelineType)
      (world tenant_state) = ((Some tenant_run, None), tenant_cluster)"
    using labels unfolding GetReleasePipelineRun_def run_labels_def release
    by (simp add: cluster_env_def first_run_def tenant_cluster_def)
  have don: "IsPipelineRunDone (Some tenant_run)" by (simp add: IsPipelineRunDone_def tenant_run_def)
  have op: "(GetReleasePipelineRun cluster_env (release tenant_state) TenantPipelineType, tenantProcessedConditionType,
      EnsureTenantPipelineProcessingIsTracked cluster_env) \<in> set (tracked_phases cluster_env (release tenant_state))" by (simp add: tracked_phases_def)
  have synced: "view (release tenant_state) = cluster_view (world tenant_state)"
    by (simp add: newAdapter_def cluster_view_def)
  have phase: "view_phases (conds cluster_env) (cluster_view (world tenant_state)) tenantProcessedConditionType = InProgress"
    unfolding cluster_lib_simps by code_simp
  have ok: "k_IsTrue (pr_Condition tenant_run)" by (simp add: tenant_run_def)
  show ?thesis
    using tracked_run_recorded [OF cluster_release_store op synced phase _ found don run] goes run ok
    by (simp add: recorded_def)
qed

end
