(* ===== verification/Run_Metadata.thy ===== *)
theory Run_Metadata
  imports Adapter_Create
begin

text \<open>
  The metadata of the PipelineRuns that \<open>src/controllers/release/adapter.go\<close> builds: the labels a run
  is found again by, the label its cache is restricted to, and the owner annotations that lead its
  events back to the Release. The steps of the builder keep them once they are set.
\<close>

section \<open>What a run has to carry\<close>

text \<open>
  The labels that tell a created run apart. A managed run carries the number of its attempt, the one
  after those recorded (\<open>createManagedPipelineRun\<close>).
\<close>

definition created_labels :: "Release \<Rightarrow> PipelineType \<Rightarrow> (string \<rightharpoonup> string)" where
  "created_labels r T =
     (if T = ManagedPipelineType
      then (run_labels r T)(ReleaseAttemptLabel \<mapsto> show_int (int (length (ManagedPipelineAttempts (Status r)))))
      else run_labels r T)"

text \<open>
  The labels an operation looks for before it creates a run. For the managed pipeline they are those
  of the current attempt, the last one recorded.
\<close>

definition lookup_labels_of :: "Release \<Rightarrow> PipelineType \<Rightarrow> (string \<rightharpoonup> string)" where
  "lookup_labels_of r T =
     (if T = ManagedPipelineType
      then (run_labels r T)(ReleaseAttemptLabel \<mapsto> show_int (GetManagedPipelineRetryCount r))
      else run_labels r T)"

lemma created_lookup_labels:
  "T = ManagedPipelineType \<Longrightarrow> ManagedPipelineAttempts (Status r) = [] \<Longrightarrow> created_labels r T = lookup_labels_of r T"
  "T \<noteq> ManagedPipelineType \<Longrightarrow> created_labels r T = lookup_labels_of r T"
  by (simp_all add: created_labels_def lookup_labels_of_def GetManagedPipelineRetryCount_def)

definition carries :: "Release \<Rightarrow> PipelineType \<Rightarrow> strmap \<Rightarrow> bool" where
  "carries r T labels \<longleftrightarrow>
     created_labels r T \<subseteq>\<^sub>m map_read labels \<and> map_read labels ServiceNameLabel = Some ServiceName"

text \<open>The annotations of an object whose owner was set without an error.\<close>

definition owned :: "lib \<Rightarrow> object_meta \<Rightarrow> strmap \<Rightarrow> bool" where
  "owned K owner annotations \<longleftrightarrow>
     (\<exists>m0 m1. SetOwnerAnnotations K owner m0 = (None, m1) \<and> om_Annotations m1 = annotations)"

definition belongs :: "lib \<Rightarrow> Release \<Rightarrow> PipelineType \<Rightarrow> object_meta \<Rightarrow> bool" where
  "belongs K r T m \<longleftrightarrow> carries r T (om_Labels m) \<and> owned K (rel_meta r) (om_Annotations m)"

lemma carriesI:
  assumes "map_read labels ReleaseNameLabel = Some (om_Name (rel_meta r))"
    and "map_read labels ReleaseNamespaceLabel = Some (om_Namespace (rel_meta r))"
    and "map_read labels PipelinesTypeLabel = Some (PipelineType_String T)"
    and "map_read labels ServiceNameLabel = Some ServiceName"
    and "T = ManagedPipelineType \<Longrightarrow> map_read labels ReleaseAttemptLabel =
      Some (show_int (int (length (ManagedPipelineAttempts (Status r)))))"
  shows "carries r T labels"
  using assms by (auto simp: carries_def created_labels_def run_labels_def map_le_def)

lemma carries_run_labels: "carries r T labels \<Longrightarrow> run_labels r T \<subseteq>\<^sub>m map_read labels"
  using labels_distinct by (auto simp: carries_def created_labels_def run_labels_def map_le_def split: if_splits)

lemma carries_type: "carries r T labels \<Longrightarrow> map_read labels PipelinesTypeLabel = Some (PipelineType_String T)"
  using labels_distinct carries_run_labels [of r T labels]
  by (auto simp: run_labels_def map_le_def dest!: bspec [of _ _ PipelinesTypeLabel])

section \<open>The builder keeps it\<close>

abbreviation built_labels :: "PipelineRunBuilder \<Rightarrow> strmap" where
  "built_labels b \<equiv> om_Labels (pr_meta (b_pipelineRun b))"

abbreviation built_annotations :: "PipelineRunBuilder \<Rightarrow> strmap" where
  "built_annotations b \<equiv> om_Annotations (pr_meta (b_pipelineRun b))"

text \<open>A builder whose run is fit to be created, unless an error was collected before.\<close>

definition fit :: "lib \<Rightarrow> Release \<Rightarrow> PipelineType \<Rightarrow> PipelineRunBuilder \<Rightarrow> bool" where
  "fit K r T b \<longleftrightarrow> carries r T (built_labels b) \<and>
     (b_err b = [] \<longrightarrow> owned K (rel_meta r) (built_annotations b))"

definition keeps_run :: "PipelineRunBuilder \<Rightarrow> PipelineRunBuilder \<Rightarrow> bool" where
  "keeps_run b b' \<longleftrightarrow> built_labels b' = built_labels b \<and> built_annotations b' = built_annotations b \<and>
     (b_err b \<noteq> [] \<longrightarrow> b_err b' \<noteq> [])"

lemma fit_kept: "keeps_run b b' \<Longrightarrow> fit K r T b \<Longrightarrow> fit K r T b'"
  by (auto simp: fit_def keeps_run_def)

lemma keeps_run_refl: "keeps_run b b"
  by (simp add: keeps_run_def)

lemma keeps_run_trans: "keeps_run a b \<Longrightarrow> keeps_run b c \<Longrightarrow> keeps_run a c"
  by (simp add: keeps_run_def)

lemma append_error_keeps: "keeps_run b (append_error e b)"
  by (simp add: append_error_def keeps_run_def)

lemma step_keeps:
  "keeps_run b (WithParams ps b)"
  "keeps_run b (WithServiceAccount a b)"
  "keeps_run b (WithTaskRunSpecs ts b)"
  "keeps_run b (WithTimeouts t d b)"
  "keeps_run b (WithFinalizer K f b)"
  "keeps_run b (WithEmptyDirVolume K n sz b)"
  "keeps_run b (WithWorkspaceFromVolumeTemplate K n sz b)"
  "keeps_run b (collectors_params ty m b)"
  "keeps_run b (upd_run (pr_PipelineRef_update g) b)"
  "keeps_run b (b\<lparr>b_panicked := p\<rparr>)"
  by (simp_all add: WithParams_def WithServiceAccount_def WithTaskRunSpecs_def WithTimeouts_def WithFinalizer_def
      WithEmptyDirVolume_def WithWorkspaceFromVolumeTemplate_def collectors_params_def append_error_def
      keeps_run_def split: sum.splits)

lemma objects_keep:
  "keeps_run b (WithObjectReferences objs b)"
  "keeps_run b (WithObjectSpecsAsJson specs b)"
proof -
  show "keeps_run b (WithObjectReferences objs b)"
    by (induction objs b rule: WithObjectReferences.induct)
       (auto simp: keeps_run_refl step_keeps intro: keeps_run_trans [OF step_keeps(1)] split: option.splits)
  show "keeps_run b (WithObjectSpecsAsJson specs b)"
    by (induction specs b rule: WithObjectSpecsAsJson.induct)
       (auto simp: keeps_run_refl step_keeps intro: keeps_run_trans [OF step_keeps(1)] keeps_run_trans [OF append_error_keeps]
         split: option.splits sum.splits)
qed

lemma WithPipelineRef_keeps: "run_state (WithPipelineRef E ref b) w = (b', w') \<Longrightarrow> keeps_run b b'"
  by (auto simp: WithPipelineRef_def Let_def
      intro: keeps_run_refl keeps_run_trans [OF step_keeps(9) step_keeps(1)]
        keeps_run_trans [OF step_keeps(9) append_error_keeps] step_keeps(9)
      split: if_splits option.splits prod.splits sum.splits)

lemma workspace_keeps: "run_state (workspace E emptyDir b) s = (b', s') \<Longrightarrow> keeps_run b b'"
  by (auto simp: workspace_def step_keeps split: prod.splits)

lemmas fit_steps = step_keeps [THEN fit_kept] objects_keep [THEN fit_kept]

lemma objects_labels [simp]:
  "built_labels (WithObjectReferences objs b) = built_labels b"
  "built_labels (WithObjectSpecsAsJson specs b) = built_labels b"
  "built_labels (WithParams ps b) = built_labels b"
  using objects_keep [of b] step_keeps(1) [of b] by (simp_all add: keeps_run_def)

lemma WithLabels_read [simp]: "map_read (built_labels (WithLabels (Some ls) b)) k =
    (case ls k of Some v \<Rightarrow> Some v | None \<Rightarrow> map_read (built_labels b) k)"
  by (simp add: WithLabels_def)

section \<open>The labels the adapter sets\<close>

lemma release_labels_carried:
  "T \<noteq> ManagedPipelineType \<Longrightarrow> carries r T (built_labels (WithLabels (Some (release_labels r T a)) b))"
  using labels_distinct by (intro carriesI) (auto simp: release_labels_def)

lemma managed_labels_carried:
  "carries r ManagedPipelineType (built_labels (WithLabels (Some (managed_labels r a)) b))"
  using labels_distinct by (intro carriesI) (auto simp: managed_labels_def release_labels_def)

lemma collectors_labels_carried:
  "T \<noteq> ManagedPipelineType \<Longrightarrow>
   carries r T (built_labels (WithLabels (Some [PipelinesTypeLabel \<mapsto> PipelineType_String T,
      ServiceNameLabel \<mapsto> ServiceName, ReleaseNameLabel \<mapsto> om_Name (rel_meta r),
      ReleaseNamespaceLabel \<mapsto> om_Namespace (rel_meta r)]) b))"
  using labels_distinct by (intro carriesI) auto

text \<open>Setting the owner, by a function that leaves the labels alone.\<close>

lemma fit_owner:
  assumes "\<And>m. om_Labels (snd (SetOwnerAnnotations K (rel_meta r) m)) = om_Labels m"
    and "carries r T (built_labels b)"
  shows "fit K r T (WithOwner K (rel_meta r) b)"
proof -
  obtain err m where set: "SetOwnerAnnotations K (rel_meta r) (pr_meta (b_pipelineRun b)) = (err, m)"
    by (cases "SetOwnerAnnotations K (rel_meta r) (pr_meta (b_pipelineRun b))")
  then have "om_Labels m = built_labels b" using assms(1) by (metis snd_conv)
  then show ?thesis
    using assms(2) set
    by (cases err) (auto simp: WithOwner_def Let_def fit_def append_error_def owned_def)
qed

end
