(* ===== verification/Adapter_Runs.thy ===== *)
theory Adapter_Runs
  imports Adapter_Tracking Run_Metadata
begin

text \<open>
  Which PipelineRuns the operations of \<open>src/controllers/release/adapter.go\<close> create: at most one each,
  only if none was found, and with the labels by which it is found again.
\<close>

declare WithObjectReferences.simps [simp del] WithObjectSpecsAsJson.simps [simp del]

section \<open>The contract of the API server for PipelineRuns\<close>

locale run_store = quiet_calls E runs
  for E :: "'w env" and runs :: "'w \<Rightarrow> PipelineRun list" +
  assumes status_quiet [frame_intro]: "keeps runs (api_PatchReleaseStatus E base r)"
    and create_run: "run_state (api_CreatePipelineRun E p) w = (Inr p', w') \<Longrightarrow>
      \<exists>q. runs w' = runs w @ [q] \<and> om_Labels (pr_meta q) = om_Labels (pr_meta p) \<and>
        om_Annotations (pr_meta q) = om_Annotations (pr_meta p)"
    and create_fails: "run_state (api_CreatePipelineRun E p) w = (Inl e, w') \<Longrightarrow> runs w' = runs w"
    and owner_labels: "om_Labels (snd (SetOwnerAnnotations (lib E) owner m)) = om_Labels m"
    and errors_reported: "es \<noteq> [] \<Longrightarrow> ErrorOrNil (lib E) es \<noteq> None"
begin

definition cnt :: "'w adapter \<Rightarrow> PipelineRun list" where
  "cnt s = runs (world s)"

lemma keeps_cnt: "keeps obs m \<Longrightarrow> keeps cnt m"
  by (auto simp: keeps_def obs_def cnt_def)

lemma keeps_cnt_load: "keeps runs m \<Longrightarrow> keeps cnt (load m)"
  by (rule keeps_cnt) (intro frame_intro)

text \<open>
  From a state with Release \<open>r\<close>, a computation adds no PipelineRun, or, if \<open>b\<close> holds, one for a
  pipeline of type \<open>T\<close>.
\<close>

definition grows :: "bool \<Rightarrow> PipelineType \<Rightarrow> Release \<Rightarrow> ('w adapter, 'a) state \<Rightarrow> bool" where
  "grows b T r m \<longleftrightarrow> (\<forall>s. release s = r \<longrightarrow> cnt (snd (run_state m s)) = cnt s \<or>
     (b \<and> (\<exists>q. cnt (snd (run_state m s)) = cnt s @ [q] \<and> belongs (lib E) r T (pr_meta q))))"

lemma grows_quiet: "keeps cnt m \<Longrightarrow> grows b T r m"
  by (simp add: grows_def keeps_def)

lemma grows_ret: "grows b T r (ret a)"
  by (simp add: grows_def)

lemma grows_bind:
  assumes "keeps obs m" "\<And>a s s'. run_state m s = (a, s') \<Longrightarrow> release s = r \<Longrightarrow> P a"
    and "\<And>a. P a \<Longrightarrow> grows b T r (k a)"
  shows "grows b T r (State_Monad.bind m k)"
  unfolding grows_def
proof (intro allI impI)
  fix s :: "'w adapter" assume r: "release s = r"
  obtain a s1 where run: "run_state m s = (a, s1)" by (cases "run_state m s")
  then have "obs s1 = obs s" using assms(1) by (metis keepsD snd_conv)
  then have "release s1 = r" "cnt s1 = cnt s" using r by (simp_all add: obs_def cnt_def)
  then show "cnt (snd (run_state (State_Monad.bind m k) s)) = cnt s \<or>
      (b \<and> (\<exists>q. cnt (snd (run_state (State_Monad.bind m k) s)) = cnt s @ [q] \<and> belongs (lib E) r T (pr_meta q)))"
    using assms(3) [OF assms(2) [OF run r]] run by (auto simp: grows_def dest!: spec [of _ s1])
qed

lemma grows_bind_any: "keeps obs m \<Longrightarrow> (\<And>a. grows b T r (k a)) \<Longrightarrow> grows b T r (State_Monad.bind m k)"
  by (rule grows_bind [where P = "\<lambda>_. True"]) auto

lemma grows_bind_last:
  assumes "grows b T r m" "\<And>a. keeps cnt (k a)"
  shows "grows b T r (State_Monad.bind m k)"
  using assms by (auto simp: grows_def keeps_def split: prod.splits)

lemma grows_attempt:
  "\<lbrakk>keeps obs m; \<And>e. grows b T r (h e); \<And>a. grows b T r (k a)\<rbrakk> \<Longrightarrow> grows b T r (attempt m h k)"
  unfolding attempt_def by (rule grows_bind_any) (auto split: sum.split)

lemma grows_unless_panic:
  "\<lbrakk>grows b T r m; keeps cnt p; \<And>a. keeps cnt (k a)\<rbrakk> \<Longrightarrow> grows b T r (unless_panic m p k)"
  unfolding unless_panic_def by (rule grows_bind_last) (auto split: outcome.split)

lemma grows_if: "\<lbrakk>c \<Longrightarrow> grows b T r m; \<not> c \<Longrightarrow> grows b T r n\<rbrakk> \<Longrightarrow> grows b T r (if c then m else n)"
  by simp

lemma grows_case_option:
  "\<lbrakk>grows b T r m; \<And>y. grows b T r (k y)\<rbrakk> \<Longrightarrow> grows b T r (case x of None \<Rightarrow> m | Some y \<Rightarrow> k y)"
  by (cases x) auto

lemmas grows_intro = grows_attempt grows_if grows_case_option grows_ret

section \<open>Creating a PipelineRun\<close>

lemma grows_build_and_create:
  assumes "fit (lib E) r T bu"
  shows "grows True T r (build_and_create E bu)"
proof -
  have "cnt (s\<lparr>world := w'\<rparr>) = cnt s \<or>
      (\<exists>q. cnt (s\<lparr>world := w'\<rparr>) = cnt s @ [q] \<and> belongs (lib E) r T (pr_meta q))"
    if "run_state (api_CreatePipelineRun E (b_pipelineRun bu)) (world s) = (res, w')"
      "ErrorOrNil (lib E) (b_err bu) = None" for s res w'
  proof (cases res)
    case (Inl e)
    then show ?thesis using that create_fails by (fastforce simp: cnt_def)
  next
    case (Inr p')
    with that obtain q where "runs w' = runs (world s) @ [q]" "om_Labels (pr_meta q) = built_labels bu"
      "om_Annotations (pr_meta q) = built_annotations bu"
      using create_run [of "b_pipelineRun bu" "world s" p' w'] by blast
    moreover have "b_err bu = []" using that(2) errors_reported by metis
    ultimately show ?thesis using assms by (auto simp: cnt_def belongs_def fit_def)
  qed
  then show ?thesis
    by (auto simp: grows_def build_and_create_def Build_def load_def split: outcome.split option.split prod.split)
qed

lemma load_PipelineRef_fit:
  "run_state (load (WithPipelineRef E ref b)) s = (b', s') \<Longrightarrow> fit K r T b \<Longrightarrow> fit K r T b'"
  by (auto simp: load_def split: prod.splits dest: WithPipelineRef_keeps intro: fit_kept)

lemma workspace_fit: "run_state (workspace E d b) s = (b', s') \<Longrightarrow> fit K r T b \<Longrightarrow> fit K r T b'"
  by (auto dest: workspace_keeps intro: fit_kept)

text \<open>The two effects between setting the owner and creating the run.\<close>

lemma grows_bind_ref:
  "\<lbrakk>fit (lib E) r T b; \<And>b. fit (lib E) r T b \<Longrightarrow> grows c T r (k b)\<rbrakk> \<Longrightarrow>
   grows c T r (State_Monad.bind (load (WithPipelineRef E ref b)) k)"
  by (rule grows_bind [where P = "fit (lib E) r T"], intro frame_intro, erule load_PipelineRef_fit)

lemma grows_bind_workspace:
  "\<lbrakk>fit (lib E) r T b; \<And>b. fit (lib E) r T b \<Longrightarrow> grows c T r (k b)\<rbrakk> \<Longrightarrow>
   grows c T r (State_Monad.bind (workspace E d b) k)"
  by (rule grows_bind [where P = "fit (lib E) r T"], intro frame_intro, erule workspace_fit)

lemma grows_bind_release:
  "grows b T r (k r) \<Longrightarrow> grows b T r (State_Monad.bind (gets release) k)"
  by (rule grows_bind [where P = "\<lambda>a. a = r"], (intro frame_intro | simp)+)

lemmas fit_intro = fit_owner [OF owner_labels] fit_steps

lemma grows_create_plan_run: "T \<noteq> ManagedPipelineType \<Longrightarrow> grows True T r (create_plan_run E T pp rp sn)"
proof (cases pp)
  case (Some p)
  assume "T \<noteq> ManagedPipelineType"
  then show ?thesis
    unfolding create_plan_run_def Some option.case
    apply (intro grows_bind_release grows_bind_ref fit_intro)
     apply (simp add: release_labels_carried)
    apply (rule grows_bind_any, (intro frame_intro)[1], rule grows_case_option, rule grows_ret)
    by (intro grows_bind_workspace grows_build_and_create fit_steps)
qed (simp add: create_plan_run_def grows_ret)

lemma grows_createManagedPipelineRun:
  "grows True ManagedPipelineType r (createManagedPipelineRun E res specs timeouts)"
proof -
  have body: "grows True ManagedPipelineType r (State_Monad.bind (load (WithPipelineRef E ref
      (WithOwner (lib E) (rel_meta r) (WithObjectSpecsAsJson js (WithObjectReferences objs
        (WithLabels (Some (managed_labels r a)) b)))))) (\<lambda>b. State_Monad.bind (workspace E d
          (WithParams ps (WithTimeouts t t' (WithTaskRunSpecs ts (WithServiceAccount sa b)))))
      (build_and_create E)))" for ref js objs a b d ps t t' ts sa
    by (intro grows_bind_ref grows_bind_workspace grows_build_and_create fit_intro)
       (simp add: managed_labels_carried)
  show ?thesis
    unfolding createManagedPipelineRun_def
    apply (intro grows_bind_release)
    apply (rule grows_bind_any, (intro frame_intro)[1])
    by (auto simp: body grows_ret split: option.split)
qed

lemma grows_collectors_builder:
  assumes "T \<noteq> ManagedPipelineType" "\<And>b. fit (lib E) r T b \<Longrightarrow> grows True T r (k b)"
  shows "grows True T r (State_Monad.bind (getCollectorsPipelineRunBuilder E T ns url revision) k)"
proof (rule grows_bind [where P = "fit (lib E) r T"])
  show "keeps obs (getCollectorsPipelineRunBuilder E T ns url revision)" by (intro frame_intro)
next
  fix b s s' assume "run_state (getCollectorsPipelineRunBuilder E T ns url revision) s = (b, s')" "release s = r"
  then show "fit (lib E) r T b"
    unfolding getCollectorsPipelineRunBuilder_def
    by (auto split: prod.splits intro!: fit_intro elim!: workspace_fit load_PipelineRef_fit
        simp: collectors_labels_carried [OF assms(1)])
qed (rule assms(2))

lemma grows_collectors:
  "grows True ManagedCollectorsPipelineType r (createManagedCollectorsPipelineRun E rpa)"
  "grows True TenantCollectorsPipelineType r (createTenantCollectorsPipelineRun E rp orpa)"
proof -
  show "grows True ManagedCollectorsPipelineType r (createManagedCollectorsPipelineRun E rpa)"
    unfolding createManagedCollectorsPipelineRun_def
    by (intro grows_case_option grows_ret grows_collectors_builder grows_build_and_create fit_steps) simp_all
  show "grows True TenantCollectorsPipelineType r (createTenantCollectorsPipelineRun E rp orpa)"
    unfolding createTenantCollectorsPipelineRun_def Let_def
    by (auto intro!: grows_case_option grows_ret grows_collectors_builder grows_build_and_create fit_steps
        split: option.split)
qed

section \<open>The operations that start a phase\<close>

lemma keeps_cnt_steps [frame_intro]:
  "keeps cnt (edit f)" "keeps cnt (mark E m)" "keeps cnt (patch_status E base)"
proof -
  show edit: "keeps cnt (edit f)" for f
    by (simp add: keeps_def edit_def cnt_def)
  have "keeps cnt (load (Now E))" by (intro keeps_cnt_load frame_intro)
  then show "keeps cnt (mark E m)"
    by (auto simp: mark_def cnt_def intro!: frame_intro split: prod.split)
  have "keeps cnt (load (api_PatchReleaseStatus E base r))" for r by (intro keeps_cnt_load frame_intro)
  then show "keeps cnt (patch_status E base)"
    unfolding patch_status_def using edit by (intro frame_intro)
qed

lemma keeps_cnt_attempt [frame_intro]:
  "\<lbrakk>keeps cnt m; \<And>e. keeps cnt (h e); \<And>a. keeps cnt (k a)\<rbrakk> \<Longrightarrow> keeps cnt (attempt m h k)"
  unfolding attempt_def by (intro frame_intro)

lemma keeps_cnt_marks [frame_intro]:
  "keeps cnt (creation_failed E mp mf msg us e)" "keeps cnt (mark_and_patch E m)"
  unfolding creation_failed_def handlePipelineCreationError_def mark_and_patch_def mark_and_patch_from_def
  by (intro frame_intro)+

lemma keeps_cnt_register [frame_intro]:
  "keeps cnt (registerTenantCollectorsProcessingData E p a c)" "keeps cnt (registerTenantProcessingData E p)"
  "keeps cnt (registerFinalProcessingData E p)" "keeps cnt (registerManagedCollectorsProcessingData E p a b c)"
  "keeps cnt (registerManagedProcessingData E p a mit)"
  unfolding registerTenantCollectorsProcessingData_def registerTenantProcessingData_def
    registerFinalProcessingData_def registerManagedCollectorsProcessingData_def
    registerManagedProcessingData_def
  by (intro frame_intro)+

lemma grows_create:
  assumes "b"
  shows "grows b TenantPipelineType r (createTenantPipelineRun E rp sn)"
    "grows b FinalPipelineType r (createFinalPipelineRun E rp sn)"
    "grows b ManagedPipelineType r (createManagedPipelineRun E res specs timeouts)"
    "grows b ManagedCollectorsPipelineType r (createManagedCollectorsPipelineRun E rpa)"
    "grows b TenantCollectorsPipelineType r (createTenantCollectorsPipelineRun E rp orpa)"
  using assms grows_create_plan_run grows_createManagedPipelineRun grows_collectors
  by (simp_all add: createTenantPipelineRun_def createFinalPipelineRun_def)

text \<open>The lookup comes first; what follows may create a run only if it found none.\<close>

definition grown :: "PipelineRun option \<Rightarrow> PipelineType \<Rightarrow> 'w adapter \<Rightarrow> 'w adapter \<Rightarrow> bool" where
  "grown found T s s' \<longleftrightarrow> cnt s' = cnt s \<or>
     (found = None \<and> (\<exists>q. cnt s' = cnt s @ [q] \<and> belongs (lib E) (release s) T (pr_meta q)))"

lemma grown_after_lookup:
  assumes "run_state look s = ((found, err), s1)" "keeps obs look"
    and "\<And>p. grows (p = None) T (release s) (body p)" "\<And>e. keeps cnt (h e)"
  shows "grown found T s (snd (run_state (do { run \<leftarrow> look; attempt (ret (expect_run run)) h body }) s))"
proof -
  have "obs s1 = obs s" using assms(1,2) by (metis keepsD snd_conv)
  then have s1: "release s1 = release s" "cnt s1 = cnt s" by (simp_all add: obs_def cnt_def)
  show ?thesis
  proof (cases "expect_run (found, err)")
    case (Inr p)
    then have "p = found" by (auto simp: expect_run_def split: if_splits)
    then show ?thesis
      using assms(1) assms(3) [of p] s1 Inr by (auto simp: grown_def grows_def attempt_def)
  qed (use assms(1,4) s1 in \<open>simp add: grown_def attempt_def keepsD\<close>)
qed

lemma grown_refl: "cnt s' = cnt s \<Longrightarrow> grown found T s s'"
  by (simp add: grown_def)

lemma grown_skipped: "keeps cnt m \<Longrightarrow> grown found T s (snd (run_state m s))"
  by (rule grown_refl) (simp add: keepsD)

text \<open>Guards, then the lookup.\<close>

lemma grown_guarded:
  assumes "\<not> c \<Longrightarrow> grown found T s (snd (run_state m s))" "keeps cnt n"
  shows "grown found T s (snd (run_state (if c then n else m) s))"
  using assms by (simp add: grown_skipped)

lemma lookup_run:
  "run_state (GetReleasePipelineRun E (release s) T) (world s) = ((found, err), w1) \<Longrightarrow>
   run_state (get_run E T) s = ((found, err), s\<lparr>world := w1\<rparr>)"
  "run_state (GetReleasePipelineRunAttempt E (release s) i) (world s) = ((found, err), w1) \<Longrightarrow>
   run_state (get_run_attempt E i) s = ((found, err), s\<lparr>world := w1\<rparr>)"
  by (simp_all add: get_run_def get_run_attempt_def load_def)

lemmas grows_rules = grows_if grows_attempt grows_case_option grows_unless_panic grows_create grows_ret

lemma grown_plan_operations:
  "run_state (get_run E TenantPipelineType) s = ((found, err), s1) \<Longrightarrow>
   grown found TenantPipelineType s (snd (run_state (EnsureTenantPipelineIsProcessed E) s))"
  "run_state (get_run E FinalPipelineType) s = ((found, err), s1) \<Longrightarrow>
   grown found FinalPipelineType s (snd (run_state (EnsureFinalPipelineIsProcessed E) s))"
  unfolding EnsureTenantPipelineIsProcessed_def EnsureFinalPipelineIsProcessed_def run_state_bind run_gets case_prod_conv
  by (intro grown_guarded grown_after_lookup frame_intro, assumption,
      (intro grows_rules frame_intro grows_quiet; assumption?))+

lemma grown_managed_operation:
  "run_state (get_run_attempt E (GetManagedPipelineRetryCount (release s))) s = ((found, err), s1) \<Longrightarrow>
   grown found ManagedPipelineType s (snd (run_state (EnsureManagedPipelineIsProcessed E) s))"
  unfolding EnsureManagedPipelineIsProcessed_def run_state_bind run_gets case_prod_conv Let_def
  by (intro grown_guarded grown_after_lookup frame_intro, assumption,
      (intro grows_rules frame_intro grows_quiet; assumption?))

lemma grown_collectors_operations:
  "run_state (get_run E TenantCollectorsPipelineType) s = ((found, err), s1) \<Longrightarrow>
   grown found TenantCollectorsPipelineType s (snd (run_state (EnsureTenantCollectorsPipelineIsProcessed E) s))"
  "run_state (get_run E ManagedCollectorsPipelineType) s = ((found, err), s1) \<Longrightarrow>
   grown found ManagedCollectorsPipelineType s (snd (run_state (EnsureManagedCollectorsPipelineIsProcessed E) s))"
  unfolding EnsureTenantCollectorsPipelineIsProcessed_def EnsureManagedCollectorsPipelineIsProcessed_def
    run_state_bind run_gets case_prod_conv Let_def
  by (intro grown_guarded grown_after_lookup frame_intro, assumption,
      (intro grows_rules frame_intro grows_quiet; assumption?))+

section \<open>The retry\<close>

lemma grows_computed:
  "\<lbrakk>keeps obs m; grows b T r p; \<And>a. grows b T r (k a)\<rbrakk> \<Longrightarrow> grows b T r (unless_panic m p k)"
  unfolding unless_panic_def by (rule grows_bind_any) (auto split: outcome.split)

lemma run_bind_gets: "run_state (State_Monad.bind (gets f) k) s = run_state (k (f s)) s"
  by simp

lemma grown_retry:
  assumes "run_state (get_run_attempt E (GetManagedPipelineRetryCount (release s) + 1)) s = ((found, err), s1)"
  shows "grown found ManagedPipelineType s (snd (run_state (retryManagedPipeline E) s))"
proof -
  have created: "grows (p = None) ManagedPipelineType r (unless_panic (computeRetryOverrides E resources) (ret Panicked)
      (\<lambda>(specs, timeouts, mitigation). unless_panic (createManagedPipelineRun E resources specs timeouts) (ret Panicked)
        (\<lambda>res. attempt (ret res) (\<lambda>e. ret (Returned (Some e))) (\<lambda>c. do {
           err \<leftarrow> registerManagedProcessingData E (Some c) rb mitigation;
           ret (Returned err) }))))" if "p = None" for p r resources rb
    by (rule grows_computed, intro frame_intro, rule grows_ret, clarsimp,
        intro grows_unless_panic grows_create frame_intro that)
  show ?thesis
    unfolding retryManagedPipeline_def run_bind_gets
    by (intro grown_after_lookup [OF assms] frame_intro grows_attempt grows_if created grows_ret
        grows_bind_last grows_quiet; assumption?)
qed

text \<open>
  A retry looks the next attempt up after other calls; those leave the PipelineRuns alone.
\<close>

definition retried :: "'w adapter \<Rightarrow> 'w adapter \<Rightarrow> bool" where
  "retried s s' \<longleftrightarrow> cnt s' = cnt s \<or>
     (\<exists>w1 err w2 q. runs w1 = runs (world s) \<and>
        run_state (GetReleasePipelineRunAttempt E (release s) (GetManagedPipelineRetryCount (release s) + 1)) w1 =
          ((None, err), w2) \<and>
        cnt s' = cnt s @ [q] \<and> belongs (lib E) (release s) ManagedPipelineType (pr_meta q))"

lemma retried_refl: "cnt s' = cnt s \<Longrightarrow> retried s s'"
  by (simp add: retried_def)

lemma retried_retry: "retried s (snd (run_state (retryManagedPipeline E) s))"
proof -
  let ?look = "GetReleasePipelineRunAttempt E (release s) (GetManagedPipelineRetryCount (release s) + 1)"
  obtain found err w1 where look: "run_state ?look (world s) = ((found, err), w1)"
    by (metis surj_pair)
  show ?thesis
    using grown_retry [OF lookup_run(2) [OF look]] look unfolding grown_def retried_def by auto
qed

lemma retried_after:
  assumes "keeps obs m" "\<And>a s. retried s (snd (run_state (k a) s))"
  shows "retried s (snd (run_state (State_Monad.bind m k) s))"
proof -
  obtain a s1 where run: "run_state m s = (a, s1)" by (cases "run_state m s")
  then have "obs s1 = obs s" using assms(1) by (metis keepsD snd_conv)
  then have "release s1 = release s" "runs (world s1) = runs (world s)" by (simp_all add: obs_def)
  then show ?thesis using assms(2) [of s1 a] run by (simp add: retried_def cnt_def)
qed

lemma retried_before:
  assumes "\<And>s. retried s (snd (run_state m s))" "\<And>a. keeps cnt (k a)"
  shows "retried s (snd (run_state (State_Monad.bind m k) s))"
  using assms(1) [of s] assms(2) by (auto simp: retried_def keeps_def split: prod.splits)

lemma retried_quiet: "keeps cnt m \<Longrightarrow> retried s (snd (run_state m s))"
  by (rule retried_refl) (simp add: keepsD)

lemma retried_unless_panic:
  assumes "\<And>s. retried s (snd (run_state m s))" "keeps cnt p" "\<And>a. keeps cnt (k a)"
  shows "retried s (snd (run_state (unless_panic m p k) s))"
  unfolding unless_panic_def using assms by (intro retried_before) (auto split: outcome.split)

lemma retried_completed: "retried s (snd (run_state (EnsureManagedPipelineProcessingIsCompleted E) s))"
proof -
  have branch: "retried s (snd (run_state (case MatchDisablingTags re ts ds of (x, b) \<Rightarrow>
      if c b then unless_panic (retryManagedPipeline E) (ret OperationPanic) k else n x b) s))"
    if "\<And>e. keeps cnt (k e)" "\<And>x b. keeps cnt (n x b)" for re ts ds c k n s
    using that by (auto intro!: retried_unless_panic retried_retry frame_intro intro: retried_quiet
        split: prod.split)
  show ?thesis
    unfolding EnsureManagedPipelineProcessingIsCompleted_def
    apply (rule retried_after, intro frame_intro)
    subgoal for r s
      apply (cases "\<not> IsManagedPipelineProcessing (conds E) r \<or> HasManagedPipelineProcessingFinished (conds E) r")
       apply (simp add: retried_refl)
      apply (cases "IsCurrentManagedPipelineAttemptFailed r")
       apply (simp only: if_False if_True not_True_eq_False attempt_def)
       apply (rule retried_after, intro frame_intro)
      subgoal for a s
        apply (cases a)
         apply (simp add: retried_refl)
        apply (simp only: sum.case)
        by (rule branch) (intro frame_intro)+
      by (simp add: retried_refl)
    done
qed

end

section \<open>No run is created twice\<close>

text \<open>The operations that start a phase, with the lookup each begins with.\<close>

definition starting_operations ::
  "'w env \<Rightarrow> Release \<Rightarrow>
   (PipelineType \<times> ('w, PipelineRun option \<times> error option) state \<times> ('w adapter, operation_result) state) list" where
  "starting_operations E r =
     [(TenantCollectorsPipelineType, GetReleasePipelineRun E r TenantCollectorsPipelineType,
         EnsureTenantCollectorsPipelineIsProcessed E),
      (ManagedCollectorsPipelineType, GetReleasePipelineRun E r ManagedCollectorsPipelineType,
         EnsureManagedCollectorsPipelineIsProcessed E),
      (TenantPipelineType, GetReleasePipelineRun E r TenantPipelineType, EnsureTenantPipelineIsProcessed E),
      (ManagedPipelineType, GetReleasePipelineRunAttempt E r (GetManagedPipelineRetryCount r),
         EnsureManagedPipelineIsProcessed E),
      (FinalPipelineType, GetReleasePipelineRun E r FinalPipelineType, EnsureFinalPipelineIsProcessed E)]"

lemma starting_operation_grown:
  assumes "run_store E runs" "(T, lookup, op) \<in> set (starting_operations E (release s))"
    and "run_state lookup (world s) = ((found, err), w1)"
  shows "run_store.grown E runs found T s (snd (run_state op s))"
  using assms(2,3) run_store.lookup_run [OF assms(1)] run_store.grown_plan_operations [OF assms(1)]
    run_store.grown_managed_operation [OF assms(1)] run_store.grown_collectors_operations [OF assms(1)]
  unfolding starting_operations_def by (fastforce simp del: split_paired_Ex)

lemma starting_lookup:
  "(T, lookup, op) \<in> set (starting_operations E r) \<Longrightarrow>
   lookup = do { res \<leftarrow> api_ListPipelineRuns E (lookup_labels_of r T) 1; ret (first_run res) }"
  by (auto simp: starting_operations_def GetReleasePipelineRun_def GetReleasePipelineRunAttempt_def
      lookup_labels_of_def GetManagedPipelineRetryCount_def)

text \<open>
  C9. No operation starts a second PipelineRun for its phase. Whatever the cluster answers, an operation
  that starts a phase creates at most one PipelineRun, and none if its lookup lists one. The created
  one belongs to the Release: it carries the labels of the phase, for a managed run with the number of
  the attempt after the recorded ones, the label the service's cache is restricted to, and the
  annotations that name the Release as its owner. So it is found by the same lookup the next time,
  recorded or not; except for a managed run that replaces a vanished run of a recorded attempt, which
  has a higher number and is found once it is recorded.
\<close>

theorem no_duplicate_run:
  assumes "run_store E runs" "(T, lookup, op) \<in> set (starting_operations E (release s))"
    and "run_state (api_ListPipelineRuns E (lookup_labels_of (release s) T) 1) (world s) = (listed, w1)"
    and "run_state op s = (res, s')"
  shows "runs (world s') = runs (world s) \<or>
    (fst (first_run listed) = None \<and> (\<exists>q. runs (world s') = runs (world s) @ [q] \<and>
      belongs (lib E) (release s) T (pr_meta q) \<and>
      (T = ManagedPipelineType \<and> ManagedPipelineAttempts (Status (release s)) \<noteq> [] \<or>
       lookup_labels_of (release s) T \<subseteq>\<^sub>m map_read (om_Labels (pr_meta q)))))"
proof -
  obtain found err where first: "first_run listed = (found, err)" by (cases "first_run listed")
  then have "run_state lookup (world s) = ((found, err), w1)"
    using assms(3) by (simp add: starting_lookup [OF assms(2)])
  moreover have "T = ManagedPipelineType \<and> ManagedPipelineAttempts (Status (release s)) \<noteq> [] \<or>
      lookup_labels_of (release s) T \<subseteq>\<^sub>m map_read labels" if "carries (release s) T labels" for labels
    using that created_lookup_labels [of T "release s"] unfolding carries_def by metis
  ultimately show ?thesis
    using starting_operation_grown [OF assms(1,2)] assms(4) first
    by (auto simp: run_store.grown_def [OF assms(1)] run_store.cnt_def [OF assms(1)] belongs_def)
qed

text \<open>
  C10. A retry of the managed pipeline creates at most one PipelineRun, and only after the lookup of
  exactly that attempt found none; the new run carries the labels of that lookup. So a retry
  whose record in the status was lost is adopted by the next reconcile, not started again.
\<close>

theorem no_duplicate_retry:
  assumes "run_store E runs" "run_state (EnsureManagedPipelineProcessingIsCompleted E) s = (res, s')"
    and "runs (world s') \<noteq> runs (world s)"
  shows "\<exists>w1 err w2 q n. n = GetManagedPipelineRetryCount (release s) + 1 \<and> runs w1 = runs (world s) \<and>
    run_state (GetReleasePipelineRunAttempt E (release s) n) w1 = ((None, err), w2) \<and>
    runs (world s') = runs (world s) @ [q] \<and> belongs (lib E) (release s) ManagedPipelineType (pr_meta q) \<and>
    (run_labels (release s) ManagedPipelineType)(ReleaseAttemptLabel \<mapsto> show_int n)
      \<subseteq>\<^sub>m map_read (om_Labels (pr_meta q))"
proof -
  have failed: "IsCurrentManagedPipelineAttemptFailed (release s)"
    using assms(2,3) by (auto simp: EnsureManagedPipelineProcessingIsCompleted_def split: if_splits)
  then have "int (length (ManagedPipelineAttempts (Status (release s)))) =
      GetManagedPipelineRetryCount (release s) + 1"
    by (cases "ManagedPipelineAttempts (Status (release s))")
       (auto simp: IsCurrentManagedPipelineAttemptFailed_def GetCurrentManagedPipelineAttempt_def
         GetManagedPipelineRetryCount_def)
  then show ?thesis
    using run_store.retried_completed [OF assms(1), of s] assms(2,3)
    by (auto simp: run_store.retried_def [OF assms(1)] run_store.cnt_def [OF assms(1)] belongs_def carries_def
        created_labels_def)
qed

lemma cluster_run_store: "run_store cluster_env cl_runs"
  by (intro run_store.intro quiet_calls.intro quiet_reads.intro quiet_calls_axioms.intro run_store_axioms.intro)
     (auto simp: cluster_env_def cluster_lib_def keeps_def get_object_def get_the_release_def create_object_def
       patch_the_release_def named_def Let_def set_owner_def split: list.splits)

interpretation cluster_runs: run_store cluster_env cl_runs
  by (rule cluster_run_store)

text \<open>The tenant run was created, but the patch that records it was lost.\<close>

definition unrecorded_cluster :: cluster where
  "unrecorded_cluster = demo_cluster\<lparr>cl_release := demo_release\<lparr>Status := no_status\<lparr>Conditions :=
     progressing releasedConditionType # map released_condition
       [tenantCollectorsProcessedConditionType, managedCollectorsProcessedConditionType]\<rparr>\<rparr>,
     cl_runs := [tenant_run]\<rparr>"

abbreviation unrecorded_state :: "cluster adapter" where
  "unrecorded_state \<equiv> newAdapter (cl_release unrecorded_cluster) unrecorded_cluster"

theorem no_duplicate_run_witness:
  "cl_runs (world (snd (run_state (EnsureTenantPipelineIsProcessed cluster_env) unrecorded_state))) = [tenant_run] \<and>
   IsTenantPipelineProcessing status_conditions
     (release (snd (run_state (EnsureTenantPipelineIsProcessed cluster_env) unrecorded_state)))"
proof -
  obtain res s' where run: "run_state (EnsureTenantPipelineIsProcessed cluster_env) unrecorded_state = (res, s')"
    by (cases "run_state (EnsureTenantPipelineIsProcessed cluster_env) unrecorded_state")
  have op: "(TenantPipelineType, GetReleasePipelineRun cluster_env (release unrecorded_state) TenantPipelineType,
      EnsureTenantPipelineIsProcessed cluster_env) \<in> set (starting_operations cluster_env (release unrecorded_state))"
    by (simp add: starting_operations_def)
  have labels: "selects (run_labels demo_release TenantPipelineType) (om_Labels (pr_meta tenant_run))" by code_simp
  have state: "rel_meta (release unrecorded_state) = rel_meta demo_release" "world unrecorded_state = unrecorded_cluster"
    by (simp_all add: newAdapter_def unrecorded_cluster_def)
  have one: "cl_runs unrecorded_cluster = [tenant_run]" by (simp add: unrecorded_cluster_def)
  have found: "run_state (api_ListPipelineRuns cluster_env (lookup_labels_of (release unrecorded_state) TenantPipelineType) 1)
      (world unrecorded_state) = (Inr [tenant_run], unrecorded_cluster)"
    using labels unfolding lookup_labels_of_def run_labels_def state
    by (simp add: cluster_env_def unrecorded_cluster_def)
  have recorded: "IsTenantPipelineProcessing status_conditions
      (release (snd (run_state (EnsureTenantPipelineIsProcessed cluster_env) unrecorded_state)))"
    by code_simp
  show ?thesis
    using no_duplicate_run [OF cluster_run_store op found run] run recorded
    by (simp add: state one first_run_def)
qed

end
