(* ===== verification/Cleanup_Logic.thy ===== *)
theory Cleanup_Logic
  imports Adapter_Frames
begin

text \<open>
  A small program logic for the clean-up of \<open>src/controllers/release/adapter.go\<close>: sequences of calls that
  stop at the first error, over an observation of the cluster that only moves down an order (runs
  fade away, bindings are removed).
\<close>

locale cleanup_frame = quiet_reads E seen
  for E :: "'w env" and seen :: "'w \<Rightarrow> 'v" +
  fixes le :: "'v \<Rightarrow> 'v \<Rightarrow> bool"
  assumes le_refl: "le v v" and le_trans: "\<lbrakk>le u v; le v v'\<rbrakk> \<Longrightarrow> le u v'"
begin

text \<open>
  If a clean-up of Release \<open>r\<close> succeeds, the observation has only moved down, and \<open>Q\<close> holds of it.
\<close>

definition cleans ::
  "Release \<Rightarrow> ('v \<Rightarrow> bool) \<Rightarrow> ('v \<Rightarrow> bool) \<Rightarrow> ('w adapter, error option) state \<Rightarrow> bool" where
  "cleans r P Q m \<longleftrightarrow> (\<forall>s s'. release s = r \<longrightarrow> P (seen (world s)) \<longrightarrow> run_state m s = (None, s') \<longrightarrow>
     release s' = r \<and> le (seen (world s)) (seen (world s')) \<and> Q (seen (world s')))"

lemma cleansI:
  assumes "\<And>s s'. release s = r \<Longrightarrow> P (seen (world s)) \<Longrightarrow> run_state m s = (None, s') \<Longrightarrow>
    release s' = r \<and> le (seen (world s)) (seen (world s')) \<and> Q (seen (world s'))"
  shows "cleans r P Q m"
  using assms unfolding cleans_def by blast

lemma cleansD:
  "\<lbrakk>cleans r P Q m; release s = r; P (seen (world s)); run_state m s = (None, s')\<rbrakk> \<Longrightarrow> Q (seen (world s'))"
  unfolding cleans_def by blast

lemma obsD: "keeps obs m \<Longrightarrow> run_state m s = (a, s') \<Longrightarrow> release s' = release s \<and> seen (world s') = seen (world s)"
  by (metis keepsD obs_def old.prod.inject snd_conv)

lemma cleans_quiet: "keeps obs m \<Longrightarrow> cleans r P P m"
  by (rule cleansI) (auto dest!: obsD simp: le_refl)

lemma cleans_fail: "cleans r P Q (fail_op e)"
  by (rule cleansI) simp

lemma cleans_done: "cleans r P P (ret None)"
  by (rule cleansI) (simp add: le_refl)

lemma cleans_weaken: "cleans r P Q m \<Longrightarrow> (\<And>v. P' v \<Longrightarrow> P v) \<Longrightarrow> (\<And>v. Q v \<Longrightarrow> Q' v) \<Longrightarrow> cleans r P' Q' m"
  unfolding cleans_def by blast

lemma cleans_and_then: "cleans r P Q m \<Longrightarrow> cleans r Q R k \<Longrightarrow> cleans r P R (and_then m k)"
proof (rule cleansI)
  assume m: "cleans r P Q m" and k: "cleans r Q R k"
  fix s s' assume s: "release s = r" "P (seen (world s))" and "run_state (and_then m k) s = (None, s')"
  then obtain s1 where "run_state m s = (None, s1)" "run_state k s1 = (None, s')"
    by (auto simp: and_then_def split: prod.splits option.splits)
  then show "release s' = r \<and> le (seen (world s)) (seen (world s')) \<and> R (seen (world s'))"
    using m [unfolded cleans_def, rule_format, OF s] k [unfolded cleans_def, rule_format, of s1 s'] le_trans
    by blast
qed

text \<open>What the answer of a quiet call says of the observation may be used from there on.\<close>

lemma cleans_learn:
  assumes "keeps obs m"
    and "\<And>s a s'. \<lbrakk>release s = r; run_state m s = (a, s')\<rbrakk> \<Longrightarrow> F a (seen (world s))"
    and "\<And>a. cleans r (\<lambda>v. P v \<and> F a v) Q (k a)"
  shows "cleans r P Q (State_Monad.bind m k)"
proof (rule cleansI)
  fix s s' assume s: "release s = r" "P (seen (world s))" and run: "run_state (State_Monad.bind m k) s = (None, s')"
  obtain a s1 where a: "run_state m s = (a, s1)" by (cases "run_state m s")
  with run show "release s' = r \<and> le (seen (world s)) (seen (world s')) \<and> Q (seen (world s'))"
    using obsD [OF assms(1) a] s assms(2) [OF s(1) a] assms(3) [of a, unfolded cleans_def, rule_format, of s1 s']
    by simp
qed

lemma cleans_bind: "keeps obs m \<Longrightarrow> (\<And>a. cleans r P Q (k a)) \<Longrightarrow> cleans r P Q (State_Monad.bind m k)"
  by (rule cleans_learn [where F = "\<lambda>_ _. True"]) simp_all

lemma cleans_attempt: "keeps obs m \<Longrightarrow> (\<And>a. cleans r P Q (k a)) \<Longrightarrow> cleans r P Q (attempt m fail_op k)"
  unfolding attempt_def by (rule cleans_bind) (auto simp: cleans_fail split: sum.split)

lemma cleans_gets: "(cleans r P Q (k r)) \<Longrightarrow> cleans r P Q (State_Monad.bind (gets release) k)"
proof (rule cleansI)
  assume k: "cleans r P Q (k r)"
  fix s s' assume "release s = r" "P (seen (world s))" "run_state (State_Monad.bind (gets release) k) s = (None, s')"
  then show "release s' = r \<and> le (seen (world s)) (seen (world s')) \<and> Q (seen (world s'))"
    using k [unfolded cleans_def, rule_format, of s s'] by simp
qed

end

text \<open>Deleting a Release comes to its end only after the whole clean-up.\<close>

lemma finalizers_succeed:
  assumes "run_state (EnsureFinalizersAreCalled E) s = (Requeue, s')" "om_DeletionTimestamp (rel_meta (release s)) \<noteq> None"
    and "ContainsFinalizer (lib E) (om_Finalizers (rel_meta (release s))) ReleaseFinalizer"
    and "\<And>base r. keeps seen (api_PatchRelease E base r)"
  shows "\<exists>s1. run_state (finalizeRelease E True) s = (None, s1) \<and> seen (world s') = seen (world s1)"
proof -
  obtain err s1 where fin: "run_state (finalizeRelease E True) s = (err, s1)" by (cases "run_state (finalizeRelease E True) s")
  with assms(1-3) have "err = None" by (cases err) (simp_all add: EnsureFinalizersAreCalled_def)
  let ?r = "upd_finalizers (\<lambda>fs. RemoveFinalizer (lib E) fs ReleaseFinalizer) (release s1)"
  obtain res w where "run_state (api_PatchRelease E (release s1) ?r) (world s1) = (res, w)"
    by (cases "run_state (api_PatchRelease E (release s1) ?r) (world s1)")
  moreover from this have "seen w = seen (world s1)" using keepsD [OF assms(4)] by (metis snd_conv)
  ultimately have "seen (world s') = seen (world s1)"
    using assms(1-3) fin \<open>err = None\<close>
    by (cases res) (auto simp: EnsureFinalizersAreCalled_def patch_release_def edit_def load_def)
  with fin \<open>err = None\<close> show ?thesis by blast
qed

end
