(* ===== verification/Run_Deletion.thy ===== *)
theory Run_Deletion
  imports Adapter_Runs Cleanup_Logic
begin

text \<open>
  What is left of the PipelineRuns of a Release that is deleted: \<open>finalizeRelease\<close> and
  \<open>EnsureFinalizersAreCalled\<close> of \<open>src/controllers/release/adapter.go\<close>. Locale \<open>run_deletion\<close> is the
  contract of the API server for lookups, finalizer patches and deletions of PipelineRuns.
\<close>

section \<open>Runs that fade away\<close>

abbreviation run_key :: "PipelineRun \<Rightarrow> string \<times> string" where
  "run_key p \<equiv> (om_Namespace (pr_meta p), om_Name (pr_meta p))"

definition matches :: "(string \<rightharpoonup> string) \<Rightarrow> PipelineRun \<Rightarrow> bool" where
  "matches sel p \<longleftrightarrow> sel \<subseteq>\<^sub>m map_read (om_Labels (pr_meta p))"

text \<open>Deleted, and no longer held by the service.\<close>

definition ending :: "PipelineRun \<Rightarrow> bool" where
  "ending p \<longleftrightarrow> om_DeletionTimestamp (pr_meta p) \<noteq> None \<and> ReleaseFinalizer \<notin> set (om_Finalizers (pr_meta p))"

definition dims :: "PipelineRun \<Rightarrow> PipelineRun \<Rightarrow> bool" where
  "dims p q \<longleftrightarrow> run_key q = run_key p \<and> om_Labels (pr_meta q) = om_Labels (pr_meta p) \<and>
     set (om_Finalizers (pr_meta q)) \<subseteq> set (om_Finalizers (pr_meta p)) \<and>
     (om_DeletionTimestamp (pr_meta p) \<noteq> None \<longrightarrow> om_DeletionTimestamp (pr_meta q) \<noteq> None)"

text \<open>Runs go away, lose finalizers or get a deletion timestamp; none is added or revived.\<close>

definition fades :: "PipelineRun list \<Rightarrow> PipelineRun list \<Rightarrow> bool" where
  "fades ps qs \<longleftrightarrow> (inj_on run_key (set ps) \<longrightarrow> inj_on run_key (set qs)) \<and> (\<forall>q\<in>set qs. \<exists>p\<in>set ps. dims p q)"

lemma dims_refl: "dims p p"
  by (simp add: dims_def)

lemma dims_trans: "dims p q \<Longrightarrow> dims q r \<Longrightarrow> dims p r"
  by (auto simp: dims_def)

lemma fades_refl: "fades ps ps"
  using dims_refl by (auto simp: fades_def)

lemma fades_trans: "fades ps qs \<Longrightarrow> fades qs rs \<Longrightarrow> fades ps rs"
  unfolding fades_def by (meson dims_trans)

text \<open>Of the runs a selector finds: all are ending, none is held, all have the key of \<open>p\<close>.\<close>

definition settled :: "(string \<rightharpoonup> string) \<Rightarrow> PipelineRun list \<Rightarrow> bool" where
  "settled sel ps \<longleftrightarrow> (\<forall>q\<in>set ps. matches sel q \<longrightarrow> ending q)"

definition unheld :: "(string \<rightharpoonup> string) \<Rightarrow> PipelineRun list \<Rightarrow> bool" where
  "unheld sel ps \<longleftrightarrow> (\<forall>q\<in>set ps. matches sel q \<longrightarrow> ReleaseFinalizer \<notin> set (om_Finalizers (pr_meta q)))"

definition keyed :: "(string \<rightharpoonup> string) \<Rightarrow> PipelineRun option \<Rightarrow> PipelineRun list \<Rightarrow> bool" where
  "keyed sel p ps \<longleftrightarrow> (\<forall>q\<in>set ps. matches sel q \<longrightarrow> map_option run_key p = Some (run_key q))"

definition once :: "(string \<rightharpoonup> string) \<Rightarrow> PipelineRun list \<Rightarrow> bool" where
  "once sel ps \<longleftrightarrow> (\<forall>p\<in>set ps. \<forall>q\<in>set ps. matches sel p \<and> matches sel q \<longrightarrow> run_key p = run_key q)"

lemma onceD: "\<lbrakk>once sel ps; p \<in> set ps; q \<in> set ps; matches sel p; matches sel q\<rbrakk> \<Longrightarrow> run_key p = run_key q"
  unfolding once_def by blast

lemma dims_matches: "dims p q \<Longrightarrow> matches sel q = matches sel p"
  by (simp add: dims_def matches_def)

lemma dims_ending: "dims p q \<Longrightarrow> ending p \<Longrightarrow> ending q"
  by (auto simp: dims_def ending_def)

named_theorems stable \<open>what is kept while runs fade away\<close>

lemma faded: "fades ps qs \<Longrightarrow> q \<in> set qs \<Longrightarrow> \<exists>p\<in>set ps. dims p q"
  by (simp add: fades_def)

lemma settled_stable [stable]: "fades ps qs \<Longrightarrow> settled sel ps \<Longrightarrow> settled sel qs"
  unfolding settled_def by (blast dest: faded dims_matches intro: dims_ending)

lemma unheld_stable [stable]: "fades ps qs \<Longrightarrow> unheld sel ps \<Longrightarrow> unheld sel qs"
  unfolding unheld_def by (fastforce dest!: faded simp: dims_def matches_def)

lemma keyed_stable [stable]: "fades ps qs \<Longrightarrow> keyed sel p ps \<Longrightarrow> keyed sel p qs"
  unfolding keyed_def by (fastforce dest!: faded simp: dims_def matches_def)

lemma once_stable [stable]:
  assumes "fades ps qs" "once sel ps"
  shows "once sel qs"
  unfolding once_def
proof (intro ballI impI)
  fix p q assume p: "p \<in> set qs" and q: "q \<in> set qs" and m: "matches sel p \<and> matches sel q"
  obtain p0 where "p0 \<in> set ps" "dims p0 p" using faded [OF assms(1) p] ..
  moreover obtain q0 where "q0 \<in> set ps" "dims q0 q" using faded [OF assms(1) q] ..
  moreover note d = calculation(2,4)
  moreover have "matches sel p0" "matches sel q0" using m by (simp_all add: d [THEN dims_matches, symmetric])
  ultimately have "run_key p0 = run_key q0" by (intro onceD [OF assms(2)])
  then show "run_key p = run_key q" using d by (simp add: dims_def)
qed

lemma inj_stable [stable]: "fades ps qs \<Longrightarrow> inj_on run_key (set ps) \<Longrightarrow> inj_on run_key (set qs)"
  by (simp add: fades_def)

text \<open>The answer of a lookup.\<close>

definition located :: "(string \<rightharpoonup> string) \<Rightarrow> PipelineRun option \<Rightarrow> PipelineRun list \<Rightarrow> bool" where
  "located sel p ps = (case p of None \<Rightarrow> {q \<in> set ps. matches sel q} = {} | Some q \<Rightarrow> q \<in> set ps \<and> matches sel q)"

lemma located_keyed: "located sel p ps \<Longrightarrow> once sel ps \<Longrightarrow> keyed sel p ps"
  unfolding keyed_def
proof (intro ballI impI)
  assume "located sel p ps" and o: "once sel ps"
  fix q assume q: "q \<in> set ps" "matches sel q"
  with \<open>located sel p ps\<close> obtain p0 where p0: "p = Some p0" "p0 \<in> set ps" "matches sel p0"
    by (cases p) (simp_all add: located_def)
  then show "map_option run_key p = Some (run_key q)"
    using onceD [OF o p0(2) q(1) p0(3) q(2)] by simp
qed

lemma located_only:
  "\<lbrakk>located sel (Some p) ps; once sel ps; inj_on run_key (set ps); q \<in> set ps; matches sel q\<rbrakk> \<Longrightarrow> q = p"
  by (rule inj_onD [where f = run_key], assumption, rule onceD [of sel ps]) (simp_all add: located_def)

text \<open>Where the clean-up stands: the selectors in \<open>D\<close> are done, those in \<open>U\<close> find at most one run.\<close>

definition progress :: "(string \<rightharpoonup> string) set \<Rightarrow> (string \<rightharpoonup> string) set \<Rightarrow> PipelineRun list \<Rightarrow> bool" where
  "progress D U ps \<longleftrightarrow> inj_on run_key (set ps) \<and> (\<forall>sel\<in>D. settled sel ps) \<and> (\<forall>sel\<in>U. once sel ps)"

lemma progress_stable [stable]: "fades ps qs \<Longrightarrow> progress D U ps \<Longrightarrow> progress D U qs"
  unfolding progress_def using inj_stable settled_stable once_stable by blast

lemma located_unheld:
  assumes "progress D U ps" "sel \<in> U" "located sel (Some p) ps" "ReleaseFinalizer \<notin> set (om_Finalizers (pr_meta p))"
  shows "unheld sel ps"
  unfolding unheld_def
proof (intro ballI impI)
  fix q assume "q \<in> set ps" "matches sel q"
  then have "q = p" using assms(1,2) located_only [OF assms(3)] unfolding progress_def by blast
  then show "ReleaseFinalizer \<notin> set (om_Finalizers (pr_meta q))" using assms(4) by simp
qed

section \<open>The lookups of a Release\<close>

definition attempt_selector :: "Release \<Rightarrow> int \<Rightarrow> (string \<rightharpoonup> string)" where
  "attempt_selector r i = (run_labels r ManagedPipelineType)(ReleaseAttemptLabel \<mapsto> show_int i)"

text \<open>The selectors of the recorded attempts from number \<open>i\<close> on.\<close>

primrec recorded_selectors :: "Release \<Rightarrow> int \<Rightarrow> PipelineAttempt list \<Rightarrow> (string \<rightharpoonup> string) set" where
  "recorded_selectors r i [] = {}"
| "recorded_selectors r i (a # as) =
     (if pa_PipelineRun a = [] then {} else {attempt_selector r i}) \<union> recorded_selectors r (i + 1) as"

definition selectors :: "Release \<Rightarrow> (string \<rightharpoonup> string) set" where
  "selectors r = {run_labels r ManagedCollectorsPipelineType, run_labels r TenantCollectorsPipelineType,
     run_labels r TenantPipelineType, run_labels r FinalPipelineType} \<union>
     recorded_selectors r 0 (ManagedPipelineAttempts (Status r))"

section \<open>The contract of the API server\<close>

definition lookup_labels :: "string set" where
  "lookup_labels = {ReleaseNameLabel, ReleaseNamespaceLabel, PipelinesTypeLabel, ReleaseAttemptLabel}"

text \<open>
  A list answers with runs that match, with none only if none matches; a get answers with the run of
  that key; an accepted patch replaces the finalizers and an accepted deletion removes the run or
  marks it. The lookups are up to date: the lag of the cache is not part of the contract.
\<close>

lemma dom_run_labels: "dom (run_labels r T) \<subseteq> lookup_labels" "dom (attempt_selector r i) \<subseteq> lookup_labels"
  by (auto simp: run_labels_def attempt_selector_def lookup_labels_def)

locale run_deletion = cleanup_frame E runs fades
  for E :: "'w env" and runs :: "'w \<Rightarrow> PipelineRun list" +
  assumes bindings_quiet [frame_intro]: "\<And>rb. keeps runs (api_DeleteRoleBinding E rb)"
      "\<And>ro. keeps runs (api_DeleteRole E ro)" "\<And>base r. keeps runs (api_PatchRelease E base r)"
    and finalizers: "ContainsFinalizer (lib E) fs f \<longleftrightarrow> f \<in> set fs"
    and listed: "\<lbrakk>run_state (api_ListPipelineRuns E sel 1) w = (Inr ps, w'); dom sel \<subseteq> lookup_labels\<rbrakk> \<Longrightarrow>
      set ps \<subseteq> {p \<in> set (runs w). matches sel p} \<and> (ps = [] \<longrightarrow> {p \<in> set (runs w). matches sel p} = {})"
    and list_absent: "\<lbrakk>run_state (api_ListPipelineRuns E sel 1) w = (Inl e, w'); IsNotFound e\<rbrakk> \<Longrightarrow>
      {p \<in> set (runs w). matches sel p} = {}"
    and fetched: "run_state (api_GetPipelineRun E n ns) w = ((p, None), w') \<Longrightarrow>
      p \<in> set (runs w) \<and> run_key p = (ns, n)"
    and fetch_absent: "\<lbrakk>run_state (api_GetPipelineRun E n ns) w = ((p, Some e), w'); IsNotFound e\<rbrakk> \<Longrightarrow>
      (ns, n) \<notin> run_key ` set (runs w)"
    and patched: "\<lbrakk>run_state (api_PatchFinalizers E p fs) w = (None, w'); p \<in> set (runs w);
      inj_on run_key (set (runs w)); set fs \<subseteq> set (om_Finalizers (pr_meta p))\<rbrakk> \<Longrightarrow> fades (runs w) (runs w') \<and>
      (\<forall>q\<in>set (runs w'). run_key q = run_key p \<longrightarrow> set (om_Finalizers (pr_meta q)) \<subseteq> set fs)"
    and deleted: "\<lbrakk>run_state (api_DeletePipelineRun E p) w = (err, w'); \<not> unexpected err\<rbrakk> \<Longrightarrow>
      fades (runs w) (runs w') \<and>
      (\<forall>q\<in>set (runs w'). run_key q = run_key p \<longrightarrow> om_DeletionTimestamp (pr_meta q) \<noteq> None)"
begin

section \<open>One run\<close>

lemma keeps_delete_binding [frame_intro]: "keeps obs (delete_binding E rb)"
  unfolding delete_binding_def by (intro frame_intro)

lemma keeps_delete_bindings [frame_intro]: "keeps obs (delete_bindings E rbs)"
proof (induction rbs)
  case (Cons rb rbs)
  then show ?case by (cases rb) (auto intro!: frame_intro)
qed (simp add: frame_intro)

lemma cleans_lookup:
  assumes "keeps obs m"
    and "\<And>s a s' p. \<lbrakk>release s = r; run_state m s = (a, s'); expect_run a = Inr p\<rbrakk> \<Longrightarrow> located sel p (runs (world s))"
    and "\<And>p. cleans r (\<lambda>ps. P ps \<and> located sel p ps) Q (k p)"
  shows "cleans r P Q (State_Monad.bind m (\<lambda>run. attempt (ret (expect_run run)) fail_op k))"
proof (rule cleans_learn [where F = "\<lambda>a ps. \<forall>p. expect_run a = Inr p \<longrightarrow> located sel p ps"])
  fix a
  show "cleans r (\<lambda>ps. P ps \<and> (\<forall>p. expect_run a = Inr p \<longrightarrow> located sel p ps)) Q
      (attempt (ret (expect_run a)) fail_op k)"
  proof (cases "expect_run a")
    case (Inr p)
    then show ?thesis using cleans_weaken [OF assms(3) [of p]] by (simp add: attempt_def)
  qed (simp add: attempt_def cleans_fail)
qed (use assms(1,2) in blast)+

lemma cleans_unhold:
  assumes "sel \<in> U"
  shows "cleans r (\<lambda>ps. progress D U ps \<and> located sel (Some p) ps)
    (\<lambda>ps. progress D U ps \<and> keyed sel (Some p) ps \<and> unheld sel ps)
    (do {
       (fresh, err) \<leftarrow> load (api_GetPipelineRun E (om_Name (pr_meta p)) (om_Namespace (pr_meta p)));
       (case err of
          Some e \<Rightarrow> ret (if IsNotFound e then None else Some e)
        | None \<Rightarrow>
            if ContainsFinalizer (lib E) (om_Finalizers (pr_meta fresh)) ReleaseFinalizer
            then load (api_PatchFinalizers E fresh
              (filter (\<lambda>f. f \<noteq> ReleaseFinalizer) (om_Finalizers (pr_meta fresh))))
            else ret None)
     })" (is "cleans r ?P ?Q ?m")
proof (rule cleansI)
  fix s s' assume r: "release s = r" and P: "?P (runs (world s))" and run: "run_state ?m s = (None, s')"
  obtain fresh err w1 where
    get: "run_state (api_GetPipelineRun E (om_Name (pr_meta p)) (om_Namespace (pr_meta p))) (world s) = ((fresh, err), w1)"
    by (cases "run_state (api_GetPipelineRun E (om_Name (pr_meta p)) (om_Namespace (pr_meta p))) (world s)") force
  have w1: "runs w1 = runs (world s)" using keepsD [OF quiet_effects(12)] get by (metis snd_conv)
  have p: "p \<in> set (runs (world s))" using P by (simp add: located_def)
  have keyed: "keyed sel (Some p) (runs (world s))" using P assms located_keyed by (simp add: progress_def)
  have "err = None" using run get fetch_absent [of _ _ "world s" fresh _ w1] p
    by (auto simp: load_def split: option.splits if_splits)
  then have fresh: "fresh \<in> set (runs (world s))" "run_key fresh = run_key p"
    using fetched get by blast+
  show "release s' = r \<and> fades (runs (world s)) (runs (world s')) \<and> ?Q (runs (world s'))"
  proof (cases "ReleaseFinalizer \<in> set (om_Finalizers (pr_meta fresh))")
    case True
    let ?fs = "filter (\<lambda>f. f \<noteq> ReleaseFinalizer) (om_Finalizers (pr_meta fresh))"
    obtain w2 where patch: "run_state (api_PatchFinalizers E fresh ?fs) w1 = (None, w2)" and s': "s' = s\<lparr>world := w2\<rparr>"
      using run get True \<open>err = None\<close>
      by (cases "run_state (api_PatchFinalizers E fresh ?fs) w1") (simp add: load_def finalizers)
    have inj: "inj_on run_key (set (runs w1))" using P w1 by (simp add: progress_def)
    have f: "fades (runs w1) (runs w2)" and fin: "\<forall>q\<in>set (runs w2). run_key q = run_key fresh \<longrightarrow>
        set (om_Finalizers (pr_meta q)) \<subseteq> set ?fs"
      using patched [OF patch _ inj] fresh(1) w1 by simp_all
    have "keyed sel (Some p) (runs w2)" using keyed_stable f keyed w1 by simp
    moreover from this have "unheld sel (runs w2)" using fin fresh(2) by (fastforce simp: keyed_def unheld_def)
    ultimately show ?thesis using f w1 s' r P progress_stable by simp
  next
    case False
    then have s': "s' = s\<lparr>world := w1\<rparr>" using run get \<open>err = None\<close> by (simp add: load_def finalizers)
    have "fresh = p" using P p fresh by (intro inj_onD [where f = run_key]) (simp_all add: progress_def)
    then have "unheld sel (runs (world s))" using located_unheld P assms False by blast
    then show ?thesis using r s' w1 P keyed fades_refl by simp
  qed
qed

lemma cleans_cleanup:
  assumes "sel \<in> U"
  shows "cleans r (\<lambda>ps. progress D U ps \<and> located sel p ps)
    (\<lambda>ps. progress D U ps \<and> keyed sel p ps \<and> unheld sel ps) (cleanupProcessingResources E p bs)"
proof (cases p)
  case None
  have "keyed sel None ps \<and> unheld sel ps" if "located sel None ps" for ps
    using that by (simp add: located_def keyed_def unheld_def)
  then show ?thesis
    unfolding None cleanupProcessingResources_def
    by (intro cleans_bind frame_intro, simp) (intro cleans_weaken [OF cleans_done], assumption, blast)
next
  case (Some p0)
  have keyed: "keyed sel (Some p0) ps" if "progress D U ps" "located sel (Some p0) ps" for ps
    using that assms located_keyed unfolding progress_def by blast
  show ?thesis
  proof (cases "ReleaseFinalizer \<in> set (om_Finalizers (pr_meta p0))")
    case True
    then show ?thesis
      unfolding Some cleanupProcessingResources_def option.case finalizers
      by (simp only: if_True) (rule cleans_bind [OF keeps_delete_bindings], rule cleans_unhold [OF assms, unfolded finalizers])
  next
    case False
    then have "unheld sel ps" if "progress D U ps" "located sel (Some p0) ps" for ps
      using that assms located_unheld by blast
    with False keyed show ?thesis
      unfolding Some cleanupProcessingResources_def option.case finalizers
      by (simp only: if_False) (intro cleans_bind frame_intro, rule cleans_weaken [OF cleans_done], assumption, blast)
  qed
qed

lemma cleans_delete:
  "cleans r (\<lambda>ps. progress D U ps \<and> keyed sel p ps \<and> unheld sel ps) (progress (insert sel D) U) (delete_run E True p)"
proof (rule cleansI)
  fix s s' assume P: "progress D U (runs (world s)) \<and> keyed sel p (runs (world s)) \<and> unheld sel (runs (world s))"
    and r: "release s = r" and run: "run_state (delete_run E True p) s = (None, s')"
  show "release s' = r \<and> fades (runs (world s)) (runs (world s')) \<and> progress (insert sel D) U (runs (world s'))"
  proof (cases p)
    case None
    then have "settled sel (runs (world s))" using P by (simp add: keyed_def settled_def)
    then show ?thesis using None P r run by (simp add: delete_run_def fades_refl progress_def)
  next
    case (Some p0)
    then obtain err w' where del: "run_state (api_DeletePipelineRun E p0) (world s) = (err, w')" "\<not> unexpected err"
      and s': "s' = s\<lparr>world := w'\<rparr>"
      using run
      by (cases "run_state (api_DeletePipelineRun E p0) (world s)")
         (simp add: delete_run_def load_def unexpected_def split: option.splits if_splits)
    have f: "fades (runs (world s)) (runs w')" using deleted [OF del] by simp
    have "keyed sel p (runs w')" "unheld sel (runs w')" using stable [OF f] P by blast+
    then have "settled sel (runs w')"
      using deleted [OF del] by (simp add: Some settled_def keyed_def unheld_def ending_def)
    moreover have "progress D U (runs w')" using progress_stable [OF f] P by blast
    ultimately show ?thesis using f r by (simp add: s' progress_def)
  qed
qed

lemma cleans_round:
  assumes "sel \<in> U" "cleans r (progress (insert sel D) U) Q k"
  shows "cleans r (\<lambda>ps. progress D U ps \<and> located sel p ps) Q
    (and_then (cleanupProcessingResources E p bs) (and_then (delete_run E True p) k))"
  by (rule cleans_and_then [OF cleans_cleanup [OF assms(1)]], rule cleans_and_then [OF cleans_delete assms(2)])

lemma cleans_last_round:
  "sel \<in> U \<Longrightarrow> cleans r (\<lambda>ps. progress D U ps \<and> located sel p ps) (progress (insert sel D) U)
     (and_then (cleanupProcessingResources E p bs) (delete_run E True p))"
  by (rule cleans_and_then [OF cleans_cleanup cleans_delete])

lemma keeps_cleanup_bindings [frame_intro]: "keeps obs (cleanupProcessingResources E None bs)"
  unfolding cleanupProcessingResources_def option.case by (intro frame_intro)

section \<open>Finding the runs\<close>

lemma list_locates:
  assumes "run_state (api_ListPipelineRuns E sel 1) w = (res, w')" "dom sel \<subseteq> lookup_labels"
    and "expect_run (first_run res) = Inr p"
  shows "located sel p (runs w)"
proof (cases res)
  case (Inl e)
  then have "p = None" "IsNotFound e"
    using assms(3) by (simp_all add: first_run_def expect_run_def unexpected_def split: if_splits)
  then show ?thesis using list_absent assms(1) Inl by (simp add: located_def)
next
  case (Inr ps)
  with assms(3) have "p = (case ps of [] \<Rightarrow> None | q # _ \<Rightarrow> Some q)"
    by (cases ps) (simp_all add: first_run_def expect_run_def unexpected_def)
  then show ?thesis
    using listed [OF assms(1) [unfolded Inr] assms(2)] by (cases ps) (simp_all add: located_def)
qed

lemma run_located:
  "\<lbrakk>release s = r; run_state (get_run E T) s = (a, s'); expect_run a = Inr p\<rbrakk> \<Longrightarrow>
   located (run_labels r T) p (runs (world s))"
  by (cases "run_state (api_ListPipelineRuns E (run_labels r T) 1) (world s)")
     (auto simp: get_run_def GetReleasePipelineRun_def load_def
       intro: list_locates [unfolded One_nat_def, OF _ dom_run_labels(1)])

lemma attempt_located:
  "\<lbrakk>0 \<le> i; release s = r; run_state (get_run_attempt E i) s = (a, s'); expect_run a = Inr p\<rbrakk> \<Longrightarrow>
   located (attempt_selector r i) p (runs (world s))"
  by (cases "run_state (api_ListPipelineRuns E (attempt_selector r i) 1) (world s)")
     (auto simp: get_run_attempt_def GetReleasePipelineRunAttempt_def load_def
       simp flip: attempt_selector_def intro: list_locates [unfolded One_nat_def, OF _ dom_run_labels(2)])

lemma cleans_get_run:
  "(\<And>p. cleans r (\<lambda>ps. P ps \<and> located (run_labels r T) p ps) Q (k p)) \<Longrightarrow>
   cleans r P Q (State_Monad.bind (get_run E T) (\<lambda>run. attempt (ret (expect_run run)) fail_op k))"
  by (rule cleans_lookup [OF keeps_get(1) run_located])

lemma cleans_get_attempt:
  "\<lbrakk>0 \<le> i; \<And>p. cleans r (\<lambda>ps. P ps \<and> located (attempt_selector r i) p ps) Q (k p)\<rbrakk> \<Longrightarrow>
   cleans r P Q (State_Monad.bind (get_run_attempt E i) (\<lambda>run. attempt (ret (expect_run run)) fail_op k))"
  by (rule cleans_lookup [OF keeps_get(2) attempt_located])

lemma cleans_attempts:
  "\<lbrakk>0 \<le> i; recorded_selectors r i as \<subseteq> U\<rbrakk> \<Longrightarrow>
   cleans r (progress D U) (progress (D \<union> recorded_selectors r i as) U) (finalize_attempts E True i as)"
proof (induction as arbitrary: i D)
  case Nil
  then show ?case by (simp add: cleans_done)
next
  case (Cons a as)
  show ?case
  proof (cases "pa_PipelineRun a = []")
    case True
    then show ?thesis using Cons by simp
  next
    case False
    let ?sel = "attempt_selector r i"
    have next_: "cleans r (progress (insert ?sel D) U) (progress (D \<union> recorded_selectors r i (a # as)) U)
        (finalize_attempts E True (i + 1) as)"
      using Cons.IH [of "i + 1" "insert ?sel D"] Cons.prems False by simp
    have "cleans r (\<lambda>ps. progress D U ps \<and> located ?sel p ps) (progress (D \<union> recorded_selectors r i (a # as)) U)
      (case p of None \<Rightarrow> finalize_attempts E True (i + 1) as
       | Some p \<Rightarrow> and_then (cleanupProcessingResources E (Some p) [])
           (and_then (delete_run E True (Some p)) (finalize_attempts E True (i + 1) as)))" for p
    proof (cases p)
      case None
      have "progress (insert ?sel D) U ps" if "progress D U ps \<and> located ?sel None ps" for ps
        using that by (simp add: progress_def located_def settled_def)
      then show ?thesis unfolding None option.case by (intro cleans_weaken [OF next_]) blast+
    next
      case (Some p0)
      show ?thesis unfolding Some option.case using Cons.prems False by (intro cleans_round next_) simp
    qed
    then show ?thesis using False Cons.prems by (simp add: cleans_get_attempt del: recorded_selectors.simps)
  qed
qed

section \<open>The whole clean-up\<close>

lemma cleans_finalizeRelease:
  "cleans r (progress {} (selectors r)) (progress (selectors r) (selectors r)) (finalizeRelease E True)"
proof -
  let ?R = "recorded_selectors r 0 (ManagedPipelineAttempts (Status r))"
  let ?D = "{run_labels r TenantPipelineType, run_labels r TenantCollectorsPipelineType,
    run_labels r ManagedCollectorsPipelineType}"
  have all: "insert (run_labels r FinalPipelineType) (?D \<union> ?R) = selectors r" by (auto simp: selectors_def)
  have sub: "?R \<subseteq> selectors r" by (auto simp: selectors_def)
  have last: "cleans r (\<lambda>ps. progress (?D \<union> ?R) (selectors r) ps \<and> located (run_labels r FinalPipelineType) p ps)
      (progress (selectors r) (selectors r)) (and_then (cleanupProcessingResources E p [None]) (delete_run E True p))" for p
    using cleans_last_round [of "run_labels r FinalPipelineType" "selectors r" r "?D \<union> ?R"] unfolding all
    by (simp only: selectors_def Un_iff insert_iff simp_thms)
  have quiet: "cleans r P P (cleanupProcessingResources E None bs)" for P bs
    by (intro cleans_quiet frame_intro)
  show ?thesis
    unfolding finalizeRelease_def
    apply (rule cleans_gets)
    apply (rule cleans_get_run)
    apply (rule cleans_attempt [OF keeps_get(3)])+
    apply (rule cleans_round, simp add: selectors_def)
    apply (rule cleans_get_run)
    apply (rule cleans_attempt [OF keeps_get(3)])+
    apply (rule cleans_round, simp add: selectors_def)
    apply (rule cleans_get_run)
    apply (rule cleans_round, simp add: selectors_def)
    apply (rule cleans_attempt [OF keeps_get(4)])
    apply (rule cleans_and_then [OF quiet])
    apply (rule cleans_and_then [OF cleans_attempts [OF _ sub]], simp)
    apply (rule cleans_get_run)
    apply (rule last)
    done
qed

lemma finalized_runs:
  "\<lbrakk>progress {} (selectors (release s)) (runs (world s)); run_state (finalizeRelease E True) s = (None, s')\<rbrakk> \<Longrightarrow>
   progress (selectors (release s)) (selectors (release s)) (runs (world s'))"
  by (rule cleansD [OF cleans_finalizeRelease refl])

end

text \<open>
  C15. A deleted Release leaves no PipelineRun behind: when the finalizer of the Release is given up,
  every run that its clean-up looks for (the runs of both collectors, the tenant and the final
  pipeline, and the recorded attempts of the managed pipeline) is gone, or is being deleted and no
  longer held by the finalizer of the service, provided there was at most one run to each lookup.
\<close>

theorem deletion_leaves_no_run:
  assumes "run_deletion E runs" "om_DeletionTimestamp (rel_meta (release s)) \<noteq> None"
    and "ReleaseFinalizer \<in> set (om_Finalizers (rel_meta (release s)))"
    and "inj_on run_key (set (runs (world s)))" "\<forall>sel\<in>selectors (release s). once sel (runs (world s))"
    and "run_state (EnsureFinalizersAreCalled E) s = (Requeue, s')"
    and "q \<in> set (runs (world s'))" "sel \<in> selectors (release s)" "matches sel q"
  shows "ending q"
proof -
  note rd = run_deletion.finalizers [OF assms(1)] run_deletion.bindings_quiet(3) [OF assms(1)]
  obtain s1 where fin: "run_state (finalizeRelease E True) s = (None, s1)" and s1: "runs (world s') = runs (world s1)"
    using finalizers_succeed [OF assms(6,2) _ rd(2)] assms(3) rd(1) by blast
  have "progress {} (selectors (release s)) (runs (world s))" using assms(4,5) by (simp add: progress_def)
  then have "progress (selectors (release s)) (selectors (release s)) (runs (world s1))"
    using run_deletion.finalized_runs [OF assms(1)] fin by blast
  then show ?thesis using assms(7-9) s1 by (simp add: progress_def settled_def)
qed

section \<open>The example cluster\<close>

lemma selects_matches: "dom sel \<subseteq> lookup_labels \<Longrightarrow> selects sel (om_Labels (pr_meta p)) \<longleftrightarrow> matches sel p"
  unfolding selects_def matches_def map_le_def selected_labels_def lookup_labels_def
  by (auto simp: dom_def subset_iff)

lemma update_run_fades:
  assumes "\<And>y. \<lbrakk>y \<in> set ys; same_object (pr_meta x) (pr_meta y)\<rbrakk> \<Longrightarrow> dims y (pr_meta_update f y)"
  shows "fades ys (update_run x f ys)"
proof -
  let ?g = "\<lambda>y. if same_object (pr_meta x) (pr_meta y) then pr_meta_update f y else y"
  have g: "dims y (?g y)" if "y \<in> set ys" for y using assms that dims_refl by simp
  have sub: "set (update_run x f ys) \<subseteq> ?g ` set ys" unfolding update_run_def by (simp add: subset_iff)
  have "inj_on run_key (?g ` set ys)" if "inj_on run_key (set ys)"
  proof (rule inj_onI)
    fix a b assume "a \<in> ?g ` set ys" "b \<in> ?g ` set ys" and k: "run_key a = run_key b"
    then obtain a0 b0 where ab: "a0 \<in> set ys" "b0 \<in> set ys" "a = ?g a0" "b = ?g b0" by blast
    then have "run_key a0 = run_key b0" using g [OF ab(1)] g [OF ab(2)] k by (simp only: dims_def)
    then show "a = b" using inj_onD [OF that _ ab(1,2)] ab(3,4) by simp
  qed
  moreover have "\<exists>p\<in>set ys. dims p q" if q: "q \<in> set (update_run x f ys)" for q
    using subsetD [OF sub q] g by blast
  ultimately show ?thesis using sub unfolding fades_def by (meson inj_on_subset)
qed

lemma update_run_meta:
  assumes "q \<in> set (update_run x f ys)" "\<And>m. om_Name (f m) = om_Name m \<and> om_Namespace (f m) = om_Namespace m"
    and "run_key q = run_key x"
  shows "\<exists>m. pr_meta q = f m"
  using assms unfolding update_run_def
  by (auto simp: same_object_def split: if_splits)

lemma cluster_run_deletion: "run_deletion cluster_env cl_runs"
proof (intro run_deletion.intro cleanup_frame.intro cleanup_frame_axioms.intro run_deletion_axioms.intro fades_refl)
  show "quiet_reads cluster_env cl_runs" by (rule cluster_runs.quiet_reads_axioms)
next
  fix ps qs rs assume "fades ps qs" "fades qs rs"
  then show "fades ps rs" by (rule fades_trans)
next
  fix sel w ps w'
  assume "run_state (api_ListPipelineRuns cluster_env sel 1) w = (Inr ps, w')" "dom sel \<subseteq> lookup_labels"
  then have "ps = take 1 (filter (matches sel) (cl_runs w))" by (auto simp: cluster_env_def selects_matches)
  then show "set ps \<subseteq> {p \<in> set (cl_runs w). matches sel p} \<and>
      (ps = [] \<longrightarrow> {p \<in> set (cl_runs w). matches sel p} = {})"
    by (auto dest: in_set_takeD simp: filter_empty_conv)
next
  fix n ns w p w'
  assume "run_state (api_GetPipelineRun cluster_env n ns) w = ((p, None), w')"
  then obtain ps where "filter (\<lambda>x. om_Name (pr_meta x) = n \<and> om_Namespace (pr_meta x) = ns) (cl_runs w) = p # ps"
    by (auto simp: cluster_env_def get_object_def split: list.splits)
  then have "p \<in> set (filter (\<lambda>x. om_Name (pr_meta x) = n \<and> om_Namespace (pr_meta x) = ns) (cl_runs w))"
    by simp
  then show "p \<in> set (cl_runs w) \<and> run_key p = (ns, n)" by simp
next
  fix n ns w p e w'
  assume "run_state (api_GetPipelineRun cluster_env n ns) w = ((p, Some e), w')"
  then have "filter (\<lambda>x. om_Name (pr_meta x) = n \<and> om_Namespace (pr_meta x) = ns) (cl_runs w) = []"
    by (auto simp: cluster_env_def get_object_def split: list.splits)
  then show "(ns, n) \<notin> run_key ` set (cl_runs w)" by (auto simp: filter_empty_conv)
next
  fix p fs w w'
  assume p: "p \<in> set (cl_runs w)" "inj_on run_key (set (cl_runs w))" "set fs \<subseteq> set (om_Finalizers (pr_meta p))"
    and run: "run_state (api_PatchFinalizers cluster_env p fs) w = (None, w')"
  have w': "cl_runs w' = update_run p (om_Finalizers_update (\<lambda>_. fs)) (cl_runs w)"
    using run by (auto simp: cluster_env_def)
  have "dims y (pr_meta_update (om_Finalizers_update (\<lambda>_. fs)) y)"
    if "y \<in> set (cl_runs w)" "same_object (pr_meta p) (pr_meta y)" for y
    using inj_onD [OF p(2) _ p(1) that(1)] that(2) p(3) by (simp add: dims_def same_object_def)
  moreover have "set (om_Finalizers (pr_meta q)) \<subseteq> set fs" if "q \<in> set (cl_runs w')" "run_key q = run_key p" for q
    using update_run_meta [of q p "om_Finalizers_update (\<lambda>_. fs)" "cl_runs w"] that w' by fastforce
  ultimately show "fades (cl_runs w) (cl_runs w') \<and>
      (\<forall>q\<in>set (cl_runs w'). run_key q = run_key p \<longrightarrow> set (om_Finalizers (pr_meta q)) \<subseteq> set fs)"
    unfolding w' using update_run_fades by blast
next
  fix p err w w'
  assume run: "run_state (api_DeletePipelineRun cluster_env p) w = (err, w')"
  let ?f = "om_DeletionTimestamp_update (\<lambda>_. Some (cl_clock w))"
  have w': "cl_runs w' = update_run p ?f (cl_runs w)" using run by (auto simp: cluster_env_def)
  moreover have "fades (cl_runs w) (update_run p ?f (cl_runs w))"
    by (rule update_run_fades) (simp add: dims_def)
  moreover have "om_DeletionTimestamp (pr_meta q) \<noteq> None" if "q \<in> set (cl_runs w')" "run_key q = run_key p" for q
    using update_run_meta [of q p ?f "cl_runs w"] that w' by fastforce
  ultimately show "fades (cl_runs w) (cl_runs w') \<and>
      (\<forall>q\<in>set (cl_runs w'). run_key q = run_key p \<longrightarrow> om_DeletionTimestamp (pr_meta q) \<noteq> None)"
    by simp
qed (auto simp: cluster_env_def cluster_lib_def keeps_def patch_the_release_def Let_def)

interpretation cluster_deletion: run_deletion cluster_env cl_runs
  by (rule cluster_run_deletion)

text \<open>A run of a deleted Release that Tekton Chains still holds.\<close>

definition held_run :: PipelineRun where
  "held_run = tenant_run\<lparr>pr_meta := (pr_meta tenant_run)\<lparr>om_Finalizers := [ReleaseFinalizer, ''chains.tekton.dev'']\<rparr>\<rparr>"

definition leaving_cluster :: cluster where
  "leaving_cluster = demo_cluster\<lparr>cl_release := demo_release\<lparr>rel_meta :=
     (rel_meta demo_release)\<lparr>om_DeletionTimestamp := Some 95, om_Finalizers := [ReleaseFinalizer]\<rparr>\<rparr>, cl_runs := [held_run]\<rparr>"

definition leaving_state :: "cluster adapter" where
  "leaving_state = newAdapter (cl_release leaving_cluster) leaving_cluster"

lemma leaving_runs:
  "fst (run_state (EnsureFinalizersAreCalled cluster_env) leaving_state) = Requeue"
  "map (\<lambda>q. selects (run_labels demo_release TenantPipelineType) (om_Labels (pr_meta q)))
     (cl_runs (world (snd (run_state (EnsureFinalizersAreCalled cluster_env) leaving_state)))) = [True]"
  by code_simp+

theorem deletion_leaves_no_run_witness:
  "\<exists>q. cl_runs (world (snd (run_state (EnsureFinalizersAreCalled cluster_env) leaving_state))) = [q] \<and> ending q"
proof -
  let ?s' = "snd (run_state (EnsureFinalizersAreCalled cluster_env) leaving_state)"
  have run: "run_state (EnsureFinalizersAreCalled cluster_env) leaving_state = (Requeue, ?s')"
    using leaving_runs(1) by (simp add: prod_eq_iff)
  obtain q where q: "cl_runs (world ?s') = [q]" "selects (run_labels demo_release TenantPipelineType) (om_Labels (pr_meta q))"
    using leaving_runs(2) by (auto simp: map_eq_Cons_conv)
  have runs: "cl_runs (world leaving_state) = [held_run]" and rel: "release leaving_state = cl_release leaving_cluster"
    by (simp_all add: leaving_state_def newAdapter_def leaving_cluster_def)
  have labels: "run_labels (release leaving_state) = run_labels demo_release"
    by (simp add: rel leaving_cluster_def run_labels_def fun_eq_iff)
  have "ending q"
  proof (rule deletion_leaves_no_run [OF cluster_run_deletion _ _ _ _ run, where sel = "run_labels demo_release TenantPipelineType"])
    show "inj_on run_key (set (cl_runs (world leaving_state)))" by (simp add: runs)
    show "\<forall>sel\<in>selectors (release leaving_state). once sel (cl_runs (world leaving_state))"
      by (simp add: runs once_def)
    show "run_labels demo_release TenantPipelineType \<in> selectors (release leaving_state)"
      by (simp add: selectors_def labels)
  qed (use q selects_matches dom_run_labels(1) in \<open>simp_all add: rel leaving_cluster_def\<close>)
  with q show ?thesis by blast
qed

text \<open>
  The clean-up looks for managed runs by the recorded attempts only. If the patch that records a new
  attempt was lost and the Release is deleted before the next reconcile, the run stays, held by the
  finalizer of the service, and the Release goes.
\<close>

definition unrecorded_attempt :: PipelineRun where
  "unrecorded_attempt = tenant_run\<lparr>pr_meta := (pr_meta tenant_run)\<lparr>
     om_Labels := Some (attempt_selector demo_release 0), om_Finalizers := [ReleaseFinalizer]\<rparr>\<rparr>"

theorem unrecorded_attempt_left:
  "map (\<lambda>q. (om_DeletionTimestamp (pr_meta q), om_Finalizers (pr_meta q)))
     (cl_runs (world (snd (run_state (EnsureFinalizersAreCalled cluster_env)
       (newAdapter (cl_release leaving_cluster) (leaving_cluster\<lparr>cl_runs := [unrecorded_attempt]\<rparr>)))))) =
   [(None, [ReleaseFinalizer])] \<and>
   om_Finalizers (rel_meta (cl_release (world (snd (run_state (EnsureFinalizersAreCalled cluster_env)
     (newAdapter (cl_release leaving_cluster) (leaving_cluster\<lparr>cl_runs := [unrecorded_attempt]\<rparr>))))))) = []"
  by code_simp

end
