(* ===== verification/Binding_Cleanup.thy ===== *)
theory Binding_Cleanup
  imports Cluster Cleanup_Logic
begin

text \<open>
  What is left of the RoleBindings of a Release that is deleted. The pipelines of a Release get access
  to namespaces through RoleBindings that the status records by reference; \<open>finalizeRelease\<close> of
  \<open>src/controllers/release/adapter.go\<close> reads the references and deletes what they name. Locale
  \<open>binding_deletion\<close> is the contract of the API server for RoleBindings.
\<close>

section \<open>Recorded RoleBindings\<close>

abbreviation binding_key :: "RoleBinding \<Rightarrow> string \<times> string" where
  "binding_key rb \<equiv> (om_Namespace (rb_meta rb), om_Name (rb_meta rb))"

text \<open>The namespace and name a reference of the status names; none if it is malformed or empty.\<close>

definition ref_keys :: "string \<Rightarrow> (string \<times> string) set" where
  "ref_keys ref = {(ns, n). split_on (CHR ''/'') ref = [ns, n]}"

lemma ref_keys_empty [simp]: "ref_keys [] = {}"
  by (simp add: ref_keys_def)

text \<open>The reference that a kind selects.\<close>

definition recorded_ref :: "PipelineInfo \<Rightarrow> string \<Rightarrow> string" where
  "recorded_ref info kind = (if kind = ''tenant'' then TenantRoleBinding (pi_RoleBindings info)
     else if kind = ''managed'' then ManagedRoleBinding (pi_RoleBindings info)
     else SecretRoleBinding (pi_RoleBindings info))"

definition attempt_ref :: "PipelineAttempt option \<Rightarrow> string" where
  "attempt_ref a = (case a of None \<Rightarrow> [] | Some b \<Rightarrow> TenantRoleBinding (pa_RoleBindings b))"

text \<open>
  The references that \<open>finalizeRelease\<close> reads: those of both collectors pipelines and of the first
  managed attempt.
\<close>

definition read_refs :: "Release \<Rightarrow> string list" where
  "read_refs r = map (recorded_ref (managedCollectors_info r)) [''tenant'', ''managed'', ''secret''] @
     map (recorded_ref (tenantCollectors_info r)) [''tenant'', ''secret''] @
     [attempt_ref (case ManagedPipelineAttempts (Status r) of [] \<Rightarrow> None | a # _ \<Rightarrow> Some a)]"

text \<open>
  All references that the service writes into the status. Those of the managed pipeline are the one
  beside the PipelineRun and one for each attempt.
\<close>

definition managed_refs :: "Release \<Rightarrow> string list" where
  "managed_refs r = TenantRoleBinding (pi_RoleBindings (ManagedProcessing (Status r))) #
     map (\<lambda>a. TenantRoleBinding (pa_RoleBindings a)) (ManagedPipelineAttempts (Status r))"

definition recorded_refs :: "Release \<Rightarrow> string list" where
  "recorded_refs r = map (recorded_ref (managedCollectors_info r)) [''tenant'', ''managed'', ''secret''] @
     map (recorded_ref (tenantCollectors_info r)) [''tenant'', ''secret''] @ managed_refs r"

text \<open>The managed pipeline has at most one RoleBinding, and its first attempt refers to it.\<close>

definition one_managed_binding :: "Release \<Rightarrow> bool" where
  "one_managed_binding r \<longleftrightarrow> (\<forall>ref\<in>set (managed_refs r). ref = [] \<or>
     (\<exists>a as. ManagedPipelineAttempts (Status r) = a # as \<and> ref = TenantRoleBinding (pa_RoleBindings a)))"

lemma recorded_refs_read:
  "one_managed_binding r \<Longrightarrow> ref \<in> set (recorded_refs r) \<Longrightarrow> ref \<noteq> [] \<Longrightarrow> ref \<in> set (read_refs r)"
  by (auto simp: one_managed_binding_def recorded_refs_def read_refs_def attempt_ref_def)

abbreviation named_by :: "string list \<Rightarrow> (string \<times> string) set" where
  "named_by refs \<equiv> \<Union> (ref_keys ` set refs)"

text \<open>Deletions of RoleBindings are not refused; an answer that there is none is no refusal.\<close>

definition deletes_granted :: "'w env \<Rightarrow> bool" where
  "deletes_granted E \<longleftrightarrow> (\<forall>rb w. \<not> unexpected (fst (run_state (api_DeleteRoleBinding E rb) w)))"

section \<open>Bindings that are gone\<close>

definition shrinks :: "RoleBinding list \<Rightarrow> RoleBinding list \<Rightarrow> bool" where
  "shrinks bs bs' \<longleftrightarrow> set bs' \<subseteq> set bs"

definition gone :: "(string \<times> string) set \<Rightarrow> RoleBinding list \<Rightarrow> bool" where
  "gone D bs \<longleftrightarrow> D \<inter> binding_key ` set bs = {}"

text \<open>The answer \<open>rb\<close> of a lookup tells all about a reference: what it names is \<open>rb\<close> or not there.\<close>

definition covers :: "string \<Rightarrow> RoleBinding option \<Rightarrow> RoleBinding list \<Rightarrow> bool" where
  "covers ref rb bs \<longleftrightarrow> gone (ref_keys ref - set_option (map_option binding_key rb)) bs"

lemma gone_shrinks: "shrinks bs bs' \<Longrightarrow> gone D bs \<Longrightarrow> gone D bs'"
  by (auto simp: shrinks_def gone_def)

lemma gone_Un: "gone (D \<union> D') bs \<longleftrightarrow> gone D bs \<and> gone D' bs"
  by (auto simp: gone_def)

lemma gone_insert: "gone (insert k D) bs \<longleftrightarrow> k \<notin> binding_key ` set bs \<and> gone D bs"
  by (auto simp: gone_def)

lemma gone_empty [simp]: "gone {} bs"
  by (simp add: gone_def)

lemma gone_mono: "gone D bs \<Longrightarrow> D' \<subseteq> D \<Longrightarrow> gone D' bs"
  by (auto simp: gone_def)

abbreviation found :: "RoleBinding option list \<Rightarrow> (string \<times> string) set" where
  "found rbs \<equiv> {binding_key rb |rb. Some rb \<in> set rbs}"

definition covered :: "string list \<Rightarrow> RoleBinding option list \<Rightarrow> RoleBinding list \<Rightarrow> bool" where
  "covered refs rbs bs \<longleftrightarrow> gone (named_by refs - found rbs) bs"

lemma covered_Nil [simp]: "covered [] [] bs"
  by (simp add: covered_def)

lemma covered_snoc: "covered refs rbs bs \<Longrightarrow> covers ref rb bs \<Longrightarrow> covered (refs @ [ref]) (rbs @ [rb]) bs"
  by (cases rb) (auto simp: covered_def covers_def gone_def)

lemma covered_gone: "covered refs rbs bs \<Longrightarrow> gone (found rbs) bs \<Longrightarrow> gone (named_by refs) bs"
  by (auto simp: covered_def gone_def)

lemma covered_shrinks: "shrinks bs bs' \<Longrightarrow> covered refs rbs bs \<Longrightarrow> covered refs rbs bs'"
  unfolding covered_def by (rule gone_shrinks)

section \<open>The contract of the API server\<close>

text \<open>
  A get answers with the binding of that key, or that there is none, and never with an error of the
  service's own; a deletion that is not refused removes the binding.
\<close>

locale binding_deletion = cleanup_frame E bindings shrinks
  for E :: "'w env" and bindings :: "'w \<Rightarrow> RoleBinding list" +
  assumes others_quiet [frame_intro]: "\<And>ro. keeps bindings (api_DeleteRole E ro)"
      "\<And>p. keeps bindings (api_DeletePipelineRun E p)" "\<And>p fs. keeps bindings (api_PatchFinalizers E p fs)"
      "\<And>base r. keeps bindings (api_PatchRelease E base r)"
    and finalizers: "ContainsFinalizer (lib E) fs f \<longleftrightarrow> f \<in> set fs"
    and got: "run_state (api_GetRoleBinding E n ns) w = ((rb, None), w') \<Longrightarrow> binding_key rb = (ns, n)"
    and absent: "\<lbrakk>run_state (api_GetRoleBinding E n ns) w = ((rb, Some e), w'); IsNotFound e\<rbrakk> \<Longrightarrow>
      (ns, n) \<notin> binding_key ` set (bindings w)"
    and server_error: "run_state (api_GetRoleBinding E n ns) w = ((rb, Some e), w') \<Longrightarrow>
      \<not> is_sentinel ErrInvalidRoleBindingRef e"
    and removed: "run_state (api_DeleteRoleBinding E rb) w = (err, w') \<Longrightarrow> shrinks (bindings w) (bindings w') \<and>
      (\<not> unexpected err \<longrightarrow> binding_key rb \<notin> binding_key ` set (bindings w'))"
begin

section \<open>Looking up a binding\<close>

lemma role_binding_covers:
  assumes "run_state (get_role_binding E ref) w = (res, w')"
    and "expect_binding (case res of Inl e \<Rightarrow> (None, Some e) | Inr rb \<Rightarrow> (Some rb, None)) = Inr x"
  shows "covers ref x (bindings w)"
proof (cases "\<exists>ns n. split_on (CHR ''/'') ref = [ns, n]")
  case True
  then obtain ns n where ref: "split_on (CHR ''/'') ref = [ns, n]" by blast
  then have keys: "ref_keys ref = {(ns, n)}" by (auto simp: ref_keys_def)
  obtain rb err w1 where get: "run_state (api_GetRoleBinding E n ns) w = ((rb, err), w1)"
    by (cases "run_state (api_GetRoleBinding E n ns) w") force
  show ?thesis
  proof (cases err)
    case None
    then have "x = Some rb" using assms ref get
      by (auto simp: get_role_binding_def expect_binding_def unexpected_ref_def)
    then show ?thesis using got get None keys by (simp add: covers_def)
  next
    case (Some e)
    then have "x = None \<and> IsNotFound e" using assms ref get server_error [of n ns w rb e w1]
      by (auto simp: get_role_binding_def expect_binding_def unexpected_ref_def split: if_splits)
    then show ?thesis using absent get Some keys by (simp add: covers_def gone_def)
  qed
qed (simp add: covers_def ref_keys_def gone_def)

lemma binding_covers:
  assumes "run_state (get_binding E info kind) s = (Inr x, s')" "kind \<in> {''tenant'', ''managed'', ''secret''}"
  shows "covers (recorded_ref (info (release s)) kind) x (bindings (world s))"
proof -
  have eq: "GetRoleBindingFromReleaseStatusPipelineInfo E (info (release s)) kind =
      get_role_binding E (recorded_ref (info (release s)) kind)"
    using assms(2) by (auto simp: GetRoleBindingFromReleaseStatusPipelineInfo_def recorded_ref_def)
  obtain res w' where run: "run_state (get_role_binding E (recorded_ref (info (release s)) kind)) (world s) = (res, w')"
    by (cases "run_state (get_role_binding E (recorded_ref (info (release s)) kind)) (world s)")
  then show ?thesis using role_binding_covers [OF run] assms(1) eq by (simp add: get_binding_def load_def)
qed

lemma attempt_binding_covers:
  assumes "run_state (get_attempt_binding E a) s = (Inr x, s')"
  shows "covers (attempt_ref a) x (bindings (world s))"
proof (cases "attempt_ref a = []")
  case False
  then obtain b where b: "a = Some b" "attempt_ref a = TenantRoleBinding (pa_RoleBindings b)"
    by (cases a) (simp_all add: attempt_ref_def)
  obtain res w' where run: "run_state (get_role_binding E (attempt_ref a)) (world s) = (res, w')"
    by (cases "run_state (get_role_binding E (attempt_ref a)) (world s)")
  then show ?thesis using role_binding_covers [OF run] assms False b
    by (cases res) (simp_all add: get_attempt_binding_def GetRoleBindingFromPipelineAttempt_def load_def)
qed (simp add: covers_def)

lemma cleans_get_covered:
  assumes "keeps obs m" "\<And>s x s'. \<lbrakk>release s = r; run_state m s = (Inr x, s')\<rbrakk> \<Longrightarrow> covers ref x (bindings (world s))"
    and "\<And>x. cleans r (\<lambda>bs. gone D bs \<and> covered (refs @ [ref]) (rbs @ [x]) bs) Q (k x)"
  shows "cleans r (\<lambda>bs. gone D bs \<and> covered refs rbs bs) Q (attempt m fail_op k)"
  unfolding attempt_def
proof (rule cleans_learn [where F = "\<lambda>a bs. \<forall>x. a = Inr x \<longrightarrow> covers ref x bs"])
  fix a
  show "cleans r (\<lambda>bs. (gone D bs \<and> covered refs rbs bs) \<and> (\<forall>x. a = Inr x \<longrightarrow> covers ref x bs)) Q
      (case a of Inl e \<Rightarrow> fail_op e | Inr x \<Rightarrow> k x)"
  proof (cases a)
    case (Inr x)
    then show ?thesis using covered_snoc by (auto intro!: cleans_weaken [OF assms(3) [of x]])
  qed (simp add: cleans_fail)
qed (use assms(1,2) in blast)+

lemma cleans_get_binding:
  "\<lbrakk>kind \<in> {''tenant'', ''managed'', ''secret''};
    \<And>x. cleans r (\<lambda>bs. gone D bs \<and> covered (refs @ [recorded_ref (info r) kind]) (rbs @ [x]) bs) Q (k x)\<rbrakk> \<Longrightarrow>
   cleans r (\<lambda>bs. gone D bs \<and> covered refs rbs bs) Q (attempt (get_binding E info kind) fail_op k)"
  by (rule cleans_get_covered [OF keeps_get(3), where ref = "recorded_ref (info r) kind"]) (use binding_covers in blast)+

lemma cleans_get_attempt_binding:
  "(\<And>x. cleans r (\<lambda>bs. gone D bs \<and> covered (refs @ [attempt_ref a]) (rbs @ [x]) bs) Q (k x)) \<Longrightarrow>
   cleans r (\<lambda>bs. gone D bs \<and> covered refs rbs bs) Q (attempt (get_attempt_binding E a) fail_op k)"
  by (rule cleans_get_covered [OF keeps_get(4) attempt_binding_covers])

section \<open>Deleting what was found\<close>

lemma keeps_delete_role:
  "keeps obs (if b then do {
     (role, err) \<leftarrow> load (api_GetRole E n ns);
     (case err of None \<Rightarrow> do { _ \<leftarrow> load (api_DeleteRole E role); ret () } | Some _ \<Rightarrow> ret ())
   } else ret ())"
  by (intro frame_intro)

lemma delete_binding_removes:
  assumes "run_state (delete_binding E rb) s = (u, s')"
  shows "release s' = release s \<and> shrinks (bindings (world s)) (bindings (world s')) \<and>
    (deletes_granted E \<longrightarrow> gone {binding_key rb} (bindings (world s')))"
proof -
  obtain err w1 where del: "run_state (api_DeleteRoleBinding E rb) (world s) = (err, w1)"
    by (cases "run_state (api_DeleteRoleBinding E rb) (world s)")
  then have load: "run_state (load (api_DeleteRoleBinding E rb)) s = (err, s\<lparr>world := w1\<rparr>)" by (simp add: load_def)
  let ?role = "if RoleRef_Kind rb = ''Role'' then do {
      (role, err) \<leftarrow> load (api_GetRole E (RoleRef_Name rb) (om_Namespace (rb_meta rb)));
      (case err of None \<Rightarrow> do { _ \<leftarrow> load (api_DeleteRole E role); ret () } | Some _ \<Rightarrow> ret ())
    } else ret ()"
  have "run_state ?role (s\<lparr>world := w1\<rparr>) = (u, s')"
    using assms load by (simp add: delete_binding_def)
  from obsD [OF keeps_delete_role this]
  have same: "release s' = release s \<and> bindings (world s') = bindings w1" by simp
  have "\<not> unexpected err" if "deletes_granted E"
    using that del unfolding deletes_granted_def by (metis fst_conv)
  then show ?thesis using removed [OF del] same by (simp add: gone_def)
qed

lemma delete_bindings_remove:
  "run_state (delete_bindings E rbs) s = (u, s') \<Longrightarrow>
   release s' = release s \<and> shrinks (bindings (world s)) (bindings (world s')) \<and>
   (deletes_granted E \<longrightarrow> gone (found rbs) (bindings (world s')))"
proof (induction rbs arbitrary: s)
  case (Cons rb rbs)
  show ?case
  proof (cases rb)
    case None
    then show ?thesis using Cons by simp
  next
    case (Some b)
    obtain v s1 where one: "run_state (delete_binding E b) s = (v, s1)" by (cases "run_state (delete_binding E b) s")
    then have rest: "run_state (delete_bindings E rbs) s1 = (u, s')" using Cons.prems Some by simp
    have keys: "found (rb # rbs) = insert (binding_key b) (found rbs)" using Some by auto
    note a = delete_binding_removes [OF one] and b = Cons.IH [OF rest]
    have "shrinks (bindings (world s)) (bindings (world s'))" using a b by (meson le_trans)
    moreover have "gone {binding_key b} (bindings (world s'))" if "deletes_granted E"
      using a b that gone_shrinks by meson
    then have "binding_key b \<notin> binding_key ` set (bindings (world s'))" if "deletes_granted E"
      using that unfolding gone_def by blast
    ultimately show ?thesis unfolding keys gone_insert using a b by simp
  qed
qed (simp add: le_refl)

lemma keeps_unhold:
  "keeps obs (case p of None \<Rightarrow> ret None
    | Some p \<Rightarrow>
        if ContainsFinalizer (lib E) (om_Finalizers (pr_meta p)) ReleaseFinalizer
        then do {
          (fresh, err) \<leftarrow> load (api_GetPipelineRun E (om_Name (pr_meta p)) (om_Namespace (pr_meta p)));
          (case err of
             Some e \<Rightarrow> ret (if IsNotFound e then None else Some e)
           | None \<Rightarrow>
               if ContainsFinalizer (lib E) (om_Finalizers (pr_meta fresh)) ReleaseFinalizer
               then load (api_PatchFinalizers E fresh
                 (filter (\<lambda>f. f \<noteq> ReleaseFinalizer) (om_Finalizers (pr_meta fresh))))
               else ret None)
        }
        else ret None)"
  by (intro frame_intro)

lemma keeps_cleanup_run [frame_intro]:
  "keeps obs (cleanupProcessingResources E p [])" "keeps obs (cleanupProcessingResources E p [None])"
  unfolding cleanupProcessingResources_def delete_bindings.simps by (intro frame_intro keeps_unhold)+

lemma keeps_delete_run [frame_intro]: "keeps obs (delete_run E del p)"
  unfolding delete_run_def by (intro frame_intro)

lemma keeps_finalize_attempts [frame_intro]: "keeps obs (finalize_attempts E del i as)"
  by (induction as arbitrary: i) (auto intro!: frame_intro)

lemma cleans_cleanup:
  assumes "deletes_granted E"
  shows "cleans r (\<lambda>bs. gone D bs \<and> covered refs rbs bs) (gone (D \<union> named_by refs))
    (cleanupProcessingResources E p rbs)"
proof (rule cleansI)
  fix s s' assume r: "release s = r" and P: "gone D (bindings (world s)) \<and> covered refs rbs (bindings (world s))"
    and run: "run_state (cleanupProcessingResources E p rbs) s = (None, s')"
  obtain u s1 where del: "run_state (delete_bindings E rbs) s = (u, s1)" by (cases "run_state (delete_bindings E rbs) s")
  note a = delete_bindings_remove [OF del]
  have same: "release s' = release s1 \<and> bindings (world s') = bindings (world s1)"
    using obsD [OF keeps_unhold, of p s1 None s'] run del by (simp add: cleanupProcessingResources_def)
  have "gone D (bindings (world s1))" "covered refs rbs (bindings (world s1))"
    using P a gone_shrinks covered_shrinks by meson+
  then have "gone (D \<union> named_by refs) (bindings (world s1))"
    using a assms covered_gone unfolding gone_Un by blast
  then show "release s' = r \<and> shrinks (bindings (world s)) (bindings (world s')) \<and>
      gone (D \<union> named_by refs) (bindings (world s'))" using r a same by simp
qed

section \<open>The whole clean-up\<close>

lemma start_covered: "cleans r (\<lambda>bs. gone D bs \<and> covered [] [] bs) Q m \<Longrightarrow> cleans r (gone D) Q m"
  by simp

lemma cleans_finalizeRelease:
  assumes "deletes_granted E"
  shows "cleans r (gone {}) (gone (named_by (read_refs r))) (finalizeRelease E True)"
proof -
  have all: "cleans r (gone (({} \<union> named_by [recorded_ref (managedCollectors_info r) ''tenant'',
        recorded_ref (managedCollectors_info r) ''managed'', recorded_ref (managedCollectors_info r) ''secret''] \<union>
      named_by [recorded_ref (tenantCollectors_info r) ''tenant'', recorded_ref (tenantCollectors_info r) ''secret'']) \<union>
      named_by [attempt_ref (case ManagedPipelineAttempts (Status r) of [] \<Rightarrow> None | a # _ \<Rightarrow> Some a)]))
    (gone (named_by (read_refs r))) m" if "keeps obs m" for m
    by (rule cleans_weaken [OF cleans_quiet [OF that]], assumption, erule gone_mono) (auto simp: read_refs_def)
  show ?thesis
    unfolding finalizeRelease_def
    apply (rule cleans_gets)
    apply (rule cleans_bind [OF keeps_get(1)], rule cleans_attempt, (intro frame_intro)[1])
    apply (rule start_covered, (rule cleans_get_binding, simp)+)
    apply (simp only: append.simps, rule cleans_and_then [OF cleans_cleanup [OF assms]])
    apply (rule cleans_and_then [OF cleans_quiet [OF keeps_delete_run]])
    apply (rule cleans_bind [OF keeps_get(1)], rule cleans_attempt, (intro frame_intro)[1])
    apply (rule start_covered, (rule cleans_get_binding, simp)+)
    apply (simp only: append.simps, rule cleans_and_then [OF cleans_cleanup [OF assms]])
    apply (rule cleans_and_then [OF cleans_quiet [OF keeps_delete_run]])
    apply (rule cleans_bind [OF keeps_get(1)], rule cleans_attempt, (intro frame_intro)[1])
    apply (rule cleans_and_then [OF cleans_quiet [OF keeps_cleanup_run(2)]])
    apply (rule cleans_and_then [OF cleans_quiet [OF keeps_delete_run]])
    apply (rule start_covered, rule cleans_get_attempt_binding)
    apply (simp only: append.simps, rule cleans_and_then [OF cleans_cleanup [OF assms]])
    apply (rule all, intro frame_intro)
    done
qed

lemma finalized_bindings:
  "\<lbrakk>deletes_granted E; run_state (finalizeRelease E True) s = (None, s')\<rbrakk> \<Longrightarrow>
   gone (named_by (read_refs (release s))) (bindings (world s'))"
  by (rule cleansD [OF cleans_finalizeRelease refl]) simp_all

end

text \<open>
  C16. A deleted Release leaves no access behind: when the finalizer of the Release is given up and the
  API server refused no deletion, none of the RoleBindings that its status refers to exists any more,
  provided the managed pipeline had at most one RoleBinding and its first attempt is recorded with it.
\<close>

theorem deletion_leaves_no_binding:
  assumes "binding_deletion E bindings" "deletes_granted E" "om_DeletionTimestamp (rel_meta (release s)) \<noteq> None"
    and "ReleaseFinalizer \<in> set (om_Finalizers (rel_meta (release s)))" "one_managed_binding (release s)"
    and "run_state (EnsureFinalizersAreCalled E) s = (Requeue, s')"
    and "ref \<in> set (recorded_refs (release s))" "split_on (CHR ''/'') ref = [ns, n]"
  shows "\<nexists>rb. rb \<in> set (bindings (world s')) \<and> om_Namespace (rb_meta rb) = ns \<and> om_Name (rb_meta rb) = n"
proof -
  note bd = binding_deletion.finalizers [OF assms(1)] binding_deletion.others_quiet(4) [OF assms(1)]
  obtain s1 where fin: "run_state (finalizeRelease E True) s = (None, s1)"
    and s1: "bindings (world s') = bindings (world s1)"
    using finalizers_succeed [OF assms(6,3) _ bd(2)] assms(4) bd(1) by blast
  have "ref \<noteq> []" using assms(8) by auto
  then have "(ns, n) \<in> named_by (read_refs (release s))"
    using recorded_refs_read [OF assms(5,7)] assms(8) by (auto simp: ref_keys_def)
  then show ?thesis
    using binding_deletion.finalized_bindings [OF assms(1,2) fin] unfolding gone_def s1 by force
qed

section \<open>References that are written are found again\<close>

text \<open>
  The functions that record bindings in the status, each with the lookups that the clean-up makes for
  them and the binding that belongs to it.
\<close>

definition binding_records :: "'w env \<Rightarrow> PipelineRun \<Rightarrow> RoleBinding \<Rightarrow> RoleBinding \<Rightarrow> RoleBinding \<Rightarrow>
    AppliedMitigation option \<Rightarrow>
    (('w adapter, error option) state \<times> ('w adapter, error + RoleBinding option) state \<times> RoleBinding) list" where
  "binding_records E p tenantRB managedRB secretRB mitigation = (let
     tenantCollectors = registerTenantCollectorsProcessingData E (Some p) (Some tenantRB) (Some secretRB);
     managedCollectors = registerManagedCollectorsProcessingData E (Some p) (Some tenantRB) (Some managedRB) (Some secretRB)
   in
     [(tenantCollectors, get_binding E tenantCollectors_info ''tenant'', tenantRB),
      (tenantCollectors, get_binding E tenantCollectors_info ''secret'', secretRB),
      (managedCollectors, get_binding E managedCollectors_info ''tenant'', tenantRB),
      (managedCollectors, get_binding E managedCollectors_info ''managed'', managedRB),
      (managedCollectors, get_binding E managedCollectors_info ''secret'', secretRB),
      (registerManagedProcessingData E (Some p) (Some tenantRB) mitigation,
       do { r \<leftarrow> gets release; get_attempt_binding E (GetCurrentManagedPipelineAttempt r) }, tenantRB)])"

text \<open>An accepted patch of the status answers with the processing information that was sent.\<close>

definition status_echoed :: "'w env \<Rightarrow> bool" where
  "status_echoed E \<longleftrightarrow> (\<forall>base r w r' w'. run_state (api_PatchReleaseStatus E base r) w = (Inr r', w') \<longrightarrow>
     CollectorsProcessing (Status r') = CollectorsProcessing (Status r) \<and>
     (ManagedPipelineAttempts (Status r) \<noteq> ManagedPipelineAttempts (Status base) \<longrightarrow>
       ManagedPipelineAttempts (Status r') = ManagedPipelineAttempts (Status r)))"

lemma recorded_patch:
  assumes "status_echoed E" "run_state (do { edit f; mark E g; patch_status E (release s) }) s = (None, s')"
  obtains t where "CollectorsProcessing (Status (release s')) = CollectorsProcessing (Status (fst (g t (f (release s)))))"
    "ManagedPipelineAttempts (Status (fst (g t (f (release s))))) \<noteq> ManagedPipelineAttempts (Status (release s)) \<Longrightarrow>
     ManagedPipelineAttempts (Status (release s')) = ManagedPipelineAttempts (Status (fst (g t (f (release s)))))"
proof -
  obtain t w1 where now: "run_state (Now E) (world s) = (t, w1)" by (cases "run_state (Now E) (world s)")
  obtain r ms where r: "g t (f (release s)) = (r, ms)" by (cases "g t (f (release s))")
  obtain res w2 where patch: "run_state (api_PatchReleaseStatus E (release s) r) w1 = (res, w2)"
    by (cases "run_state (api_PatchReleaseStatus E (release s) r) w1")
  have "res = Inr (release s')"
    using assms(2) now patch r by (cases res) (auto simp: edit_def mark_def patch_status_def load_def)
  with patch have "run_state (api_PatchReleaseStatus E (release s) r) w1 = (Inr (release s'), w2)" by simp
  from assms(1) [unfolded status_echoed_def, rule_format, OF this] show ?thesis
    by (intro that [of t]) (simp_all add: r)
qed

lemma starting_marks_keep:
  "pi_RoleBindings (tenantCollectors_info (fst (MarkTenantCollectorsPipelineProcessing L t r))) =
     pi_RoleBindings (tenantCollectors_info r)"
  "pi_RoleBindings (managedCollectors_info (fst (MarkManagedCollectorsPipelineProcessing L t r))) =
     pi_RoleBindings (managedCollectors_info r)"
  by (simp_all add: MarkTenantCollectorsPipelineProcessing_def MarkManagedCollectorsPipelineProcessing_def
      set_cond_def Let_def)

lemma attempt_mark_keeps:
  assumes "ManagedPipelineAttempts (Status r) = as @ [a]"
  shows "\<exists>b. ManagedPipelineAttempts (Status (fst (MarkCurrentManagedPipelineAttemptProcessing L t r))) = as @ [b] \<and>
    pa_RoleBindings b = pa_RoleBindings a"
  using assms
  by (simp add: MarkCurrentManagedPipelineAttemptProcessing_def GetCurrentManagedPipelineAttempt_def
      upd_current_attempt_def set_cond_def Let_def)

lemma recorded_tenantCollectors:
  assumes "status_echoed E"
    and "run_state (registerTenantCollectorsProcessingData E (Some p) (Some tenantRB) (Some secretRB)) s = (None, s')"
  shows "recorded_ref (tenantCollectors_info (release s')) ''tenant'' = ref_of (rb_meta tenantRB)"
    "recorded_ref (tenantCollectors_info (release s')) ''secret'' = ref_of (rb_meta secretRB)"
proof -
  have "run_state (do { edit (upd_tenantCollectors (put_secretRB (Some secretRB) \<circ> put_tenantRB (Some tenantRB) \<circ> put_run p));
      mark E (MarkTenantCollectorsPipelineProcessing (conds E)); patch_status E (release s) }) s = (None, s')"
    using assms(2) by (simp add: registerTenantCollectorsProcessingData_def)
  from recorded_patch [OF assms(1) this] obtain t where "CollectorsProcessing (Status (release s')) =
    CollectorsProcessing (Status (fst (MarkTenantCollectorsPipelineProcessing (conds E) t (upd_tenantCollectors (put_secretRB (Some secretRB) \<circ> put_tenantRB (Some tenantRB) \<circ> put_run p) (release s)))))" by metis
  then have "pi_RoleBindings (tenantCollectors_info (release s')) = pi_RoleBindings (tenantCollectors_info (upd_tenantCollectors (put_secretRB (Some secretRB) \<circ> put_tenantRB (Some tenantRB) \<circ> put_run p) (release s)))"
    using starting_marks_keep by simp
  then show "recorded_ref (tenantCollectors_info (release s')) ''tenant'' = ref_of (rb_meta tenantRB)"
    "recorded_ref (tenantCollectors_info (release s')) ''secret'' = ref_of (rb_meta secretRB)"
    by (simp_all add: recorded_ref_def upd_tenantCollectors_def put_secretRB_def put_tenantRB_def put_run_def)
qed

lemma recorded_managedCollectors:
  assumes "status_echoed E"
    and "run_state (registerManagedCollectorsProcessingData E (Some p) (Some tenantRB) (Some managedRB) (Some secretRB)) s =
      (None, s')"
  shows "recorded_ref (managedCollectors_info (release s')) ''tenant'' = ref_of (rb_meta tenantRB)"
    "recorded_ref (managedCollectors_info (release s')) ''managed'' = ref_of (rb_meta managedRB)"
    "recorded_ref (managedCollectors_info (release s')) ''secret'' = ref_of (rb_meta secretRB)"
proof -
  have "run_state (do { edit (upd_managedCollectors (put_secretRB (Some secretRB) \<circ> put_managedRB (Some managedRB) \<circ>
        put_tenantRB (Some tenantRB) \<circ> put_run p));
      mark E (MarkManagedCollectorsPipelineProcessing (conds E)); patch_status E (release s) }) s = (None, s')"
    using assms(2) by (simp add: registerManagedCollectorsProcessingData_def)
  from recorded_patch [OF assms(1) this] obtain t where "CollectorsProcessing (Status (release s')) =
    CollectorsProcessing (Status (fst (MarkManagedCollectorsPipelineProcessing (conds E) t (upd_managedCollectors (put_secretRB (Some secretRB) \<circ> put_managedRB (Some managedRB) \<circ>
      put_tenantRB (Some tenantRB) \<circ> put_run p) (release s)))))" by metis
  then have "pi_RoleBindings (managedCollectors_info (release s')) = pi_RoleBindings (managedCollectors_info (upd_managedCollectors (put_secretRB (Some secretRB) \<circ> put_managedRB (Some managedRB) \<circ>
      put_tenantRB (Some tenantRB) \<circ> put_run p) (release s)))"
    using starting_marks_keep by simp
  then show "recorded_ref (managedCollectors_info (release s')) ''tenant'' = ref_of (rb_meta tenantRB)"
    "recorded_ref (managedCollectors_info (release s')) ''managed'' = ref_of (rb_meta managedRB)"
    "recorded_ref (managedCollectors_info (release s')) ''secret'' = ref_of (rb_meta secretRB)"
    by (simp_all add: recorded_ref_def upd_managedCollectors_def put_secretRB_def put_tenantRB_def put_run_def put_managedRB_def)
qed

lemma recorded_managed:
  assumes "status_echoed E"
    and "run_state (registerManagedProcessingData E (Some p) (Some tenantRB) mitigation) s = (None, s')"
  shows "attempt_ref (GetCurrentManagedPipelineAttempt (release s')) = ref_of (rb_meta tenantRB)"
proof -
  define put where "put = upd_managed (\<lambda>i. i\<lparr>pi_PipelineRun := ref_of (pr_meta p),
    pi_RoleBindings := (pi_RoleBindings i)\<lparr>TenantRoleBinding := ref_of (rb_meta tenantRB)\<rparr>\<rparr>)"
  define new where "new = new_attempt (ref_of (pr_meta p)) (ref_of (rb_meta tenantRB)) mitigation"
  have "run_state (do { edit (append_attempt new \<circ> put);
      mark E (MarkCurrentManagedPipelineAttemptProcessing (conds E)); patch_status E (release s) }) s = (None, s')"
    using assms(2) by (simp add: registerManagedProcessingData_def edit_def put_def new_def Let_def)
  from recorded_patch [OF assms(1) this] obtain t where
    kept: "ManagedPipelineAttempts (Status (fst (MarkCurrentManagedPipelineAttemptProcessing (conds E) t
        ((append_attempt new \<circ> put) (release s))))) \<noteq> ManagedPipelineAttempts (Status (release s)) \<Longrightarrow>
      ManagedPipelineAttempts (Status (release s')) = ManagedPipelineAttempts (Status (fst
        (MarkCurrentManagedPipelineAttemptProcessing (conds E) t ((append_attempt new \<circ> put) (release s)))))" by blast
  have "ManagedPipelineAttempts (Status ((append_attempt new \<circ> put) (release s))) =
      ManagedPipelineAttempts (Status (release s)) @ [new]"
    by (simp add: append_attempt_def put_def upd_managed_def)
  from attempt_mark_keeps [OF this, of "conds E" t] kept obtain b where
    "ManagedPipelineAttempts (Status (release s')) = ManagedPipelineAttempts (Status (release s)) @ [b]"
    "pa_RoleBindings b = pa_RoleBindings new" by auto
  then show ?thesis by (simp add: attempt_ref_def GetCurrentManagedPipelineAttempt_def new_def new_attempt_def)
qed

lemma lookup_of_ref:
  "kind \<in> {''tenant'', ''managed'', ''secret''} \<Longrightarrow>
   run_state (get_binding E info kind) s =
     (case run_state (get_role_binding E (recorded_ref (info (release s)) kind)) (world s) of (res, w) \<Rightarrow>
       (expect_binding (case res of Inl e \<Rightarrow> (None, Some e) | Inr rb \<Rightarrow> (Some rb, None)), s\<lparr>world := w\<rparr>))"
  "attempt_ref a \<noteq> [] \<Longrightarrow> run_state (get_attempt_binding E a) s =
     (case run_state (get_role_binding E (attempt_ref a)) (world s) of (res, w) \<Rightarrow>
       (expect_binding (case res of Inl e \<Rightarrow> (None, Some e) | Inr rb \<Rightarrow> (Some rb, None)), s\<lparr>world := w\<rparr>))"
proof -
  assume "kind \<in> {''tenant'', ''managed'', ''secret''}"
  then have "GetRoleBindingFromReleaseStatusPipelineInfo E (info (release s)) kind =
      get_role_binding E (recorded_ref (info (release s)) kind)"
    by (auto simp: GetRoleBindingFromReleaseStatusPipelineInfo_def recorded_ref_def)
  then show "run_state (get_binding E info kind) s =
     (case run_state (get_role_binding E (recorded_ref (info (release s)) kind)) (world s) of (res, w) \<Rightarrow>
       (expect_binding (case res of Inl e \<Rightarrow> (None, Some e) | Inr rb \<Rightarrow> (Some rb, None)), s\<lparr>world := w\<rparr>))"
    by (simp add: get_binding_def load_def split: prod.splits)
next
  assume "attempt_ref a \<noteq> []"
  then obtain b where "a = Some b" "TenantRoleBinding (pa_RoleBindings b) \<noteq> []"
    "attempt_ref a = TenantRoleBinding (pa_RoleBindings b)" by (cases a) (simp_all add: attempt_ref_def)
  then show "run_state (get_attempt_binding E a) s =
     (case run_state (get_role_binding E (attempt_ref a)) (world s) of (res, w) \<Rightarrow>
       (expect_binding (case res of Inl e \<Rightarrow> (None, Some e) | Inr rb \<Rightarrow> (Some rb, None)), s\<lparr>world := w\<rparr>))"
    by (simp add: get_attempt_binding_def GetRoleBindingFromPipelineAttempt_def load_def split: prod.splits sum.splits)
qed

text \<open>The lookup asks for the binding that \<open>rb\<close> names.\<close>

definition looks_up :: "'w env \<Rightarrow> ('w adapter, error + RoleBinding option) state \<Rightarrow> RoleBinding \<Rightarrow> 'w adapter \<Rightarrow> bool" where
  "looks_up E lookup rb s \<longleftrightarrow> run_state lookup s =
     (case run_state (get_role_binding E (ref_of (rb_meta rb))) (world s) of (res, w) \<Rightarrow>
       (expect_binding (case res of Inl e \<Rightarrow> (None, Some e) | Inr rb \<Rightarrow> (Some rb, None)), s\<lparr>world := w\<rparr>))"

lemma looks_up_binding:
  "\<lbrakk>kind \<in> {''tenant'', ''managed'', ''secret''}; recorded_ref (info (release s)) kind = ref_of (rb_meta rb)\<rbrakk> \<Longrightarrow>
   looks_up E (get_binding E info kind) rb s"
  using lookup_of_ref(1) [of kind E info s] by (simp add: looks_up_def)

lemma looks_up_attempt:
  assumes "attempt_ref (GetCurrentManagedPipelineAttempt (release s)) = ref_of (rb_meta rb)"
  shows "looks_up E (do { r \<leftarrow> gets release; get_attempt_binding E (GetCurrentManagedPipelineAttempt r) }) rb s"
proof -
  have "attempt_ref (GetCurrentManagedPipelineAttempt (release s)) \<noteq> []"
    using assms by (simp add: ref_of_def namespaced_def)
  from lookup_of_ref(2) [OF this, of E s] show ?thesis using assms by (simp add: looks_up_def)
qed

lemma records_looked_up:
  assumes "status_echoed E"
  shows "list_all (\<lambda>(store, lookup, rb). \<forall>s s'. run_state store s = (None, s') \<longrightarrow> looks_up E lookup rb s')
    (binding_records E p tenantRB managedRB secretRB mitigation)"
  unfolding binding_records_def Let_def list.pred_inject prod.case
  by (intro conjI allI impI TrueI looks_up_binding looks_up_attempt;
      (erule recorded_tenantCollectors [OF assms] recorded_managedCollectors [OF assms] recorded_managed [OF assms] | simp))

text \<open>
  C31. A RoleBinding that is recorded in the status is looked up under exactly its name and namespace.
  Whichever function records it (for the collectors pipelines or an attempt of the managed pipeline) and
  whichever kind it is, the lookup that belongs to it asks the API server for that binding, for names
  without a slash, as Kubernetes requires.
\<close>

theorem recorded_binding_found:
  assumes "status_echoed E" "(store, lookup, rb) \<in> set (binding_records E p tenantRB managedRB secretRB mitigation)"
    and "run_state store s = (None, s')"
    and "CHR ''/'' \<notin> set (om_Namespace (rb_meta rb))" "CHR ''/'' \<notin> set (om_Name (rb_meta rb))"
    and "run_state (api_GetRoleBinding E (om_Name (rb_meta rb)) (om_Namespace (rb_meta rb))) (world s') = ((x, err), w)"
  shows "run_state lookup s' = (case err of None \<Rightarrow> Inr (Some x) | Some e \<Rightarrow> expect_binding (None, Some e), s'\<lparr>world := w\<rparr>)"
proof -
  have "looks_up E lookup rb s'"
    using records_looked_up [OF assms(1)] assms(2,3) unfolding list_all_iff by fast
  moreover have "run_state (get_role_binding E (ref_of (rb_meta rb))) (world s') =
      (case err of None \<Rightarrow> Inr x | Some e \<Rightarrow> Inl e, w)"
    using get_namespaced_binding [OF assms(4-6)] by (simp add: ref_of_def)
  ultimately show ?thesis
    by (cases err) (simp_all add: looks_up_def expect_binding_def unexpected_ref_def)
qed

section \<open>The example cluster\<close>

lemma cluster_binding_deletion: "binding_deletion cluster_env cl_bindings"
proof (intro binding_deletion.intro cleanup_frame.intro quiet_reads.intro cleanup_frame_axioms.intro
    binding_deletion_axioms.intro)
  fix n ns w rb w'
  assume "run_state (api_GetRoleBinding cluster_env n ns) w = ((rb, None), w')"
  then obtain rbs where "filter (\<lambda>x. om_Name (rb_meta x) = n \<and> om_Namespace (rb_meta x) = ns) (cl_bindings w) = rb # rbs"
    by (auto simp: cluster_env_def get_object_def split: list.splits)
  then have "rb \<in> set (filter (\<lambda>x. om_Name (rb_meta x) = n \<and> om_Namespace (rb_meta x) = ns) (cl_bindings w))" by simp
  then show "binding_key rb = (ns, n)" by simp
next
  fix n ns w rb e w'
  assume "run_state (api_GetRoleBinding cluster_env n ns) w = ((rb, Some e), w')"
  then have "filter (\<lambda>x. om_Name (rb_meta x) = n \<and> om_Namespace (rb_meta x) = ns) (cl_bindings w) = [] \<and> e = not_found n"
    by (auto simp: cluster_env_def get_object_def split: list.splits)
  then show "(ns, n) \<notin> binding_key ` set (cl_bindings w)" "\<not> is_sentinel ErrInvalidRoleBindingRef e"
    by (auto simp: filter_empty_conv not_found_def is_sentinel_def)
qed (auto simp: cluster_env_def cluster_lib_def keeps_def get_object_def get_the_release_def create_object_def
    patch_the_release_def Let_def drop_object_def same_object_def shrinks_def split: list.splits)

interpretation cluster_bindings: binding_deletion cluster_env cl_bindings
  by (rule cluster_binding_deletion)

lemma cluster_deletes_granted: "deletes_granted cluster_env"
  by (simp add: deletes_granted_def cluster_env_def unexpected_def)

text \<open>A deleted Release whose collectors and first managed attempt were given RoleBindings.\<close>

definition secret_binding :: RoleBinding where
  "secret_binding = demo_binding\<lparr>rb_meta := no_meta\<lparr>om_Name := ''secrets'', om_Namespace := ''managed''\<rparr>,
     RoleRef_Kind := ''Role'', RoleRef_Name := ''secrets''\<rparr>"

definition secret_role :: Role where
  "secret_role = \<lparr>role_meta = no_meta\<lparr>om_Name := ''secrets'', om_Namespace := ''managed''\<rparr>, Rules = []\<rparr>"

definition bound_release :: Release where
  "bound_release = demo_release\<lparr>
     rel_meta := (rel_meta demo_release)\<lparr>om_DeletionTimestamp := Some 95, om_Finalizers := [ReleaseFinalizer]\<rparr>,
     Status := no_status\<lparr>CollectorsProcessing := (CollectorsProcessing no_status)\<lparr>ManagedCollectorsProcessing :=
       no_pipeline_info\<lparr>pi_RoleBindings := \<lparr>TenantRoleBinding = [], ManagedRoleBinding = ''managed/binding'',
         SecretRoleBinding = ''managed/secrets''\<rparr>\<rparr>\<rparr>\<rparr>\<rparr>"

definition bound_cluster :: cluster where
  "bound_cluster = demo_cluster\<lparr>cl_release := bound_release, cl_bindings := [demo_binding, secret_binding],
     cl_roles := [secret_role]\<rparr>"

definition bound_state :: "cluster adapter" where
  "bound_state = newAdapter bound_release bound_cluster"

lemma bound_requeue: "fst (run_state (EnsureFinalizersAreCalled cluster_env) bound_state) = Requeue"
  by code_simp

theorem deletion_leaves_no_binding_witness:
  "\<nexists>rb. rb \<in> set (cl_bindings (world (snd (run_state (EnsureFinalizersAreCalled cluster_env) bound_state)))) \<and>
     om_Namespace (rb_meta rb) = ''managed'' \<and> om_Name (rb_meta rb) = ''secrets''"
proof -
  have run: "run_state (EnsureFinalizersAreCalled cluster_env) bound_state =
      (Requeue, snd (run_state (EnsureFinalizersAreCalled cluster_env) bound_state))"
    using bound_requeue by (simp add: prod_eq_iff)
  have rel: "release bound_state = bound_release" by (simp add: bound_state_def newAdapter_def)
  show ?thesis
    by (rule deletion_leaves_no_binding [OF cluster_binding_deletion cluster_deletes_granted _ _ _ run,
          where ref = "''managed/secrets''"])
       (simp_all add: rel bound_release_def recorded_refs_def recorded_ref_def one_managed_binding_def managed_refs_def no_status_def
         no_pipeline_info_def no_role_bindings_def demo_release_def empty_release_def)
qed

lemma cluster_status_echoed: "status_echoed cluster_env"
  by (auto simp: status_echoed_def cluster_env_def patch_the_release_def merge_status_def Let_def)

text \<open>The bindings of the managed collectors are recorded, and the secret one is looked up again.\<close>

abbreviation record_collectors :: "(cluster adapter, error option) state" where
  "record_collectors \<equiv> registerManagedCollectorsProcessingData cluster_env (Some (new_PipelineRun ''run'' ''managed''))
     (Some demo_binding) (Some demo_binding) (Some secret_binding)"

definition recorded_state :: "cluster adapter" where
  "recorded_state = snd (run_state record_collectors (newAdapter demo_release bound_cluster))"

lemma recorded_run:
  "fst (run_state record_collectors (newAdapter demo_release bound_cluster)) = None"
  "map binding_key (cl_bindings (world recorded_state)) = [(''managed'', ''binding''), (''managed'', ''secrets'')]"
  by code_simp+

theorem recorded_binding_found_witness:
  "\<exists>rb. run_state (get_binding cluster_env managedCollectors_info ''secret'') recorded_state =
     (Inr (Some rb), recorded_state) \<and> binding_key rb = (''managed'', ''secrets'')"
proof -
  have run: "run_state record_collectors (newAdapter demo_release bound_cluster) = (None, recorded_state)"
    using recorded_run(1) by (simp add: recorded_state_def prod_eq_iff)
  have key: "binding_key secret_binding = (''managed'', ''secrets'')" by (simp add: secret_binding_def)
  have entry: "(record_collectors, get_binding cluster_env managedCollectors_info ''secret'', secret_binding) \<in>
      set (binding_records cluster_env (new_PipelineRun ''run'' ''managed'') demo_binding demo_binding secret_binding None)"
    unfolding binding_records_def Let_def by simp
  obtain a b where bs: "cl_bindings (world recorded_state) = [a, b]" "binding_key a = (''managed'', ''binding'')"
    "binding_key b = (''managed'', ''secrets'')" using recorded_run(2) by (auto simp: map_eq_Cons_conv)
  then have "run_state (api_GetRoleBinding cluster_env ''secrets'' ''managed'') (world recorded_state) =
      ((b, None), world recorded_state)"
    by (simp add: cluster_env_def get_object_def)
  then show ?thesis
    using recorded_binding_found [OF cluster_status_echoed entry run, of b None "world recorded_state"] key bs(3)
    by auto
qed

text \<open>
  A permanent error in the creation of the managed PipelineRun leaves its RoleBinding recorded beside
  the PipelineRun with no attempt (\<open>EnsureManagedPipelineIsProcessed\<close>). The clean-up reads the attempts
  only, and the binding stays when the Release goes.
\<close>

definition failed_release :: Release where
  "failed_release = bound_release\<lparr>Status := no_status\<lparr>ManagedProcessing :=
     no_pipeline_info\<lparr>pi_RoleBindings := no_role_bindings\<lparr>TenantRoleBinding := ''managed/binding''\<rparr>\<rparr>\<rparr>\<rparr>"

lemma unattempted_binding_left:
  "map binding_key (cl_bindings (world (snd (run_state (EnsureFinalizersAreCalled cluster_env)
     (newAdapter failed_release (bound_cluster\<lparr>cl_release := failed_release\<rparr>)))))) =
     [(''managed'', ''binding''), (''managed'', ''secrets'')] \<and>
   om_Finalizers (rel_meta (cl_release (world (snd (run_state (EnsureFinalizersAreCalled cluster_env)
     (newAdapter failed_release (bound_cluster\<lparr>cl_release := failed_release\<rparr>))))))) = []"
  by code_simp

text \<open>
  A refused deletion is only logged: the Release goes, the RoleBinding and the access it grants stay.
\<close>

definition refusing_env :: "cluster env" where
  "refusing_env = cluster_env\<lparr>api_DeleteRoleBinding := (\<lambda>rb. ret (Some (plain_error ''no permission'')))\<rparr>"

lemma refused_binding_left:
  "map binding_key (cl_bindings (world (snd (run_state (EnsureFinalizersAreCalled refusing_env) bound_state)))) =
     [(''managed'', ''binding''), (''managed'', ''secrets'')] \<and>
   om_Finalizers (rel_meta (cl_release (world (snd (run_state (EnsureFinalizersAreCalled refusing_env) bound_state))))) = []"
  by code_simp

end
