(* ===== verification/Adapter_Retry.thy ===== *)
theory Adapter_Retry
  imports Cluster
begin

text \<open>
  When the managed pipeline is retried. The attempts in the status grow only in
  \<open>retryManagedPipeline\<close>, by one, and \<open>EnsureManagedPipelineProcessingIsCompleted\<close> calls it only for
  an attempt and an admission that allow it.
\<close>

abbreviation attempts :: "Release \<Rightarrow> PipelineAttempt list" where
  "attempts r \<equiv> ManagedPipelineAttempts (Status r)"

context release_store
begin

section \<open>A bound on the number of attempts\<close>

definition bounded :: "nat \<Rightarrow> 'w adapter \<Rightarrow> bool" where
  "bounded k s \<longleftrightarrow> length (attempts (release s)) \<le> k \<and> length (snd (stored (world s))) \<le> k"

lemma bounded_mono: "bounded k s \<Longrightarrow> k \<le> l \<Longrightarrow> bounded l s"
  by (simp add: bounded_def)

lemma bounded_quiet:
  "bounded k s \<Longrightarrow> keeps obs m \<Longrightarrow> (\<And>a s'. bounded k s' \<Longrightarrow> Q a s') \<Longrightarrow> wp m Q s"
  by (rule wp_keeps [of obs]) (auto simp: bounded_def obs_def)

lemma bounded_attempt:
  assumes "bounded k s" "keeps obs m" "\<And>e s'. bounded k s' \<Longrightarrow> wp (h e) Q s'"
    "\<And>a s'. bounded k s' \<Longrightarrow> wp (g a) Q s'"
  shows "wp (attempt m h g) Q s"
  unfolding attempt_def
  by (rule wp_bind, rule bounded_quiet [OF assms(1,2)]) (auto intro!: wp_case_sum assms)

lemma bounded_unless_panic:
  assumes "bounded k s" "keeps obs m" "\<And>s'. bounded k s' \<Longrightarrow> wp p Q s'"
    "\<And>a s'. bounded k s' \<Longrightarrow> wp (g a) Q s'"
  shows "wp (unless_panic m p g) Q s"
  unfolding unless_panic_def
  by (rule wp_bind, rule bounded_quiet [OF assms(1,2)]) (auto split: outcome.split intro!: assms)

lemma bounded_mark:
  assumes "bounded k s" "\<And>t r. length (attempts (fst (m t r))) = length (attempts r)"
    "\<And>s'. bounded k s' \<Longrightarrow> Q () s'"
  shows "wp (mark E m) Q s"
  by (rule wp_mark) (use assms in \<open>auto simp: bounded_def\<close>)

lemma bounded_patch:
  assumes b: "bounded k s" and k: "\<And>e s'. bounded k s' \<Longrightarrow> Q e s'"
  shows "wp (patch_status E base) Q s"
proof -
  obtain res w where run: "run_state (api_PatchReleaseStatus E base (release s)) (world s) = (res, w)"
    by (cases "run_state (api_PatchReleaseStatus E base (release s)) (world s)")
  show ?thesis
  proof (cases res)
    case (Inl e)
    then have "bounded k (s\<lparr>world := w\<rparr>)"
      using b patch_status_fails [OF run [unfolded Inl]] by (simp add: bounded_def)
    then show ?thesis
      using run Inl k by (simp add: wp_def patch_status_def load_def)
  next
    case (Inr r')
    note st = patch_status_stores [OF run [unfolded Inr]]
    have "length (attempts r') = length (snd (stored w))"
      using st by (metis snd_conv view_def)
    moreover have "length (snd (stored w)) \<le> k"
      using b st by (auto simp: bounded_def merge_view_def view_def)
    ultimately have "bounded k (s\<lparr>world := w, release := r'\<rparr>)" by (simp add: bounded_def)
    then show ?thesis
      using run Inr k by (simp add: wp_def patch_status_def load_def edit_def)
  qed
qed

lemma release_failed_attempts:
  "attempts (fst (MarkReleaseFailed L t msg r)) = attempts r"
  "length (attempts (fst (MarkCurrentManagedPipelineAttemptRetryDisabled reason r))) = length (attempts r)"
  "length (attempts (fst (MarkCurrentManagedPipelineAttemptProcessing L t r))) = length (attempts r)"
  by (auto simp: mark_defs Let_def split: option.split)

lemma bounded_creation_failed:
  assumes "bounded k s"
  shows "wp (creation_failed E (MarkManagedPipelineProcessing (conds E))
    (MarkManagedPipelineProcessingFailed (conds E)) msg [] e) (\<lambda>_. bounded k) s"
  unfolding creation_failed_def handlePipelineCreationError_def
  apply (intro wp_bind wp_if wp_ret wp_gets, rule assms)
  apply (rule wp_edit, rule wp_bind)
  apply (rule bounded_mark [of k], use assms in \<open>simp add: bounded_def\<close>)
   apply (simp add: managed.start_attempts)
  apply (rule wp_bind, erule bounded_mark, simp add: managed.fail_attempts)
  apply (rule wp_bind, erule bounded_mark, simp add: release_failed_attempts)
  by (rule wp_bind, erule bounded_patch, intro wp_ret)

lemma bounded_register:
  assumes "bounded k s"
  shows "wp (registerManagedProcessingData E p rb m) (\<lambda>_. bounded (Suc k)) s"
  unfolding registerManagedProcessingData_def Let_def
  apply (intro wp_case_option wp_ret wp_bind wp_gets)
   apply (use assms in \<open>simp add: bounded_def\<close>)
  apply (rule wp_edit, rule wp_bind, rule wp_edit, rule wp_bind)
  apply (rule bounded_mark [of "Suc k"], use assms in \<open>simp add: bounded_def append_attempt_def upd_managed_def\<close>)
   apply (rule release_failed_attempts)
  by (erule bounded_patch)

lemma bounded_retry:
  assumes "bounded k s"
  shows "wp (retryManagedPipeline E) (\<lambda>_. bounded (Suc k)) s"
proof -
  have more: "wp (ret a) (\<lambda>_. bounded (Suc k)) s'" if "bounded k s'" for a s'
    by (rule wp_ret) (use that in \<open>simp add: bounded_def\<close>)
  have reg: "wp (registerManagedProcessingData E p rb m) (\<lambda>a. wp (ret (g a)) (\<lambda>_. bounded (Suc k))) s'"
    if "bounded k s'" for p rb m g s'
    by (rule wp_mono [OF bounded_register [OF that]]) (rule wp_ret)
  have get: "wp (get_run_attempt E i) Q s" if "\<And>a s'. bounded k s' \<Longrightarrow> Q a s'" for i Q
    by (rule bounded_quiet [OF assms]) (auto intro: frame_intro that)
  show ?thesis
    unfolding retryManagedPipeline_def
    by (intro wp_bind wp_gets get bounded_attempt [of k] bounded_unless_panic [of k] wp_if wp_case_prod
        more reg frame_intro)
qed

section \<open>The gate\<close>

text \<open>What a retry of the current attempt needs of the admission and of the Release.\<close>

definition retry_permitted :: "Release \<Rightarrow> ReleasePlanAdmission \<Rightarrow> bool" where
  "retry_permitted r rpa \<longleftrightarrow> IsManagedPipelineProcessing (conds E) r \<and> canRetryManagedPipeline r rpa \<and>
     \<not> snd (MatchDisablingTags (Compile (lib E)) (ExtractTags (Unmarshal (lib E)) (rel_Data (Spec r)))
       (items (GetDisablingTags rpa)))"

lemma bounded_completed:
  assumes b: "bounded k s"
  shows "wp (EnsureManagedPipelineProcessingIsCompleted E) (\<lambda>_ s'. bounded k s' \<or>
    bounded (Suc k) s' \<and> (\<exists>rpa w. retry_permitted (release s) rpa \<and>
      run_state (GetActiveReleasePlanAdmissionFromRelease E (release s)) (world s) = (Inr rpa, w))) s"
    (is "wp _ (\<lambda>_. ?Q) s")
proof -
  let ?r = "release s"
  obtain res w where get: "run_state (GetActiveReleasePlanAdmissionFromRelease E ?r) (world s) = (res, w)"
    by (metis surj_pair)
  let ?s = "s\<lparr>world := w\<rparr>"
  have load: "run_state (load (GetActiveReleasePlanAdmissionFromRelease E ?r)) s = (res, ?s)"
    using get by (simp add: load_def)
  have "keeps obs (load (GetActiveReleasePlanAdmissionFromRelease E ?r))" by (intro frame_intro)
  then have "obs ?s = obs s" using load by (metis keepsD snd_conv)
  then have b': "bounded k ?s" using b by (simp add: bounded_def obs_def)
  have weak: "bounded k s' \<Longrightarrow> ?Q s'" for s' by blast
  have end_phase: "wp (do {
      mark E (\<lambda>t. MarkManagedPipelineProcessingFailed (conds E) t msg);
      mark E (\<lambda>t. MarkReleaseFailed (conds E) t msg');
      err \<leftarrow> patch_status E base; ret (RequeueOnErrorOrContinue err) }) (\<lambda>_. ?Q) s'"
    if "bounded k s'" for s' msg msg' base
    apply (rule wp_bind, rule bounded_mark [OF that], simp add: managed.fail_attempts)
    apply (rule wp_bind, erule bounded_mark, simp add: release_failed_attempts)
    by (rule wp_bind, erule bounded_patch, rule wp_ret, erule weak)
  have give_up: "wp (do { base \<leftarrow> gets release;
      (if c then mark E (\<lambda>_. MarkCurrentManagedPipelineAttemptRetryDisabled reason) else ret ());
      mark E (\<lambda>t. MarkManagedPipelineProcessingFailed (conds E) t msg);
      mark E (\<lambda>t. MarkReleaseFailed (conds E) t msg');
      err \<leftarrow> patch_status E base; ret (RequeueOnErrorOrContinue err) }) (\<lambda>_. ?Q) ?s" for c reason msg msg'
    apply (rule wp_bind, rule wp_gets, rule wp_bind, rule wp_if)
     apply (rule bounded_mark [OF b'], rule release_failed_attempts, erule end_phase)
    by (rule wp_ret, rule end_phase [OF b'])
  have retry: "wp (unless_panic (retryManagedPipeline E) (ret OperationPanic)
      (\<lambda>err. case err of
          Some e \<Rightarrow> creation_failed E (MarkManagedPipelineProcessing (conds E))
            (MarkManagedPipelineProcessingFailed (conds E)) msg [] e
        | None \<Rightarrow> ret ContinueProcessing)) (\<lambda>_. ?Q) ?s" (is "wp ?m _ _")
    if "retry_permitted ?r rpa" "res = Inr rpa" for rpa msg
  proof -
    have "wp ?m (\<lambda>_. bounded (Suc k)) ?s"
      unfolding unless_panic_def
      by (rule wp_bind, rule wp_mono [OF bounded_retry [OF b']])
         (auto split: outcome.split option.split intro!: wp_ret bounded_creation_failed)
    then show ?thesis by (rule wp_mono) (use that get in blast)
  qed
  show ?thesis
    unfolding EnsureManagedPipelineProcessingIsCompleted_def
    apply (rule wp_bind, rule wp_gets)
    apply (intro wp_if wp_ret disjI1 b)
    unfolding attempt_def
    apply (rule wp_bind, unfold wp_def [of "load _"] load prod.case)
    apply (cases res)
     apply (use b' in \<open>auto intro!: wp_ret\<close>) [1]
    apply (simp only: sum.case)
    apply (intro wp_case_prod, rule wp_if)
     apply (rule retry [rotated], assumption, simp add: retry_permitted_def)
    apply (rule give_up)
    done
qed

end

text \<open>
  C6. The managed pipeline is retried only when it may be. If the operation that ends the managed
  phase leaves one more attempt in the status, then the phase was in progress, its current attempt
  failed by an OOM kill or a timeout, the active admission enables retries and no tag of the
  Release switches them off, and the number of retries is still within the admission's maximum.
\<close>

theorem retry_only_when_allowed:
  assumes "release_store E stored name namespace" "stored (world s) = view (release s)"
    and "run_state (EnsureManagedPipelineProcessingIsCompleted E) s = (res, s')"
    and "length (attempts (release s)) < length (attempts (release s'))"
  shows "IsManagedPipelineProcessing (conds E) (release s) \<and>
    IsCurrentManagedPipelineAttemptRetriable (release s) \<and>
    (\<exists>rpa w ri m. run_state (GetActiveReleasePlanAdmissionFromRelease E (release s)) (world s) = (Inr rpa, w) \<and>
       IsRetryEnabled rpa \<and> rpast_RetryInfo (rpa_Status rpa) = Some ri \<and> ri_MaxRetries ri = Some m \<and>
       GetManagedPipelineRetryCount (release s') \<le> m \<and>
       \<not> snd (MatchDisablingTags (Compile (lib E)) (ExtractTags (Unmarshal (lib E)) (rel_Data (Spec (release s))))
          (items (GetDisablingTags rpa))))"
proof -
  let ?k = "length (attempts (release s))"
  have "release_store.bounded stored ?k s"
    using assms(2) by (simp add: release_store.bounded_def [OF assms(1)] view_def)
  from release_store.bounded_completed [OF assms(1) this] assms(3,4)
  obtain rpa w where p: "release_store.retry_permitted E (release s) rpa"
    and get: "run_state (GetActiveReleasePlanAdmissionFromRelease E (release s)) (world s) = (Inr rpa, w)"
    and len: "length (attempts (release s')) \<le> Suc ?k"
    by (auto simp: wp_def release_store.bounded_def [OF assms(1)])
  then show ?thesis
    unfolding release_store.retry_permitted_def [OF assms(1)] canRetryManagedPipeline_def
    by (auto simp: GetManagedPipelineRetryCount_def split: option.splits intro!: exI [of _ rpa])
qed

text \<open>A Release whose first managed attempt ran out of memory, with the run of the next attempt.\<close>

definition failed_attempt :: PipelineAttempt where
  "failed_attempt = (new_attempt ''managed/run-0'' [] None)\<lparr>pa_Status := AttemptFailedReason,
     pa_FailureReason := AttemptFailureOOMKillReason\<rparr>"

definition retry_release :: Release where
  "retry_release = demo_release\<lparr>Status := no_status\<lparr>
     Conditions := [\<lparr>c_Type = managedProcessedConditionType, c_Status = ConditionFalse,
       c_Reason = ProgressingReason, c_Message = [], c_LastTransitionTime = 100\<rparr>],
     ManagedPipelineAttempts := [failed_attempt]\<rparr>\<rparr>"

definition retry_cluster :: cluster where
  "retry_cluster = demo_cluster\<lparr>cl_release := retry_release,
     cl_admissions := [demo_admission\<lparr>rpa_Status := (rpa_Status demo_admission)\<lparr>rpast_RetryInfo :=
       Some \<lparr>ri_Enabled = True, ri_MaxRetries = Some 3, ri_Mitigations = None, DisablingTags = None,
         ri_Reason = []\<rparr>\<rparr>\<rparr>],
     cl_runs := [(new_PipelineRun ''managed'' ''managed'')\<lparr>pr_meta := no_meta\<lparr>om_Name := ''run-1'',
       om_Namespace := ''managed'', om_Labels :=
         Some ((run_labels demo_release ManagedPipelineType)(ReleaseAttemptLabel \<mapsto> show_int 1))\<rparr>\<rparr>]\<rparr>"

definition retry_state :: "cluster adapter" where
  "retry_state = newAdapter retry_release retry_cluster"

definition retried_state :: "cluster adapter" where
  "retried_state = snd (run_state (EnsureManagedPipelineProcessingIsCompleted cluster_env) retry_state)"

lemma retried_state_attempts: "length (attempts (release retried_state)) = 2"
  by code_simp

theorem retry_only_when_allowed_witness:
  "IsCurrentManagedPipelineAttemptRetriable (release retry_state) \<and> length (attempts (release retried_state)) = 2"
proof -
  have "cluster_view (world retry_state) = view (release retry_state)"
    by (simp add: retry_state_def newAdapter_def cluster_view_def retry_cluster_def)
  moreover have "run_state (EnsureManagedPipelineProcessingIsCompleted cluster_env) retry_state =
      (fst (run_state (EnsureManagedPipelineProcessingIsCompleted cluster_env) retry_state), retried_state)"
    by (simp add: retried_state_def)
  moreover have "length (attempts (release retry_state)) < length (attempts (release retried_state))"
    by (simp add: retried_state_attempts) (simp add: retry_state_def newAdapter_def retry_release_def)
  ultimately show ?thesis
    using retry_only_when_allowed [OF cluster_release_store] retried_state_attempts by blast
qed

end
