(* ===== verification/Plan_Controllers.thy ===== *)
theory Plan_Controllers
  imports Release_Controller
begin

text \<open>
  The controllers that keep ReleasePlans and ReleasePlanAdmissions matched:
  \<open>src/controllers/releaseplan\<close> and \<open>src/controllers/releaseplanadmission\<close>. Each adapter is a record
  of the object it reconciles and the world; \<open>Reconcile\<close> hands the operations to the toolkit's loop
  as the Release controller does.
\<close>

section \<open>releaseplan/adapter.go\<close>

record 'w plan_adapter =
  releasePlan :: ReleasePlan
  plan_world :: 'w

definition plan_newAdapter :: "ReleasePlan \<Rightarrow> 'w \<Rightarrow> 'w plan_adapter" where
  "plan_newAdapter rp w = \<lparr>releasePlan = rp, plan_world = w\<rparr>"

definition plan_load :: "('w, 'a) state \<Rightarrow> ('w plan_adapter, 'a) state" where
  "plan_load m = State (\<lambda>s. case run_state m (plan_world s) of (a, w) \<Rightarrow> (a, s\<lparr>plan_world := w\<rparr>))"

text \<open>
  The new status is computed on the object itself; a patch that succeeds decodes the answer of the
  server into it.
\<close>

definition matched_plan ::
  "conditions_lib \<Rightarrow> time \<Rightarrow> error + ReleasePlanAdmission \<Rightarrow> ReleasePlan \<Rightarrow> ReleasePlan" where
  "matched_plan L now found rp =
     (case found of Inl _ \<Rightarrow> ReleasePlan_MarkUnmatched L now rp
      | Inr rpa \<Rightarrow> ReleasePlan_MarkMatched L now rpa rp)"

definition plan_EnsureMatchingInformationIsSet ::
  "'w env \<Rightarrow> ('w plan_adapter, operation_result) state" where
  "plan_EnsureMatchingInformationIsSet E = do {
     copied \<leftarrow> gets releasePlan;
     found \<leftarrow> plan_load (GetMatchingReleasePlanAdmission E copied);
     now \<leftarrow> plan_load (Now E);
     modify (\<lambda>s. s\<lparr>releasePlan := matched_plan (conds E) now found (releasePlan s)\<rparr>);
     rp \<leftarrow> gets releasePlan;
     (if rpst_ReleasePlanAdmission (rp_Status copied) = rpst_ReleasePlanAdmission (rp_Status rp) \<and>
         FindStatusCondition (conds E) (rpst_Conditions (rp_Status copied)) MatchedConditionType \<noteq> None
      then State_Monad.return ContinueProcessing
      else do {
        res \<leftarrow> plan_load (api_PatchReleasePlanStatus E copied rp);
        (case res of
           Inl e \<Rightarrow> State_Monad.return (RequeueOnErrorOrContinue (Some e))
         | Inr rp' \<Rightarrow> do {
             modify (\<lambda>s. s\<lparr>releasePlan := rp'\<rparr>);
             State_Monad.return (RequeueOnErrorOrContinue None)
           })
      })
   }"

section \<open>releaseplan/controller.go\<close>

definition plan_Reconcile ::
  "'w env \<Rightarrow> 'w plan_adapter toolkit \<Rightarrow> string \<Rightarrow> string \<Rightarrow> ('w, reconcile_result) state" where
  "plan_Reconcile E T name namespace = do {
     (rp, err) \<leftarrow> api_GetReleasePlan E name namespace;
     (case err of
        Some e \<Rightarrow> State_Monad.return (if IsNotFound e then ReleaseGone else GetFailed e)
      | None \<Rightarrow> State (\<lambda>w.
          case run_state (ReconcileHandler T [plan_EnsureMatchingInformationIsSet E])
            (plan_newAdapter rp w) of (res, s) \<Rightarrow> (Handled res, plan_world s)))
   }"

section \<open>releaseplanadmission/adapter.go\<close>

record 'w admission_adapter =
  releasePlanAdmission :: ReleasePlanAdmission
  admission_world :: 'w

definition admission_newAdapter :: "ReleasePlanAdmission \<Rightarrow> 'w \<Rightarrow> 'w admission_adapter" where
  "admission_newAdapter rpa w = \<lparr>releasePlanAdmission = rpa, admission_world = w\<rparr>"

definition admission_load :: "('w, 'a) state \<Rightarrow> ('w admission_adapter, 'a) state" where
  "admission_load m =
     State (\<lambda>s. case run_state m (admission_world s) of (a, w) \<Rightarrow> (a, s\<lparr>admission_world := w\<rparr>))"

definition admission_edit ::
  "(ReleasePlanAdmission \<Rightarrow> ReleasePlanAdmission) \<Rightarrow> ('w admission_adapter, unit) state" where
  "admission_edit f = modify (\<lambda>s. s\<lparr>releasePlanAdmission := f (releasePlanAdmission s)\<rparr>)"

text \<open>\<open>a.client.Status().Patch\<close>, with its error handed to the toolkit.\<close>

definition admission_patch ::
  "'w env \<Rightarrow> ReleasePlanAdmission \<Rightarrow> ('w admission_adapter, operation_result) state" where
  "admission_patch E copied = do {
     rpa \<leftarrow> gets releasePlanAdmission;
     res \<leftarrow> admission_load (api_PatchReleasePlanAdmissionStatus E copied rpa);
     (case res of
        Inl e \<Rightarrow> State_Monad.return (RequeueOnErrorOrContinue (Some e))
      | Inr rpa' \<Rightarrow> do {
          admission_edit (\<lambda>_. rpa');
          State_Monad.return (RequeueOnErrorOrContinue None)
        })
   }"

text \<open>The loop over the matching ReleasePlans; every call reads the clock for its condition.\<close>

fun mark_matched_all :: "'w env \<Rightarrow> ReleasePlan list \<Rightarrow> ('w admission_adapter, unit) state" where
  "mark_matched_all E [] = State_Monad.return ()"
| "mark_matched_all E (rp # rps) = do {
     now \<leftarrow> admission_load (Now E);
     admission_edit (ReleasePlanAdmission_MarkMatched (conds E) (SortSlice (lib E)) now rp);
     mark_matched_all E rps
   }"

definition admission_EnsureMatchingInformationIsSet ::
  "'w env \<Rightarrow> ('w admission_adapter, operation_result) state" where
  "admission_EnsureMatchingInformationIsSet E = do {
     copied \<leftarrow> gets releasePlanAdmission;
     res \<leftarrow> admission_load (GetMatchingReleasePlans E copied);
     (case res of
        Inl e \<Rightarrow> State_Monad.return (RequeueWithError e)
      | Inr rps \<Rightarrow> do {
          now \<leftarrow> admission_load (Now E);
          admission_edit (ClearMatchingInfo (conds E) now);
          mark_matched_all E rps;
          rpa \<leftarrow> gets releasePlanAdmission;
          (if ReleasePlans (rpa_Status copied) = ReleasePlans (rpa_Status rpa) \<and>
              FindStatusCondition (conds E) (rpast_Conditions (rpa_Status copied)) MatchedConditionType \<noteq> None
           then State_Monad.return ContinueProcessing
           else admission_patch E copied)
        })
   }"

text \<open>The end of \<open>EnsureRetryInformationIsSet\<close>: the new retry information, patched if it differs.\<close>

definition admission_set_retry ::
  "'w env \<Rightarrow> ReleasePlan list option \<Rightarrow> ReleaseServiceConfig option \<Rightarrow>
   ('w admission_adapter, operation_result) state" where
  "admission_set_retry E matchedRPs rsc = do {
     copied \<leftarrow> gets releasePlanAdmission;
     (let newRetryInfo =
        Some (DetermineRetryInfo (Compile (lib E)) (Unmarshal (lib E)) copied matchedRPs rsc)
      in if rpast_RetryInfo (rpa_Status copied) = newRetryInfo
         then State_Monad.return ContinueProcessing
         else do {
           admission_edit (rpa_Status_update (rpast_RetryInfo_update (\<lambda>_. newRetryInfo)));
           admission_patch E copied
         })
   }"

definition admission_EnsureRetryInformationIsSet ::
  "'w env \<Rightarrow> ('w admission_adapter, operation_result) state" where
  "admission_EnsureRetryInformationIsSet E = do {
     namespace \<leftarrow> admission_load (Getenv E ''SERVICE_NAMESPACE'');
     (if namespace = []
      then State_Monad.return (RequeueWithError (plain_error ''SERVICE_NAMESPACE env var not set''))
      else do {
        (rsc, err) \<leftarrow> admission_load (GetReleaseServiceConfig E ReleaseServiceConfigResourceName namespace);
        (case err of
           Some e \<Rightarrow>
             if IsNotFound e then admission_set_retry E None None
             else State_Monad.return (RequeueWithError e)
         | None \<Rightarrow> do {
             rpa \<leftarrow> gets releasePlanAdmission;
             res \<leftarrow> admission_load (GetMatchingReleasePlans E rpa);
             (case res of
                Inl e \<Rightarrow> State_Monad.return (RequeueWithError e)
              | Inr matchedRPs \<Rightarrow> admission_set_retry E (Some matchedRPs) (Some rsc))
           })
      })
   }"

section \<open>releaseplanadmission/controller.go\<close>

definition admission_Reconcile ::
  "'w env \<Rightarrow> 'w admission_adapter toolkit \<Rightarrow> string \<Rightarrow> string \<Rightarrow> ('w, reconcile_result) state" where
  "admission_Reconcile E T name namespace = do {
     (rpa, err) \<leftarrow> api_GetReleasePlanAdmission E name namespace;
     (case err of
        Some e \<Rightarrow> State_Monad.return (if IsNotFound e then ReleaseGone else GetFailed e)
      | None \<Rightarrow> State (\<lambda>w.
          case run_state (ReconcileHandler T [admission_EnsureMatchingInformationIsSet E,
              admission_EnsureRetryInformationIsSet E]) (admission_newAdapter rpa w) of
            (res, s) \<Rightarrow> (Handled res, admission_world s)))
   }"

text \<open>The requests for every admission when the configuration changes: (namespace, name) pairs.\<close>

definition enqueueAllRPAs :: "'w env \<Rightarrow> ('w, (string \<times> string) list) state" where
  "enqueueAllRPAs E = do {
     res \<leftarrow> api_ListAllReleasePlanAdmissions E;
     (case res of
        Inl e \<Rightarrow> State_Monad.return []
      | Inr rpas \<Rightarrow> State_Monad.return
          (map (\<lambda>rpa. (om_Namespace (rpa_meta rpa), om_Name (rpa_meta rpa))) rpas))
   }"

end
