(* ===== verification/Watch_Events.thy ===== *)
theory Watch_Events
  imports Plan_Controllers "HOL-Library.Multiset"
begin

text \<open>
  Which events wake the plan controllers: the predicates of
  \<open>src/controllers/utils/predicates/predicates.go\<close> and the handler of
  \<open>src/controllers/utils/handlers/enqueue_matched.go\<close>. A type switch of the source is a case
  distinction on \<open>plan_object\<close>; the work queue is the list of requests, a (namespace, name) pair each.
\<close>

datatype plan_object =
    PlanObject ReleasePlan
  | AdmissionObject ReleasePlanAdmission
  | ConfigObject ReleaseServiceConfig

datatype object_event =
    ObjectCreated plan_object
  | ObjectDeleted plan_object
  | ObjectGeneric plan_object
  | ObjectUpdated plan_object plan_object

fun object_labels :: "plan_object \<Rightarrow> strmap" where
  "object_labels (PlanObject rp) = om_Labels (rp_meta rp)"
| "object_labels (AdmissionObject rpa) = om_Labels (rpa_meta rpa)"
| "object_labels (ConfigObject rsc) = om_Labels (rsc_meta rsc)"

section \<open>predicates.go\<close>

definition hasConditionChanged :: "condition option \<Rightarrow> condition option \<Rightarrow> bool" where
  "hasConditionChanged conditionOld conditionNew =
     (case (conditionOld, conditionNew) of
        (Some old, Some new) \<Rightarrow> c_LastTransitionTime old \<noteq> c_LastTransitionTime new
      | (None, None) \<Rightarrow> False
      | _ \<Rightarrow> True)"

definition hasBehaviorLabelChanged :: "plan_object \<Rightarrow> plan_object \<Rightarrow> bool" where
  "hasBehaviorLabelChanged objectOld objectNew =
     (if map_index (object_labels objectOld) AutoReleaseLabel \<noteq> map_index (object_labels objectNew) AutoReleaseLabel
      then True
      else if map_index (object_labels objectOld) BlockReleasesLabel \<noteq>
          map_index (object_labels objectNew) BlockReleasesLabel
      then True else False)"

fun haveApplicationsChanged :: "plan_object \<Rightarrow> plan_object \<Rightarrow> bool" where
  "haveApplicationsChanged (PlanObject old) (PlanObject new) =
     (Application (rp_Spec old) \<noteq> Application (rp_Spec new) \<or>
      ComponentGroup (rp_Spec old) \<noteq> ComponentGroup (rp_Spec new))"
| "haveApplicationsChanged (AdmissionObject old) (AdmissionObject new) =
     (Applications (rpa_Spec old) \<noteq> Applications (rpa_Spec new) \<or>
      ComponentGroups (rpa_Spec old) \<noteq> ComponentGroups (rpa_Spec new))"
| "haveApplicationsChanged _ _ = False"

fun hasMatchConditionChanged :: "conditions_lib \<Rightarrow> plan_object \<Rightarrow> plan_object \<Rightarrow> bool" where
  "hasMatchConditionChanged L (PlanObject old) (PlanObject new) =
     hasConditionChanged (FindStatusCondition L (rpst_Conditions (rp_Status old)) MatchedConditionType)
       (FindStatusCondition L (rpst_Conditions (rp_Status new)) MatchedConditionType)"
| "hasMatchConditionChanged L (AdmissionObject old) (AdmissionObject new) =
     hasConditionChanged (FindStatusCondition L (rpast_Conditions (rpa_Status old)) MatchedConditionType)
       (FindStatusCondition L (rpast_Conditions (rpa_Status new)) MatchedConditionType)"
| "hasMatchConditionChanged L _ _ = False"

fun hasSourceChanged :: "plan_object \<Rightarrow> plan_object \<Rightarrow> bool" where
  "hasSourceChanged (PlanObject old) (PlanObject new) = (Target (rp_Spec old) \<noteq> Target (rp_Spec new))"
| "hasSourceChanged (AdmissionObject old) (AdmissionObject new) =
     (Origin (rpa_Spec old) \<noteq> Origin (rpa_Spec new))"
| "hasSourceChanged _ _ = False"

fun hasPipelineChanged :: "plan_object \<Rightarrow> plan_object \<Rightarrow> bool" where
  "hasPipelineChanged (AdmissionObject old) (AdmissionObject new) =
     (rpas_Pipeline (rpa_Spec old) \<noteq> rpas_Pipeline (rpa_Spec new))"
| "hasPipelineChanged (PlanObject old) (PlanObject new) =
     (TenantPipeline (rp_Spec old) \<noteq> TenantPipeline (rp_Spec new) \<or>
      FinalPipeline (rp_Spec old) \<noteq> FinalPipeline (rp_Spec new))"
| "hasPipelineChanged _ _ = False"

fun hasDataChanged :: "plan_object \<Rightarrow> plan_object \<Rightarrow> bool" where
  "hasDataChanged (AdmissionObject old) (AdmissionObject new) =
     (rpas_Data (rpa_Spec old) \<noteq> rpas_Data (rpa_Spec new))"
| "hasDataChanged (PlanObject old) (PlanObject new) = (rps_Data (rp_Spec old) \<noteq> rps_Data (rp_Spec new))"
| "hasDataChanged _ _ = False"

fun MatchPredicate :: "conditions_lib \<Rightarrow> object_event \<Rightarrow> bool" where
  "MatchPredicate L (ObjectCreated _) = True"
| "MatchPredicate L (ObjectDeleted _) = True"
| "MatchPredicate L (ObjectGeneric _) = False"
| "MatchPredicate L (ObjectUpdated old new) =
     (haveApplicationsChanged old new \<or> hasBehaviorLabelChanged old new \<or>
      hasMatchConditionChanged L old new \<or> hasSourceChanged old new)"

fun RetryInfoPredicate :: "object_event \<Rightarrow> bool" where
  "RetryInfoPredicate (ObjectUpdated old new) = (hasPipelineChanged old new \<or> hasDataChanged old new)"
| "RetryInfoPredicate _ = False"

fun ReleaseServiceConfigPredicate :: "object_event \<Rightarrow> bool" where
  "ReleaseServiceConfigPredicate (ObjectCreated _) = True"
| "ReleaseServiceConfigPredicate (ObjectDeleted _) = True"
| "ReleaseServiceConfigPredicate (ObjectGeneric _) = False"
| "ReleaseServiceConfigPredicate (ObjectUpdated (ConfigObject old) (ConfigObject new)) =
     (RetryablePipelines (rsc_Spec old) \<noteq> RetryablePipelines (rsc_Spec new))"
| "ReleaseServiceConfigPredicate (ObjectUpdated _ _) = False"

section \<open>enqueue_matched.go\<close>

type_synonym queue = "(string \<times> string) list"

text \<open>\<open>strings.SplitN(s, "/", 2)\<close>: at the first slash, if there is one.\<close>

definition enqueueRequest :: "string \<Rightarrow> queue \<Rightarrow> queue" where
  "enqueueRequest namespacedNameString q =
     (case dropWhile (\<lambda>c. c \<noteq> CHR ''/'') namespacedNameString of
        [] \<Rightarrow> q
      | _ # name \<Rightarrow> q @ [(takeWhile (\<lambda>c. c \<noteq> CHR ''/'') namespacedNameString, name)])"

fun enqueue_matched :: "plan_object \<Rightarrow> queue \<Rightarrow> queue" where
  "enqueue_matched (PlanObject rp) q =
     enqueueRequest (mrpa_Name (rpst_ReleasePlanAdmission (rp_Status rp))) q"
| "enqueue_matched (AdmissionObject rpa) q =
     fold (\<lambda>m. enqueueRequest (mrp_Name m)) (items (ReleasePlans (rpa_Status rpa))) q"
| "enqueue_matched (ConfigObject _) q = q"

fun EnqueueRequestForMatchedResource :: "object_event \<Rightarrow> queue \<Rightarrow> queue" where
  "EnqueueRequestForMatchedResource (ObjectCreated _) q = q"
| "EnqueueRequestForMatchedResource (ObjectUpdated old new) q = enqueue_matched new (enqueue_matched old q)"
| "EnqueueRequestForMatchedResource (ObjectDeleted obj) q = enqueue_matched obj q"
| "EnqueueRequestForMatchedResource (ObjectGeneric obj) q = enqueue_matched obj q"

section \<open>What the predicates let pass\<close>

lemma same_groups_match:
  "\<lbrakk>Application (rp_Spec new) = Application (rp_Spec old); ComponentGroup (rp_Spec new) = ComponentGroup (rp_Spec old)\<rbrakk> \<Longrightarrow>
   MatchesReleasePlan rpa new = MatchesReleasePlan rpa old"
  by (simp add: MatchesReleasePlan_def GetGroupName_def)

lemma unique_match_Inr:
  "unique_match rp None rpas = Inr rpa \<longleftrightarrow> filter (\<lambda>x. MatchesReleasePlan x rp) rpas = [rpa]"
  by (auto simp: unique_match_filter split: list.splits)

text \<open>
  C37. An update of a ReleasePlan that the match predicate drops cannot change what the plan is
  matched to, as long as the update keeps the label that designates an admission: the same
  admission is found before and after.
\<close>

theorem dropped_plan_update_keeps_match:
  assumes "\<not> MatchPredicate L (ObjectUpdated (PlanObject old) (PlanObject new))"
    and "om_Namespace (rp_meta new) = om_Namespace (rp_meta old)"
    and "map_index (om_Labels (rp_meta new)) ReleasePlanAdmissionLabel =
      map_index (om_Labels (rp_meta old)) ReleasePlanAdmissionLabel"
  shows "(\<exists>w'. run_state (GetMatchingReleasePlanAdmission E new) w = (Inr rpa, w')) \<longleftrightarrow>
    (\<exists>w'. run_state (GetMatchingReleasePlanAdmission E old) w = (Inr rpa, w'))"
proof -
  have "Target (rp_Spec new) = Target (rp_Spec old)"
    and match: "\<And>x. MatchesReleasePlan x new = MatchesReleasePlan x old"
    using assms(1) by (auto intro!: same_groups_match)
  moreover from match have "\<And>rpas. unique_match new None rpas = Inr rpa \<longleftrightarrow> unique_match old None rpas = Inr rpa"
    by (simp add: unique_match_Inr)
  ultimately show ?thesis
    using assms(2,3)
    by (auto simp: GetMatchingReleasePlanAdmission_def Let_def split: prod.splits sum.splits option.splits)
qed

text \<open>The designating label itself is not watched.\<close>

theorem designation_change_is_dropped:
  "\<not> MatchPredicate L (ObjectUpdated
     (PlanObject rp)
     (PlanObject (rp\<lparr>rp_meta := (rp_meta rp)\<lparr>om_Labels := map_put (om_Labels (rp_meta rp)) ReleasePlanAdmissionLabel name\<rparr>\<rparr>)))"
proof -
  have "ReleasePlanAdmissionLabel \<noteq> AutoReleaseLabel" "ReleasePlanAdmissionLabel \<noteq> BlockReleasesLabel"
    by code_simp+
  then show ?thesis
    by (auto simp: hasBehaviorLabelChanged_def hasConditionChanged_def split: option.splits)
qed

text \<open>
  Updates that the retry predicates drop leave the retry information as it is: of the
  admission, of one of the matched ReleasePlans, and of the service configuration, together.
\<close>

lemma dropped_updates_keep_retry_info:
  assumes "\<not> RetryInfoPredicate (ObjectUpdated (AdmissionObject rpa) (AdmissionObject rpa'))"
    and "\<not> RetryInfoPredicate (ObjectUpdated (PlanObject rp) (PlanObject rp'))"
    and "\<not> ReleaseServiceConfigPredicate (ObjectUpdated (ConfigObject rsc) (ConfigObject rsc'))"
  shows "DetermineRetryInfo re um rpa' (Some (xs @ rp' # ys)) (Some rsc') =
    DetermineRetryInfo re um rpa (Some (xs @ rp # ys)) (Some rsc)"
proof -
  have same: "rpas_Pipeline (rpa_Spec rpa') = rpas_Pipeline (rpa_Spec rpa)"
    "rpas_Data (rpa_Spec rpa') = rpas_Data (rpa_Spec rpa)"
    "RetryablePipelines (rsc_Spec rsc') = RetryablePipelines (rsc_Spec rsc)"
    "concat (map (\<lambda>p. ExtractTags um (rps_Data (rp_Spec p))) (items (Some (xs @ rp' # ys)))) =
     concat (map (\<lambda>p. ExtractTags um (rps_Data (rp_Spec p))) (items (Some (xs @ rp # ys))))"
    using assms by simp_all
  show ?thesis unfolding DetermineRetryInfo_def option.case same by (rule refl)
qed

section \<open>Requests for matched resources\<close>

lemma enqueueRequest_namespaced:
  "CHR ''/'' \<notin> set ns \<Longrightarrow> enqueueRequest (namespaced ns name) q = q @ [(ns, name)]"
  by (auto simp: enqueueRequest_def namespaced_def takeWhile_append dropWhile_append)

definition paired :: "ReleasePlan \<Rightarrow> MatchedReleasePlan" where
  "paired rp = \<lparr>mrp_Name = namespaced (om_Namespace (rp_meta rp)) (om_Name (rp_meta rp)),
     mrp_Active = (map_index (om_Labels (rp_meta rp)) AutoReleaseLabel = ''true'')\<rparr>"

abbreviation name_less :: "MatchedReleasePlan \<Rightarrow> MatchedReleasePlan \<Rightarrow> bool" where
  "name_less a b \<equiv> str_less (mrp_Name a) (mrp_Name b)"

text \<open>
  What \<open>sort.Slice\<close> promises for a strict order on names: the elements, with no inversion.
\<close>

locale sorter_api =
  fixes srt :: sorter
  assumes elements: "mset (srt name_less xs) = mset xs"
    and ordered: "sorted_wrt (\<lambda>a b. \<not> name_less b a) (srt name_less xs)"
begin

lemma sorted_fold:
  "mset (fold (\<lambda>rp acc. srt name_less (acc @ [paired rp])) rps acc) = mset acc + mset (map paired rps)"
  by (induction rps arbitrary: acc) (simp_all add: elements)

lemma sorted_fold_ordered:
  "sorted_wrt (\<lambda>a b. \<not> name_less b a) acc \<Longrightarrow>
   sorted_wrt (\<lambda>a b. \<not> name_less b a) (fold (\<lambda>rp acc. srt name_less (acc @ [paired rp])) rps acc)"
  by (induction rps arbitrary: acc) (simp_all add: ordered)

end

lemma str_less_total: "\<not> str_less a b \<Longrightarrow> \<not> str_less b a \<Longrightarrow> a = b"
proof (induction a b rule: str_less.induct)
  case (4 x xs y ys)
  then have "(of_char x :: nat) = of_char y" by (auto split: if_splits)
  with 4 show ?case by (auto split: if_splits)
qed auto

text \<open>With distinct names there is only one sorted list.\<close>

lemma sorted_by_name_unique:
  assumes "mset xs = mset ys" "distinct (map mrp_Name xs)"
    and "sorted_wrt (\<lambda>a b. \<not> name_less b a) xs" "sorted_wrt (\<lambda>a b. \<not> name_less b a) ys"
  shows "xs = ys"
  using assms
proof (induction xs arbitrary: ys)
  case (Cons x xs)
  then obtain y ys' where ys: "ys = y # ys'" by (cases ys) auto
  have "y \<in> set (x # xs)" "x \<in> set ys"
    using Cons.prems(1) ys by (metis list.set_intros(1) mset_eq_setD)+
  then have "\<not> name_less y x" "\<not> name_less x y" if "x \<noteq> y"
    using Cons.prems(3,4) that by (auto simp: ys)
  then have "x = y"
    using str_less_total \<open>y \<in> set (x # xs)\<close> Cons.prems(2) by (metis distinct.simps(2) image_eqI list.map(2) set_ConsD set_map)
  then show ?case using Cons ys by simp
qed simp

end
