(* ===== verification/Release_Watches.thy ===== *)
theory Release_Watches
  imports Adapter_Runs Adapter_Retry Watch_Events
begin

text \<open>
  \<open>Register\<close> of \<open>src/controllers/release/controller.go\<close>: the events that wake the Release controller.
  The predicates \<open>GenerationChangedPredicate\<close> and \<open>IgnoreBackups\<close> and the handler
  \<open>EnqueueRequestForAnnotation\<close> come from other packages and are arguments; locale \<open>owner_handler\<close> is
  what \<open>operator-lib\<close> documents of the last one and of \<open>SetOwnerAnnotations\<close>, which the builder calls.
\<close>

datatype release_event =
    ReleaseCreated Release
  | ReleaseDeleted Release
  | ReleaseGeneric Release
  | ReleaseUpdated Release Release

fun event_release :: "release_event \<Rightarrow> Release" where
  "event_release (ReleaseCreated r) = r"
| "event_release (ReleaseDeleted r) = r"
| "event_release (ReleaseGeneric r) = r"
| "event_release (ReleaseUpdated old new) = new"

datatype watch_event = OnRelease release_event | OnRun run_event

definition release_kind :: "string \<times> string" where
  "release_kind = (''Release'', ''appstudio.redhat.com'')"

definition release_Register ::
  "lib \<Rightarrow> (release_event \<Rightarrow> bool) \<Rightarrow> (release_event \<Rightarrow> bool) \<Rightarrow>
   (string \<times> string \<Rightarrow> run_event \<Rightarrow> queue) \<Rightarrow> watch_event \<Rightarrow> queue" where
  "release_Register K GenerationChangedPredicate IgnoreBackups EnqueueRequestForAnnotation ev =
     (case ev of
        OnRelease e \<Rightarrow>
          if GenerationChangedPredicate e \<and> IgnoreBackups e
          then [(om_Namespace (rel_meta (event_release e)), om_Name (rel_meta (event_release e)))] else []
      | OnRun e \<Rightarrow>
          if ReleasePipelineRunLifecyclePredicate (ContainsFinalizer K) e
          then EnqueueRequestForAnnotation release_kind e else [])"

section \<open>Owner annotations\<close>

fun event_metas :: "run_event \<Rightarrow> object_meta list" where
  "event_metas (CreateEvent obj) = [watched_meta obj]"
| "event_metas (DeleteEvent obj) = [watched_meta obj]"
| "event_metas (GenericEvent obj) = [watched_meta obj]"
| "event_metas (UpdateEvent old new) =
     (case old of None \<Rightarrow> [] | Some obj \<Rightarrow> [watched_meta obj]) @ [watched_meta new]"

text \<open>
  The handler enqueues the owners that the objects of an event are annotated with, and
  \<open>SetOwnerAnnotations\<close> annotates an object with its owner; annotations that others add do not matter.
  Names and namespaces of the cluster have no slash.
\<close>

locale owner_handler =
  fixes K :: lib and annotated :: "string \<times> string \<Rightarrow> strmap \<Rightarrow> (string \<times> string) option"
    and handler :: "string \<times> string \<Rightarrow> run_event \<Rightarrow> queue"
  assumes requests: "set (handler gk ev) = {req. \<exists>m\<in>set (event_metas ev). annotated gk (om_Annotations m) = Some req}"
    and annotates: "\<lbrakk>SetOwnerAnnotations K owner m0 = (None, m1); om_Kind owner = fst release_kind;
      CHR ''/'' \<notin> set (om_Namespace owner); CHR ''/'' \<notin> set (om_Name owner)\<rbrakk> \<Longrightarrow>
      annotated release_kind (om_Annotations m1) = Some (om_Namespace owner, om_Name owner)"
    and annotated_kept: "\<lbrakk>annotated gk a = Some req; map_read a \<subseteq>\<^sub>m map_read a'\<rbrakk> \<Longrightarrow> annotated gk a' = Some req"
begin

lemma owned_requests:
  assumes "owned K owner (om_Annotations m)" "om_Kind owner = fst release_kind"
    and "CHR ''/'' \<notin> set (om_Namespace owner)" "CHR ''/'' \<notin> set (om_Name owner)"
  shows "annotated release_kind (om_Annotations m) = Some (om_Namespace owner, om_Name owner)"
  using assms annotates unfolding owned_def by metis

lemma owned_update:
  assumes "owned K owner (om_Annotations (pr_meta q))" "om_Kind owner = fst release_kind"
    and "CHR ''/'' \<notin> set (om_Namespace owner)" "CHR ''/'' \<notin> set (om_Name owner)"
    and "map_read (om_Annotations (pr_meta q)) \<subseteq>\<^sub>m map_read (om_Annotations (pr_meta old))"
    and "map_read (om_Annotations (pr_meta q)) \<subseteq>\<^sub>m map_read (om_Annotations (pr_meta new))"
  shows "set (handler release_kind (UpdateEvent (Some (RunObject old)) (RunObject new))) =
    {(om_Namespace owner, om_Name owner)}"
  using owned_requests [OF assms(1-4), THEN annotated_kept, OF assms(5)]
    owned_requests [OF assms(1-4), THEN annotated_kept, OF assms(6)]
  by (simp add: requests watched_meta_def)

end

definition slash_parts :: "string \<Rightarrow> string \<times> string" where
  "slash_parts s = (takeWhile (\<lambda>c. c \<noteq> CHR ''/'') s, drop 1 (dropWhile (\<lambda>c. c \<noteq> CHR ''/'') s))"

definition annotated_owner :: "string \<times> string \<Rightarrow> strmap \<Rightarrow> (string \<times> string) option" where
  "annotated_owner gk annotations =
     (if map_read annotations ''operator-sdk/primary-resource-type'' = Some (fst gk @ ''.'' @ snd gk)
      then map_option slash_parts (map_read annotations ''operator-sdk/primary-resource'') else None)"

definition enqueue_owners :: "string \<times> string \<Rightarrow> run_event \<Rightarrow> queue" where
  "enqueue_owners gk ev = remdups (List.map_filter (\<lambda>m. annotated_owner gk (om_Annotations m)) (event_metas ev))"

lemma slash_parts_join: "CHR ''/'' \<notin> set ns \<Longrightarrow> slash_parts (ns @ CHR ''/'' # name) = (ns, name)"
  by (auto simp: slash_parts_def takeWhile_append dropWhile_append)

lemma cluster_owner_handler: "owner_handler cluster_lib annotated_owner enqueue_owners"
proof
  fix gk ev
  show "set (enqueue_owners gk ev) =
    {req. \<exists>m\<in>set (event_metas ev). annotated_owner gk (om_Annotations m) = Some req}"
    by (auto simp: enqueue_owners_def map_filter_def image_iff) force
next
  fix owner m0 m1 :: object_meta
  assume "SetOwnerAnnotations cluster_lib owner m0 = (None, m1)" "om_Kind owner = fst release_kind"
    and slash: "CHR ''/'' \<notin> set (om_Namespace owner)"
  then have "m1 = m0\<lparr>om_Annotations := overlay (om_Annotations m0) (Some (owner_entries owner))\<rparr>"
    and "om_Kind owner = ''Release''"
    by (auto simp: cluster_lib_def set_owner_def release_kind_def split: if_splits)
  then show "annotated_owner release_kind (om_Annotations m1) = Some (om_Namespace owner, om_Name owner)"
    using slash_parts_join [OF slash] by (simp add: annotated_owner_def owner_entries_def release_kind_def)
next
  fix gk a req a'
  assume "annotated_owner gk a = Some req" "map_read a \<subseteq>\<^sub>m map_read a'"
  then show "annotated_owner gk a' = Some req"
    by (auto simp: annotated_owner_def map_le_def dom_def split: if_splits)
qed

interpretation cluster_owners: owner_handler cluster_lib annotated_owner enqueue_owners
  by (rule cluster_owner_handler)

section \<open>A run that ends wakes its Release\<close>

text \<open>The operations of a reconcile that create PipelineRuns.\<close>

definition creating_operations :: "'w env \<Rightarrow> ('w adapter, operation_result) state list" where
  "creating_operations E =
     [EnsureTenantCollectorsPipelineIsProcessed E, EnsureManagedCollectorsPipelineIsProcessed E,
      EnsureTenantPipelineIsProcessed E, EnsureManagedPipelineIsProcessed E,
      EnsureManagedPipelineProcessingIsCompleted E, EnsureFinalPipelineIsProcessed E]"

lemma creating_cases:
  assumes "op \<in> set (creating_operations E)"
  obtains "op = EnsureManagedPipelineProcessingIsCompleted E"
  | T lookup where "(T, lookup, op) \<in> set (starting_operations E r)"
  using assms that unfolding creating_operations_def starting_operations_def by force

lemma created_belongs:
  assumes "run_store E runs" "op \<in> set (creating_operations E)" "run_state op s = (res, s')"
    and "runs (world s') \<noteq> runs (world s)"
  obtains q T where "runs (world s') = runs (world s) @ [q]" "belongs (lib E) (release s) T (pr_meta q)"
  using assms(2)
proof (cases rule: creating_cases [where r = "release s"])
  case 1
  then show ?thesis
    using run_store.retried_completed [OF assms(1), of s] assms(3,4) that
    by (auto simp: run_store.retried_def [OF assms(1)] run_store.cnt_def [OF assms(1)])
next
  case (2 T lookup)
  obtain found err w1 where "run_state lookup (world s) = ((found, err), w1)" by (metis surj_pair)
  from starting_operation_grown [OF assms(1) 2 this] show ?thesis
    using assms(3,4) that by (auto simp: run_store.grown_def [OF assms(1)] run_store.cnt_def [OF assms(1)])
qed

lemma belongs_watched:
  assumes "belongs K r T (pr_meta q)" "map_read (om_Labels (pr_meta q)) \<subseteq>\<^sub>m map_read (om_Labels (pr_meta p))"
  shows "isReleasePipelineRun (RunObject p)"
proof -
  have "carries r T (om_Labels (pr_meta p))"
    using assms by (auto simp: belongs_def carries_def map_le_def dom_def)
  then show ?thesis
    using carries_type [of r T "om_Labels (pr_meta p)"] by (cases T) (auto simp: isReleasePipelineRun_def)
qed

text \<open>
  C11. No end of a PipelineRun goes unnoticed. Whatever run an operation of a reconcile created, an
  update event with which that run ends, or is marked for deletion while it still runs, puts the
  Release of that reconcile, and nothing else, into the queue of the Release controller; as long as
  the labels and annotations it was created with are still there. Those that Tekton and others add
  make no difference.
\<close>

theorem ended_run_wakes_release:
  assumes "run_store E runs" "owner_handler (lib E) annotated handler"
    and "op \<in> set (creating_operations E)" "run_state op s = (res, s')" "runs (world s') = runs (world s) @ [q]"
    and "map_read (om_Labels (pr_meta q)) \<subseteq>\<^sub>m map_read (om_Labels (pr_meta new))"
    and "map_read (om_Annotations (pr_meta q)) \<subseteq>\<^sub>m map_read (om_Annotations (pr_meta new))"
    and "map_read (om_Annotations (pr_meta q)) \<subseteq>\<^sub>m map_read (om_Annotations (pr_meta old))"
    and "\<not> k_IsUnknown (pr_Condition new) \<or>
      om_DeletionTimestamp (pr_meta old) = None \<and> om_DeletionTimestamp (pr_meta new) \<noteq> None"
    and "om_Kind (rel_meta (release s)) = ''Release''" "CHR ''/'' \<notin> set (om_Namespace (rel_meta (release s)))"
    and "CHR ''/'' \<notin> set (om_Name (rel_meta (release s)))"
  shows "set (release_Register (lib E) gen backups handler
      (OnRun (UpdateEvent (Some (RunObject old)) (RunObject new)))) =
    {(om_Namespace (rel_meta (release s)), om_Name (rel_meta (release s)))}"
proof -
  obtain q' T where "runs (world s') = runs (world s) @ [q']" "belongs (lib E) (release s) T (pr_meta q')"
    using created_belongs [OF assms(1,3,4)] assms(5) by auto
  then have q: "belongs (lib E) (release s) T (pr_meta q)" using assms(5) by simp
  have "ReleasePipelineRunLifecyclePredicate (ContainsFinalizer (lib E))
      (UpdateEvent (Some (RunObject old)) (RunObject new))"
    using belongs_watched [OF q assms(6)] assms(9)
    by (auto simp: ReleasePipelineRunLifecyclePredicate_def hasPipelineSucceeded_def
        hasDeletionTimestampChanged_def watched_meta_def)
  moreover have "set (handler release_kind (UpdateEvent (Some (RunObject old)) (RunObject new))) =
      {(om_Namespace (rel_meta (release s)), om_Name (rel_meta (release s)))}"
    using q assms(7,8,10,11,12)
    by (intro owner_handler.owned_update [OF assms(2), where q = q]) (simp_all add: belongs_def release_kind_def)
  ultimately show ?thesis by (simp add: release_Register_def)
qed

section \<open>Runs on the concrete cluster\<close>

definition loaded_state :: "cluster \<Rightarrow> cluster adapter" where
  "loaded_state w = (newAdapter (cl_release w) w)\<lparr>
     releaseServiceConfig := Some ((getEmptyReleaseServiceConfig ''service''))\<rparr>"

text \<open>The tenant phase is due and has no run; the failed managed attempt has no successor.\<close>

definition tenant_due :: "cluster adapter" where
  "tenant_due = loaded_state (unrecorded_cluster\<lparr>cl_runs := []\<rparr>)"

definition retry_due :: "cluster adapter" where
  "retry_due = loaded_state (retry_cluster\<lparr>cl_runs := []\<rparr>)"

definition tenant_started :: "cluster adapter" where
  "tenant_started = snd (run_state (EnsureTenantPipelineIsProcessed cluster_env) tenant_due)"

definition retry_started :: "cluster adapter" where
  "retry_started = snd (run_state (EnsureManagedPipelineProcessingIsCompleted cluster_env) retry_due)"

lemma tenant_run_created: "length (cl_runs (world tenant_started)) = 1"
  by code_simp

lemma retry_run_created: "length (cl_runs (world retry_started)) = 1"
  by code_simp

lemma due_states [simp]:
  "cl_runs (world tenant_due) = []" "cl_runs (world retry_due) = []"
  "rel_meta (release tenant_due) = rel_meta demo_release"
  by (simp_all add: tenant_due_def retry_due_def loaded_state_def newAdapter_def unrecorded_cluster_def)

text \<open>Tekton adds a label and an annotation to a run, and ends it.\<close>

definition added :: "strmap \<Rightarrow> strmap" where
  "added m = Some ([''tekton.dev/pipeline'' \<mapsto> ''release''] ++ map_read m)"

lemma added_kept: "map_read m \<subseteq>\<^sub>m map_read (added m)"
proof -
  have "map_read (added m) = [''tekton.dev/pipeline'' \<mapsto> ''release''] ++ map_read m"
    by (rule ext) (simp add: added_def)
  then show ?thesis by simp
qed

definition ended :: "PipelineRun \<Rightarrow> PipelineRun" where
  "ended p = p\<lparr>pr_meta := (pr_meta p)\<lparr>om_Labels := added (om_Labels (pr_meta p)),
       om_Annotations := added (om_Annotations (pr_meta p))\<rparr>,
     pr_Condition := nil_condition\<lparr>k_nil := False, k_IsTrue := True, k_IsUnknown := False\<rparr>,
     pr_IsDone := True\<rparr>"

theorem ended_run_wakes_release_witness:
  "\<exists>q. cl_runs (world tenant_started) = [q] \<and>
     set (release_Register cluster_lib (\<lambda>_. True) (\<lambda>_. True) enqueue_owners
       (OnRun (UpdateEvent (Some (RunObject q)) (RunObject (ended q))))) = {(''dev'', ''release'')}"
proof -
  obtain q where q: "cl_runs (world tenant_started) = [q]"
    using tenant_run_created by (auto simp: length_Suc_conv)
  obtain res where run: "run_state (EnsureTenantPipelineIsProcessed cluster_env) tenant_due = (res, tenant_started)"
    by (cases "run_state (EnsureTenantPipelineIsProcessed cluster_env) tenant_due") (simp add: tenant_started_def)
  have "set (release_Register (lib cluster_env) (\<lambda>_. True) (\<lambda>_. True) enqueue_owners
      (OnRun (UpdateEvent (Some (RunObject q)) (RunObject (ended q))))) =
      {(om_Namespace (rel_meta (release tenant_due)), om_Name (rel_meta (release tenant_due)))}"
  proof (rule ended_run_wakes_release [OF cluster_run_store _ _ run, where q = q])
    show "owner_handler (lib cluster_env) annotated_owner enqueue_owners"
      by (simp add: cluster_owner_handler)
    show "EnsureTenantPipelineIsProcessed cluster_env \<in> set (creating_operations cluster_env)"
      by (simp add: creating_operations_def)
  qed (simp_all add: q ended_def added_kept demo_release_def)
  then show ?thesis using q by (simp add: demo_release_def)
qed

theorem no_duplicate_retry_witness:
  "\<exists>q. cl_runs (world retry_started) = [q] \<and>
     map_read (om_Labels (pr_meta q)) ReleaseAttemptLabel = Some (show_int 1)"
proof -
  obtain res where run: "run_state (EnsureManagedPipelineProcessingIsCompleted cluster_env) retry_due = (res, retry_started)"
    by (cases "run_state (EnsureManagedPipelineProcessingIsCompleted cluster_env) retry_due") (simp add: retry_started_def)
  have "GetManagedPipelineRetryCount (release retry_due) = 0"
    by (simp add: retry_due_def loaded_state_def newAdapter_def retry_cluster_def retry_release_def
        GetManagedPipelineRetryCount_def)
  moreover have "cl_runs (world retry_started) \<noteq> cl_runs (world retry_due)"
    using retry_run_created by auto
  ultimately obtain q where "cl_runs (world retry_started) = [q]"
    "(run_labels (release retry_due) ManagedPipelineType)(ReleaseAttemptLabel \<mapsto> show_int 1)
       \<subseteq>\<^sub>m map_read (om_Labels (pr_meta q))"
    using no_duplicate_retry [OF cluster_run_store run] by auto
  then show ?thesis by (auto simp: map_le_def)
qed

end
