(* ===== verification/Plan_Matching.thy ===== *)
theory Plan_Matching
  imports Watch_Events
begin

text \<open>
  What the plan controllers achieve: a status that has been written is not written again while the
  match stays the same, although every write wakes the controllers again; and the names they write
  lead the event handler to the matched objects.
\<close>

section \<open>ReleasePlans\<close>

definition match_entry :: "error + ReleasePlanAdmission \<Rightarrow> MatchedReleasePlanAdmission" where
  "match_entry found =
     (case found of Inl _ \<Rightarrow> \<lparr>mrpa_Name = [], mrpa_Active = False\<rparr>
      | Inr rpa \<Rightarrow> \<lparr>mrpa_Name = namespaced (om_Namespace (rpa_meta rpa)) (om_Name (rpa_meta rpa)),
          mrpa_Active = (map_index (om_Labels (rpa_meta rpa)) BlockReleasesLabel = ''false'')\<rparr>)"

text \<open>What the API server promises to the only writer of a status: the answer of a patch carries it.\<close>

definition plan_patch_answers :: "'w env \<Rightarrow> bool" where
  "plan_patch_answers E \<longleftrightarrow> (\<forall>base x w x' w'.
     run_state (api_PatchReleasePlanStatus E base x) w = (Inr x', w') \<longrightarrow> rp_Status x' = rp_Status x)"

definition admission_patch_answers :: "'w env \<Rightarrow> bool" where
  "admission_patch_answers E \<longleftrightarrow> (\<forall>base x w x' w'.
     run_state (api_PatchReleasePlanAdmissionStatus E base x) w = (Inr x', w') \<longrightarrow> rpa_Status x' = rpa_Status x)"

lemma plan_patch_answersD:
  "plan_patch_answers E \<Longrightarrow> run_state (api_PatchReleasePlanStatus E base x) w = (Inr x', w') \<Longrightarrow>
   rp_Status x' = rp_Status x"
  unfolding plan_patch_answers_def by blast

lemma admission_patch_answersD:
  "admission_patch_answers E \<Longrightarrow>
   run_state (api_PatchReleasePlanAdmissionStatus E base x) w = (Inr x', w') \<Longrightarrow>
   rpa_Status x' = rpa_Status x"
  unfolding admission_patch_answers_def by blast

context conditions_api
begin

lemma view_present: "cond_view L cs t = Some v \<Longrightarrow> FindStatusCondition L cs t \<noteq> None"
  by (auto simp: cond_view_def)

lemma set_present: "FindStatusCondition L (SetCondition L now cs t st rs) t \<noteq> None"
  by (rule view_present) (simp add: view_set)

lemma set_equal: "IsStatusConditionPresentAndEqual L (SetCondition L now cs t st rs) t st' \<longleftrightarrow> st' = st"
  using view_set [of now cs t st rs t] by (auto simp: present_and_equal cond_view_def)

lemma matched_plan_settled:
  assumes "rp_Status rp2 = rp_Status (matched_plan L now found rp)"
    and "isl found2 = isl found" "match_entry found2 = match_entry found"
  shows "rpst_ReleasePlanAdmission (rp_Status (matched_plan L now2 found2 rp2)) =
      rpst_ReleasePlanAdmission (rp_Status rp2)"
    and "FindStatusCondition L (rpst_Conditions (rp_Status rp2)) MatchedConditionType \<noteq> None"
proof -
  show "FindStatusCondition L (rpst_Conditions (rp_Status rp2)) MatchedConditionType \<noteq> None"
    using assms(1) set_present present_and_equal
    by (cases found) (auto simp: matched_plan_def ReleasePlan_MarkMatched_def ReleasePlan_MarkUnmatched_def
        ReleasePlan_setMatchedStatus_def split: if_splits)
  show "rpst_ReleasePlanAdmission (rp_Status (matched_plan L now2 found2 rp2)) =
      rpst_ReleasePlanAdmission (rp_Status rp2)"
    using assms set_equal
    by (cases found; cases found2) (auto simp: matched_plan_def ReleasePlan_MarkMatched_def
        ReleasePlan_MarkUnmatched_def ReleasePlan_setMatchedStatus_def match_entry_def split: if_splits)
qed

end

lemma plan_write_status:
  assumes "run_state (plan_EnsureMatchingInformationIsSet E) (plan_newAdapter rp w) =
      (RequeueOnErrorOrContinue None, s)"
    and "run_state (GetMatchingReleasePlanAdmission E rp) w = (found, w1)" "plan_patch_answers E"
  shows "\<exists>now. rp_Status (releasePlan s) = rp_Status (matched_plan (conds E) now found rp)"
  using assms
  by (auto simp: plan_EnsureMatchingInformationIsSet_def plan_newAdapter_def plan_load_def
      split: prod.splits if_splits sum.splits dest!: plan_patch_answersD)

lemma plan_settled_continues:
  assumes "run_state (GetMatchingReleasePlanAdmission E rp) w = (found, w1)"
    and "\<And>now. rpst_ReleasePlanAdmission (rp_Status (matched_plan (conds E) now found rp)) =
      rpst_ReleasePlanAdmission (rp_Status rp)"
    and "FindStatusCondition (conds E) (rpst_Conditions (rp_Status rp)) MatchedConditionType \<noteq> None"
  shows "fst (run_state (plan_EnsureMatchingInformationIsSet E) (plan_newAdapter rp w)) = ContinueProcessing"
  using assms
  by (auto simp: plan_EnsureMatchingInformationIsSet_def plan_newAdapter_def plan_load_def split: prod.splits)

text \<open>
  C21. The ReleasePlan controller settles. After a reconcile that wrote the matching information,
  the next reconcile of the stored object writes nothing as long as it finds the same admission
  with the same block label, or again none: the event the write causes ends there.
\<close>

theorem plan_write_settles:
  assumes "conditions_api (conds E)" "plan_patch_answers E"
    and "run_state (GetMatchingReleasePlanAdmission E rp) w = (found, w1)"
    and "run_state (plan_EnsureMatchingInformationIsSet E) (plan_newAdapter rp w) =
      (RequeueOnErrorOrContinue None, s)"
    and "rp_Status rp2 = rp_Status (releasePlan s)"
    and "run_state (GetMatchingReleasePlanAdmission E rp2) w2 = (found2, w3)"
    and "isl found2 = isl found" "match_entry found2 = match_entry found"
  shows "fst (run_state (plan_EnsureMatchingInformationIsSet E) (plan_newAdapter rp2 w2)) = ContinueProcessing"
proof -
  obtain now where "rp_Status rp2 = rp_Status (matched_plan (conds E) now found rp)"
    using plan_write_status [OF assms(4,3,2)] assms(5) by auto
  note settled = conditions_api.matched_plan_settled [OF assms(1) this assms(7,8)]
  show ?thesis by (rule plan_settled_continues [OF assms(6) settled])
qed

section \<open>ReleasePlanAdmissions\<close>

abbreviation sorted_plans :: "sorter \<Rightarrow> ReleasePlan list \<Rightarrow> MatchedReleasePlan list" where
  "sorted_plans srt rps \<equiv> fold (\<lambda>rp acc. srt name_less (acc @ [paired rp])) rps []"

lemma mark_matched_all_plans:
  assumes "run_state (mark_matched_all E rps) s = (u, s')"
    and "ReleasePlans (rpa_Status (releasePlanAdmission s)) = Some xs"
  shows "ReleasePlans (rpa_Status (releasePlanAdmission s')) =
    Some (fold (\<lambda>rp acc. SortSlice (lib E) name_less (acc @ [paired rp])) rps xs)"
  using assms
proof (induction rps arbitrary: s xs)
  case (Cons rp rps)
  obtain now w where now: "run_state (Now E) (admission_world s) = (now, w)"
    by (cases "run_state (Now E) (admission_world s)")
  let ?s = "s\<lparr>admission_world := w, releasePlanAdmission :=
    ReleasePlanAdmission_MarkMatched (conds E) (SortSlice (lib E)) now rp (releasePlanAdmission s)\<rparr>"
  have "run_state (mark_matched_all E rps) ?s = (u, s')"
    using Cons.prems(1) now by (simp add: admission_load_def admission_edit_def)
  moreover have "ReleasePlans (rpa_Status (releasePlanAdmission ?s)) =
      Some (SortSlice (lib E) name_less (xs @ [paired rp]))"
    using Cons.prems(2) by (simp add: ReleasePlanAdmission_MarkMatched_def paired_def Let_def)
  ultimately show ?case using Cons.IH by simp
qed simp

context conditions_api
begin

lemma mark_matched_all_condition:
  assumes "run_state (mark_matched_all E rps) s = (u, s')" "conds E = L"
    and "FindStatusCondition L (rpast_Conditions (rpa_Status (releasePlanAdmission s))) MatchedConditionType \<noteq> None"
  shows "FindStatusCondition L (rpast_Conditions (rpa_Status (releasePlanAdmission s'))) MatchedConditionType \<noteq> None"
  using assms
proof (induction rps arbitrary: s)
  case (Cons rp rps)
  obtain now w where now: "run_state (Now E) (admission_world s) = (now, w)"
    by (cases "run_state (Now E) (admission_world s)")
  let ?s = "s\<lparr>admission_world := w, releasePlanAdmission :=
    ReleasePlanAdmission_MarkMatched (conds E) (SortSlice (lib E)) now rp (releasePlanAdmission s)\<rparr>"
  have "run_state (mark_matched_all E rps) ?s = (u, s')"
    using Cons.prems(1) now by (simp add: admission_load_def admission_edit_def)
  moreover have "FindStatusCondition L (rpast_Conditions (rpa_Status (releasePlanAdmission ?s)))
      MatchedConditionType \<noteq> None"
    using set_present Cons.prems(2) by (simp add: ReleasePlanAdmission_MarkMatched_def Let_def)
  ultimately show ?case using Cons.IH Cons.prems(2) by blast
qed simp

end

text \<open>One run of the operation, once the matching plans are listed.\<close>

lemma admission_matching_run:
  assumes "run_state (GetMatchingReleasePlans E rpa) w = (Inr rps, w1)" "conditions_api (conds E)"
  shows "\<exists>s. ReleasePlans (rpa_Status (releasePlanAdmission s)) = Some (sorted_plans (SortSlice (lib E)) rps) \<and>
    FindStatusCondition (conds E) (rpast_Conditions (rpa_Status (releasePlanAdmission s))) MatchedConditionType \<noteq> None \<and>
    run_state (admission_EnsureMatchingInformationIsSet E) (admission_newAdapter rpa w) =
      (if ReleasePlans (rpa_Status rpa) = Some (sorted_plans (SortSlice (lib E)) rps) \<and>
          FindStatusCondition (conds E) (rpast_Conditions (rpa_Status rpa)) MatchedConditionType \<noteq> None
       then (ContinueProcessing, s) else run_state (admission_patch E rpa) s)"
proof -
  obtain now w2 where now: "run_state (Now E) w1 = (now, w2)" by (cases "run_state (Now E) w1")
  let ?s = "\<lparr>releasePlanAdmission = ClearMatchingInfo (conds E) now rpa, admission_world = w2\<rparr>"
  obtain u s where run: "run_state (mark_matched_all E rps) ?s = (u, s)"
    by (cases "run_state (mark_matched_all E rps) ?s")
  have "ReleasePlans (rpa_Status (releasePlanAdmission s)) = Some (sorted_plans (SortSlice (lib E)) rps)"
    by (rule mark_matched_all_plans [OF run]) (simp add: ClearMatchingInfo_def)
  moreover have "FindStatusCondition (conds E) (rpast_Conditions (rpa_Status (releasePlanAdmission s)))
      MatchedConditionType \<noteq> None"
    using conditions_api.set_present [OF assms(2)]
    by (intro conditions_api.mark_matched_all_condition [OF assms(2) run refl]) (simp add: ClearMatchingInfo_def)
  ultimately show ?thesis
    using assms(1) now run
    by (intro exI [of _ s]) (auto simp: admission_EnsureMatchingInformationIsSet_def admission_newAdapter_def
        admission_load_def admission_edit_def)
qed

text \<open>The matching operation leaves the spec and the retry information of an object it does not write.\<close>

lemma mark_matched_all_frame:
  "run_state (mark_matched_all E rps) s = (u, s') \<Longrightarrow>
   rpa_Spec (releasePlanAdmission s') = rpa_Spec (releasePlanAdmission s) \<and>
   rpast_RetryInfo (rpa_Status (releasePlanAdmission s')) = rpast_RetryInfo (rpa_Status (releasePlanAdmission s))"
proof (induction rps arbitrary: s)
  case (Cons rp rps)
  obtain now w where now: "run_state (Now E) (admission_world s) = (now, w)"
    by (cases "run_state (Now E) (admission_world s)")
  let ?s = "s\<lparr>admission_world := w, releasePlanAdmission :=
    ReleasePlanAdmission_MarkMatched (conds E) (SortSlice (lib E)) now rp (releasePlanAdmission s)\<rparr>"
  have "run_state (mark_matched_all E rps) ?s = (u, s')"
    using Cons.prems now by (simp add: admission_load_def admission_edit_def)
  from Cons.IH [OF this] show ?case by (simp add: ReleasePlanAdmission_MarkMatched_def Let_def)
qed simp

lemma matching_operation_frame:
  assumes "run_state (GetMatchingReleasePlans E rpa) w = (Inr rps, w1)"
    and "run_state (admission_EnsureMatchingInformationIsSet E) (admission_newAdapter rpa w) = (res, s)"
    and "res = ContinueProcessing"
  shows "rpa_Spec (releasePlanAdmission s) = rpa_Spec rpa \<and>
    rpast_RetryInfo (rpa_Status (releasePlanAdmission s)) = rpast_RetryInfo (rpa_Status rpa)"
proof -
  obtain now w2 where now: "run_state (Now E) w1 = (now, w2)" by (cases "run_state (Now E) w1")
  let ?s = "\<lparr>releasePlanAdmission = ClearMatchingInfo (conds E) now rpa, admission_world = w2\<rparr>"
  obtain u s1 where run: "run_state (mark_matched_all E rps) ?s = (u, s1)"
    by (cases "run_state (mark_matched_all E rps) ?s")
  have "s = s1"
    using assms now run
    by (auto simp: admission_EnsureMatchingInformationIsSet_def admission_newAdapter_def admission_load_def
        admission_edit_def admission_patch_def split: if_splits prod.splits sum.splits)
  then show ?thesis using mark_matched_all_frame [OF run] by (simp add: ClearMatchingInfo_def)
qed

text \<open>
  What \<open>EnsureRetryInformationIsSet\<close> reads before it decides: the configuration and, with one, the
  matching plans.
\<close>

definition retry_inputs ::
  "'w env \<Rightarrow> ReleasePlanAdmission \<Rightarrow> ('w, error + ReleasePlan list option \<times> ReleaseServiceConfig option) state" where
  "retry_inputs E rpa = do {
     namespace \<leftarrow> Getenv E ''SERVICE_NAMESPACE'';
     (if namespace = [] then State_Monad.return (Inl (plain_error ''SERVICE_NAMESPACE env var not set''))
      else do {
        (rsc, err) \<leftarrow> GetReleaseServiceConfig E ReleaseServiceConfigResourceName namespace;
        (case err of
           Some e \<Rightarrow> State_Monad.return (if IsNotFound e then Inr (None, None) else Inl e)
         | None \<Rightarrow> do {
             res \<leftarrow> GetMatchingReleasePlans E rpa;
             State_Monad.return (case res of Inl e \<Rightarrow> Inl e | Inr rps \<Rightarrow> Inr (Some rps, Some rsc))
           })
      })
   }"

lemma retry_operation_run:
  assumes "run_state (retry_inputs E (releasePlanAdmission s)) (admission_world s) = (Inr (rps, rsc), w)"
  shows "run_state (admission_EnsureRetryInformationIsSet E) s =
    run_state (admission_set_retry E rps rsc) (s\<lparr>admission_world := w\<rparr>)"
  using assms
  by (auto simp: retry_inputs_def admission_EnsureRetryInformationIsSet_def admission_load_def
      split: prod.splits if_splits option.splits sum.splits)

text \<open>
  What the API server promises of the status in the answer of a patch, whatever the patch was
  computed against: the fields this controller owns are as they were sent.
\<close>

definition matching_fields_kept :: "conditions_lib \<Rightarrow> ReleasePlanAdmission \<Rightarrow> ReleasePlanAdmission \<Rightarrow> bool" where
  "matching_fields_kept L x x' \<longleftrightarrow>
     ReleasePlans (rpa_Status x') = ReleasePlans (rpa_Status x) \<and>
     rpast_RetryInfo (rpa_Status x') = rpast_RetryInfo (rpa_Status x) \<and>
     (FindStatusCondition L (rpast_Conditions (rpa_Status x')) MatchedConditionType = None \<longleftrightarrow>
      FindStatusCondition L (rpast_Conditions (rpa_Status x)) MatchedConditionType = None)"

definition admission_patch_keeps :: "'w env \<Rightarrow> bool" where
  "admission_patch_keeps E \<longleftrightarrow> (\<forall>base x w x' w'.
     run_state (api_PatchReleasePlanAdmissionStatus E base x) w = (Inr x', w') \<longrightarrow>
     matching_fields_kept (conds E) x x')"

lemma admission_patch_keepsD:
  "admission_patch_keeps E \<Longrightarrow>
   run_state (api_PatchReleasePlanAdmissionStatus E base x) w = (Inr x', w') \<Longrightarrow>
   matching_fields_kept (conds E) x x'"
  unfolding admission_patch_keeps_def by blast

lemma admission_patch_kept:
  assumes "run_state (admission_patch E base) s = (RequeueOnErrorOrContinue None, s')" "admission_patch_keeps E"
  shows "matching_fields_kept (conds E) (releasePlanAdmission s) (releasePlanAdmission s')"
  using assms
  by (auto simp: admission_patch_def admission_load_def admission_edit_def
      split: prod.splits sum.splits dest: admission_patch_keepsD)

text \<open>The two ways an operation can end without an error.\<close>

definition went_well :: "operation_result \<Rightarrow> bool" where
  "went_well res \<longleftrightarrow> res = ContinueProcessing \<or> res = RequeueOnErrorOrContinue None"

text \<open>What the object of the adapter holds after each operation.\<close>

lemma matching_operation_holds:
  assumes "run_state (GetMatchingReleasePlans E rpa) w = (Inr rps, w1)" "conditions_api (conds E)" "admission_patch_keeps E"
    and "run_state (admission_EnsureMatchingInformationIsSet E) (admission_newAdapter rpa w) = (res, s)" "went_well res"
  shows "ReleasePlans (rpa_Status (releasePlanAdmission s)) = Some (sorted_plans (SortSlice (lib E)) rps) \<and>
    FindStatusCondition (conds E) (rpast_Conditions (rpa_Status (releasePlanAdmission s))) MatchedConditionType \<noteq> None"
proof -
  obtain s1 where s1: "ReleasePlans (rpa_Status (releasePlanAdmission s1)) = Some (sorted_plans (SortSlice (lib E)) rps)"
    "FindStatusCondition (conds E) (rpast_Conditions (rpa_Status (releasePlanAdmission s1))) MatchedConditionType \<noteq> None"
    and run: "(res, s) = (ContinueProcessing, s1) \<or> run_state (admission_patch E rpa) s1 = (res, s)"
    using admission_matching_run [OF assms(1,2)] assms(4) by (auto split: if_splits)
  have "res = RequeueOnErrorOrContinue None" if "run_state (admission_patch E rpa) s1 = (res, s)"
    using that assms(5) by (auto simp: went_well_def admission_patch_def admission_load_def admission_edit_def
        split: prod.splits sum.splits)
  then show ?thesis
    using run s1 admission_patch_kept [OF _ assms(3)] by (fastforce simp: matching_fields_kept_def)
qed

lemma retry_operation_holds:
  assumes "run_state (retry_inputs E (releasePlanAdmission s)) (admission_world s) = (Inr (rps, rsc), w)"
    and "admission_patch_keeps E"
    and "run_state (admission_EnsureRetryInformationIsSet E) s = (res, s')" "went_well res"
  shows "matching_fields_kept (conds E) (releasePlanAdmission s \<lparr>rpa_Status :=
    (rpa_Status (releasePlanAdmission s))\<lparr>rpast_RetryInfo := Some (DetermineRetryInfo (Compile (lib E))
      (Unmarshal (lib E)) (releasePlanAdmission s) rps rsc)\<rparr>\<rparr>) (releasePlanAdmission s')"
proof -
  let ?rpa = "releasePlanAdmission s" and ?s = "s\<lparr>admission_world := w\<rparr>"
  let ?info = "Some (DetermineRetryInfo (Compile (lib E)) (Unmarshal (lib E)) ?rpa rps rsc)"
  let ?s1 = "?s\<lparr>releasePlanAdmission := rpa_Status_update (rpast_RetryInfo_update (\<lambda>_. ?info)) ?rpa\<rparr>"
  have run: "(res, s') = (if rpast_RetryInfo (rpa_Status ?rpa) = ?info then (ContinueProcessing, ?s)
      else run_state (admission_patch E ?rpa) ?s1)"
    using assms(3) retry_operation_run [OF assms(1)]
    by (cases "rpast_RetryInfo (rpa_Status ?rpa) = ?info") (simp_all add: admission_set_retry_def admission_edit_def Let_def)
  show ?thesis
  proof (cases "rpast_RetryInfo (rpa_Status ?rpa) = ?info")
    case True
    then show ?thesis using run by (simp add: matching_fields_kept_def)
  next
    case False
    then have patch: "run_state (admission_patch E ?rpa) ?s1 = (res, s')" using run by simp
    then have "res = RequeueOnErrorOrContinue None"
      using assms(4) by (auto simp: went_well_def admission_patch_def admission_load_def admission_edit_def
          split: prod.splits sum.splits)
    then show ?thesis using admission_patch_kept [OF _ assms(2), of _ ?s1 s'] patch
      by (simp add: matching_fields_kept_def)
  qed
qed

lemma sorted_plans_unique:
  assumes "sorter_api srt" "mset (map paired rps2) = mset (map paired rps)" "distinct (map (\<lambda>rp. mrp_Name (paired rp)) rps)"
  shows "sorted_plans srt rps2 = sorted_plans srt rps"
proof (rule sorted_by_name_unique [symmetric])
  note folds = sorter_api.sorted_fold [OF assms(1)]
  have "mset (map mrp_Name (sorted_plans srt rps)) = mset (map mrp_Name (map paired rps))"
    unfolding mset_map folds by simp
  from mset_eq_imp_distinct_iff [OF this] show "distinct (map mrp_Name (sorted_plans srt rps))"
    using assms(3) by (simp add: comp_def)
  show "mset (sorted_plans srt rps) = mset (sorted_plans srt rps2)" unfolding folds using assms(2) by simp
qed (rule sorter_api.sorted_fold_ordered [OF assms(1)], simp)+


section \<open>The handler finds the matched objects\<close>

lemma fold_enqueue:
  assumes "list_all (\<lambda>rp. CHR ''/'' \<notin> set (om_Namespace (rp_meta rp))) rps"
  shows "fold (\<lambda>m. enqueueRequest (mrp_Name m)) (map paired rps) q =
    q @ map (\<lambda>rp. (om_Namespace (rp_meta rp), om_Name (rp_meta rp))) rps"
  using assms by (induction rps arbitrary: q) (simp_all add: paired_def enqueueRequest_namespaced)

text \<open>
  What the controllers write into a status leads back to the object it names: an event on a
  matched ReleasePlan enqueues exactly its admission, and one on a ReleasePlanAdmission exactly the
  plans in its list, given that namespaces contain no slash.
\<close>

theorem matched_names_roundtrip:
  assumes "CHR ''/'' \<notin> set (om_Namespace (rpa_meta rpa))"
    and "list_all (\<lambda>rp. CHR ''/'' \<notin> set (om_Namespace (rp_meta rp))) rps"
    and "ReleasePlans (rpa_Status rpa') = Some (map paired rps)"
  shows "EnqueueRequestForMatchedResource
      (ObjectDeleted (PlanObject (ReleasePlan_MarkMatched L now rpa rp))) q =
      q @ [(om_Namespace (rpa_meta rpa), om_Name (rpa_meta rpa))] \<and>
    EnqueueRequestForMatchedResource (ObjectDeleted (AdmissionObject rpa')) q =
      q @ map (\<lambda>rp. (om_Namespace (rp_meta rp), om_Name (rp_meta rp))) rps"
  using assms fold_enqueue [OF assms(2)]
  by (simp add: ReleasePlan_MarkMatched_def ReleasePlan_setMatchedStatus_def enqueueRequest_namespaced)

end
