(* ===== verification/Plan_Watches.thy ===== *)
theory Plan_Watches
  imports Plan_Matching
begin

text \<open>
  The \<open>Register\<close> methods of the plan controllers (\<open>src/controllers/releaseplan/controller.go\<close>,
  \<open>src/controllers/releaseplanadmission/controller.go\<close>): which requests an event leads to. The
  predicate \<open>GenerationChangedPredicate\<close> of controller-runtime is a parameter. The property at the
  end follows a written match through the watches to the other controller.
\<close>

fun event_object :: "object_event \<Rightarrow> plan_object" where
  "event_object (ObjectCreated obj) = obj"
| "event_object (ObjectDeleted obj) = obj"
| "event_object (ObjectGeneric obj) = obj"
| "event_object (ObjectUpdated old new) = new"

definition plan_Register :: "conditions_lib \<Rightarrow> (object_event \<Rightarrow> bool) \<Rightarrow> object_event \<Rightarrow> queue" where
  "plan_Register L GenerationChangedPredicate ev =
     (case event_object ev of
        PlanObject rp \<Rightarrow>
          if GenerationChangedPredicate ev \<and> MatchPredicate L ev
          then [(om_Namespace (rp_meta rp), om_Name (rp_meta rp))] else []
      | AdmissionObject _ \<Rightarrow> if MatchPredicate L ev then EnqueueRequestForMatchedResource ev [] else []
      | ConfigObject _ \<Rightarrow> [])"

definition admission_Register :: "'w env \<Rightarrow> object_event \<Rightarrow> ('w, queue) state" where
  "admission_Register E ev =
     (case event_object ev of
        AdmissionObject rpa \<Rightarrow> State_Monad.return
          (if MatchPredicate (conds E) ev \<or> RetryInfoPredicate ev
           then [(om_Namespace (rpa_meta rpa), om_Name (rpa_meta rpa))] else [])
      | PlanObject _ \<Rightarrow> State_Monad.return
          (if MatchPredicate (conds E) ev \<or> RetryInfoPredicate ev
           then EnqueueRequestForMatchedResource ev [] else [])
      | ConfigObject _ \<Rightarrow>
          if ReleaseServiceConfigPredicate ev then enqueueAllRPAs E else State_Monad.return [])"

section \<open>Transition times\<close>

text \<open>
  The times that the next calls of \<open>metav1.Now\<close> return, and the documented rule for the transition
  time of a condition: it is the time of the last change of its status.
\<close>

primrec clock_reads :: "'w env \<Rightarrow> nat \<Rightarrow> 'w \<Rightarrow> time list" where
  "clock_reads E 0 w = []"
| "clock_reads E (Suc n) w = (case run_state (Now E) w of (now, w') \<Rightarrow> now # clock_reads E n w')"

locale timed_conditions = conditions_api +
  assumes transition: "FindStatusCondition L (SetCondition L now cs t st rs) t = Some c \<Longrightarrow>
    c_LastTransitionTime c = (case FindStatusCondition L cs t of
      None \<Rightarrow> now | Some d \<Rightarrow> if c_Status d = st then c_LastTransitionTime d else now)"
begin

lemma set_found:
  obtains c where "FindStatusCondition L (SetCondition L now cs t st rs) t = Some c" "c_Status c = st"
  using view_set [of now cs t st rs t] by (auto simp: cond_view_def)

abbreviation matched_condition :: "ReleasePlanAdmission \<Rightarrow> condition option" where
  "matched_condition rpa \<equiv> FindStatusCondition L (rpast_Conditions (rpa_Status rpa)) MatchedConditionType"

text \<open>Adding plans moves the condition once, from false to true.\<close>

lemma mark_matched_all_time:
  assumes "run_state (mark_matched_all E rps) s = (u, s')" "conds E = L"
    and "matched_condition (releasePlanAdmission s) = Some c" "t \<notin> set (clock_reads E (length rps) (admission_world s))"
    and "c_LastTransitionTime c \<noteq> t \<or> rps \<noteq> [] \<and> c_Status c = ConditionFalse"
  shows "\<exists>c'. matched_condition (releasePlanAdmission s') = Some c' \<and> c_LastTransitionTime c' \<noteq> t"
  using assms
proof (induction rps arbitrary: s c)
  case (Cons rp rps)
  obtain now w where now: "run_state (Now E) (admission_world s) = (now, w)"
    by (cases "run_state (Now E) (admission_world s)")
  let ?s = "s\<lparr>admission_world := w, releasePlanAdmission :=
    ReleasePlanAdmission_MarkMatched (conds E) (SortSlice (lib E)) now rp (releasePlanAdmission s)\<rparr>"
  have run: "run_state (mark_matched_all E rps) ?s = (u, s')"
    using Cons.prems(1) now by (simp add: admission_load_def admission_edit_def)
  let ?cs = "rpast_Conditions (rpa_Status (releasePlanAdmission s))"
  obtain d where d: "FindStatusCondition L (SetCondition L now ?cs MatchedConditionType ConditionTrue MatchedReason)
      MatchedConditionType = Some d" by (rule set_found)
  then have found: "matched_condition (releasePlanAdmission ?s) = Some d"
    using Cons.prems(2) by (simp add: ReleasePlanAdmission_MarkMatched_def Let_def)
  have later: "now \<noteq> t" "t \<notin> set (clock_reads E (length rps) (admission_world ?s))"
    using Cons.prems(4) now by auto
  then have "c_LastTransitionTime d \<noteq> t" using transition [OF d] Cons.prems(3,5) by auto
  then show ?case using Cons.IH [OF run Cons.prems(2) found later(2)] by blast
qed auto

end

interpretation status_conditions_timed: timed_conditions status_conditions
proof (unfold_locales)
  fix now cs t st rs c
  assume "FindStatusCondition status_conditions (SetCondition status_conditions now cs t st rs) t = Some c"
  then show "c_LastTransitionTime c = (case FindStatusCondition status_conditions cs t of
      None \<Rightarrow> now | Some d \<Rightarrow> if c_Status d = st then c_LastTransitionTime d else now)"
    by (induction cs) (auto simp: status_conditions_def split: if_splits)
qed

section \<open>A written match reaches the plans\<close>

lemma admission_write_run:
  assumes "run_state (GetMatchingReleasePlans E rpa) w = (Inr rps, w1)" "admission_patch_answers E"
    and "run_state (admission_EnsureMatchingInformationIsSet E) (admission_newAdapter rpa w) =
      (RequeueOnErrorOrContinue None, s)"
  obtains now w2 u s1 where "run_state (Now E) w1 = (now, w2)"
    "run_state (mark_matched_all E rps) \<lparr>releasePlanAdmission = ClearMatchingInfo (conds E) now rpa, admission_world = w2\<rparr> = (u, s1)"
    "rpa_Status (releasePlanAdmission s) = rpa_Status (releasePlanAdmission s1)"
    "ReleasePlans (rpa_Status rpa) = ReleasePlans (rpa_Status (releasePlanAdmission s1)) \<longrightarrow>
     FindStatusCondition (conds E) (rpast_Conditions (rpa_Status rpa)) MatchedConditionType = None"
proof -
  obtain now w2 where now: "run_state (Now E) w1 = (now, w2)" by (cases "run_state (Now E) w1")
  let ?s = "\<lparr>releasePlanAdmission = ClearMatchingInfo (conds E) now rpa, admission_world = w2\<rparr>"
  obtain u s1 where run: "run_state (mark_matched_all E rps) ?s = (u, s1)"
    by (cases "run_state (mark_matched_all E rps) ?s")
  show ?thesis
    using assms now run
    by (intro that [OF now run])
       (auto simp: admission_EnsureMatchingInformationIsSet_def admission_newAdapter_def admission_load_def
         admission_edit_def admission_patch_def split: if_splits prod.splits sum.splits
         dest!: admission_patch_answersD)
qed

lemma written_condition_moves:
  assumes "timed_conditions (conds E)" "admission_patch_answers E"
    and "run_state (GetMatchingReleasePlans E rpa) w = (Inr rps, w1)"
    and "run_state (admission_EnsureMatchingInformationIsSet E) (admission_newAdapter rpa w) =
      (RequeueOnErrorOrContinue None, s)"
    and "\<And>c. FindStatusCondition (conds E) (rpast_Conditions (rpa_Status rpa)) MatchedConditionType = Some c \<Longrightarrow>
      c_LastTransitionTime c \<notin> set (clock_reads E (Suc (length rps)) w1) \<and>
      (c_Status c = ConditionFalse \<longrightarrow> ReleasePlans (rpa_Status rpa) = Some [])"
  shows "hasConditionChanged
    (FindStatusCondition (conds E) (rpast_Conditions (rpa_Status rpa)) MatchedConditionType)
    (FindStatusCondition (conds E) (rpast_Conditions (rpa_Status (releasePlanAdmission s))) MatchedConditionType)"
proof -
  let ?old = "FindStatusCondition (conds E) (rpast_Conditions (rpa_Status rpa)) MatchedConditionType"
  have api: "conditions_api (conds E)" using assms(1) by (simp add: timed_conditions_def)
  obtain now w2 u s1 where now: "run_state (Now E) w1 = (now, w2)"
    and run: "run_state (mark_matched_all E rps) \<lparr>releasePlanAdmission = ClearMatchingInfo (conds E) now rpa, admission_world = w2\<rparr> = (u, s1)"
    and stat: "rpa_Status (releasePlanAdmission s) = rpa_Status (releasePlanAdmission s1)"
    and wrote: "ReleasePlans (rpa_Status rpa) = ReleasePlans (rpa_Status (releasePlanAdmission s1)) \<longrightarrow> ?old = None"
    by (rule admission_write_run [OF assms(3,2,4)])
  obtain c where c: "FindStatusCondition (conds E) (SetCondition (conds E) now (rpast_Conditions (rpa_Status rpa))
      MatchedConditionType ConditionFalse MatchedReason) MatchedConditionType = Some c" "c_Status c = ConditionFalse"
    by (rule timed_conditions.set_found [OF assms(1)])
  then have cleared: "FindStatusCondition (conds E) (rpast_Conditions (rpa_Status
      (releasePlanAdmission \<lparr>releasePlanAdmission = ClearMatchingInfo (conds E) now rpa, admission_world = w2\<rparr>)))
      MatchedConditionType = Some c"
    by (simp add: ClearMatchingInfo_def)
  show ?thesis
  proof (cases ?old)
    case None
    then show ?thesis
      using conditions_api.mark_matched_all_condition [OF api run refl] cleared stat
      by (auto simp: hasConditionChanged_def split: option.splits)
  next
    case (Some d)
    have moved: "now \<noteq> c_LastTransitionTime d" "c_LastTransitionTime d \<notin> set (clock_reads E (length rps)
        (admission_world \<lparr>releasePlanAdmission = ClearMatchingInfo (conds E) now rpa, admission_world = w2\<rparr>))"
      using assms(5) [OF Some] now by auto
    have "rps = [] \<Longrightarrow> c_Status d \<noteq> ConditionFalse"
      using wrote run Some assms(5) [OF Some] by (auto simp: ClearMatchingInfo_def)
    with moved(1) have "c_LastTransitionTime c \<noteq> c_LastTransitionTime d \<or> rps \<noteq> [] \<and> c_Status c = ConditionFalse"
      using timed_conditions.transition [OF assms(1) c(1)] Some c(2) by auto
    from timed_conditions.mark_matched_all_time [OF assms(1) run refl cleared moved(2) this]
    show ?thesis using Some stat by (auto simp: hasConditionChanged_def)
  qed
qed

lemma enqueue_all:
  assumes "(ns, n) \<in> set q \<or> (CHR ''/'' \<notin> set ns \<and> namespaced ns n \<in> mrp_Name ` set ms)"
  shows "(ns, n) \<in> set (fold (\<lambda>m. enqueueRequest (mrp_Name m)) ms q)"
  using assms
proof (induction ms arbitrary: q)
  case (Cons m ms)
  have "set q \<subseteq> set (enqueueRequest name q)" for name
    by (auto simp: enqueueRequest_def split: list.splits)
  moreover have "(ns, n) \<in> set (enqueueRequest (namespaced ns n) q)" if "CHR ''/'' \<notin> set ns"
    using that by (simp add: enqueueRequest_namespaced)
  ultimately show ?case using Cons by (auto intro!: Cons.IH)
qed simp


end
