(* ===== verification/Utf8.thy ===== *)
theory Utf8
  imports Prelude
begin

text \<open>
  Go strings are byte sequences; some functions of the service read them as UTF-8. A string is a
  list of characters (bytes), a rune a code point. \<open>utf8_decode\<close> gives the rune a byte sequence
  encodes, with the ranges of the UTF-8 definition (no overlong forms, no surrogates);
  \<open>DecodeLastRuneInString\<close> and \<open>TrimRightFunc\<close> are the library functions the source calls.
\<close>

definition cont_byte :: "nat \<Rightarrow> bool" where
  "cont_byte b \<longleftrightarrow> 128 \<le> b \<and> b < 192"

fun utf8_decode :: "nat list \<Rightarrow> nat option" where
  "utf8_decode [a] = (if a < 128 then Some a else None)"
| "utf8_decode [a, b] =
     (if 194 \<le> a \<and> a < 224 \<and> cont_byte b then Some ((a - 192) * 64 + (b - 128)) else None)"
| "utf8_decode [a, b, c] =
     (if 224 \<le> a \<and> a < 240 \<and> cont_byte b \<and> cont_byte c \<and> (a = 224 \<longrightarrow> 160 \<le> b) \<and> (a = 237 \<longrightarrow> b < 160)
      then Some ((a - 224) * 4096 + (b - 128) * 64 + (c - 128)) else None)"
| "utf8_decode [a, b, c, d] =
     (if 240 \<le> a \<and> a < 245 \<and> cont_byte b \<and> cont_byte c \<and> cont_byte d \<and> (a = 240 \<longrightarrow> 144 \<le> b) \<and>
         (a = 244 \<longrightarrow> b < 144)
      then Some ((a - 240) * 262144 + (b - 128) * 4096 + (c - 128) * 64 + (d - 128)) else None)"
| "utf8_decode _ = None"

definition rune_bytes :: "string \<Rightarrow> nat option" where
  "rune_bytes s = utf8_decode (map of_char s)"

definition RuneError :: nat where
  "RuneError = 65533"

text \<open>The rune at the end of a non-empty string and its width; bytes that are no rune are width 1.\<close>

definition DecodeLastRuneInString :: "string \<Rightarrow> nat \<times> nat" where
  "DecodeLastRuneInString s =
     (if s = [] then (RuneError, 0)
      else case filter (\<lambda>k. k \<le> length s \<and> rune_bytes (drop (length s - k) s) \<noteq> None) [1, 2, 3, 4] of
          [] \<Rightarrow> (RuneError, 1)
        | k # _ \<Rightarrow> (case rune_bytes (drop (length s - k) s) of Some r \<Rightarrow> (r, k) | None \<Rightarrow> (RuneError, 1)))"

lemma last_rune_width:
  assumes "s \<noteq> []"
  shows "0 < snd (DecodeLastRuneInString s)"
proof -
  have "k \<in> set [1, 2, 3, 4 :: nat]" if "filter P [1, 2, 3, 4] = k # ks" for P k ks
    using that by (metis filter_is_subset list.set_intros(1) subsetD)
  then show ?thesis
    using assms by (fastforce simp: DecodeLastRuneInString_def split: list.splits option.splits)
qed

function TrimRightFunc :: "(nat \<Rightarrow> bool) \<Rightarrow> string \<Rightarrow> string" where
  "TrimRightFunc f s =
     (if s = [] then []
      else case DecodeLastRuneInString s of (r, width) \<Rightarrow>
        if f r then TrimRightFunc f (take (length s - width) s) else s)"
  by pat_completeness auto
termination
proof (relation "measure (\<lambda>(f :: nat \<Rightarrow> bool, s :: string). length s)", goal_cases)
  case (2 f s r width)
  then have "0 < width" using last_rune_width [of s] by (metis snd_conv)
  with 2 show ?case by simp
qed simp

declare TrimRightFunc.simps [simp del]

lemma TrimRightFunc_prefix: "\<exists>ys. s = TrimRightFunc f s @ ys"
proof (induction f s rule: TrimRightFunc.induct)
  case (1 f s)
  obtain r width where rs: "DecodeLastRuneInString s = (r, width)" by (cases "DecodeLastRuneInString s")
  show ?case
  proof (cases "s \<noteq> [] \<and> f r")
    case True
    then obtain ys where ys: "take (length s - width) s = TrimRightFunc f (take (length s - width) s) @ ys"
      using 1 rs by metis
    have "s = (TrimRightFunc f (take (length s - width) s) @ ys) @ drop (length s - width) s"
      using ys append_take_drop_id by metis
    moreover have "TrimRightFunc f s = TrimRightFunc f (take (length s - width) s)"
      using True rs by (subst TrimRightFunc.simps) simp
    ultimately show ?thesis by (metis append.assoc)
  qed (auto simp: TrimRightFunc.simps [of f s] rs)
qed

lemma TrimRightFunc_last:
  "TrimRightFunc f s = [] \<or> \<not> f (fst (DecodeLastRuneInString (TrimRightFunc f s)))"
proof (induction f s rule: TrimRightFunc.induct)
  case (1 f s)
  obtain r width where rs: "DecodeLastRuneInString s = (r, width)" by (cases "DecodeLastRuneInString s")
  show ?case
  proof (cases "s \<noteq> [] \<and> f r")
    case True
    moreover from this have "TrimRightFunc f s = TrimRightFunc f (take (length s - width) s)"
      using rs by (subst TrimRightFunc.simps) simp
    ultimately show ?thesis using 1 rs by metis
  qed (auto simp: TrimRightFunc.simps [of f s] rs)
qed

section \<open>Cutting text at a rune\<close>

text \<open>
  Bytes at the end that are not a rune are dropped one by one, as in
  \<open>for len(head) > 0 { r, size := utf8.DecodeLastRuneInString(head); ... }\<close>.
\<close>

function drop_broken :: "string \<Rightarrow> string" where
  "drop_broken head =
     (if head = [] then []
      else case DecodeLastRuneInString head of (r, width) \<Rightarrow>
        if r \<noteq> RuneError \<or> width > 1 then head else drop_broken (take (length head - width) head))"
  by pat_completeness auto
termination
proof (relation "measure length", goal_cases)
  case (2 head r width)
  then have "0 < width" using last_rune_width [of head] by (metis snd_conv)
  with 2 show ?case by simp
qed simp

declare drop_broken.simps [simp del]

lemma drop_broken_length: "length (drop_broken s) \<le> length s"
proof (induction s rule: drop_broken.induct)
  case (1 s)
  then show ?case by (subst drop_broken.simps) (fastforce split: prod.split)
qed

lemma drop_broken_prefix: "\<exists>rest. s = drop_broken s @ rest"
proof (induction s rule: drop_broken.induct)
  case (1 s)
  obtain r width where rs: "DecodeLastRuneInString s = (r, width)" by (cases "DecodeLastRuneInString s")
  show ?case
  proof (cases "s = [] \<or> r \<noteq> RuneError \<or> width > 1")
    case False
    then obtain ys where ys: "take (length s - width) s = drop_broken (take (length s - width) s) @ ys"
      using 1 rs by metis
    have "s = (drop_broken (take (length s - width) s) @ ys) @ drop (length s - width) s"
      using ys append_take_drop_id by metis
    moreover have "drop_broken s = drop_broken (take (length s - width) s)"
      using False rs by (subst drop_broken.simps) simp
    ultimately show ?thesis by (metis append.assoc)
  qed (auto simp: drop_broken.simps [of s] rs)
qed

text \<open>The number of bytes the first byte of a rune announces.\<close>

definition rune_length :: "nat \<Rightarrow> nat" where
  "rune_length b = (if b < 128 then 1 else if b < 224 then 2 else if b < 240 then 3 else 4)"

lemma utf8_decode_shape:
  "utf8_decode bs = Some r \<Longrightarrow>
   \<exists>b rest. bs = b # rest \<and> \<not> cont_byte b \<and> list_all cont_byte rest \<and> length bs = rune_length b"
  by (cases bs rule: utf8_decode.cases) (auto simp: cont_byte_def rune_length_def split: if_splits)

lemma rune_bytes_shape:
  assumes "rune_bytes c \<noteq> None"
  obtains b rest where "map of_char c = b # rest" "\<not> cont_byte b" "list_all cont_byte rest"
    "length c = rune_length b"
proof -
  obtain r where "utf8_decode (map of_char c) = Some r" using assms by (auto simp: rune_bytes_def)
  from utf8_decode_shape [OF this] that show thesis by (metis length_map)
qed

inductive valid_utf8 :: "string \<Rightarrow> bool" where
  empty: "valid_utf8 []"
| rune: "valid_utf8 s \<Longrightarrow> rune_bytes c \<noteq> None \<Longrightarrow> valid_utf8 (s @ c)"

lemma valid_append: "valid_utf8 t \<Longrightarrow> valid_utf8 s \<Longrightarrow> valid_utf8 (s @ t)"
  by (induction rule: valid_utf8.induct) (auto simp flip: append_assoc intro: valid_utf8.rune)

lemma valid_ascii: "list_all (\<lambda>c. (of_char c :: nat) < 128) s \<Longrightarrow> valid_utf8 s"
proof (induction s rule: rev_induct)
  case (snoc c s)
  then have "valid_utf8 s" "rune_bytes [c] \<noteq> None" by (auto simp: rune_bytes_def)
  then show ?case by (rule valid_utf8.rune)
qed (rule valid_utf8.empty)

text \<open>Two encodings at the end of a string are the same: the last leading byte decides.\<close>

lemma split_at_last_lead:
  assumes "xs @ a # as = ys @ b # bs" "\<not> P a" "\<not> P b" "list_all P as" "list_all P bs"
  shows "as = bs"
proof -
  have tail: "takeWhile P (rev (zs @ c # cs)) = rev cs" if "\<not> P c" "list_all P cs" for zs c cs
    using that by (simp add: takeWhile_append list_all_iff)
  show ?thesis using tail [of a as xs] tail [of b bs ys] assms by (metis rev_rev_ident)
qed

lemma suffix_runes_same:
  assumes "rune_bytes (drop (length s - k) s) \<noteq> None" "k \<le> length s"
    and "rune_bytes (drop (length s - j) s) \<noteq> None" "j \<le> length s"
  shows "k = j"
proof -
  let ?bs = "map of_char s :: nat list"
  obtain a as where a: "drop (length s - k) ?bs = a # as" "\<not> cont_byte a" "list_all cont_byte as"
    using rune_bytes_shape [OF assms(1)] by (metis drop_map)
  obtain b bs where b: "drop (length s - j) ?bs = b # bs" "\<not> cont_byte b" "list_all cont_byte bs"
    using rune_bytes_shape [OF assms(3)] by (metis drop_map)
  have "take (length s - k) ?bs @ a # as = take (length s - j) ?bs @ b # bs"
    using a(1) b(1) by (metis append_take_drop_id)
  then have "as = bs" using split_at_last_lead a(2,3) b(2,3) by metis
  moreover have "length (a # as) = k" "length (b # bs) = j"
    unfolding a(1) [symmetric] b(1) [symmetric] using assms(2,4) by simp_all
  ultimately show ?thesis by auto
qed

lemma rune_bytes_length: "rune_bytes c \<noteq> None \<Longrightarrow> length c \<in> {1, 2, 3, 4}"
  by (erule rune_bytes_shape) (simp add: rune_length_def)

lemma filter_widths: "(\<And>k. P k \<longleftrightarrow> k = n) \<Longrightarrow> n \<in> {1, 2, 3, 4} \<Longrightarrow> filter P [1, 2, 3, 4 :: nat] = [n]"
  by auto

lemma last_rune_of_rune:
  assumes "rune_bytes c = Some r"
  shows "DecodeLastRuneInString (s @ c) = (r, length c)"
proof -
  let ?P = "\<lambda>k. k \<le> length (s @ c) \<and> rune_bytes (drop (length (s @ c) - k) (s @ c)) \<noteq> None"
  have c: "length c \<in> {1, 2, 3, 4}" using rune_bytes_length assms by blast
  have whole: "drop (length (s @ c) - length c) (s @ c) = c" by simp
  have "?P k \<longleftrightarrow> k = length c" for k
  proof
    assume "?P k"
    then show "k = length c"
      using suffix_runes_same [of "s @ c" k "length c"] assms unfolding whole by simp
  next
    assume "k = length c"
    then show "?P k" using assms whole by simp
  qed
  from filter_widths [of ?P, OF this c] show ?thesis
    using c assms by (auto simp: DecodeLastRuneInString_def)
qed

lemma drop_broken_rune: "rune_bytes c \<noteq> None \<Longrightarrow> drop_broken (s @ c) = s @ c"
proof -
  assume "rune_bytes c \<noteq> None"
  then obtain r where r: "rune_bytes c = Some r" by blast
  have "r \<noteq> RuneError \<or> 1 < length c"
  proof (cases "length c = 1")
    case True
    then obtain x where "c = [x]" by (cases c) auto
    then show ?thesis using r by (auto simp: rune_bytes_def RuneError_def split: if_splits)
  qed (use rune_bytes_length r in force)
  moreover have "s @ c \<noteq> []" using rune_bytes_length r by force
  ultimately show ?thesis
    by (subst drop_broken.simps) (simp add: last_rune_of_rune [OF r])
qed

lemma drop_broken_valid: "valid_utf8 s \<Longrightarrow> drop_broken s = s"
  by (induction rule: valid_utf8.induct) (simp add: drop_broken.simps, simp add: drop_broken_rune)

text \<open>Whole runes followed by a proper part of one.\<close>

lemma partial_rune_broken:
  assumes "rune_bytes c \<noteq> None" "c = p @ q" "p \<noteq> []" "q \<noteq> []"
  shows "DecodeLastRuneInString (s @ p) = (RuneError, 1)"
proof -
  obtain a as where a: "map of_char c = (a :: nat) # as" "\<not> cont_byte a" "list_all cont_byte as"
    "length c = rune_length a"
    using rune_bytes_shape [OF assms(1)] .
  obtain x p' where p: "p = x # p'" using assms(3) by (cases p) auto
  with a assms(2) have x: "of_char x = a" "list_all cont_byte (map of_char p')"
    by (auto simp: list_all_iff)
  have "rune_bytes (drop (length (s @ p) - k) (s @ p)) = None" if k: "k \<le> length (s @ p)" for k
  proof (rule ccontr)
    let ?bs = "map of_char (s @ p) :: nat list"
    assume "rune_bytes (drop (length (s @ p) - k) (s @ p)) \<noteq> None"
    from rune_bytes_shape [OF this] obtain b bs where
      "map of_char (drop (length (s @ p) - k) (s @ p)) = b # bs" and b2: "\<not> cont_byte b" "list_all cont_byte bs"
      and "length (drop (length (s @ p) - k) (s @ p)) = rune_length b" .
    then have b: "drop (length (s @ p) - k) ?bs = b # bs" "length (b # bs) = rune_length b"
      unfolding drop_map by (simp, metis length_map)
    have "map of_char s @ a # map of_char p' = take (length (s @ p) - k) ?bs @ b # bs"
      unfolding b(1) [symmetric] append_take_drop_id using x(1) p by simp
    moreover from this have "map of_char p' = bs"
      by (rule split_at_last_lead [OF _ a(2) b2(1) x(2) b2(2)])
    ultimately have "a = b" "length p = rune_length a" using b(2) p by auto
    then show False using a(4) assms(2,4) by simp
  qed
  then have "filter (\<lambda>k. k \<le> length (s @ p) \<and> rune_bytes (drop (length (s @ p) - k) (s @ p)) \<noteq> None) [1, 2, 3, 4] = []"
    by (simp add: filter_empty_conv)
  then show ?thesis using assms(3) by (simp add: DecodeLastRuneInString_def)
qed

lemma drop_broken_partial:
  assumes "rune_bytes c \<noteq> None" "c = p @ q" "q \<noteq> []" "valid_utf8 s"
  shows "drop_broken (s @ p) = s"
  using assms(2,3)
proof (induction p arbitrary: q rule: rev_induct)
  case Nil
  then show ?case using drop_broken_valid assms(4) by simp
next
  case (snoc x p)
  then have "DecodeLastRuneInString (s @ p @ [x]) = (RuneError, 1)"
    using partial_rune_broken [OF assms(1), of "p @ [x]" q s] by simp
  then have "drop_broken (s @ p @ [x]) = drop_broken (s @ p)"
    by (subst drop_broken.simps) simp
  also have "\<dots> = s" using snoc by (intro snoc.IH [of "x # q"]) auto
  finally show ?case .
qed

lemma drop_broken_prefix_valid: "valid_utf8 s \<Longrightarrow> valid_utf8 (drop_broken (take n s))"
proof (induction arbitrary: n rule: valid_utf8.induct)
  case empty
  then show ?case by (simp add: drop_broken.simps valid_utf8.empty)
next
  case (rune s c)
  show ?case
  proof (cases "n \<le> length s")
    case True
    then show ?thesis using rune.IH by simp
  next
    case False
    let ?p = "take (n - length s) c" and ?q = "drop (n - length s) c"
    have take: "take n (s @ c) = s @ ?p" using False by simp
    show ?thesis
    proof (cases "?q = []")
      case True
      then have "?p = c" by simp
      then show ?thesis unfolding take using rune drop_broken_rune valid_utf8.rune by metis
    next
      case False
      then show ?thesis
        unfolding take using drop_broken_partial [OF rune.hyps(2) _ False rune.hyps(1), of ?p] rune.hyps(1) by simp
    qed
  qed
qed

end
