(* ===== verification/Tracing.thy ===== *)
theory Tracing
  imports Adapter_Register Utf8
begin

text \<open>
  \<open>src/tracing/timing_spans.go\<close> and the pure part of \<open>src/tracing/tracing.go\<close>: which spans a finished
  PipelineRun and a rejected Release leave behind. OpenTelemetry is a parameter (record \<open>otel\<close>): the
  context a carrier stands for, and the attributes of its semantic conventions. An emitted span is
  a value; attributes are listed in the order they are set. Installing the exporter
  (\<open>New\<close>, \<open>Shutdown\<close>) is left out.
\<close>

section \<open>OpenTelemetry\<close>

type_synonym attribute = "string \<times> string"

record 'c otel =
  Background :: 'c
  UnmarshalCarrier :: "string \<Rightarrow> (string \<rightharpoonup> string) option"
  Extract :: "(string \<rightharpoonup> string) \<Rightarrow> 'c"
  IsValidContext :: "'c \<Rightarrow> bool"
  CICDPipelineActionNameKey :: string
  CICDPipelineResultSuccess :: attribute
  CICDPipelineResultFailure :: attribute
  CICDPipelineResultError :: attribute
  CICDPipelineResultTimeout :: attribute
  CICDPipelineResultCancellation :: attribute

record 'c emitted_span =
  sp_Parent :: 'c
  sp_Name :: string
  sp_Start :: time
  sp_End :: time
  sp_Attributes :: "attribute list"

section \<open>tracing.go\<close>

definition AttrNamespace :: string where
  "AttrNamespace = ''delivery.tekton.dev''"

definition SpanWaitDuration :: string where
  "SpanWaitDuration = ''waitDuration''"

definition SpanExecuteDuration :: string where
  "SpanExecuteDuration = ''executeDuration''"

definition MaxResultMessageLen :: nat where
  "MaxResultMessageLen = 1024"

definition TruncatedSuffix :: string where
  "TruncatedSuffix = ''...[truncated]''"

definition NamespaceKey :: string where
  "NamespaceKey = ''namespace''"

definition PipelineRunKey :: string where
  "PipelineRunKey = ''pipelinerun''"

definition ReleaseKey :: string where
  "ReleaseKey = ''release''"

definition DeliveryPipelineRunUIDKey :: string where
  "DeliveryPipelineRunUIDKey = AttrNamespace @ ''.pipelinerun_uid''"

definition DeliveryApplicationKey :: string where
  "DeliveryApplicationKey = AttrNamespace @ ''.application''"

definition DeliveryComponentKey :: string where
  "DeliveryComponentKey = AttrNamespace @ ''.component''"

definition DeliveryResultMessageKey :: string where
  "DeliveryResultMessageKey = AttrNamespace @ ''.result_message''"

definition ResultEnum :: "'c otel \<Rightarrow> kcondition \<Rightarrow> attribute" where
  "ResultEnum X cond =
     (if k_nil cond then CICDPipelineResultError X
      else if k_IsTrue cond then CICDPipelineResultSuccess X
      else if k_Reason cond \<in> {''Cancelled'', ''CancelledRunningFinally'', ''StoppedRunningFinally''}
      then CICDPipelineResultCancellation X
      else if k_Reason cond = PipelineRunReasonTimedOut then CICDPipelineResultTimeout X
      else if k_Reason cond = ''Failed'' then CICDPipelineResultFailure X
      else CICDPipelineResultError X)"

definition TruncateResultMessage :: "string \<Rightarrow> string" where
  "TruncateResultMessage msg =
     (if length msg \<le> MaxResultMessageLen then msg
      else drop_broken (take (MaxResultMessageLen - length TruncatedSuffix) msg) @ TruncatedSuffix)"

record LabelNames =
  ln_Action :: string
  ln_Application :: string
  ln_Component :: string

definition envOr :: "(string \<Rightarrow> string option) \<Rightarrow> string \<Rightarrow> string \<Rightarrow> string" where
  "envOr LookupEnv key fallback = (case LookupEnv key of Some v \<Rightarrow> v | None \<Rightarrow> fallback)"

definition SetupLabelNames :: "(string \<Rightarrow> string option) \<Rightarrow> LabelNames" where
  "SetupLabelNames LookupEnv = \<lparr>
     ln_Action = envOr LookupEnv ''TRACING_LABEL_ACTION'' (AttrNamespace @ ''/action''),
     ln_Application = envOr LookupEnv ''TRACING_LABEL_APPLICATION'' (AttrNamespace @ ''/application''),
     ln_Component = envOr LookupEnv ''TRACING_LABEL_COMPONENT'' (AttrNamespace @ ''/component'')\<rparr>"

text \<open>The sampler, over the result \<open>'f\<close> of \<open>strconv.ParseFloat\<close>.\<close>

datatype 'f sampler =
  AlwaysSample | NeverSample | TraceIDRatioBased 'f | ParentBased "'f sampler"

definition samplerFromEnv :: "(string \<Rightarrow> string) \<Rightarrow> (string \<Rightarrow> 'f) \<Rightarrow> 'f sampler" where
  "samplerFromEnv getenv parse =
     (let name = getenv ''OTEL_TRACES_SAMPLER''; arg = parse (getenv ''OTEL_TRACES_SAMPLER_ARG'')
      in if name = ''always_on'' then AlwaysSample
         else if name = ''always_off'' then NeverSample
         else if name = ''traceidratio'' then TraceIDRatioBased arg
         else if name = ''parentbased_always_off'' then ParentBased NeverSample
         else if name = ''parentbased_traceidratio'' then ParentBased (TraceIDRatioBased arg)
         else ParentBased AlwaysSample)"

text \<open>The loop over the TaskRuns: the earliest completion so far with its message.\<close>

fun earliest_failing :: "time option \<Rightarrow> string \<Rightarrow> TaskRun list \<Rightarrow> string" where
  "earliest_failing earliestTime earliestMsg [] = earliestMsg"
| "earliest_failing earliestTime earliestMsg (tr # trs) =
     (case tr_CompletionTime tr of
        None \<Rightarrow> earliest_failing earliestTime earliestMsg trs
      | Some t \<Rightarrow>
          if k_nil (tr_Condition tr) \<or> \<not> k_IsFalse (tr_Condition tr)
          then earliest_failing earliestTime earliestMsg trs
          else (case earliestTime of
              None \<Rightarrow> earliest_failing (Some t) (k_Message (tr_Condition tr)) trs
            | Some e \<Rightarrow>
                if t < e then earliest_failing (Some t) (k_Message (tr_Condition tr)) trs
                else earliest_failing earliestTime earliestMsg trs))"

definition EarliestFailingTaskRunMessage :: "'w env \<Rightarrow> PipelineRun \<Rightarrow> ('w, string) state" where
  "EarliestFailingTaskRunMessage E p = do {
     res \<leftarrow> api_ListTaskRuns E (om_Namespace (pr_meta p)) [''tekton.dev/pipelineRun'' \<mapsto> om_Name (pr_meta p)];
     (case res of
        Inl _ \<Rightarrow> State_Monad.return []
      | Inr trs \<Rightarrow> State_Monad.return (earliest_failing None [] trs))
   }"

text \<open>The kind of the installed tracer provider.\<close>

datatype tracer_provider = SdkProvider | NoopProvider | OtherProvider

definition sdkTracerProviderActive :: "tracer_provider \<Rightarrow> bool" where
  "sdkTracerProviderActive tp = (tp = SdkProvider)"

section \<open>timing_spans.go\<close>

definition CtxFromSpanContext :: "'c otel \<Rightarrow> string \<Rightarrow> 'c \<times> bool" where
  "CtxFromSpanContext X jsonCarrier =
     (if jsonCarrier = [] then (Background X, False)
      else case UnmarshalCarrier X jsonCarrier of
          None \<Rightarrow> (Background X, False)
        | Some carrier \<Rightarrow> (Extract X carrier, IsValidContext X (Extract X carrier)))"

definition label_attributes :: "'c otel \<Rightarrow> LabelNames \<Rightarrow> strmap \<Rightarrow> attribute list" where
  "label_attributes X labels objLabels =
     concat (map (\<lambda>(labelName, key).
         if labelName = [] then []
         else if map_index objLabels labelName \<noteq> [] then [(key, map_index objLabels labelName)] else [])
       [(ln_Action labels, CICDPipelineActionNameKey X), (ln_Application labels, DeliveryApplicationKey),
        (ln_Component labels, DeliveryComponentKey)])"

definition setCommonAttributes :: "'c otel \<Rightarrow> PipelineRun \<Rightarrow> LabelNames \<Rightarrow> attribute list" where
  "setCommonAttributes X p labels =
     [(NamespaceKey, om_Namespace (pr_meta p)), (PipelineRunKey, om_Name (pr_meta p)),
      (DeliveryPipelineRunUIDKey, pr_UID p)] @ label_attributes X labels (om_Labels (pr_meta p))"

definition setOutcomeAttributes :: "'c otel \<Rightarrow> PipelineRun \<Rightarrow> string \<Rightarrow> attribute list" where
  "setOutcomeAttributes X p failureMsg =
     (let cond = pr_Condition p
      in if k_nil cond then []
         else [ResultEnum X cond] @
           (if k_IsFalse cond
            then let msg = (if failureMsg = [] then k_Message cond else failureMsg)
              in if msg \<noteq> [] then [(DeliveryResultMessageKey, TruncateResultMessage msg)] else []
            else []))"

definition EmitWaitDuration :: "'c otel \<Rightarrow> 'c \<Rightarrow> PipelineRun \<Rightarrow> LabelNames \<Rightarrow> 'c emitted_span list" where
  "EmitWaitDuration X ctx p labels =
     (case pr_StartTime p of None \<Rightarrow> []
      | Some stop \<Rightarrow>
          let start = om_CreationTimestamp (pr_meta p)
          in if stop < start then []
             else [\<lparr>sp_Parent = ctx, sp_Name = SpanWaitDuration, sp_Start = start, sp_End = stop,
               sp_Attributes = setCommonAttributes X p labels\<rparr>])"

definition EmitExecuteDuration ::
  "'c otel \<Rightarrow> 'c \<Rightarrow> PipelineRun \<Rightarrow> LabelNames \<Rightarrow> string \<Rightarrow> 'c emitted_span list" where
  "EmitExecuteDuration X ctx p labels failureMsg =
     (case (pr_StartTime p, pr_CompletionTime p) of
        (Some start, Some stop) \<Rightarrow>
          if stop < start then []
          else [\<lparr>sp_Parent = ctx, sp_Name = SpanExecuteDuration, sp_Start = start, sp_End = stop,
            sp_Attributes = setCommonAttributes X p labels @ setOutcomeAttributes X p failureMsg\<rparr>]
      | _ \<Rightarrow> [])"

definition EmitReleaseValidationFailureWait ::
  "tracer_provider \<Rightarrow> 'c otel \<Rightarrow> 'c \<Rightarrow> string \<Rightarrow> string \<Rightarrow> strmap \<Rightarrow> time \<Rightarrow> time \<Rightarrow> string \<Rightarrow> LabelNames \<Rightarrow>
   bool \<times> 'c emitted_span list" where
  "EmitReleaseValidationFailureWait tp X parentCtx releaseName releaseNamespace releaseLabels
     createdAt validatedAt validationMessage labels =
     (if \<not> sdkTracerProviderActive tp then (False, [])
      else if validatedAt < createdAt then (False, [])
      else (True, [\<lparr>sp_Parent = parentCtx, sp_Name = SpanWaitDuration, sp_Start = createdAt,
        sp_End = validatedAt,
        sp_Attributes =
          [(NamespaceKey, releaseNamespace), (ReleaseKey, releaseName)] @
          label_attributes X labels releaseLabels @ [CICDPipelineResultError X] @
          (if validationMessage \<noteq> []
           then [(DeliveryResultMessageKey, TruncateResultMessage validationMessage)] else [])\<rparr>]))"

definition resolveFailureMessage :: "'w env \<Rightarrow> PipelineRun \<Rightarrow> ('w, string) state" where
  "resolveFailureMessage E p =
     (let cond = pr_Condition p
      in if k_nil cond \<or> \<not> k_IsFalse cond then State_Monad.return []
         else do {
           msg \<leftarrow> EarliestFailingTaskRunMessage E p;
           State_Monad.return (if msg \<noteq> [] then msg else k_Message cond)
         })"

definition EmitTimingSpans ::
  "tracer_provider \<Rightarrow> 'c otel \<Rightarrow> 'w env \<Rightarrow> PipelineRun \<Rightarrow> LabelNames \<Rightarrow> string \<Rightarrow>
   ('w, bool \<times> 'c emitted_span list) state" where
  "EmitTimingSpans tp X E p labels spanContext =
     (if \<not> sdkTracerProviderActive tp then State_Monad.return (False, [])
      else let parentCtx = (case CtxFromSpanContext X spanContext of
                (ctx, ok) \<Rightarrow> if ok then ctx else Background X)
        in if pr_StartTime p = None \<or> pr_CompletionTime p = None
           then State_Monad.return (False, [])
           else do {
             failureMsg \<leftarrow> resolveFailureMessage E p;
             State_Monad.return (True, EmitWaitDuration X parentCtx p labels @
               EmitExecuteDuration X parentCtx p labels failureMsg)
           })"

section \<open>Messages fit into an attribute\<close>

text \<open>
  C40. A result message never exceeds the limit for span attributes and is never cut inside a
  character: a message that is valid UTF-8 stays so, and what is kept is a beginning of it.
\<close>

theorem TruncateResultMessage_valid:
  assumes "valid_utf8 msg"
  shows "valid_utf8 (TruncateResultMessage msg) \<and> length (TruncateResultMessage msg) \<le> MaxResultMessageLen \<and>
    (TruncateResultMessage msg = msg \<or>
     (\<exists>kept rest. msg = kept @ rest \<and> TruncateResultMessage msg = kept @ TruncatedSuffix))"
proof (cases "length msg \<le> MaxResultMessageLen")
  case False
  let ?head = "take (MaxResultMessageLen - length TruncatedSuffix) msg"
  have "valid_utf8 TruncatedSuffix"
    by (rule valid_ascii) (simp add: TruncatedSuffix_def)
  then have "valid_utf8 (drop_broken ?head @ TruncatedSuffix)"
    using drop_broken_prefix_valid [OF assms] by (rule valid_append)
  moreover have "length (drop_broken ?head) \<le> MaxResultMessageLen - length TruncatedSuffix"
    using drop_broken_length [of ?head] by simp
  moreover have "\<exists>rest. ?head = drop_broken ?head @ rest" by (rule drop_broken_prefix)
  then have "\<exists>rest. msg = drop_broken ?head @ rest" by (metis append.assoc append_take_drop_id)
  ultimately show ?thesis
    using False by (auto simp: TruncateResultMessage_def MaxResultMessageLen_def TruncatedSuffix_def)
qed (use assms in \<open>simp add: TruncateResultMessage_def\<close>)

theorem TruncateResultMessage_valid_witness:
  "valid_utf8 (TruncateResultMessage (replicate 2000 (CHR ''x''))) \<and>
   length (TruncateResultMessage (replicate 2000 (CHR ''x''))) \<le> MaxResultMessageLen"
proof -
  have "valid_utf8 (replicate 2000 (CHR ''x''))"
    by (rule valid_ascii) (simp add: list_all_iff)
  from TruncateResultMessage_valid [OF this] show ?thesis by simp
qed

section \<open>The failure that came first\<close>

definition failing :: "TaskRun \<Rightarrow> bool" where
  "failing tr \<longleftrightarrow> tr_CompletionTime tr \<noteq> None \<and> \<not> k_nil (tr_Condition tr) \<and> k_IsFalse (tr_Condition tr)"

abbreviation completed :: "TaskRun \<Rightarrow> time" where
  "completed tr \<equiv> the (tr_CompletionTime tr)"

lemma earliest_failing_step:
  "earliest_failing e msg (tr # trs) =
     (if failing tr \<and> (case e of None \<Rightarrow> True | Some t \<Rightarrow> completed tr < t)
      then earliest_failing (Some (completed tr)) (k_Message (tr_Condition tr)) trs
      else earliest_failing e msg trs)"
  by (auto simp: failing_def split: option.splits)

lemma arg_min_list_cons:
  "xs \<noteq> [] \<Longrightarrow> arg_min_list f (x # xs) = (if f x \<le> f (arg_min_list f xs) then x else arg_min_list f xs)"
  by (cases xs) (simp_all add: Let_def)

lemma earliest_failing_from:
  "earliest_failing (Some t) msg trs =
     (case filter failing trs of [] \<Rightarrow> msg
      | fs \<Rightarrow> let b = arg_min_list completed (filter failing trs)
              in if completed b < t then k_Message (tr_Condition b) else msg)"
proof (induction trs arbitrary: t msg)
  case (Cons tr trs)
  show ?case
  proof (cases "filter failing trs")
    case Nil
    then show ?thesis by (simp add: earliest_failing_step Cons.IH del: earliest_failing.simps)
  next
    case (Cons f fs)
    then show ?thesis
      by (auto simp: earliest_failing_step Cons.IH arg_min_list_cons Let_def
          simp del: earliest_failing.simps arg_min_list.simps)
  qed
qed simp

text \<open>
  The failure message of a PipelineRun is that of the failed TaskRun that completed first, the
  first in the list among several of the same time; TaskRuns that succeeded, still run or have no
  completion time do not count.
\<close>

theorem earliest_failing_first:
  "earliest_failing None [] trs =
     (case filter failing trs of [] \<Rightarrow> []
      | fs \<Rightarrow> k_Message (tr_Condition (arg_min_list completed (filter failing trs))))"
proof (induction trs)
  case (Cons tr trs)
  show ?case
  proof (cases "filter failing trs")
    case Nil
    then show ?thesis
      using Cons.IH by (simp add: earliest_failing_step earliest_failing_from del: earliest_failing.simps)
  next
    case (Cons f fs)
    then show ?thesis
      using Cons.IH by (auto simp: earliest_failing_step earliest_failing_from arg_min_list_cons Let_def
          simp del: earliest_failing.simps arg_min_list.simps)
  qed
qed simp

end
