(* ===== verification/Start_Up.thy ===== *)
theory Start_Up
  imports Release_Watches Plan_Watches Tracing
begin

text \<open>
  How the service starts: \<open>src/main.go\<close> with \<open>src/controllers/controllers.go\<close>,
  \<open>src/api/v1alpha1/webhooks/webhooks.go\<close>, the field indexes of \<open>src/cache/cache.go\<close>, the \<open>SetupCache\<close>
  methods of the controllers, the \<open>Register\<close> methods of the webhooks, and \<open>New\<close> and \<open>Shutdown\<close> of
  \<open>src/tracing/tracing.go\<close>. What controller-runtime, the operator toolkit and the OpenTelemetry SDK do
  is the record \<open>manager_api\<close>; logging and the parsing of the command line are left out.
\<close>

section \<open>Options\<close>

record tls_config =
  NextProtos :: "string list"

record flags =
  enableHTTP2 :: bool
  enableLeaderElection :: bool
  leaderElectorRetryPeriod :: duration
  leaderRenewDeadline :: duration
  leaseDuration :: duration
  metricsAddr :: string
  probeAddr :: string
  secureMetrics :: bool

definition default_flags :: flags where
  "default_flags = \<lparr>enableHTTP2 = False, enableLeaderElection = False,
     leaderElectorRetryPeriod = 2 * second, leaderRenewDeadline = 10 * second, leaseDuration = 15 * second,
     metricsAddr = '':8080'', probeAddr = '':8081'', secureMetrics = False\<rparr>"

definition disableHTTP2 :: "tls_config \<Rightarrow> tls_config" where
  "disableHTTP2 c = c\<lparr>NextProtos := [''http/1.1'']\<rparr>"

definition tlsOpts :: "flags \<Rightarrow> (tls_config \<Rightarrow> tls_config) list" where
  "tlsOpts f = (if \<not> enableHTTP2 f then [disableHTTP2] else [])"

text \<open>\<open>FilterProvider\<close> tells whether the metrics endpoint authenticates and authorizes its clients.\<close>

record metrics_options =
  BindAddress :: string
  SecureServing :: bool
  TLSOpts :: "(tls_config \<Rightarrow> tls_config) list"
  FilterProvider :: bool

definition metricsServerOptions :: "flags \<Rightarrow> metrics_options" where
  "metricsServerOptions f =
     (let opts = \<lparr>BindAddress = metricsAddr f, SecureServing = secureMetrics f, TLSOpts = tlsOpts f,
        FilterProvider = False\<rparr>
      in if secureMetrics f then opts\<lparr>FilterProvider := True\<rparr> else opts)"

text \<open>A cached kind comes with the label selector that restricts it, if there is one.\<close>

record manager_options =
  ByObject :: "(string \<times> (string \<rightharpoonup> string) option) list"
  HealthProbeBindAddress :: string
  LeaderElection :: bool
  LeaderElectionID :: string
  LeaseDuration :: duration
  Metrics :: metrics_options
  RenewDeadline :: duration
  RetryPeriod :: duration
  WebhookServer :: "(tls_config \<Rightarrow> tls_config) list"

definition managerOptions :: "flags \<Rightarrow> manager_options" where
  "managerOptions f = \<lparr>
     ByObject =
       [(''PipelineRun'', Some [ServiceNameLabel \<mapsto> ServiceName]),
        (''Release'', None), (''ReleasePlan'', None), (''ReleasePlanAdmission'', None),
        (''ReleaseServiceConfig'', None), (''Snapshot'', None), (''Application'', None)],
     HealthProbeBindAddress = probeAddr f, LeaderElection = enableLeaderElection f,
     LeaderElectionID = ''f3d4c01a.redhat.com'', LeaseDuration = leaseDuration f,
     Metrics = metricsServerOptions f, RenewDeadline = leaderRenewDeadline f,
     RetryPeriod = leaderElectorRetryPeriod f, WebhookServer = tlsOpts f\<rparr>"

section \<open>Enabled controllers and webhooks\<close>

text \<open>A controller with its \<open>MaxConcurrentReconciles\<close>.\<close>

datatype enabled_controller =
    ReleaseController int
  | ReleasePlanController int
  | ReleasePlanAdmissionController int

definition EnabledControllers :: "int \<Rightarrow> enabled_controller list" where
  "EnabledControllers maxConcurrentReconciles =
     [ReleaseController maxConcurrentReconciles, ReleasePlanController maxConcurrentReconciles,
      ReleasePlanAdmissionController maxConcurrentReconciles]"

datatype enabled_webhook = AuthorWebhook | ReleaseWebhook | ReleasePlanWebhook | ReleasePlanAdmissionWebhook

definition EnabledWebhooks :: "enabled_webhook list" where
  "EnabledWebhooks = [AuthorWebhook, ReleaseWebhook, ReleasePlanWebhook, ReleasePlanAdmissionWebhook]"

section \<open>What other packages do\<close>

text \<open>The objects that are indexed; of a Component only the application is read.\<close>

datatype indexed =
    IndexedComponent string
  | IndexedRelease Release
  | IndexedPlan ReleasePlan
  | IndexedAdmission ReleasePlanAdmission

type_synonym index_func = "indexed \<Rightarrow> string list outcome"

record ('m, 'f) manager_api =
  mgr_Getenv :: "string \<Rightarrow> ('m, string) state"
  mgr_LookupEnv :: "('m, string \<Rightarrow> string option) state"
  mgr_Setenv :: "string \<Rightarrow> string \<Rightarrow> ('m, error option) state"
  GetConfigOrDie :: "('m, error option) state"
  NewManager :: "manager_options \<Rightarrow> ('m, error option) state"
  IndexField :: "string \<Rightarrow> string \<Rightarrow> index_func \<Rightarrow> ('m, error option) state"
  CompleteController :: "enabled_controller \<Rightarrow> ('m, error option) state"
  CompleteWebhook :: "string \<Rightarrow> ('m, error option) state"
  RegisterHandler :: "string \<Rightarrow> ('m, unit) state"
  SetupControllers ::
    "(('m, error option) state \<times> ('m, error option) state) list \<Rightarrow> ('m, error option) state"
  SetupWebhooks :: "('m, error option) state list \<Rightarrow> ('m, error option) state"
  AddHealthzCheck :: "string \<Rightarrow> ('m, error option) state"
  AddReadyzCheck :: "string \<Rightarrow> ('m, error option) state"
  StartManager :: "('m, error option) state"
  NewExporter :: "string \<Rightarrow> ('m, error option) state"
  MergeResource :: "('m, error option) state"
  SetTracerProvider :: "bool \<Rightarrow> 'f sampler \<Rightarrow> ('m, unit) state"
  ShutdownProvider :: "('m, error option) state"
  StoreLabelNames :: "LabelNames \<Rightarrow> ('m, unit) state"
  ParseFloat :: "string \<Rightarrow> 'f"

text \<open>Calls in sequence up to the first error.\<close>

fun seq_errors :: "('m, error option) state list \<Rightarrow> ('m, error option) state" where
  "seq_errors [] = State_Monad.return None"
| "seq_errors (m # ms) = do {
     err \<leftarrow> m;
     (case err of Some e \<Rightarrow> State_Monad.return (Some e) | None \<Rightarrow> seq_errors ms)
   }"

section \<open>cache.go\<close>

text \<open>A failed type assertion panics.\<close>

definition componentIndexFunc :: index_func where
  "componentIndexFunc obj = (case obj of IndexedComponent application \<Rightarrow> Returned [application] | _ \<Rightarrow> Panicked)"

definition releaseIndexFunc :: index_func where
  "releaseIndexFunc obj = (case obj of IndexedRelease r \<Rightarrow> Returned [ReleasePlan (Spec r)] | _ \<Rightarrow> Panicked)"

definition releasePlanIndexFunc :: index_func where
  "releasePlanIndexFunc obj = (case obj of IndexedPlan rp \<Rightarrow> Returned [Target (rp_Spec rp)] | _ \<Rightarrow> Panicked)"

definition releasePlanAdmissionIndexFunc :: index_func where
  "releasePlanAdmissionIndexFunc obj =
     (case obj of IndexedAdmission rpa \<Rightarrow> Returned [Origin (rpa_Spec rpa)] | _ \<Rightarrow> Panicked)"

definition SetupComponentCache :: "('m, 'f) manager_api \<Rightarrow> ('m, error option) state" where
  "SetupComponentCache M = IndexField M ''Component'' ''spec.application'' componentIndexFunc"

definition SetupReleaseCache :: "('m, 'f) manager_api \<Rightarrow> ('m, error option) state" where
  "SetupReleaseCache M = IndexField M ''Release'' ''spec.releasePlan'' releaseIndexFunc"

definition SetupReleasePlanCache :: "('m, 'f) manager_api \<Rightarrow> ('m, error option) state" where
  "SetupReleasePlanCache M = IndexField M ''ReleasePlan'' ''spec.target'' releasePlanIndexFunc"

definition SetupReleasePlanAdmissionCache :: "('m, 'f) manager_api \<Rightarrow> ('m, error option) state" where
  "SetupReleasePlanAdmissionCache M =
     IndexField M ''ReleasePlanAdmission'' ''spec.origin'' releasePlanAdmissionIndexFunc"

section \<open>Set-up of controllers and webhooks\<close>

definition release_SetupCache :: "('m, 'f) manager_api \<Rightarrow> ('m, error option) state" where
  "release_SetupCache M =
     seq_errors [SetupComponentCache M, SetupReleaseCache M, SetupReleasePlanAdmissionCache M]"

definition plan_SetupCache :: "('m, 'f) manager_api \<Rightarrow> ('m, error option) state" where
  "plan_SetupCache M = State_Monad.return None"

definition admission_SetupCache :: "('m, 'f) manager_api \<Rightarrow> ('m, error option) state" where
  "admission_SetupCache M = SetupReleasePlanCache M"

fun SetupCache :: "('m, 'f) manager_api \<Rightarrow> enabled_controller \<Rightarrow> ('m, error option) state" where
  "SetupCache M (ReleaseController _) = release_SetupCache M"
| "SetupCache M (ReleasePlanController _) = plan_SetupCache M"
| "SetupCache M (ReleasePlanAdmissionController _) = admission_SetupCache M"

definition author_Register :: "('m, 'f) manager_api \<Rightarrow> ('m, error option) state" where
  "author_Register M = do {
     RegisterHandler M ''/mutate-appstudio-redhat-com-v1alpha1-author'';
     State_Monad.return None
   }"

definition release_webhook_Register :: "('m, 'f) manager_api \<Rightarrow> ('m, error option) state" where
  "release_webhook_Register M = CompleteWebhook M ''Release''"

definition plan_webhook_Register :: "('m, 'f) manager_api \<Rightarrow> ('m, error option) state" where
  "plan_webhook_Register M = CompleteWebhook M ''ReleasePlan''"

definition admission_webhook_Register :: "('m, 'f) manager_api \<Rightarrow> ('m, error option) state" where
  "admission_webhook_Register M = CompleteWebhook M ''ReleasePlanAdmission''"

fun webhook_Register :: "('m, 'f) manager_api \<Rightarrow> enabled_webhook \<Rightarrow> ('m, error option) state" where
  "webhook_Register M AuthorWebhook = author_Register M"
| "webhook_Register M ReleaseWebhook = release_webhook_Register M"
| "webhook_Register M ReleasePlanWebhook = plan_webhook_Register M"
| "webhook_Register M ReleasePlanAdmissionWebhook = admission_webhook_Register M"

text \<open>These two exit when the toolkit reports an error; here they return it and \<open>main\<close> exits.\<close>

definition setUpControllers :: "('m, 'f) manager_api \<Rightarrow> int \<Rightarrow> ('m, error option) state" where
  "setUpControllers M maxConcurrentReconciles =
     SetupControllers M (map (\<lambda>c. (SetupCache M c, CompleteController M c))
       (EnabledControllers maxConcurrentReconciles))"

definition setUpWebhooks :: "('m, 'f) manager_api \<Rightarrow> ('m, error option) state" where
  "setUpWebhooks M = do {
     enabled \<leftarrow> mgr_Getenv M ''ENABLE_WEBHOOKS'';
     (if enabled = ''false'' then State_Monad.return None
      else SetupWebhooks M (map (webhook_Register M) EnabledWebhooks))
   }"

section \<open>\<open>strconv.Atoi\<close> and the number of workers\<close>

definition digit_value :: "char \<Rightarrow> nat option" where
  "digit_value c = (let n = of_char c :: nat in if 48 \<le> n \<and> n \<le> 57 then Some (n - 48) else None)"

fun digits_value :: "nat \<Rightarrow> string \<Rightarrow> nat option" where
  "digits_value acc [] = Some acc"
| "digits_value acc (c # cs) =
     (case digit_value c of None \<Rightarrow> None | Some d \<Rightarrow> digits_value (10 * acc + d) cs)"

text \<open>Signed 64-bit integers; \<open>None\<close> is a syntax or a range error.\<close>

definition Atoi :: "string \<Rightarrow> int option" where
  "Atoi s =
     (case s of [] \<Rightarrow> None
      | c # cs \<Rightarrow>
          let neg = (c = CHR ''-''); digits = (if c = CHR ''-'' \<or> c = CHR ''+'' then cs else s)
          in if digits = [] then None
             else (case digits_value 0 digits of None \<Rightarrow> None
               | Some n \<Rightarrow>
                   if \<not> neg \<and> n \<ge> 2 ^ 63 then None
                   else if neg \<and> n > 2 ^ 63 then None
                   else Some (if neg then - int n else int n)))"

definition workers :: "string \<Rightarrow> int" where
  "workers val =
     (if val \<noteq> []
      then (case Atoi val of None \<Rightarrow> 1 | Some n \<Rightarrow> if n < 1 then 1 else n)
      else 1)"

section \<open>tracing.New and Shutdown\<close>

record 'm tracer =
  shutdown :: "('m, error option) state option"

definition New :: "('m, 'f) manager_api \<Rightarrow> ('m, 'm tracer) state" where
  "New M = do {
     endpoint \<leftarrow> mgr_Getenv M ''OTEL_EXPORTER_OTLP_ENDPOINT'';
     (if endpoint = [] then State_Monad.return \<lparr>shutdown = Some (State_Monad.return None)\<rparr>
      else do {
        err \<leftarrow> NewExporter M endpoint;
        (case err of
           Some _ \<Rightarrow> State_Monad.return \<lparr>shutdown = Some (State_Monad.return None)\<rparr>
         | None \<Rightarrow> do {
             merged \<leftarrow> MergeResource M;
             name \<leftarrow> mgr_Getenv M ''OTEL_TRACES_SAMPLER'';
             arg \<leftarrow> mgr_Getenv M ''OTEL_TRACES_SAMPLER_ARG'';
             SetTracerProvider M (merged = None) (samplerFromEnv
               (\<lambda>v. if v = ''OTEL_TRACES_SAMPLER'' then name else arg) (ParseFloat M));
             State_Monad.return \<lparr>shutdown = Some (ShutdownProvider M)\<rparr>
           })
      })
   }"

definition Shutdown :: "'m tracer \<Rightarrow> ('m, error option) state" where
  "Shutdown tp = (case shutdown tp of Some f \<Rightarrow> f | None \<Rightarrow> State_Monad.return None)"

section \<open>main\<close>

text \<open>
  \<open>ExitFailure\<close> is \<open>os.Exit(1)\<close>, which runs no deferred function; \<open>MainReturns\<close> comes after the deferred
  \<open>Shutdown\<close>.
\<close>

datatype exit = ExitFailure | MainReturns

definition or_exit :: "('m, error option) state \<Rightarrow> ('m, exit) state \<Rightarrow> ('m, exit) state" where
  "or_exit m k = do {
     err \<leftarrow> m;
     (case err of Some _ \<Rightarrow> State_Monad.return ExitFailure | None \<Rightarrow> k)
   }"

definition set_default :: "('m, 'f) manager_api \<Rightarrow> string \<Rightarrow> string \<Rightarrow> ('m, error option) state" where
  "set_default M var fallback = do {
     v \<leftarrow> mgr_Getenv M var;
     (if v = [] then mgr_Setenv M var fallback else State_Monad.return None)
   }"

definition main :: "('m, 'f) manager_api \<Rightarrow> flags \<Rightarrow> ('m, exit) state" where
  "main M f = do {
     tracerProvider \<leftarrow> New M;
     lookup \<leftarrow> mgr_LookupEnv M;
     StoreLabelNames M (SetupLabelNames lookup);
     or_exit (GetConfigOrDie M)
     (or_exit (NewManager M (managerOptions f))
     (or_exit (set_default M ''DEFAULT_RELEASE_PVC'' ''release-pvc'')
     (or_exit (set_default M ''DEFAULT_RELEASE_WORKSPACE_NAME'' ''release-workspace'')
     (or_exit (set_default M ''DEFAULT_RELEASE_WORKSPACE_SIZE'' ''1Gi'')
     (do {
        val \<leftarrow> mgr_Getenv M ''MAX_CONCURRENT_RECONCILES'';
        or_exit (setUpControllers M (workers val))
        (or_exit (setUpWebhooks M)
        (or_exit (AddHealthzCheck M ''healthz'')
        (or_exit (AddReadyzCheck M ''readyz'')
        (or_exit (StartManager M)
        (do {
           Shutdown tracerProvider;
           State_Monad.return MainReturns
         })))))
      })))))
   }"

section \<open>The number of workers\<close>

lemma digits_value_append:
  "digits_value acc (xs @ ys) = (case digits_value acc xs of None \<Rightarrow> None | Some n \<Rightarrow> digits_value n ys)"
  by (induction xs arbitrary: acc) (auto split: option.splits)

lemma digit_value_char: "d < 10 \<Longrightarrow> digit_value (digit_char d) = Some d"
  by (simp add: digit_value_def digit_char_def Let_def take_bit_eq_mod)

lemma digits_value_show: "digits_value 0 (show_nat n) = Some n"
proof (induction n rule: show_nat.induct)
  case (1 n)
  then show ?case
    by (cases "n < 10") (simp_all add: show_nat.simps [of n] digit_value_char digits_value_append)
qed

lemma show_nat_head: "\<exists>c cs. show_nat n = c # cs \<and> c \<noteq> CHR ''-'' \<and> c \<noteq> CHR ''+''"
proof (induction n rule: show_nat.induct)
  case (1 n)
  have "digit_char d \<noteq> CHR ''-'' \<and> digit_char d \<noteq> CHR ''+''" if "d < 10" for d
    using digit_value_char [OF that] by (auto simp: digit_value_def)
  with 1 show ?case
    by (cases "n < 10") (auto simp: show_nat.simps [of n])
qed

lemma Atoi_show_int:
  assumes "- (2 ^ 63) \<le> n" "n < 2 ^ 63"
  shows "Atoi (show_int n) = Some n"
proof (cases "0 \<le> n")
  case True
  obtain c cs where "show_nat (nat n) = c # cs" "c \<noteq> CHR ''-''" "c \<noteq> CHR ''+''" using show_nat_head by blast
  then show ?thesis
    using True assms digits_value_show [of "nat n"] by (simp add: Atoi_def show_int_def Let_def nat_le_iff)
next
  case False
  then show ?thesis
    using assms digits_value_show [of "nat (- n)"] show_nat_ne(1) [of "nat (- n)"]
    by (simp add: Atoi_def show_int_def Let_def nat_le_iff)
qed

lemma Atoi_bounds: "Atoi s = Some n \<Longrightarrow> - (2 ^ 63) \<le> n \<and> n < 2 ^ 63"
  by (auto simp: Atoi_def Let_def split: list.splits option.splits if_splits)

text \<open>
  The number of concurrent reconciles is taken from the environment without loss: a decimal
  numeral of a positive 64-bit integer gives that integer. Any value at all gives a positive
  64-bit integer, so the controllers always have a worker.
\<close>

theorem workers_roundtrip:
  assumes "1 \<le> n" "n < 2 ^ 63"
  shows "workers (show_int n) = n \<and> (\<forall>val. 1 \<le> workers val \<and> workers val < 2 ^ 63)"
proof -
  have "show_int n \<noteq> []" using assms show_nat_ne by (simp add: show_int_def)
  then have "workers (show_int n) = n" using assms Atoi_show_int [of n] by (simp add: workers_def)
  then show ?thesis by (auto simp: workers_def dest: Atoi_bounds split: option.split)
qed

theorem workers_roundtrip_witness: "workers ''12'' = 12"
proof -
  have "show_int 12 = ''12''" by code_simp
  then show ?thesis using workers_roundtrip [of 12] by simp
qed

section \<open>The caches\<close>

text \<open>Whether the manager's cache holds a PipelineRun.\<close>

definition cached_run :: "manager_options \<Rightarrow> PipelineRun \<Rightarrow> bool" where
  "cached_run opts p =
     (case map_of (ByObject opts) ''PipelineRun'' of
        Some (Some sel) \<Rightarrow> sel \<subseteq>\<^sub>m map_read (om_Labels (pr_meta p)) | _ \<Rightarrow> True)"

text \<open>
  C12. The service sees the runs it starts. Every PipelineRun that an operation of a reconcile
  creates passes the filter of the manager's cache, which holds only PipelineRuns of this
  service: the lookups of the next reconciles and the watch on PipelineRuns, which both go through
  that cache, are not blind to it.
\<close>

theorem created_run_cached:
  assumes "run_store E runs" "op \<in> set (creating_operations E)" "run_state op s = (res, s')"
    and "runs (world s') = runs (world s) @ [q]"
  shows "cached_run (managerOptions f) q"
proof -
  obtain q' T where "runs (world s') = runs (world s) @ [q']" "belongs (lib E) (release s) T (pr_meta q')"
    using created_belongs [OF assms(1-3)] assms(4) by auto
  then have "carries (release s) T (om_Labels (pr_meta q))" using assms(4) by (simp add: belongs_def)
  then show ?thesis by (auto simp: cached_run_def managerOptions_def carries_def map_le_def)
qed

theorem created_run_cached_witness:
  "\<exists>q. cl_runs (world tenant_started) = [q] \<and> cached_run (managerOptions default_flags) q"
proof -
  obtain q where q: "cl_runs (world tenant_started) = [q]"
    using tenant_run_created by (auto simp: length_Suc_conv)
  obtain res where "run_state (EnsureTenantPipelineIsProcessed cluster_env) tenant_due = (res, tenant_started)"
    by (cases "run_state (EnsureTenantPipelineIsProcessed cluster_env) tenant_due") (simp add: tenant_started_def)
  from created_run_cached [OF cluster_run_store _ this, of q default_flags] q
  show ?thesis by (simp add: creating_operations_def)
qed

end
