(* ===== verification/Start_Order.thy ===== *)
theory Start_Order
  imports Start_Up
begin

text \<open>
  The order of the start-up of \<open>src/main.go\<close>: the manager is started last, and only when everything
  was set up. Locale \<open>startup_api\<close> is what controller-runtime and the operator toolkit promise of
  their calls; \<open>logged_manager\<close> is an instance.
\<close>

section \<open>What has to be set up\<close>

datatype startup_event =
    ManagerCreated
  | FieldIndexed string string
  | ControllerReady enabled_controller
  | WebhookReady string
  | PathServed string
  | CheckAdded string
  | ManagerStarted

text \<open>The field indexes that the SetupCache method of a controller declares.\<close>

definition controller_indexes :: "enabled_controller \<Rightarrow> startup_event set" where
  "controller_indexes c =
     (case c of
        ReleaseController _ \<Rightarrow> {FieldIndexed ''Component'' ''spec.application'',
          FieldIndexed ''Release'' ''spec.releasePlan'', FieldIndexed ''ReleasePlanAdmission'' ''spec.origin''}
      | ReleasePlanController _ \<Rightarrow> {}
      | ReleasePlanAdmissionController _ \<Rightarrow> {FieldIndexed ''ReleasePlan'' ''spec.target''})"

definition controllers_ready :: "int \<Rightarrow> startup_event set" where
  "controllers_ready n = (\<Union>c\<in>set (EnabledControllers n). controller_indexes c) \<union>
     (\<Union>c\<in>set (EnabledControllers n). {ControllerReady c})"

fun webhook_ready :: "enabled_webhook \<Rightarrow> startup_event" where
  "webhook_ready AuthorWebhook = PathServed ''/mutate-appstudio-redhat-com-v1alpha1-author''"
| "webhook_ready ReleaseWebhook = WebhookReady ''Release''"
| "webhook_ready ReleasePlanWebhook = WebhookReady ''ReleasePlan''"
| "webhook_ready ReleasePlanAdmissionWebhook = WebhookReady ''ReleasePlanAdmission''"

text \<open>The webhooks can be switched off by a variable of the environment, for local development.\<close>

definition webhooks_ready :: "string \<Rightarrow> startup_event set" where
  "webhooks_ready enabled = (if enabled = ''false'' then {} else webhook_ready ` set EnabledWebhooks)"

definition required_events :: "int \<Rightarrow> string \<Rightarrow> startup_event set" where
  "required_events n enabled = {ManagerCreated, CheckAdded ''healthz'', CheckAdded ''readyz''} \<union>
     controllers_ready n \<union> webhooks_ready enabled"

section \<open>The contract\<close>

text \<open>
  A log of what was set up. Calls of controller-runtime enter it when they succeed, the start of
  the manager when it is called. The toolkit sets up every controller it is given, cache and
  registration in whatever order, and registers every webhook, and stops at the first error.
\<close>

locale startup_api =
  fixes M :: "('m, 'f) manager_api" and log :: "'m \<Rightarrow> startup_event list"
  assumes quiet [frame_intro]:
      "keeps log (mgr_Getenv M v)" "keeps log (mgr_LookupEnv M)" "keeps log (mgr_Setenv M v x)"
      "keeps log (GetConfigOrDie M)" "keeps log (NewExporter M url)" "keeps log (MergeResource M)"
      "keeps log (SetTracerProvider M b sampler)" "keeps log (ShutdownProvider M)" "keeps log (StoreLabelNames M names)"
    and created: "run_state (NewManager M opts) w = (err, w') \<Longrightarrow>
      log w' = log w @ (if err = None then [ManagerCreated] else [])"
    and indexed: "run_state (IndexField M kind field g) w = (err, w') \<Longrightarrow>
      log w' = log w @ (if err = None then [FieldIndexed kind field] else [])"
    and completed: "run_state (CompleteController M c) w = (err, w') \<Longrightarrow>
      log w' = log w @ (if err = None then [ControllerReady c] else [])"
    and hooked: "run_state (CompleteWebhook M kind) w = (err, w') \<Longrightarrow>
      log w' = log w @ (if err = None then [WebhookReady kind] else [])"
    and served: "log (snd (run_state (RegisterHandler M path) w)) = log w @ [PathServed path]"
    and health: "run_state (AddHealthzCheck M name) w = (err, w') \<Longrightarrow>
      log w' = log w @ (if err = None then [CheckAdded name] else [])"
    and readyz: "run_state (AddReadyzCheck M name) w = (err, w') \<Longrightarrow>
      log w' = log w @ (if err = None then [CheckAdded name] else [])"
    and started: "log (snd (run_state (StartManager M) w)) = log w @ [ManagerStarted]"
    and controllers: "\<exists>ms. mset ms = mset (concat (map (\<lambda>(c, r). [c, r]) cs)) \<and> SetupControllers M cs = seq_errors ms"
    and webhooks: "SetupWebhooks M ws = seq_errors ws"
begin

text \<open>A set-up call enters \<open>R\<close> if it succeeds, and does not start the manager.\<close>

definition yields :: "startup_event set \<Rightarrow> ('m, error option) state \<Rightarrow> bool" where
  "yields R m \<longleftrightarrow> (\<forall>w err w'. run_state m w = (err, w') \<longrightarrow>
     (\<exists>es. log w' = log w @ es \<and> ManagerStarted \<notin> set es \<and> (err = None \<longrightarrow> R \<subseteq> set es)))"

text \<open>A rest of \<open>main\<close> starts the manager last, and only after \<open>R\<close>.\<close>

definition leads :: "startup_event set \<Rightarrow> ('m, exit) state \<Rightarrow> bool" where
  "leads R k \<longleftrightarrow> (\<forall>w res w'. run_state k w = (res, w') \<longrightarrow>
     (\<exists>es. ManagerStarted \<notin> set es \<and>
       (log w' = log w @ es \<and> res = ExitFailure \<or> log w' = log w @ es @ [ManagerStarted] \<and> R \<subseteq> set es)))"

lemma yieldsI:
  assumes "\<And>w err w'. run_state m w = (err, w') \<Longrightarrow>
    \<exists>es. log w' = log w @ es \<and> ManagerStarted \<notin> set es \<and> (err = None \<longrightarrow> R \<subseteq> set es)"
  shows "yields R m"
  using assms by (simp add: yields_def)

lemma yieldsE:
  assumes "yields R m" "run_state m w = (err, w')"
  obtains es where "log w' = log w @ es" "ManagerStarted \<notin> set es" "err = None \<longrightarrow> R \<subseteq> set es"
  using assms unfolding yields_def by blast

lemma leadsD:
  assumes "leads R k" "run_state k w = (res, w')"
  shows "\<exists>es. ManagerStarted \<notin> set es \<and>
    (log w' = log w @ es \<and> res = ExitFailure \<or> log w' = log w @ es @ [ManagerStarted] \<and> R \<subseteq> set es)"
  using assms unfolding leads_def by blast

lemma yields_event:
  assumes "\<And>w err w'. run_state m w = (err, w') \<Longrightarrow> log w' = log w @ (if err = None then [ev] else [])"
    and "ev \<noteq> ManagerStarted"
  shows "yields {ev} m"
proof (rule yieldsI)
  fix w err w' assume "run_state m w = (err, w')"
  from assms(1) [OF this] show "\<exists>es. log w' = log w @ es \<and> ManagerStarted \<notin> set es \<and> (err = None \<longrightarrow> {ev} \<subseteq> set es)"
    using assms(2) by (intro exI [of _ "if err = None then [ev] else []"]) auto
qed

lemma keeps_log: "keeps log m \<Longrightarrow> run_state m w = (a, w') \<Longrightarrow> log w' = log w"
  by (metis keepsD snd_conv)

lemma yields_quiet: "keeps log m \<Longrightarrow> yields {} m"
  by (rule yieldsI, rule exI [of _ "[]"]) (auto dest: keeps_log)

lemma yields_seq: "(\<And>m. m \<in> set ms \<Longrightarrow> yields (R m) m) \<Longrightarrow> yields (\<Union>m\<in>set ms. R m) (seq_errors ms)"
proof (induction ms)
  case Nil
  then show ?case by (simp add: yields_def)
next
  case (Cons m ms)
  show ?case
  proof (rule yieldsI)
    fix w err w' assume run: "run_state (seq_errors (m # ms)) w = (err, w')"
    obtain e w1 where m: "run_state m w = (e, w1)" by (cases "run_state m w")
    with Cons.prems [of m] obtain es where es: "log w1 = log w @ es" "ManagerStarted \<notin> set es" "e = None \<longrightarrow> R m \<subseteq> set es"
      by (auto elim: yieldsE)
    show "\<exists>es. log w' = log w @ es \<and> ManagerStarted \<notin> set es \<and> (err = None \<longrightarrow> (\<Union>m\<in>set (m # ms). R m) \<subseteq> set es)"
    proof (cases e)
      case None
      then have "run_state (seq_errors ms) w1 = (err, w')" using run m by simp
      moreover have "yields (\<Union>m\<in>set ms. R m) (seq_errors ms)" using Cons by simp
      ultimately obtain es' where "log w' = log w1 @ es'" "ManagerStarted \<notin> set es'"
        "err = None \<longrightarrow> (\<Union>m\<in>set ms. R m) \<subseteq> set es'"
        by (auto elim: yieldsE)
      then show ?thesis using es None by (intro exI [of _ "es @ es'"]) auto
    qed (use run m es in auto)
  qed
qed

lemma leads_or_exit: "\<lbrakk>yields R m; leads S k\<rbrakk> \<Longrightarrow> leads (R \<union> S) (or_exit m k)"
  unfolding leads_def
proof (intro allI impI)
  fix w res w' assume R: "yields R m" and S: "\<forall>w res w'. run_state k w = (res, w') \<longrightarrow>
     (\<exists>es. ManagerStarted \<notin> set es \<and>
       (log w' = log w @ es \<and> res = ExitFailure \<or> log w' = log w @ es @ [ManagerStarted] \<and> S \<subseteq> set es))"
    and run: "run_state (or_exit m k) w = (res, w')"
  obtain e w1 where m: "run_state m w = (e, w1)" by (cases "run_state m w")
  with R obtain es where es: "log w1 = log w @ es" "ManagerStarted \<notin> set es" "e = None \<longrightarrow> R \<subseteq> set es"
    by (rule yieldsE)
  show "\<exists>es. ManagerStarted \<notin> set es \<and> (log w' = log w @ es \<and> res = ExitFailure \<or>
      log w' = log w @ es @ [ManagerStarted] \<and> R \<union> S \<subseteq> set es)"
  proof (cases e)
    case None
    then have "run_state k w1 = (res, w')" using run m by (simp add: or_exit_def)
    with S obtain es' where "ManagerStarted \<notin> set es'" "log w' = log w1 @ es' \<and> res = ExitFailure \<or>
        log w' = log w1 @ es' @ [ManagerStarted] \<and> S \<subseteq> set es'" by blast
    then show ?thesis using es None by (intro exI [of _ "es @ es'"]) auto
  qed (use run m es in \<open>auto simp: or_exit_def\<close>)
qed

lemma leads_quiet:
  assumes "keeps log m" "\<And>a. leads R (k a)"
  shows "leads R (State_Monad.bind m k)"
  using assms unfolding leads_def keeps_def by (auto split: prod.splits) (metis snd_conv)

lemma leads_start:
  assumes "keeps log k"
  shows "leads {} (or_exit (StartManager M) k)"
  unfolding leads_def
proof (intro allI impI exI [of _ "[]"] conjI)
  fix w res w' assume "run_state (or_exit (StartManager M) k) w = (res, w')"
  then show "log w' = log w @ [] \<and> res = ExitFailure \<or> log w' = log w @ [] @ [ManagerStarted] \<and> {} \<subseteq> set []"
    using started [of w] assms by (auto simp: or_exit_def keeps_def split: prod.splits option.splits) (metis snd_conv)+
qed simp

lemma leads_getenv:
  assumes "keeps log (mgr_Getenv M v)" "\<And>w. fst (run_state (mgr_Getenv M v) w) = val" "leads R (k val)"
  shows "leads R (State_Monad.bind (mgr_Getenv M v) k)"
proof -
  have "run_state (State_Monad.bind (mgr_Getenv M v) k) w = run_state (k val) (snd (run_state (mgr_Getenv M v) w))" for w
    using assms(2) [of w] by (simp add: case_prod_beta)
  moreover have "log (snd (run_state (mgr_Getenv M v) w)) = log w" for w using assms(1) by (rule keepsD)
  ultimately show ?thesis using assms(3) unfolding leads_def by metis
qed

lemma leads_sub: "leads R k \<Longrightarrow> S \<subseteq> R \<Longrightarrow> leads S k"
  unfolding leads_def by (meson order_trans)

section \<open>The parts of \<open>main\<close>\<close>

lemma keeps_New [frame_intro]: "keeps log (New M)"
  unfolding New_def by (intro frame_intro)

lemma New_shutdown: "run_state (New M) w = (tp, w') \<Longrightarrow> keeps log (Shutdown tp)"
  by (auto simp: New_def Shutdown_def split: prod.splits if_splits option.splits intro!: frame_intro)

lemma yields_set_default: "yields {} (set_default M v x)"
  unfolding set_default_def by (intro yields_quiet frame_intro)

lemma yields_empty: "yields R m \<Longrightarrow> yields {} m"
  by (force simp: yields_def)

lemma yields_UN:
  assumes "\<And>i. i \<in> I \<Longrightarrow> yields (R i) m" "yields {} m"
  shows "yields (\<Union>i\<in>I. R i) m"
proof (rule yieldsI)
  fix w err w' assume run: "run_state m w = (err, w')"
  from assms(2) run obtain es where es: "log w' = log w @ es" "ManagerStarted \<notin> set es" by (rule yieldsE)
  moreover have "err = None \<longrightarrow> R i \<subseteq> set es" if "i \<in> I" for i
    using assms(1) [OF that] run es(1) by (auto elim!: yieldsE)
  ultimately show "\<exists>es. log w' = log w @ es \<and> ManagerStarted \<notin> set es \<and> (err = None \<longrightarrow> (\<Union>i\<in>I. R i) \<subseteq> set es)"
    by (intro exI [of _ es]) auto
qed

text \<open>A sequence of set-up calls achieves what each of them does.\<close>

lemma yields_member:
  assumes "m \<in> set ms" "yields R m" "\<And>m'. m' \<in> set ms \<Longrightarrow> yields {} m'"
  shows "yields R (seq_errors ms)"
proof -
  have "yields (\<Union>m'\<in>set ms. if m' = m then R else {}) (seq_errors ms)"
    using assms by (intro yields_seq) auto
  moreover have "(\<Union>m'\<in>set ms. if m' = m then R else {}) = R" using assms(1) by auto
  ultimately show ?thesis by simp
qed

lemma yields_all:
  assumes "\<And>i. i \<in> I \<Longrightarrow> f i \<in> set ms \<and> yields (R i) (f i)" "\<And>m. m \<in> set ms \<Longrightarrow> yields {} m"
  shows "yields (\<Union>i\<in>I. R i) (seq_errors ms)"
proof (rule yields_UN)
  show "yields {} (seq_errors ms)" using yields_seq [of ms "\<lambda>_. {}"] assms(2) by simp
qed (use assms yields_member in blast)

lemma yields_calls:
  "yields {ManagerCreated} (NewManager M opts)"
  "yields {FieldIndexed kind field} (IndexField M kind field g)"
  "yields {ControllerReady c} (CompleteController M c)"
  "yields {WebhookReady kind} (CompleteWebhook M kind)"
  "yields {CheckAdded name} (AddHealthzCheck M name)"
  "yields {CheckAdded name} (AddReadyzCheck M name)"
  using created indexed completed hooked health readyz by (auto intro!: yields_event)

lemma yields_indexes: "yields (controller_indexes c) (SetupCache M c)"
proof (cases c)
  case (ReleaseController k)
  have "yields (\<Union>(kind, field, g)\<in>set [(''Component'', ''spec.application'', componentIndexFunc),
        (''Release'', ''spec.releasePlan'', releaseIndexFunc),
        (''ReleasePlanAdmission'', ''spec.origin'', releasePlanAdmissionIndexFunc)]. {FieldIndexed kind field})
      (SetupCache M c)"
    unfolding ReleaseController SetupCache.simps release_SetupCache_def
    by (rule yields_all [where f = "\<lambda>(kind, field, g). IndexField M kind field g"])
       (auto simp: SetupComponentCache_def SetupReleaseCache_def SetupReleasePlanAdmissionCache_def
         intro!: yields_calls intro: yields_empty [OF yields_calls(2)])
  then show ?thesis by (simp add: ReleaseController controller_indexes_def insert_commute)
next
  case (ReleasePlanAdmissionController k)
  then show ?thesis
    by (simp add: admission_SetupCache_def SetupReleasePlanCache_def controller_indexes_def yields_calls)
qed (simp add: plan_SetupCache_def controller_indexes_def yields_quiet frame_intro)

lemma yields_controllers: "yields (controllers_ready n) (setUpControllers M n)"
proof -
  let ?cs = "map (\<lambda>c. (SetupCache M c, CompleteController M c)) (EnabledControllers n)"
  obtain ms where ms: "mset ms = mset (concat (map (\<lambda>(c, r). [c, r]) ?cs))"
    and run: "SetupControllers M ?cs = seq_errors ms"
    using controllers [of ?cs] by blast
  have elems: "set ms = (SetupCache M ` set (EnabledControllers n)) \<union> (CompleteController M ` set (EnabledControllers n))"
    using arg_cong [OF ms, of set_mset] by auto
  have sober: "yields {} m" if "m \<in> set ms" for m
    using that elems yields_empty [OF yields_indexes] yields_empty [OF yields_calls(3)] by auto
  have "yields (\<Union>c\<in>set (EnabledControllers n). controller_indexes c) (seq_errors ms)"
    by (rule yields_all [where f = "SetupCache M", OF _ sober]) (auto simp: elems intro: yields_indexes)
  moreover have "yields (\<Union>c\<in>set (EnabledControllers n). {ControllerReady c}) (seq_errors ms)"
    by (rule yields_all [where f = "CompleteController M", OF _ sober]) (auto simp: elems intro: yields_calls)
  ultimately have "yields (\<Union>b\<in>UNIV. if b then \<Union>c\<in>set (EnabledControllers n). controller_indexes c
      else \<Union>c\<in>set (EnabledControllers n). {ControllerReady c}) (seq_errors ms)"
    by (intro yields_UN) (auto intro: yields_empty)
  then show ?thesis by (simp add: UNIV_bool setUpControllers_def run controllers_ready_def Un_commute)
qed

lemma yields_webhook: "yields {webhook_ready h} (webhook_Register M h)"
proof (cases h)
  case AuthorWebhook
  show ?thesis
  proof (rule yieldsI)
    fix w err w' assume "run_state (webhook_Register M h) w = (err, w')"
    then have "w' = snd (run_state (RegisterHandler M ''/mutate-appstudio-redhat-com-v1alpha1-author'') w)"
      by (simp add: AuthorWebhook author_Register_def case_prod_beta)
    then show "\<exists>es. log w' = log w @ es \<and> ManagerStarted \<notin> set es \<and> (err = None \<longrightarrow> {webhook_ready h} \<subseteq> set es)"
      using served by (simp add: AuthorWebhook)
  qed
qed (simp_all add: release_webhook_Register_def plan_webhook_Register_def admission_webhook_Register_def yields_calls)

lemma yields_webhooks:
  assumes "\<And>w. fst (run_state (mgr_Getenv M ''ENABLE_WEBHOOKS'') w) = enabled"
  shows "yields (webhooks_ready enabled) (setUpWebhooks M)"
proof -
  have all: "yields (\<Union>h\<in>set EnabledWebhooks. {webhook_ready h}) (seq_errors (map (webhook_Register M) EnabledWebhooks))"
    by (rule yields_all [where f = "webhook_Register M"]) (auto intro: yields_webhook yields_empty)
  show ?thesis
  proof (rule yieldsI)
    fix w err w' assume run: "run_state (setUpWebhooks M) w = (err, w')"
    obtain w1 where env: "run_state (mgr_Getenv M ''ENABLE_WEBHOOKS'') w = (enabled, w1)"
      using assms [of w] by (cases "run_state (mgr_Getenv M ''ENABLE_WEBHOOKS'') w") simp
    then have w1: "log w1 = log w" using quiet(1) by (auto dest: keeps_log)
    show "\<exists>es. log w' = log w @ es \<and> ManagerStarted \<notin> set es \<and> (err = None \<longrightarrow> webhooks_ready enabled \<subseteq> set es)"
    proof (cases "enabled = ''false''")
      case True
      then show ?thesis using run env w1 by (simp add: setUpWebhooks_def webhooks_ready_def)
    next
      case False
      then have "run_state (seq_errors (map (webhook_Register M) EnabledWebhooks)) w1 = (err, w')"
        using run env by (simp add: setUpWebhooks_def webhooks)
      with all obtain es where "log w' = log w1 @ es" "ManagerStarted \<notin> set es"
        "err = None \<longrightarrow> (\<Union>h\<in>set EnabledWebhooks. {webhook_ready h}) \<subseteq> set es" by (rule yieldsE)
      with w1 False show ?thesis by (intro exI [of _ es]) (auto simp: webhooks_ready_def)
    qed
  qed
qed

lemma leads_main:
  assumes "\<And>w. fst (run_state (mgr_Getenv M ''MAX_CONCURRENT_RECONCILES'') w) = val"
    and "\<And>w. fst (run_state (mgr_Getenv M ''ENABLE_WEBHOOKS'') w) = enabled"
  shows "leads (required_events (workers val) enabled) (main M f)"
proof -
  have rest: "leads (required_events (workers val) enabled) (or_exit (GetConfigOrDie M)
     (or_exit (NewManager M (managerOptions f))
     (or_exit (set_default M v1 x1) (or_exit (set_default M v2 x2) (or_exit (set_default M v3 x3)
     (do { val \<leftarrow> mgr_Getenv M ''MAX_CONCURRENT_RECONCILES'';
        or_exit (setUpControllers M (workers val)) (or_exit (setUpWebhooks M)
        (or_exit (AddHealthzCheck M ''healthz'') (or_exit (AddReadyzCheck M ''readyz'')
        (or_exit (StartManager M) k)))) }))))))" if "keeps log k" for v1 x1 v2 x2 v3 x3 k
  proof -
    have "leads (controllers_ready (workers val) \<union> (webhooks_ready enabled \<union>
        ({CheckAdded ''healthz''} \<union> ({CheckAdded ''readyz''} \<union> {})))) (do {
        val \<leftarrow> mgr_Getenv M ''MAX_CONCURRENT_RECONCILES'';
        or_exit (setUpControllers M (workers val)) (or_exit (setUpWebhooks M)
        (or_exit (AddHealthzCheck M ''healthz'') (or_exit (AddReadyzCheck M ''readyz'')
        (or_exit (StartManager M) k)))) })"
      by (rule leads_getenv [OF quiet(1) assms(1)])
         (intro leads_or_exit yields_calls yields_controllers yields_webhooks [OF assms(2)] leads_start [OF that])
    note this [THEN leads_or_exit [OF yields_set_default, THEN leads_or_exit [OF yields_set_default,
        THEN leads_or_exit [OF yields_set_default, THEN leads_or_exit [OF yields_calls(1),
          THEN leads_or_exit [OF yields_quiet [OF quiet(4)]]]]]]]
    then show ?thesis by (rule leads_sub) (auto simp: required_events_def)
  qed
  show ?thesis
    unfolding leads_def
  proof (intro allI impI)
    fix w res w' assume run: "run_state (main M f) w = (res, w')"
    obtain tp w1 where new: "run_state (New M) w = (tp, w1)" by (cases "run_state (New M) w")
    obtain lk w2 where look: "run_state (mgr_LookupEnv M) w1 = (lk, w2)" by (cases "run_state (mgr_LookupEnv M) w1")
    obtain u w3 where store: "run_state (StoreLabelNames M (SetupLabelNames lk)) w2 = (u, w3)"
      by (cases "run_state (StoreLabelNames M (SetupLabelNames lk)) w2")
    have calm: "keeps log (do { Shutdown tp; State_Monad.return MainReturns })"
      using New_shutdown [OF new] by (intro frame_intro)
    have "log w3 = log w"
      using keeps_log [OF keeps_New new] keeps_log [OF quiet(2) look] keeps_log [OF quiet(9) store] by simp
    with leadsD [OF rest [OF calm] run [unfolded main_def run_state_bind new look store case_prod_conv]]
    show "\<exists>es. ManagerStarted \<notin> set es \<and> (log w' = log w @ es \<and> res = ExitFailure \<or>
        log w' = log w @ es @ [ManagerStarted] \<and> required_events (workers val) enabled \<subseteq> set es)"
      by simp
  qed
qed

end

text \<open>
  C13. The service never starts half configured. Whatever call fails, \<open>main\<close> either ends with exit
  code 1 and never starts the manager, or starts it as its very last set-up step, after the cache
  indexes of all lists by field, the three controllers with the number of workers asked for, the
  four webhooks (unless the environment switches them off with \<open>ENABLE_WEBHOOKS=false\<close>) and both
  health checks are in place.
\<close>

theorem start_up_complete:
  assumes "startup_api M events" "run_state (main M f) w = (res, w')"
    and "\<And>w. fst (run_state (mgr_Getenv M ''MAX_CONCURRENT_RECONCILES'') w) = val"
    and "\<And>w. fst (run_state (mgr_Getenv M ''ENABLE_WEBHOOKS'') w) = enabled"
  shows "\<exists>es. ManagerStarted \<notin> set es \<and>
    (events w' = events w @ es \<and> res = ExitFailure \<or>
     events w' = events w @ es @ [ManagerStarted] \<and> required_events (workers val) enabled \<subseteq> set es)"
  by (rule startup_api.leadsD [OF assms(1) startup_api.leads_main [OF assms(1,3,4)] assms(2)])

section \<open>An instance\<close>

definition logs :: "startup_event \<Rightarrow> (startup_event list, error option) state" where
  "logs ev = State (\<lambda>w. (None, w @ [ev]))"

text \<open>A manager on which every call succeeds, in an environment without variables.\<close>

definition logged_manager :: "(startup_event list, unit) manager_api" where
  "logged_manager = \<lparr>mgr_Getenv = (\<lambda>v. ret []), mgr_LookupEnv = ret (\<lambda>v. None), mgr_Setenv = (\<lambda>v x. ret None),
     GetConfigOrDie = ret None, NewManager = (\<lambda>opts. logs ManagerCreated),
     IndexField = (\<lambda>kind field g. logs (FieldIndexed kind field)),
     CompleteController = (\<lambda>c. logs (ControllerReady c)), CompleteWebhook = (\<lambda>kind. logs (WebhookReady kind)),
     RegisterHandler = (\<lambda>path. State (\<lambda>w. ((), w @ [PathServed path]))),
     SetupControllers = (\<lambda>cs. seq_errors (concat (map (\<lambda>(c, r). [c, r]) cs))), SetupWebhooks = seq_errors,
     AddHealthzCheck = (\<lambda>name. logs (CheckAdded name)), AddReadyzCheck = (\<lambda>name. logs (CheckAdded name)),
     StartManager = logs ManagerStarted, NewExporter = (\<lambda>url. ret None), MergeResource = ret None,
     SetTracerProvider = (\<lambda>b sampler. ret ()), ShutdownProvider = ret None, StoreLabelNames = (\<lambda>names. ret ()),
     ParseFloat = (\<lambda>s. ())\<rparr>"

lemma logged_manager_api: "startup_api logged_manager (\<lambda>w. w)"
  by unfold_locales (auto simp: logged_manager_def logs_def keeps_def)

interpretation logged_manager: startup_api logged_manager "\<lambda>w. w"
  by (rule logged_manager_api)

theorem start_up_complete_witness:
  "\<exists>es. snd (run_state (main logged_manager default_flags) []) = es @ [ManagerStarted] \<and>
     FieldIndexed ''Release'' ''spec.releasePlan'' \<in> set es \<and> WebhookReady ''Release'' \<in> set es"
proof -
  obtain res w' where run: "run_state (main logged_manager default_flags) [] = (res, w')"
    by (cases "run_state (main logged_manager default_flags) []")
  have "fst (run_state (main logged_manager default_flags) []) = MainReturns" by code_simp
  then have "res \<noteq> ExitFailure" using run by simp
  moreover have "run_state (mgr_Getenv logged_manager v) w = ([], w)" for v w by (simp add: logged_manager_def)
  ultimately obtain es where "w' = es @ [ManagerStarted]" "required_events (workers []) [] \<subseteq> set es"
    using start_up_complete [OF logged_manager_api run, of "[]" "[]"] by auto
  then show ?thesis
    using run by (simp add: required_events_def webhooks_ready_def controllers_ready_def controller_indexes_def EnabledControllers_def
        EnabledWebhooks_def)
qed

end
