(* ===== verification/Release_Properties.thy ===== *)
theory Release_Properties
  imports Cluster
begin

text \<open>
  Properties of the status methods of a Release (\<open>src/api/v1alpha1/release_types.go\<close>), of the
  loader and of the git references, with the concrete cluster as the place where their hypotheses
  hold.
\<close>

section \<open>The methods of each phase\<close>

text \<open>
  Once a phase has ended, none of the status methods that move it changes the Release or
  registers a metric: starting, completing, skipping and failing it again are all without effect.
\<close>

theorem finished_phase_inert:
  assumes "conditions_api L" "finished (phase_of L r t)" "m \<in> set (phase_methods L t now msg)"
  shows "m r = (r, [])"
  using conditions_api.methods_inert [OF assms] .

theorem finished_phase_inert_witness:
  "MarkManagedPipelineProcessingFailed status_conditions 7 ''late'' (cl_release released_cluster)
     = (cl_release released_cluster, [])"
proof (rule finished_phase_inert [OF status_conditions.conditions_api_axioms,
    where t = managedProcessedConditionType and now = 7 and msg = "''late''"])
  show "finished (phase_of status_conditions (cl_release released_cluster) managedProcessedConditionType)"
    by code_simp
  show "MarkManagedPipelineProcessingFailed status_conditions 7 ''late''
    \<in> set (phase_methods status_conditions managedProcessedConditionType 7 ''late'')"
    using condition_types_distinct by (auto simp: phase_methods_def)
qed

text \<open>
  C23. The status methods of a phase move that phase along its machine (absent, in progress,
  ended) and leave the recorded state of every other phase, of the validation and of the Release
  itself as it is.
\<close>

theorem phase_methods_isolated:
  assumes "conditions_api L" "m \<in> set (phase_methods L t now msg)"
  shows "phase_step\<^sup>*\<^sup>* (phase_of L r t) (phase_of L (fst (m r)) t) \<and>
    (t' \<noteq> t \<longrightarrow> phase_of L (fst (m r)) t' = phase_of L r t')"
  using conditions_api.methods_phase [OF assms] by blast

theorem phase_methods_isolated_witness:
  "phase_of status_conditions (fst (MarkTenantPipelineProcessing status_conditions 7 demo_release))
     finalProcessedConditionType = Absent"
proof -
  have "phase_of status_conditions (fst (MarkTenantPipelineProcessing status_conditions 7 demo_release))
      finalProcessedConditionType = phase_of status_conditions demo_release finalProcessedConditionType"
    using phase_methods_isolated [OF status_conditions.conditions_api_axioms,
        where t = tenantProcessedConditionType and now = 7 and msg = "[]" and t' = finalProcessedConditionType
        and m = "MarkTenantPipelineProcessing status_conditions 7" and r = demo_release]
      condition_types_distinct
    by (auto simp: phase_methods_def)
  then show ?thesis
    by (simp add: status_conditions.phase_of_no_status demo_release_def empty_release_def no_status_def)
qed

section \<open>Attempts of the managed pipeline\<close>

text \<open>
  Recording the failure of the current managed attempt never touches the attempts before it
  and never ends a phase: whether the managed phase fails is decided by the retry logic, not by
  the attempt.
\<close>

theorem attempt_failure_keeps_phase:
  assumes "conditions_api L"
  shows "phase_of L (fst (MarkCurrentManagedPipelineAttemptFailed L now msg reason task step n r)) t =
      phase_of L r t \<and>
    butlast (ManagedPipelineAttempts (Status
      (fst (MarkCurrentManagedPipelineAttemptFailed L now msg reason task step n r)))) =
      butlast (ManagedPipelineAttempts (Status r))"
  using conditions_api.attempt_marks(1) [OF assms]
  by (auto simp: MarkCurrentManagedPipelineAttemptFailed_def Let_def split: option.splits)

theorem attempt_failure_keeps_phase_witness:
  "phase_of status_conditions (fst (MarkCurrentManagedPipelineAttemptFailed status_conditions 7 ''m''
     ''OOMKill'' ''task'' ''step'' 2 demo_release)) managedProcessedConditionType = Absent"
  using attempt_failure_keeps_phase [OF status_conditions.conditions_api_axioms, where r = demo_release]
  by (simp add: status_conditions.phase_of_no_status demo_release_def empty_release_def no_status_def)

section \<open>Expiration\<close>

lemma wrap64_id_iff: "wrap64 x = x \<longleftrightarrow> - (2 ^ 63) \<le> x \<and> x < 2 ^ 63"
  using wrap64_id wrap64_range by metis

text \<open>
  C36. The expiration time is the creation time plus the grace period in days exactly for grace
  periods of up to 106751 days; one day more overflows the 64-bit duration the product is computed
  in.
\<close>

theorem SetExpirationTime_exact:
  assumes "0 \<le> d"
  shows "ExpirationTime (Status (SetExpirationTime d r)) = Some (om_CreationTimestamp (rel_meta r) + d * day)
    \<longleftrightarrow> d \<le> 106751"
proof -
  have "wrap64 (day * d) = day * d \<longleftrightarrow> d \<le> 106751"
    unfolding wrap64_id_iff using assms by (auto simp: day_def)
  then show ?thesis by (auto simp: SetExpirationTime_def algebra_simps)
qed

theorem SetExpirationTime_exact_witness:
  "ExpirationTime (Status (SetExpirationTime 7 demo_release)) = Some (90 + 7 * day) \<and>
   ExpirationTime (Status (SetExpirationTime 106752 demo_release)) \<noteq> Some (90 + 106752 * day)"
  using SetExpirationTime_exact [of 7 demo_release] SetExpirationTime_exact [of 106752 demo_release]
  by (simp add: demo_release_def)

section \<open>The loader on the concrete cluster\<close>

lemma demo_admissions:
  "run_state (api_ListReleasePlanAdmissions cluster_env ''managed'' ''dev'') demo_cluster =
     (Inr [demo_admission], demo_cluster)"
  by (simp add: cluster_env_def demo_cluster_def demo_admission_def)

lemma demo_plan_fields [simp]:
  "Target (rp_Spec demo_plan) = ''managed''" "om_Namespace (rp_meta demo_plan) = ''dev''"
  "om_Labels (rp_meta demo_plan) = None" "MatchesReleasePlan demo_admission demo_plan"
  by (simp_all add: demo_plan_def demo_admission_def no_meta_def MatchesReleasePlan_def GetGroupName_def empty_plan_def
      empty_admission_def)

lemma previous_candidates:
  "\<not> previous_candidate status_conditions demo_release demo_release"
  "previous_candidate status_conditions demo_release older_release"
  by (simp add: previous_candidate_def)
     (simp add: previous_candidate_def IsFailed_phase status_conditions.phase_of_no_status
       older_release_def demo_release_def empty_release_def no_status_def)

text \<open>
  An admission that blocks releases is never used: whatever the ReleasePlan, the loader's
  active admission does not carry the block-releases label set to \<open>true\<close>, and it is the one
  \<open>GetMatchingReleasePlanAdmission\<close> finds.
\<close>

theorem active_admission_not_blocked:
  assumes "run_state (GetActiveReleasePlanAdmission E rp) w = (Inr rpa, w')"
  shows "map_read (om_Labels (rpa_meta rpa)) BlockReleasesLabel \<noteq> Some ''true'' \<and>
    run_state (GetMatchingReleasePlanAdmission E rp) w = (Inr rpa, w')"
  using GetActive_not_blocked [OF assms] GetActive_matching [OF assms] by blast

theorem active_admission_not_blocked_witness:
  "run_state (GetMatchingReleasePlanAdmission cluster_env demo_plan) demo_cluster =
     (Inr demo_admission, demo_cluster)"
proof -
  have "run_state (GetActiveReleasePlanAdmission cluster_env demo_plan) demo_cluster =
      (Inr demo_admission, demo_cluster)"
    by (simp add: GetActiveReleasePlanAdmission_def GetMatchingReleasePlanAdmission_def demo_admissions
        map_index_def) (simp add: demo_admission_def no_meta_def)
  from active_admission_not_blocked [OF this] show ?thesis by simp
qed

section \<open>Git references\<close>

text \<open>A remote that turns down the first two listings.\<close>

definition busy_env :: "cluster env" where
  "busy_env = cluster_env\<lparr>ListRemote := \<lambda>url auth. State (\<lambda>w.
     (if cl_serial w < 2 then Inl (plain_error ''API rate limit exceeded'')
      else Inr [(''refs/heads/dev'', ''0000''), (''refs/heads/main'', url)], w\<lparr>cl_serial := Suc (cl_serial w)\<rparr>))\<rparr>"

lemma example_remote:
  "IsRateLimitError (plain_error ''API rate limit exceeded'')" "\<not> IsGitHubURL cluster_lib ''https://git.example/repo''"
  "\<not> IsSHA ''main''"
  by code_simp+

lemma busy_listed:
  "listed_after busy_env url auth 2 demo_cluster 0 [(''refs/heads/dev'', ''0000''), (''refs/heads/main'', url)]
     (demo_cluster\<lparr>cl_serial := 3, cl_clock := 100 + 6 * second\<rparr>)"
  by (simp add: listed_after_def busy_env_def cluster_env_def demo_cluster_def numeral_2_eq_2 less_Suc_eq
      example_remote second_def)

theorem ResolveBranchToSHA_exact_witness:
  "run_state (ResolveBranchToSHA busy_env ''https://git.example/repo'' ''main'') demo_cluster =
     (Inr ''https://git.example/repo'', demo_cluster\<lparr>cl_serial := 3, cl_clock := 100 + 6 * second\<rparr>)"
proof -
  have auth: "run_state (remoteListOptions busy_env ''https://git.example/repo'') demo_cluster = (None, demo_cluster)"
    and url: "listed_url (lib busy_env) ''https://git.example/repo'' = ''https://git.example/repo''"
    by (simp_all add: remoteListOptions_def listed_url_def busy_env_def example_remote)
  have "branch_head ''main''
      [(''refs/heads/dev'', ''0000''), (''refs/heads/main'', ''https://git.example/repo'')] ''https://git.example/repo''"
    unfolding branch_head_def by (rule exI [of _ "[(''refs/heads/dev'', ''0000'')]"]) simp
  then have "\<exists>k\<le>3. \<exists>refs. listed_after busy_env ''https://git.example/repo'' None k demo_cluster 0 refs
      (demo_cluster\<lparr>cl_serial := 3, cl_clock := 100 + 6 * second\<rparr>) \<and>
      branch_head ''main'' refs ''https://git.example/repo''"
    using busy_listed by (intro exI [of _ 2] conjI) auto
  then show ?thesis
    using ResolveBranchToSHA_exact [OF auth, where revision = "''main''"] example_remote(3) unfolding url by simp
qed

text \<open>A remote that is always rate limited: every listing fails, three waits are slept.\<close>

definition limited_env :: "cluster env" where
  "limited_env = cluster_env\<lparr>ListRemote := \<lambda>url auth. State (\<lambda>w.
     (Inl (plain_error ''API rate limit exceeded''), w\<lparr>cl_serial := Suc (cl_serial w)\<rparr>))\<rparr>"

lemma limited_run:
  "cl_serial (snd (run_state (ResolveBranchToSHA limited_env ''https://git.example/repo'' ''main'') demo_cluster)) = 4"
  "cl_clock (snd (run_state (ResolveBranchToSHA limited_env ''https://git.example/repo'' ''main'') demo_cluster)) =
     100 + 14 * second"
  by code_simp+

text \<open>The bounds are reached.\<close>

theorem ResolveBranchToSHA_bounded_witness:
  "cl_serial (snd (run_state (ResolveBranchToSHA limited_env ''https://git.example/repo'' ''main'') demo_cluster)) \<le> 4 \<and>
   cl_clock (snd (run_state (ResolveBranchToSHA limited_env ''https://git.example/repo'' ''main'') demo_cluster))
     \<le> 100 + 14 * second"
proof -
  have metered: "metered limited_env (\<lambda>w. (cl_serial w, cl_clock w))"
    by (auto simp: metered_def limited_env_def cluster_env_def keeps_def)
  obtain res w' where run: "run_state (ResolveBranchToSHA limited_env ''https://git.example/repo'' ''main'') demo_cluster =
      (res, w')"
    by (cases "run_state (ResolveBranchToSHA limited_env ''https://git.example/repo'' ''main'') demo_cluster")
  show ?thesis
    using ResolveBranchToSHA_bounded [OF metered run] run by (simp add: demo_cluster_def)
qed

text \<open>
  A git resolver configuration that is rejected for what it says is rejected for good: the
  error is neither retried on creation nor treated as transient.
\<close>

theorem invalid_git_config_permanent:
  assumes "ValidateGitResolverConfig url revision pathInRepo = Some e"
  shows "\<not> IsRetryableCreationError (Some e) \<and> \<not> IsRetriable (Some e)"
  using ValidateGitResolverConfig_permanent [OF assms] .

theorem invalid_git_config_permanent_witness:
  "\<exists>e. ValidateGitResolverConfig ''url'' [] ''path'' = Some e \<and> \<not> IsRetryableCreationError (Some e)"
proof -
  have "ValidateGitResolverConfig ''url'' [] ''path'' \<noteq> None" by code_simp
  then obtain e where e: "ValidateGitResolverConfig ''url'' [] ''path'' = Some e" by blast
  with invalid_git_config_permanent [OF e] show ?thesis by blast
qed

section \<open>Labels and annotations\<close>

text \<open>
  Copying entries into a map gives the same result in whatever order the runtime visits the
  keys of the source: the entries the destination already has are kept, all others are taken from
  the source.
\<close>

theorem addEntries_order_irrelevant:
  assumes "distinct (map fst kvs)" "map_of kvs = source"
  shows "fold (\<lambda>(k, v) d. safeCopy d k v) kvs destination = addEntries source destination"
  using addEntries_any_order [OF assms] .

theorem addEntries_order_irrelevant_witness:
  "fold (\<lambda>(k, v) d. safeCopy d k v) [(''a'', ''1''), (''b'', ''2'')] [''b'' \<mapsto> ''0''] =
     addEntries [''b'' \<mapsto> ''2'', ''a'' \<mapsto> ''1''] [''b'' \<mapsto> ''0'']"
  by (rule addEntries_order_irrelevant) (auto simp: fun_eq_iff)

section \<open>The archive\<close>

text \<open>The cluster with an archive that answers every request with a list of three versions.\<close>

definition archive_env :: "cluster env" where
  "archive_env = cluster_env\<lparr>HttpDo := \<lambda>ca url. ret (Inr (200, Inr ''7,12,9''))\<rparr>"

theorem getFromList_newest_witness:
  "\<exists>s. fst (run_state (getFromList archive_env ''ca'' ''https://archive''
      \<lparr>gvr_Group = [], gvr_Version = ''v1'', gvr_Resource = ''snapshots''\<rparr> ''dev'' ''snapshot'') demo_cluster) =
      (Some s, None) \<and> om_Name (sn_meta s) = ''12''"
proof -
  let ?g = "\<lparr>gvr_Group = [], gvr_Version = ''v1'', gvr_Resource = ''snapshots''\<rparr>"
  let ?meta = "DecodeMeta (lib archive_env)"
  have get: "run_state (doGet archive_env ''ca'' url) demo_cluster = (Inr (''7,12,9'', 200), demo_cluster)" for url
    by (simp add: doGet_def archive_env_def cluster_env_def cluster_lib_def)
  have decode: "DecodeItems (lib archive_env) ''7,12,9'' = Inr [''7'', ''12'', ''9'']"
    "fst (DecodeSnapshot (lib archive_env) ''12'') = \<lparr>sn_meta = no_meta\<lparr>om_Name := ''12''\<rparr>, sn_Application = []\<rparr>"
    "snd (DecodeSnapshot (lib archive_env) ''12'') = None"
    by (simp_all add: archive_env_def cluster_lib_def)
  have versions: "archived_version ?meta ''snapshot'' ''7'' = Some 7"
    "archived_version ?meta ''snapshot'' ''12'' = Some 12" "archived_version ?meta ''snapshot'' ''9'' = Some 9"
    by (simp_all add: archived_version_def archive_env_def cluster_lib_def)
       (simp_all add: parse_int64_def is_digit_def digits_value_def)
  show ?thesis
    using getFromList_newest [OF get decode(1), where g = ?g and name = "''snapshot''"
        and apiURL = "''https://archive''" and namespace = "''dev''"]
    by (auto simp: versions_below_def versions decode)
qed

section \<open>Deletion\<close>

lemma deletion_stops:
  "\<lbrakk>run_state (EnsureFinalizersAreCalled E) s = (res, s'); om_DeletionTimestamp (rel_meta (release s)) \<noteq> None\<rbrakk> \<Longrightarrow>
   \<not> goes_on res"
  by (auto simp: EnsureFinalizersAreCalled_def split: if_splits option.splits prod.splits)

lemma deletion_fails:
  "\<lbrakk>om_DeletionTimestamp (rel_meta (release s)) \<noteq> None;
    ContainsFinalizer (lib E) (om_Finalizers (rel_meta (release s))) ReleaseFinalizer;
    run_state (finalizeRelease E True) s = (Some e, s1)\<rbrakk> \<Longrightarrow>
   run_state (EnsureFinalizersAreCalled E) s = (RequeueWithError e, s1)"
  by (auto simp: EnsureFinalizersAreCalled_def)

text \<open>
  C14. A Release that is being deleted is only cleaned up: the reconcile runs the finalizers and
  none of the other operations, and if the clean-up fails it stops there with that error, before
  the finalizer that keeps the Release in the cluster is removed.
\<close>

theorem deleted_release_only_finalized:
  assumes "toolkit_api T" "run_state (api_GetRelease E name ns) w = ((r, None), w1)"
    and "om_DeletionTimestamp (rel_meta r) \<noteq> None"
    and "run_state (EnsureFinalizersAreCalled E) (newAdapter r w1) = (res, s)"
  shows "run_state (Reconcile E T name ns) w = (Handled (Some res), world s) \<and>
    (\<forall>e s1. ContainsFinalizer (lib E) (om_Finalizers (rel_meta r)) ReleaseFinalizer \<and>
       run_state (finalizeRelease E True) (newAdapter r w1) = (Some e, s1) \<longrightarrow>
       res = RequeueWithError e \<and> s = s1)"
proof
  have "\<not> goes_on res" using deletion_stops [OF assms(4)] assms(3) by (simp add: newAdapter_def)
  then have "run_state (ReconcileHandler T (operations E T)) (newAdapter r w1) = (Some res, s)"
    using assms(4) unfolding operations_def toolkit_api.handler_cons [OF assms(1)] by simp
  then show "run_state (Reconcile E T name ns) w = (Handled (Some res), world s)"
    using assms(2) by (simp add: Reconcile_def)
  show "\<forall>e s1. ContainsFinalizer (lib E) (om_Finalizers (rel_meta r)) ReleaseFinalizer \<and>
       run_state (finalizeRelease E True) (newAdapter r w1) = (Some e, s1) \<longrightarrow>
       res = RequeueWithError e \<and> s = s1"
    using deletion_fails [of "newAdapter r w1" E] assms(3,4) by (auto simp: newAdapter_def)
qed

definition deleted_cluster :: cluster where
  "deleted_cluster = demo_cluster\<lparr>cl_release := demo_release\<lparr>rel_meta :=
     (rel_meta demo_release)\<lparr>om_DeletionTimestamp := Some 95\<rparr>\<rparr>\<rparr>"

theorem deleted_release_only_finalized_witness:
  "fst (run_state (Reconcile cluster_env standard_toolkit ''release'' ''dev'') deleted_cluster) =
     Handled (Some Requeue)"
proof -
  let ?r = "cl_release deleted_cluster"
  have get: "run_state (api_GetRelease cluster_env ''release'' ''dev'') deleted_cluster = ((?r, None), deleted_cluster)"
    by (simp add: cluster_env_def get_the_release_def deleted_cluster_def demo_release_def)
  have deleted: "om_DeletionTimestamp (rel_meta ?r) \<noteq> None" by (simp add: deleted_cluster_def)
  have "run_state (EnsureFinalizersAreCalled cluster_env) (newAdapter ?r deleted_cluster) =
      (Requeue, newAdapter ?r deleted_cluster)"
    by (simp add: EnsureFinalizersAreCalled_def newAdapter_def deleted_cluster_def demo_release_def no_meta_def
        cluster_lib_def)
  from deleted_release_only_finalized [OF standard_toolkit.toolkit_api_axioms get deleted this]
  show ?thesis by simp
qed

end
