(* ===== verification/Metrics.thy ===== *)
theory Metrics
  imports Release_Lifecycle
begin

text \<open>
  \<open>src/metrics/release.go\<close>: what the registered metrics do to the collectors. The status methods
  of a Release return the calls they make as values of type \<open>metric\<close>; \<open>register\<close> runs them on a
  registry. A gauge is an integer, a counter the list of the label sets it was increased for, a
  histogram the list of its observations with their labels, as durations in nanoseconds: the
  conversion to floating-point seconds is left to the observer. The collectors the package declares
  and its \<open>init\<close> are modelled too: their names, label names and buckets.
\<close>

type_synonym labels = "(string \<times> string) list"

record registry =
  ReleaseConcurrentTotal :: int
  ReleaseConcurrentProcessingsTotal :: int
  ReleasePreProcessingDurationSeconds :: "(labels \<times> duration) list"
  ReleaseValidationDurationSeconds :: "(labels \<times> duration) list"
  ReleaseDurationSeconds :: "(labels \<times> duration) list"
  ReleaseProcessingDurationSeconds :: "(labels \<times> duration) list"
  ReleaseMitigationSuccessTotal :: "labels list"
  ReleaseTotal :: "labels list"

text \<open>\<open>time.Time.Sub\<close> saturates at the bounds of a duration.\<close>

definition time_sub :: "time \<Rightarrow> time \<Rightarrow> duration" where
  "time_sub t u = max (- (2 ^ 63)) (min (2 ^ 63 - 1) (t - u))"

definition do_RegisterCompletedRelease ::
  "time option \<Rightarrow> time option \<Rightarrow> string \<Rightarrow> string \<Rightarrow> string \<Rightarrow> string \<Rightarrow> string \<Rightarrow> string \<Rightarrow> string \<Rightarrow>
   string \<Rightarrow> registry \<Rightarrow> registry" where
  "do_RegisterCompletedRelease startTime completionTime tenantCollectorsProcessingReason
     tenantProcessingReason managedCollectorsProcessingReason managedProcessingReason
     finalProcessingReason releaseReason target validationReason reg =
     (case (startTime, completionTime) of
        (Some start, Some completion) \<Rightarrow>
          let ls =
            [(''final_pipeline_processing_reason'', finalProcessingReason),
             (''managed_collectors_pipeline_processing_reason'', managedCollectorsProcessingReason),
             (''managed_pipeline_processing_reason'', managedProcessingReason),
             (''release_reason'', releaseReason),
             (''target'', target),
             (''tenant_collectors_pipeline_processing_reason'', tenantCollectorsProcessingReason),
             (''tenant_pipeline_processing_reason'', tenantProcessingReason),
             (''validation_reason'', validationReason)]
          in reg\<lparr>ReleaseConcurrentTotal := ReleaseConcurrentTotal reg - 1,
               ReleaseDurationSeconds := ReleaseDurationSeconds reg @ [(ls, time_sub completion start)],
               ReleaseTotal := ReleaseTotal reg @ [ls]\<rparr>
      | _ \<Rightarrow> reg)"

definition do_RegisterCompletedReleasePipelineProcessing ::
  "time option \<Rightarrow> time option \<Rightarrow> string \<Rightarrow> string \<Rightarrow> string \<Rightarrow> registry \<Rightarrow> registry" where
  "do_RegisterCompletedReleasePipelineProcessing startTime completionTime reason target pipelineType reg =
     (case (startTime, completionTime) of
        (Some start, Some completion) \<Rightarrow>
          reg\<lparr>ReleaseProcessingDurationSeconds := ReleaseProcessingDurationSeconds reg @
                [([(''reason'', reason), (''target'', target), (''type'', pipelineType)],
                  time_sub completion start)],
              ReleaseConcurrentProcessingsTotal := ReleaseConcurrentProcessingsTotal reg - 1\<rparr>
      | _ \<Rightarrow> reg)"

definition do_RegisterValidatedRelease ::
  "time option \<Rightarrow> time option \<Rightarrow> string \<Rightarrow> string \<Rightarrow> registry \<Rightarrow> registry" where
  "do_RegisterValidatedRelease startTime validationTime reason target reg =
     (case (startTime, validationTime) of
        (Some start, Some validation) \<Rightarrow>
          reg\<lparr>ReleaseValidationDurationSeconds := ReleaseValidationDurationSeconds reg @
                [([(''reason'', reason), (''target'', target)], time_sub validation start)]\<rparr>
      | _ \<Rightarrow> reg)"

definition do_RegisterSuccessfulManagedPipelineRetryMitigation ::
  "string \<Rightarrow> string \<Rightarrow> string \<Rightarrow> string \<Rightarrow> string \<Rightarrow> string \<Rightarrow> string \<Rightarrow> string \<Rightarrow> string \<Rightarrow>
   registry \<Rightarrow> registry" where
  "do_RegisterSuccessfulManagedPipelineRetryMitigation failureReason task step target memoryLimit
     memoryRequest taskTimeout tasksTimeout pipelinesTimeout reg =
     reg\<lparr>ReleaseMitigationSuccessTotal := ReleaseMitigationSuccessTotal reg @
       [[(''failure_reason'', failureReason), (''memory_limit'', memoryLimit),
         (''memory_request'', memoryRequest), (''pipelines_timeout'', pipelinesTimeout),
         (''step'', step), (''target'', target), (''task'', task), (''task_timeout'', taskTimeout),
         (''tasks_timeout'', tasksTimeout)]]\<rparr>"

definition do_RegisterNewRelease :: "registry \<Rightarrow> registry" where
  "do_RegisterNewRelease reg = reg\<lparr>ReleaseConcurrentTotal := ReleaseConcurrentTotal reg + 1\<rparr>"

definition do_RegisterNewReleasePipelineProcessing ::
  "time option \<Rightarrow> time option \<Rightarrow> string \<Rightarrow> string \<Rightarrow> string \<Rightarrow> registry \<Rightarrow> registry" where
  "do_RegisterNewReleasePipelineProcessing startTime processingStartTime reason target pipelineType reg =
     (case (startTime, processingStartTime) of
        (Some start, Some processingStart) \<Rightarrow>
          reg\<lparr>ReleasePreProcessingDurationSeconds := ReleasePreProcessingDurationSeconds reg @
                [([(''reason'', reason), (''target'', target), (''type'', pipelineType)],
                  time_sub processingStart start)],
              ReleaseConcurrentProcessingsTotal := ReleaseConcurrentProcessingsTotal reg + 1\<rparr>
      | _ \<Rightarrow> reg)"

fun register :: "metric \<Rightarrow> registry \<Rightarrow> registry" where
  "register (RegisterCompletedRelease a b c d e f g h i j) = do_RegisterCompletedRelease a b c d e f g h i j"
| "register (RegisterCompletedReleasePipelineProcessing a b c d e) =
     do_RegisterCompletedReleasePipelineProcessing a b c d e"
| "register (RegisterValidatedRelease a b c d) = do_RegisterValidatedRelease a b c d"
| "register (RegisterSuccessfulManagedPipelineRetryMitigation a b c d e f g h i) =
     do_RegisterSuccessfulManagedPipelineRetryMitigation a b c d e f g h i"
| "register RegisterNewRelease = do_RegisterNewRelease"
| "register (RegisterNewReleasePipelineProcessing a b c d e) =
     do_RegisterNewReleasePipelineProcessing a b c d e"

section \<open>Labels\<close>

definition releasePreProcessingDurationSecondsLabels :: "string list" where
  "releasePreProcessingDurationSecondsLabels = [''reason'', ''target'', ''type'']"

definition releaseValidationDurationSecondsLabels :: "string list" where
  "releaseValidationDurationSecondsLabels = [''reason'', ''target'']"

definition releaseDurationSecondsLabels :: "string list" where
  "releaseDurationSecondsLabels =
     [''final_pipeline_processing_reason'', ''managed_collectors_pipeline_processing_reason'',
      ''managed_pipeline_processing_reason'', ''release_reason'', ''target'',
      ''tenant_collectors_pipeline_processing_reason'', ''tenant_pipeline_processing_reason'',
      ''validation_reason'']"

definition releaseProcessingDurationSecondsLabels :: "string list" where
  "releaseProcessingDurationSecondsLabels = [''reason'', ''target'', ''type'']"

definition releaseMitigationSuccessTotalLabels :: "string list" where
  "releaseMitigationSuccessTotalLabels =
     [''failure_reason'', ''memory_limit'', ''memory_request'', ''pipelines_timeout'', ''step'', ''target'',
      ''task'', ''task_timeout'', ''tasks_timeout'']"

definition releaseTotalLabels :: "string list" where
  "releaseTotalLabels =
     [''final_pipeline_processing_reason'', ''managed_collectors_pipeline_processing_reason'',
      ''managed_pipeline_processing_reason'', ''release_reason'', ''target'',
      ''tenant_collectors_pipeline_processing_reason'', ''tenant_pipeline_processing_reason'',
      ''validation_reason'']"

definition fresh_registry :: registry where
  "fresh_registry = \<lparr>ReleaseConcurrentTotal = 0, ReleaseConcurrentProcessingsTotal = 0,
     ReleasePreProcessingDurationSeconds = [], ReleaseValidationDurationSeconds = [],
     ReleaseDurationSeconds = [], ReleaseProcessingDurationSeconds = [],
     ReleaseMitigationSuccessTotal = [], ReleaseTotal = []\<rparr>"

text \<open>
  The client library panics when a label set does not name the declared labels, each once: a
  registry in which all do.
\<close>

definition labelled :: "string list \<Rightarrow> labels \<Rightarrow> bool" where
  "labelled names ls \<longleftrightarrow> distinct names \<and> map fst ls = names"

definition well_labelled :: "registry \<Rightarrow> bool" where
  "well_labelled reg \<longleftrightarrow>
     list_all (labelled releasePreProcessingDurationSecondsLabels \<circ> fst) (ReleasePreProcessingDurationSeconds reg) \<and>
     list_all (labelled releaseValidationDurationSecondsLabels \<circ> fst) (ReleaseValidationDurationSeconds reg) \<and>
     list_all (labelled releaseDurationSecondsLabels \<circ> fst) (ReleaseDurationSeconds reg) \<and>
     list_all (labelled releaseProcessingDurationSecondsLabels \<circ> fst) (ReleaseProcessingDurationSeconds reg) \<and>
     list_all (labelled releaseMitigationSuccessTotalLabels) (ReleaseMitigationSuccessTotal reg) \<and>
     list_all (labelled releaseTotalLabels) (ReleaseTotal reg)"

lemmas label_names =
  releasePreProcessingDurationSecondsLabels_def releaseValidationDurationSecondsLabels_def
  releaseDurationSecondsLabels_def releaseProcessingDurationSecondsLabels_def
  releaseMitigationSuccessTotalLabels_def releaseTotalLabels_def

lemmas register_defs =
  do_RegisterCompletedRelease_def do_RegisterCompletedReleasePipelineProcessing_def
  do_RegisterValidatedRelease_def do_RegisterSuccessfulManagedPipelineRetryMitigation_def
  do_RegisterNewRelease_def do_RegisterNewReleasePipelineProcessing_def

lemma register_well_labelled: "well_labelled reg \<Longrightarrow> well_labelled (register m reg)"
  by (cases m) (auto simp: well_labelled_def register_defs labelled_def label_names Let_def split: option.splits)

text \<open>
  C35. No registration makes the metrics library panic: whatever metrics are registered, every
  observation and every count carries exactly the labels its collector was declared with.
\<close>

theorem metrics_well_labelled: "well_labelled (fold register ms fresh_registry)"
proof -
  have "well_labelled (fold register ms reg)" if "well_labelled reg" for reg
    using that by (induction ms arbitrary: reg) (simp_all add: register_well_labelled)
  moreover have "well_labelled fresh_registry" by (simp add: well_labelled_def fresh_registry_def)
  ultimately show ?thesis by blast
qed

section \<open>The collectors\<close>

datatype collector_kind = GaugeVec | CounterVec | HistogramVec "int list"

record collector =
  desc_Name :: string
  desc_Kind :: collector_kind
  desc_Labels :: "string list"

definition hourlyBuckets :: "int list" where
  "hourlyBuckets = [5, 10, 30, 60, 90, 180, 300, 450, 900, 1800, 3600]"

definition dailyBuckets :: "int list" where
  "dailyBuckets =
     [60, 300, 600, 1800, 3600, 7200, 14400, 21600, 28800, 36000, 43200, 57600, 72000, 86400]"

definition releasePreProcessingDurationSecondsOpts :: "string \<times> collector_kind" where
  "releasePreProcessingDurationSecondsOpts =
     (''release_pre_processing_duration_seconds'', HistogramVec hourlyBuckets)"

definition releaseValidationDurationSecondsOpts :: "string \<times> collector_kind" where
  "releaseValidationDurationSecondsOpts = (''release_validation_duration_seconds'', HistogramVec hourlyBuckets)"

definition releaseDurationSecondsOpts :: "string \<times> collector_kind" where
  "releaseDurationSecondsOpts = (''release_duration_seconds'', HistogramVec dailyBuckets)"

definition releaseProcessingDurationSecondsOpts :: "string \<times> collector_kind" where
  "releaseProcessingDurationSecondsOpts = (''release_processing_duration_seconds'', HistogramVec dailyBuckets)"

definition releaseMitigationSuccessTotalOpts :: "string \<times> collector_kind" where
  "releaseMitigationSuccessTotalOpts = (''release_mitigation_success_total'', CounterVec)"

definition releaseTotalOpts :: "string \<times> collector_kind" where
  "releaseTotalOpts = (''release_total'', CounterVec)"

definition collector_of :: "string \<times> collector_kind \<Rightarrow> string list \<Rightarrow> collector" where
  "collector_of opts ls = \<lparr>desc_Name = fst opts, desc_Kind = snd opts, desc_Labels = ls\<rparr>"

text \<open>In the order in which \<open>init\<close> registers them.\<close>

definition registered_collectors :: "collector list" where
  "registered_collectors =
     [collector_of (''release_concurrent_total'', GaugeVec) [],
      collector_of (''release_concurrent_processings_total'', GaugeVec) [],
      collector_of releaseMitigationSuccessTotalOpts releaseMitigationSuccessTotalLabels,
      collector_of releasePreProcessingDurationSecondsOpts releasePreProcessingDurationSecondsLabels,
      collector_of releaseValidationDurationSecondsOpts releaseValidationDurationSecondsLabels,
      collector_of releaseDurationSecondsOpts releaseDurationSecondsLabels,
      collector_of releaseProcessingDurationSecondsOpts releaseProcessingDurationSecondsLabels,
      collector_of releaseTotalOpts releaseTotalLabels]"

text \<open>
  What \<open>MustRegister\<close> and the constructors panic on: two collectors of one name, a repeated label, and
  buckets that do not increase.
\<close>

definition buckets_increase :: "collector_kind \<Rightarrow> bool" where
  "buckets_increase k = (case k of HistogramVec bs \<Rightarrow> sorted_wrt (<) bs | _ \<Rightarrow> True)"

lemma collectors_registrable:
  "distinct (map desc_Name registered_collectors)"
  "list_all (\<lambda>c. distinct (desc_Labels c)) registered_collectors"
  "list_all (\<lambda>c. buckets_increase (desc_Kind c)) registered_collectors"
  by code_simp+

section \<open>The gauge of concurrent releases\<close>

text \<open>How much a call moves each gauge.\<close>

fun release_delta :: "metric \<Rightarrow> int" where
  "release_delta (RegisterCompletedRelease (Some _) (Some _) _ _ _ _ _ _ _ _) = -1"
| "release_delta RegisterNewRelease = 1"
| "release_delta _ = 0"

fun processing_delta :: "metric \<Rightarrow> int" where
  "processing_delta (RegisterCompletedReleasePipelineProcessing (Some _) (Some _) _ _ _) = -1"
| "processing_delta (RegisterNewReleasePipelineProcessing (Some _) (Some _) _ _ _) = 1"
| "processing_delta _ = 0"

lemma register_gauges:
  "ReleaseConcurrentTotal (register m reg) = ReleaseConcurrentTotal reg + release_delta m"
  "ReleaseConcurrentProcessingsTotal (register m reg) =
     ReleaseConcurrentProcessingsTotal reg + processing_delta m"
  by (cases m; auto simp: register_defs Let_def split: option.splits)+

lemma register_all_gauges:
  "ReleaseConcurrentTotal (fold register ms reg) = ReleaseConcurrentTotal reg + sum_list (map release_delta ms)"
  "ReleaseConcurrentProcessingsTotal (fold register ms reg) =
     ReleaseConcurrentProcessingsTotal reg + sum_list (map processing_delta ms)"
  by (induction ms arbitrary: reg) (simp_all add: register_gauges)

text \<open>The methods of a phase never touch what the gauge of releases depends on.\<close>

lemma phase_methods_metrics:
  assumes "m \<in> set (phase_methods L t now msg)"
  shows "sum_list (map release_delta (snd (m r))) = 0"
    and "st_StartTime (Status (fst (m r))) = st_StartTime (Status r)"
  using assms
  by (auto simp: phase_methods_def mark_defs set_cond_def set_cond_msg_def upd_current_attempt_def Let_def
      split: if_splits option.splits)

definition attempt_methods ::
  "conditions_lib \<Rightarrow> time \<Rightarrow> string \<Rightarrow> string \<Rightarrow> string \<Rightarrow> string \<Rightarrow> int \<Rightarrow> mark list" where
  "attempt_methods L now msg reason task step n =
     [MarkCurrentManagedPipelineAttemptProcessing L now,
      MarkCurrentManagedPipelineAttemptFailed L now msg reason task step n,
      MarkCurrentManagedPipelineAttemptRetryDisabled reason]"

lemma attempt_methods_metrics:
  assumes "m \<in> set (attempt_methods L now msg reason task step n)"
  shows "sum_list (map release_delta (snd (m r))) = 0"
    and "st_StartTime (Status (fst (m r))) = st_StartTime (Status r)"
  using assms
  by (auto simp: attempt_methods_def mark_defs set_cond_def upd_current_attempt_def Let_def
      split: if_splits option.splits)

text \<open>
  Runs of the status methods of one Release with the metrics they register, and how many calls of
  \<open>MarkReleasing\<close> found the Release releasing already.
\<close>

inductive status_run :: "conditions_lib \<Rightarrow> Release \<Rightarrow> Release \<Rightarrow> metric list \<Rightarrow> nat \<Rightarrow> bool" for L r where
  none: "status_run L r r [] 0"
| phase: "\<lbrakk>status_run L r r1 ms k; m \<in> set (phase_methods L t now msg); t \<noteq> releasedConditionType\<rbrakk> \<Longrightarrow>
    status_run L r (fst (m r1)) (ms @ snd (m r1)) k"
| attempt: "\<lbrakk>status_run L r r1 ms k; m \<in> set (attempt_methods L now msg reason task step n)\<rbrakk> \<Longrightarrow>
    status_run L r (fst (m r1)) (ms @ snd (m r1)) k"
| releasing: "status_run L r r1 ms k \<Longrightarrow>
    status_run L r (fst (MarkReleasing L now msg r1)) (ms @ snd (MarkReleasing L now msg r1))
      (if IsReleasing L r1 then Suc k else k)"
| released: "status_run L r r1 ms k \<Longrightarrow>
    status_run L r (fst (MarkReleased L now r1)) (ms @ snd (MarkReleased L now r1)) k"
| failed: "status_run L r r1 ms k \<Longrightarrow>
    status_run L r (fst (MarkReleaseFailed L now msg r1)) (ms @ snd (MarkReleaseFailed L now msg r1)) k"
| validated: "status_run L r r1 ms k \<Longrightarrow>
    status_run L r (fst (MarkValidated L now r1)) (ms @ snd (MarkValidated L now r1)) k"
| invalid: "status_run L r r1 ms k \<Longrightarrow>
    status_run L r (fst (MarkValidationFailed L now msg r1)) (ms @ snd (MarkValidationFailed L now msg r1)) k"

definition releasing_count :: "conditions_lib \<Rightarrow> Release \<Rightarrow> int" where
  "releasing_count L r = (if IsReleasing L r then 1 else 0)"

context conditions_api
begin

lemma releasing_iff: "IsReleasing L r \<longleftrightarrow> phase_of L r releasedConditionType = InProgress"
  by (simp add: IsReleasing_def isPhaseProgressing_phase)

lemma finished_iff: "HasReleaseFinished L r \<longleftrightarrow> finished (phase_of L r releasedConditionType)"
  by (simp add: HasReleaseFinished_def hasPhaseFinished_phase)

lemma releasing_phase_method:
  "\<lbrakk>m \<in> set (phase_methods L t now msg); t \<noteq> releasedConditionType\<rbrakk> \<Longrightarrow> IsReleasing L (fst (m r)) = IsReleasing L r"
  using methods_phase(2) [of m t now msg releasedConditionType r] by (simp add: releasing_iff)

lemma releasing_attempt_method:
  "m \<in> set (attempt_methods L now msg reason task step n) \<Longrightarrow> IsReleasing L (fst (m r)) = IsReleasing L r"
  by (auto simp: attempt_methods_def releasing_iff mark_defs Let_def phase_of_def set_cond_def view_set
      upd_current_attempt_def split: option.splits if_splits)

lemma status_run_gauge:
  assumes "status_run L r r' ms k" "\<not> IsReleasing L r"
  shows "sum_list (map release_delta ms) = releasing_count L r' + int k \<and>
    (IsReleasing L r' \<longrightarrow> st_StartTime (Status r') \<noteq> None)"
  using assms
proof (induction rule: status_run.induct)
  case (phase r1 ms k m t now msg)
  then show ?case
    using phase_methods_metrics [of m L t now msg r1] by (simp add: releasing_count_def releasing_phase_method)
next
  case (attempt r1 ms k m now msg reason task step n)
  then show ?case
    using attempt_methods_metrics [of m L now msg reason task step n r1]
    by (simp add: releasing_count_def releasing_attempt_method)
next
  case (releasing r1 ms k now msg)
  then show ?case
    by (cases "phase_of L r1 releasedConditionType")
       (auto simp: MarkReleasing_def releasing_iff finished_iff releasing_count_def Let_def set_cond_msg_def
         phase_of_def view_set_message)
next
  case (released r1 ms k now)
  then show ?case
    by (cases "phase_of L r1 releasedConditionType")
       (auto simp: MarkReleased_def releasing_iff finished_iff releasing_count_def Let_def set_cond_def
         phase_of_def view_set)
next
  case (failed r1 ms k now msg)
  then show ?case
    by (cases "phase_of L r1 releasedConditionType")
       (auto simp: MarkReleaseFailed_def releasing_iff finished_iff releasing_count_def Let_def set_cond_msg_def
         phase_of_def view_set_message)
next
  case (validated r1 ms k now)
  then show ?case
    by (auto simp: MarkValidated_def releasing_iff releasing_count_def Let_def set_cond_def phase_of_def view_set)
next
  case (invalid r1 ms k now msg)
  then show ?case
    by (auto simp: MarkValidationFailed_def releasing_iff releasing_count_def Let_def set_cond_msg_def
        phase_of_def view_set_message split: if_splits)
qed (simp add: releasing_count_def)

end

text \<open>
  C38. The gauge of concurrent releases counts the Releases in progress: over any run of the status
  methods of a Release that was not releasing, the registered metrics raise the gauge by one if the
  Release is releasing at the end, and not at all if it has ended or never started, plus once for
  every call of \<open>MarkReleasing\<close> on a Release that was releasing already. The method has no guard
  against such a call and nothing takes it off again; \<open>EnsureReleaseIsRunning\<close>, the one caller,
  makes none.
\<close>

theorem concurrent_releases_gauge:
  assumes "conditions_api L" "\<not> IsReleasing L r" "status_run L r r' ms repeated"
  shows "ReleaseConcurrentTotal (fold register ms reg) =
    ReleaseConcurrentTotal reg + (if IsReleasing L r' then 1 else 0) + int repeated"
  using conditions_api.status_run_gauge [OF assms(1,3,2)]
  by (simp add: register_all_gauges releasing_count_def)

text \<open>
  The gauge of concurrent processings has no such property: an attempt of the managed pipeline that
  fails for good is counted once when it starts and taken off twice, by
  \<open>MarkCurrentManagedPipelineAttemptFailed\<close> and by \<open>MarkManagedPipelineProcessingFailed\<close>.
\<close>

definition failed_managed_run :: "conditions_lib \<Rightarrow> Release \<Rightarrow> metric list" where
  "failed_managed_run L r =
     (let (r1, ms1) = MarkCurrentManagedPipelineAttemptProcessing L 1 r;
          (r2, ms2) = MarkCurrentManagedPipelineAttemptFailed L 2 [] AttemptFailureErrorReason [] [] 0 r1;
          (r3, ms3) = MarkManagedPipelineProcessingFailed L 3 [] r2
      in ms1 @ ms2 @ ms3)"

end
