(* ===== verification/Webhooks.thy ===== *)
theory Webhooks
  imports Loader Utf8
begin

text \<open>
  The admission webhooks under \<open>src/api/v1alpha1/webhooks\<close>: the defaulters and validators of
  Releases, ReleasePlans and ReleasePlanAdmissions, and the author webhook with its request
  handler. JSON encoding and the Unicode tables are parameters (record \<open>codec\<close>); the patch response
  carries the two documents the patch is computed from.
\<close>

section \<open>release/webhook.go\<close>

definition set_label :: "string \<Rightarrow> string \<Rightarrow> object_meta \<Rightarrow> object_meta" where
  "set_label k v m = m\<lparr>om_Labels := map_put (om_Labels m) k v\<rparr>"

definition Release_Default :: "'w env \<Rightarrow> Release \<Rightarrow> ('w, Release \<times> error option) state" where
  "Release_Default E release0 =
     (let release = release0\<lparr>rel_meta := set_label ReleasePlanLabel (ReleasePlan (Spec release0))
        (set_label SnapshotLabel (Snapshot (Spec release0)) (rel_meta release0))\<rparr>
      in if GracePeriodDays (Spec release) \<noteq> 0 then State_Monad.return (release, None)
         else do {
           (releasePlan, err) \<leftarrow> GetReleasePlan E release;
           (case err of
              Some e \<Rightarrow>
                if IsNotFound e then State_Monad.return (release, None)
                else State_Monad.return (release, Some e)
            | None \<Rightarrow> State_Monad.return
                (release\<lparr>Spec := (Spec release)\<lparr>GracePeriodDays := ReleaseGracePeriodDays (rp_Spec releasePlan)\<rparr>\<rparr>,
                 None))
         })"

definition too_long :: "string \<Rightarrow> string \<Rightarrow> error" where
  "too_long what value = plain_error
     (what @ '' must be no more than 63 characters, got '' @ show_nat (length value) @ '' characters'')"

definition Release_ValidateCreate :: "Release \<Rightarrow> error option" where
  "Release_ValidateCreate release =
     (if length (om_Name (rel_meta release)) > 63
      then Some (too_long ''release name'' (om_Name (rel_meta release)))
      else if length (Snapshot (Spec release)) > 63
      then Some (too_long ''snapshot name'' (Snapshot (Spec release)))
      else if length (ReleasePlan (Spec release)) > 63
      then Some (too_long ''releasePlan name'' (ReleasePlan (Spec release)))
      else None)"

definition Release_ValidateUpdate :: "Release \<Rightarrow> Release \<Rightarrow> error option" where
  "Release_ValidateUpdate oldRelease newRelease =
     (if Spec newRelease \<noteq> Spec oldRelease
      then Some (plain_error ''release resources spec cannot be updated'')
      else if map_index (om_Labels (rel_meta oldRelease)) SnapshotLabel \<noteq>
          map_index (om_Labels (rel_meta newRelease)) SnapshotLabel
      then Some (plain_error ''release snapshot label cannot be updated'')
      else if map_index (om_Labels (rel_meta oldRelease)) ReleasePlanLabel \<noteq>
          map_index (om_Labels (rel_meta newRelease)) ReleasePlanLabel
      then Some (plain_error ''release releasePlan label cannot be updated'')
      else None)"

definition Release_ValidateDelete :: "Release \<Rightarrow> error option" where
  "Release_ValidateDelete release = None"

section \<open>releaseplan/webhook.go\<close>

definition ReleasePlan_Default :: "ReleasePlan \<Rightarrow> ReleasePlan" where
  "ReleasePlan_Default releasePlan =
     (if map_read (om_Labels (rp_meta releasePlan)) AutoReleaseLabel = None \<and>
         om_Labels (rp_meta releasePlan) = None
      then releasePlan\<lparr>rp_meta := (rp_meta releasePlan)\<lparr>om_Labels := Some [AutoReleaseLabel \<mapsto> ''true'']\<rparr>\<rparr>
      else releasePlan)"

definition ReleasePlan_ValidateCreate :: "ReleasePlan \<Rightarrow> error option" where
  "ReleasePlan_ValidateCreate releasePlan = None"

definition ReleasePlan_ValidateUpdate :: "ReleasePlan \<Rightarrow> ReleasePlan \<Rightarrow> error option" where
  "ReleasePlan_ValidateUpdate oldReleasePlan newReleasePlan = None"

definition ReleasePlan_ValidateDelete :: "ReleasePlan \<Rightarrow> error option" where
  "ReleasePlan_ValidateDelete releasePlan = None"

section \<open>releaseplanadmission/webhook.go\<close>

definition ReleasePlanAdmission_Default :: "ReleasePlanAdmission \<Rightarrow> ReleasePlanAdmission" where
  "ReleasePlanAdmission_Default rpa =
     (if map_read (om_Labels (rpa_meta rpa)) BlockReleasesLabel = None
      then rpa\<lparr>rpa_meta := set_label BlockReleasesLabel ''false'' (rpa_meta rpa)\<rparr>
      else rpa)"

fun first_too_long :: "string \<Rightarrow> string list \<Rightarrow> error option" where
  "first_too_long what [] = None"
| "first_too_long what (n # ns) =
     (if length n > 63
      then Some (too_long (what @ '' name '' @ [CHR 0x27] @ n @ [CHR 0x27]) n)
      else first_too_long what ns)"

definition validateSpec :: "ReleasePlanAdmission \<Rightarrow> error option" where
  "validateSpec rpa =
     (case first_too_long ''application'' (items (Applications (rpa_Spec rpa))) of
        Some e \<Rightarrow> Some e
      | None \<Rightarrow> first_too_long ''componentGroup'' (items (ComponentGroups (rpa_Spec rpa))))"

definition validateBlockReleasesLabel :: "ReleasePlanAdmission \<Rightarrow> error option" where
  "validateBlockReleasesLabel rpa =
     (case map_read (om_Labels (rpa_meta rpa)) BlockReleasesLabel of
        None \<Rightarrow> None
      | Some value \<Rightarrow>
          if value \<noteq> ''true'' \<and> value \<noteq> ''false''
          then Some (plain_error ([CHR 0x27] @ BlockReleasesLabel @ [CHR 0x27] @
            '' label can only be set to true or false''))
          else None)"

definition ReleasePlanAdmission_ValidateCreate :: "ReleasePlanAdmission \<Rightarrow> error option" where
  "ReleasePlanAdmission_ValidateCreate rpa =
     (case validateSpec rpa of Some e \<Rightarrow> Some e | None \<Rightarrow> validateBlockReleasesLabel rpa)"

definition ReleasePlanAdmission_ValidateUpdate ::
  "ReleasePlanAdmission \<Rightarrow> ReleasePlanAdmission \<Rightarrow> error option" where
  "ReleasePlanAdmission_ValidateUpdate oldRpa newRpa =
     (case validateSpec newRpa of Some e \<Rightarrow> Some e | None \<Rightarrow> validateBlockReleasesLabel newRpa)"

definition ReleasePlanAdmission_ValidateDelete :: "ReleasePlanAdmission \<Rightarrow> error option" where
  "ReleasePlanAdmission_ValidateDelete rpa = None"

section \<open>author/webhook.go\<close>

text \<open>
  What the webhook uses of \<open>encoding/json\<close> and of the Unicode tables, over an arbitrary type of raw
  documents.
\<close>

record 'd codec =
  DecodeRelease :: "'d \<Rightarrow> error + Release"
  EncodeRelease :: "Release \<Rightarrow> error + 'd"
  DecodeReleasePlan :: "'d \<Rightarrow> error + ReleasePlan"
  EncodeReleasePlan :: "ReleasePlan \<Rightarrow> error + 'd"
  IsLetter :: "nat \<Rightarrow> bool"
  IsDigit :: "nat \<Rightarrow> bool"

datatype admission_operation = Create | Update | Delete | Connect

record 'd admission_request =
  req_Kind :: string
  req_Operation :: admission_operation
  req_Object :: "'d"
  req_OldObject :: "'d"
  req_Username :: string

datatype 'd admission_response =
    Errored int error
  | Allowed string
  | PatchResponseFromRaw 'd 'd

text \<open>\<open>strings.Replace(s, "@", ".", 1)\<close>\<close>

fun replace_first :: "char \<Rightarrow> char \<Rightarrow> string \<Rightarrow> string" where
  "replace_first c d [] = []"
| "replace_first c d (x # xs) = (if x = c then d # xs else x # replace_first c d xs)"

definition sanitizeLabelValue :: "'d codec \<Rightarrow> string \<Rightarrow> string" where
  "sanitizeLabelValue K username =
     (let author = map (\<lambda>c. if c = CHR '':'' then CHR ''_'' else c) username;
          author = replace_first (CHR ''@'') (CHR ''.'') author;
          author = (if length author > MaxLabelLength then take MaxLabelLength author else author)
      in TrimRightFunc (\<lambda>r. \<not> IsLetter K r \<and> \<not> IsDigit K r) author)"

definition setAuthorLabel :: "'d codec \<Rightarrow> string \<Rightarrow> object_meta \<Rightarrow> object_meta" where
  "setAuthorLabel K username m = set_label AuthorLabel (sanitizeLabelValue K username) m"

definition patchResponse :: "'d \<Rightarrow> error + 'd \<Rightarrow> 'd admission_response" where
  "patchResponse raw marshalled =
     (case marshalled of
        Inl e \<Rightarrow> Errored 500 (wrap_error ''error encoding object: '' e)
      | Inr m \<Rightarrow> PatchResponseFromRaw raw m)"

definition handleRelease :: "'d codec \<Rightarrow> 'd admission_request \<Rightarrow> 'd admission_response" where
  "handleRelease K req =
     (case DecodeRelease K (req_Object req) of
        Inl e \<Rightarrow> Errored 400 (wrap_error ''error decoding object: '' e)
      | Inr release \<Rightarrow>
          (case req_Operation req of
             Create \<Rightarrow>
               let release' =
                 (if map_index (om_Labels (rel_meta release)) AutomatedLabel \<noteq> ''true''
                  then release\<lparr>rel_meta := setAuthorLabel K (req_Username req) (rel_meta release)\<rparr>
                  else release)
               in patchResponse (req_Object req) (EncodeRelease K release')
           | Update \<Rightarrow>
               (case DecodeRelease K (req_OldObject req) of
                  Inl e \<Rightarrow> Errored 400 (wrap_error ''error decoding object: '' e)
                | Inr oldRelease \<Rightarrow>
                    if map_index (om_Labels (rel_meta release)) AuthorLabel \<noteq>
                       map_index (om_Labels (rel_meta oldRelease)) AuthorLabel
                    then Errored 400 (plain_error ''release author label cannot be updated'')
                    else Allowed ''Success'')
           | _ \<Rightarrow> Allowed ''Success''))"

definition drop_label :: "string \<Rightarrow> object_meta \<Rightarrow> object_meta" where
  "drop_label k m = m\<lparr>om_Labels := map_option (\<lambda>f. f(k := None)) (om_Labels m)\<rparr>"

definition handleReleasePlan :: "'d codec \<Rightarrow> 'd admission_request \<Rightarrow> 'd admission_response" where
  "handleReleasePlan K req =
     (case DecodeReleasePlan K (req_Object req) of
        Inl e \<Rightarrow> Errored 400 (wrap_error ''error decoding object: '' e)
      | Inr releasePlan \<Rightarrow>
          let plan1 = (if map_index (om_Labels (rp_meta releasePlan)) AttributionLabel \<noteq> ''true''
                then releasePlan\<lparr>rp_meta := drop_label AuthorLabel (rp_meta releasePlan)\<rparr>
                else releasePlan);
              plan2 = (if req_Operation req \<in> {Create, Update} \<and>
                  map_index (om_Labels (rp_meta plan1)) AttributionLabel = ''true'' \<and>
                  map_index (om_Labels (rp_meta plan1)) AuthorLabel = []
                then plan1\<lparr>rp_meta := setAuthorLabel K (req_Username req) (rp_meta plan1)\<rparr>
                else plan1)
          in patchResponse (req_Object req) (EncodeReleasePlan K plan2))"

definition Handle :: "'d codec \<Rightarrow> 'd admission_request \<Rightarrow> 'd admission_response" where
  "Handle K req =
     (if req_Kind req = ''Release'' then handleRelease K req
      else if req_Kind req = ''ReleasePlan'' then handleReleasePlan K req
      else Errored 500 (plain_error
        (''webhook tried to handle an unsupported resource: '' @ req_Kind req)))"

section \<open>Labels that name the author\<close>

lemma replace_first_simps:
  "length (replace_first c d s) = length s" "set (replace_first c d s) \<subseteq> insert d (set s)"
  by (induction s) auto

text \<open>
  Whatever the user name, the author label made of it fits into a label value (63 bytes),
  contains no colon, and is empty or ends with a letter or a digit.
\<close>

theorem sanitizeLabelValue_fits:
  "length (sanitizeLabelValue K username) \<le> MaxLabelLength \<and>
   CHR '':'' \<notin> set (sanitizeLabelValue K username) \<and>
   (sanitizeLabelValue K username = [] \<or>
    (let r = fst (DecodeLastRuneInString (sanitizeLabelValue K username)) in IsLetter K r \<or> IsDigit K r))"
proof -
  define a where "a = replace_first (CHR ''@'') (CHR ''.'')
    (map (\<lambda>c. if c = CHR '':'' then CHR ''_'' else c) username)"
  define b where "b = (if length a > MaxLabelLength then take MaxLabelLength a else a)"
  have label: "sanitizeLabelValue K username = TrimRightFunc (\<lambda>r. \<not> IsLetter K r \<and> \<not> IsDigit K r) b"
    by (simp add: sanitizeLabelValue_def a_def b_def Let_def)
  have "CHR '':'' \<notin> set a"
    using replace_first_simps(2) unfolding a_def by fastforce
  then have "CHR '':'' \<notin> set b" "length b \<le> MaxLabelLength"
    by (auto simp: b_def dest: in_set_takeD)
  moreover obtain ys where "b = sanitizeLabelValue K username @ ys"
    unfolding label using TrimRightFunc_prefix by blast
  ultimately have "CHR '':'' \<notin> set (sanitizeLabelValue K username)"
    and "length (sanitizeLabelValue K username) \<le> MaxLabelLength" by auto
  then show ?thesis
    using TrimRightFunc_last [of "\<lambda>r. \<not> IsLetter K r \<and> \<not> IsDigit K r" b] by (auto simp: label Let_def)
qed

section \<open>What the author webhook admits\<close>

text \<open>The document the API server goes on with: none for a rejected request.\<close>

definition admitted :: "'d admission_request \<Rightarrow> 'd admission_response \<Rightarrow> 'd option" where
  "admitted req resp =
     (case resp of Errored _ _ \<Rightarrow> None | Allowed _ \<Rightarrow> Some (req_Object req)
      | PatchResponseFromRaw _ m \<Rightarrow> Some m)"

text \<open>Labels survive encoding; nothing else is needed of the encoder.\<close>

locale codec_api =
  fixes K :: "'d codec"
  assumes release_roundtrip: "EncodeRelease K r = Inr raw \<Longrightarrow>
      \<exists>r'. DecodeRelease K raw = Inr r' \<and>
        map_read (om_Labels (rel_meta r')) = map_read (om_Labels (rel_meta r))"
    and plan_roundtrip: "EncodeReleasePlan K p = Inr raw \<Longrightarrow>
      \<exists>p'. DecodeReleasePlan K raw = Inr p' \<and>
        map_read (om_Labels (rp_meta p')) = map_read (om_Labels (rp_meta p))"
begin

lemma patched_release:
  assumes "admitted req (patchResponse raw (EncodeRelease K r)) = Some doc"
    and "DecodeRelease K doc = Inr r'"
  shows "map_index (om_Labels (rel_meta r')) k = map_index (om_Labels (rel_meta r)) k"
  using assms release_roundtrip [of r doc]
  by (auto simp: admitted_def patchResponse_def map_index_def split: sum.splits)

lemma patched_plan:
  assumes "admitted req (patchResponse raw (EncodeReleasePlan K p)) = Some doc"
    and "DecodeReleasePlan K doc = Inr p'"
  shows "map_read (om_Labels (rp_meta p')) k = map_read (om_Labels (rp_meta p)) k"
  using assms plan_roundtrip [of p doc]
  by (auto simp: admitted_def patchResponse_def split: sum.splits)

end

text \<open>An instance: documents that carry the object itself.\<close>

datatype document = ReleaseDocument Release | PlanDocument ReleasePlan | Malformed

definition ascii_letter :: "nat \<Rightarrow> bool" where
  "ascii_letter r \<longleftrightarrow> r \<in> {65..90} \<or> r \<in> {97..122}"

definition document_codec :: "document codec" where
  "document_codec = \<lparr>
     DecodeRelease = (\<lambda>d. case d of ReleaseDocument r \<Rightarrow> Inr r | _ \<Rightarrow> Inl (plain_error ''invalid document'')),
     EncodeRelease = (\<lambda>r. Inr (ReleaseDocument r)),
     DecodeReleasePlan = (\<lambda>d. case d of PlanDocument p \<Rightarrow> Inr p | _ \<Rightarrow> Inl (plain_error ''invalid document'')),
     EncodeReleasePlan = (\<lambda>p. Inr (PlanDocument p)),
     IsLetter = ascii_letter, IsDigit = (\<lambda>r. r \<in> {48..57})\<rparr>"

interpretation document_codec: codec_api document_codec
  by unfold_locales (auto simp: document_codec_def)

text \<open>
  C19. Who is the author of a Release. A created Release without the automated label carries the
  requester's name, whatever author label the request had; a created Release with the automated label
  keeps the author label of the request. After that nobody changes the author: an update is admitted
  only if it keeps the author label of the stored Release.
\<close>

theorem release_author_protected:
  assumes "codec_api K" "req_Kind req = ''Release''"
    and "DecodeRelease K (req_Object req) = Inr r"
    and "admitted req (Handle K req) = Some doc" "DecodeRelease K doc = Inr r'"
  shows "(req_Operation req = Create \<longrightarrow> map_index (om_Labels (rel_meta r')) AuthorLabel =
      (if map_index (om_Labels (rel_meta r)) AutomatedLabel = ''true'' then map_index (om_Labels (rel_meta r)) AuthorLabel
       else sanitizeLabelValue K (req_Username req))) \<and>
    (req_Operation req = Update \<and> DecodeRelease K (req_OldObject req) = Inr old \<longrightarrow>
      map_index (om_Labels (rel_meta r')) AuthorLabel = map_index (om_Labels (rel_meta old)) AuthorLabel)"
proof (cases "req_Operation req")
  case Create
  let ?r = "if map_index (om_Labels (rel_meta r)) AutomatedLabel \<noteq> ''true''
    then r\<lparr>rel_meta := setAuthorLabel K (req_Username req) (rel_meta r)\<rparr> else r"
  have "admitted req (patchResponse (req_Object req) (EncodeRelease K ?r)) = Some doc"
    using assms(2-4) Create by (simp add: Handle_def handleRelease_def Let_def)
  from codec_api.patched_release [OF assms(1) this assms(5)] show ?thesis
    by (simp add: Create setAuthorLabel_def set_label_def)
qed (use assms in \<open>auto simp: Handle_def handleRelease_def admitted_def split: if_splits\<close>)

text \<open>
  A ReleasePlan that is admitted carries an author label only if it asks for standing
  attribution, whoever sends it and with whatever labels.
\<close>

theorem plan_author_needs_attribution:
  assumes "codec_api K" "req_Kind req = ''ReleasePlan''"
    and "admitted req (Handle K req) = Some doc" "DecodeReleasePlan K doc = Inr p"
    and "map_read (om_Labels (rp_meta p)) AuthorLabel \<noteq> None"
  shows "map_index (om_Labels (rp_meta p)) AttributionLabel = ''true''"
proof -
  have labels: "AuthorLabel \<noteq> AttributionLabel" by code_simp
  obtain q where q: "DecodeReleasePlan K (req_Object req) = Inr q"
    using assms(2,3) by (auto simp: Handle_def handleReleasePlan_def admitted_def split: sum.splits)
  let ?asked = "map_index (om_Labels (rp_meta q)) AttributionLabel = ''true''"
  let ?q1 = "if \<not> ?asked then q\<lparr>rp_meta := drop_label AuthorLabel (rp_meta q)\<rparr> else q"
  let ?q2 = "if req_Operation req \<in> {Create, Update} \<and>
      map_index (om_Labels (rp_meta ?q1)) AttributionLabel = ''true'' \<and>
      map_index (om_Labels (rp_meta ?q1)) AuthorLabel = []
    then ?q1\<lparr>rp_meta := setAuthorLabel K (req_Username req) (rp_meta ?q1)\<rparr> else ?q1"
  have "admitted req (patchResponse (req_Object req) (EncodeReleasePlan K ?q2)) = Some doc"
    using assms(2,3) q by (simp add: Handle_def handleReleasePlan_def Let_def)
  then have read: "map_read (om_Labels (rp_meta p)) k = map_read (om_Labels (rp_meta ?q2)) k" for k
    using codec_api.patched_plan [OF assms(1) _ assms(4)] by blast
  have same: "map_index (om_Labels (rp_meta ?q2)) AttributionLabel = map_index (om_Labels (rp_meta q)) AttributionLabel"
    using labels by (cases "om_Labels (rp_meta q)")
      (auto simp: drop_label_def setAuthorLabel_def set_label_def map_index_def)
  moreover have "map_read (om_Labels (rp_meta ?q2)) AuthorLabel = None" if "\<not> ?asked"
    using that labels by (cases "om_Labels (rp_meta q)")
      (auto simp: drop_label_def map_index_def)
  ultimately show ?thesis
    using read [of AuthorLabel] read [of AttributionLabel] assms(5) unfolding map_index_def by metis
qed

section \<open>The identity of a Release over its life\<close>

text \<open>
  The writes of a Release that admission lets through after its creation: the author webhook and
  the validator see the stored object and the new one. Writes of the status subresource bypass the
  webhooks and leave metadata and spec alone.
\<close>

inductive release_writes :: "'d codec \<Rightarrow> Release \<Rightarrow> Release \<Rightarrow> bool" for K where
  created: "release_writes K r r"
| updated: "\<lbrakk>release_writes K r r1; req_Kind req = ''Release''; req_Operation req = Update;
    DecodeRelease K (req_OldObject req) = Inr r1; admitted req (Handle K req) = Some doc;
    DecodeRelease K doc = Inr r2; Release_ValidateUpdate r1 r2 = None\<rbrakk> \<Longrightarrow> release_writes K r r2"
| status_written: "\<lbrakk>release_writes K r r1; rel_meta r2 = rel_meta r1; Spec r2 = Spec r1\<rbrakk> \<Longrightarrow>
    release_writes K r r2"

lemma ValidateUpdate_keeps:
  "Release_ValidateUpdate old new = None \<Longrightarrow> Spec new = Spec old \<and>
     map_index (om_Labels (rel_meta new)) SnapshotLabel = map_index (om_Labels (rel_meta old)) SnapshotLabel \<and>
     map_index (om_Labels (rel_meta new)) ReleasePlanLabel = map_index (om_Labels (rel_meta old)) ReleasePlanLabel"
  by (auto simp: Release_ValidateUpdate_def split: if_splits)

lemma update_keeps_author:
  assumes "req_Kind req = ''Release''" "req_Operation req = Update"
    and "DecodeRelease K (req_OldObject req) = Inr old" "admitted req (Handle K req) = Some doc"
    and "DecodeRelease K doc = Inr r"
  shows "map_index (om_Labels (rel_meta r)) AuthorLabel = map_index (om_Labels (rel_meta old)) AuthorLabel"
  using assms by (auto simp: Handle_def handleRelease_def admitted_def split: sum.splits if_splits)

lemma release_writes_keep:
  "release_writes K r r' \<Longrightarrow> Spec r' = Spec r \<and>
     (\<forall>k \<in> {SnapshotLabel, ReleasePlanLabel, AuthorLabel}.
        map_index (om_Labels (rel_meta r')) k = map_index (om_Labels (rel_meta r)) k)"
proof (induction rule: release_writes.induct)
  case (updated r r1 req doc r2)
  then show ?case using ValidateUpdate_keeps [of r1 r2] update_keeps_author [of req K r1 doc r2] by auto
qed auto

lemma Release_Default_labels:
  assumes "run_state (Release_Default E r0) w = ((r, err), w')"
  shows "map_index (om_Labels (rel_meta r)) SnapshotLabel = Snapshot (Spec r) \<and>
    map_index (om_Labels (rel_meta r)) ReleasePlanLabel = ReleasePlan (Spec r)"
proof -
  have "SnapshotLabel \<noteq> ReleasePlanLabel" by code_simp
  then show ?thesis
    using assms by (auto simp: Release_Default_def set_label_def Let_def
        split: if_splits prod.splits option.splits)
qed

text \<open>
  C18. A Release keeps what it releases: from its admission on, over any writes the webhooks let
  through, its spec never changes, its snapshot and releasePlan labels name what the spec names,
  these names fit into a label value, and its author label stays.
\<close>

theorem release_identity_frozen:
  assumes "run_state (Release_Default E r0) w = ((r, None), w')" "Release_ValidateCreate r = None"
    and "release_writes K r r'"
  shows "Spec r' = Spec r \<and>
    map_index (om_Labels (rel_meta r')) SnapshotLabel = Snapshot (Spec r') \<and>
    map_index (om_Labels (rel_meta r')) ReleasePlanLabel = ReleasePlan (Spec r') \<and>
    length (Snapshot (Spec r')) \<le> 63 \<and> length (ReleasePlan (Spec r')) \<le> 63 \<and>
    map_index (om_Labels (rel_meta r')) AuthorLabel = map_index (om_Labels (rel_meta r)) AuthorLabel"
  using release_writes_keep [OF assms(3)] Release_Default_labels [OF assms(1)] assms(2)
  by (auto simp: Release_ValidateCreate_def split: if_splits)

section \<open>Blocked admissions\<close>

lemma first_too_long_None: "first_too_long what ns = None \<longleftrightarrow> list_all (\<lambda>n. length n \<le> 63) ns"
  by (induction ns) auto

text \<open>
  For an admission that passed the webhooks on creation, what the status of a matched
  ReleasePlan shows as active is what the loader acts on: the admission is shown as active exactly
  when it does not block releases.
\<close>

theorem admitted_active_iff_not_blocked:
  assumes "ReleasePlanAdmission_ValidateCreate (ReleasePlanAdmission_Default rpa) = None"
  shows "mrpa_Active (rpst_ReleasePlanAdmission (rp_Status
      (ReleasePlan_MarkMatched L now (ReleasePlanAdmission_Default rpa) rp))) \<longleftrightarrow>
    map_read (om_Labels (rpa_meta (ReleasePlanAdmission_Default rpa))) BlockReleasesLabel \<noteq> Some ''true''"
proof -
  have "\<exists>v. map_read (om_Labels (rpa_meta (ReleasePlanAdmission_Default rpa))) BlockReleasesLabel = Some v \<and>
      (v = ''true'' \<or> v = ''false'')"
    using assms
    by (auto simp: ReleasePlanAdmission_ValidateCreate_def validateBlockReleasesLabel_def
        ReleasePlanAdmission_Default_def set_label_def split: option.splits if_splits)
  then show ?thesis
    by (auto simp: ReleasePlan_MarkMatched_def ReleasePlan_setMatchedStatus_def map_index_def)
qed

end
