(* ===== verification/Syncer.thy ===== *)
theory Syncer
  imports Client
begin

text \<open>
  \<open>src/syncer/syncer.go\<close>: copying a Snapshot into another namespace. The context and the logger of
  the Syncer are left out.
\<close>

definition SyncSnapshot :: "'w env \<Rightarrow> Snapshot \<Rightarrow> string \<Rightarrow> ('w, error option) state" where
  "SyncSnapshot E snapshot namespace =
     (let syncedSnapshot = snapshot\<lparr>sn_meta := no_meta\<lparr>om_Kind := om_Kind (sn_meta snapshot),
        om_Name := om_Name (sn_meta snapshot), om_Namespace := namespace,
        om_Annotations := om_Annotations (sn_meta snapshot), om_Labels := om_Labels (sn_meta snapshot)\<rparr>\<rparr>
      in do {
        res \<leftarrow> api_CreateSnapshot E syncedSnapshot;
        (case res of
           Inl err \<Rightarrow>
             if \<not> is_class AlreadyExists err then State_Monad.return (Some err)
             else State_Monad.return None
         | Inr _ \<Rightarrow> State_Monad.return None)
      })"

text \<open>A Snapshot that is already there is no error, and nothing else is called.\<close>

lemma SyncSnapshot_existing:
  assumes "run_state (api_CreateSnapshot E s) w = (Inl err, w')" "is_class AlreadyExists err"
    and "sn_meta s = no_meta\<lparr>om_Kind := om_Kind (sn_meta snapshot), om_Name := om_Name (sn_meta snapshot),
      om_Namespace := ns, om_Annotations := om_Annotations (sn_meta snapshot),
      om_Labels := om_Labels (sn_meta snapshot)\<rparr>" "sn_Application s = sn_Application snapshot"
  shows "run_state (SyncSnapshot E snapshot ns) w = (None, w')"
proof -
  have "snapshot\<lparr>sn_meta := sn_meta s\<rparr> = s" using assms(4) by simp
  then show ?thesis using assms(1,2) unfolding SyncSnapshot_def assms(3) [symmetric] by (simp add: Let_def)
qed

end
