(* ===== verification/Demo_Runs.thy ===== *)
theory Demo_Runs
  imports Release_Properties Plan_Watches Metrics Webhooks Tracing Syncer
begin

text \<open>
  The plan controllers, the webhooks and the metrics on the concrete cluster: the sort of the
  cluster's library meets \<open>sorter_api\<close>, its patches answer with the patched status, and the runs
  below show where the hypotheses of the properties hold.
\<close>

section \<open>Sorting\<close>

lemma str_less_trans: "str_less a b \<Longrightarrow> str_less b c \<Longrightarrow> str_less a c"
proof (induction a b arbitrary: c rule: str_less.induct)
  case (4 x xs y ys)
  then show ?case by (cases c) (auto split: if_splits)
next
  case (2 y ys)
  then show ?case by (cases c) auto
qed auto

lemma str_less_irrefl [simp]: "\<not> str_less a a"
  by (induction a) auto

text \<open>Not being less is transitive, as the names are linearly ordered.\<close>

lemma not_less_trans: "\<not> str_less c b \<Longrightarrow> \<not> str_less b a \<Longrightarrow> \<not> str_less c a"
  using str_less_trans [of b c a] str_less_total [of b c] by auto

lemma mset_insert_by: "mset (insert_by lt x xs) = add_mset x (mset xs)"
  by (induction xs) auto

lemma set_insert_by: "set (insert_by lt x xs) = insert x (set xs)"
  using arg_cong [OF mset_insert_by, of set_mset lt x xs] by simp

lemma insert_by_ordered:
  "sorted_wrt (\<lambda>a b. \<not> name_less b a) xs \<Longrightarrow> sorted_wrt (\<lambda>a b. \<not> name_less b a) (insert_by name_less x xs)"
proof (induction xs)
  case (Cons y ys)
  then show ?case
    using str_less_trans [of "mrp_Name x" "mrp_Name y" "mrp_Name x"] not_less_trans
    by (auto simp: set_insert_by)
qed simp

interpretation cluster_sort: sorter_api "SortSlice cluster_lib"
proof
  fix xs :: "MatchedReleasePlan list"
  have "mset (foldr (insert_by name_less) xs []) = mset xs"
    by (induction xs) (simp_all add: mset_insert_by)
  then show "mset (SortSlice cluster_lib name_less xs) = mset xs"
    by (simp add: cluster_lib_def insort_by_def)
  have "sorted_wrt (\<lambda>a b. \<not> name_less b a) (foldr (insert_by name_less) xs [])"
    by (induction xs) (simp_all add: insert_by_ordered)
  then show "sorted_wrt (\<lambda>a b. \<not> name_less b a) (SortSlice cluster_lib name_less xs)"
    by (simp add: cluster_lib_def insort_by_def)
qed

section \<open>The plan controllers\<close>

lemma cluster_patch_answers: "plan_patch_answers cluster_env" "admission_patch_answers cluster_env"
  by (auto simp: plan_patch_answers_def admission_patch_answers_def cluster_env_def)

lemma demo_match:
  "rp_meta rp = rp_meta demo_plan \<Longrightarrow> rp_Spec rp = rp_Spec demo_plan \<Longrightarrow>
   run_state (GetMatchingReleasePlanAdmission cluster_env rp) demo_cluster = (Inr demo_admission, demo_cluster)"
  by (simp add: GetMatchingReleasePlanAdmission_def demo_admissions map_index_def unique_match_Inr)
     (simp add: MatchesReleasePlan_def GetGroupName_def demo_admission_def demo_plan_def empty_plan_def
       empty_admission_def)

lemma cluster_now [simp]: "run_state (Now cluster_env) w = (cl_clock w, w)"
  by (simp add: cluster_env_def)

text \<open>The first reconcile of the plan writes, the second one does not.\<close>

theorem plan_write_settles_witness:
  "\<exists>s. run_state (plan_EnsureMatchingInformationIsSet cluster_env) (plan_newAdapter demo_plan demo_cluster) =
       (RequeueOnErrorOrContinue None, s) \<and>
     fst (run_state (plan_EnsureMatchingInformationIsSet cluster_env)
       (plan_newAdapter (releasePlan s) demo_cluster)) = ContinueProcessing"
proof -
  let ?rp = "ReleasePlan_MarkMatched status_conditions 100 demo_admission demo_plan"
  have clock: "cl_clock demo_cluster = 100" by (simp add: demo_cluster_def)
  have fresh: "rpst_ReleasePlanAdmission (rp_Status demo_plan) \<noteq> rpst_ReleasePlanAdmission (rp_Status ?rp)"
    by code_simp
  obtain s where run: "run_state (plan_EnsureMatchingInformationIsSet cluster_env)
      (plan_newAdapter demo_plan demo_cluster) = (RequeueOnErrorOrContinue None, s)" and rp: "releasePlan s = ?rp"
    using fresh demo_match [OF refl refl] clock
    by (auto simp: plan_EnsureMatchingInformationIsSet_def plan_newAdapter_def plan_load_def matched_plan_def)
       (simp add: cluster_env_def)
  have again: "run_state (GetMatchingReleasePlanAdmission cluster_env (releasePlan s)) demo_cluster =
      (Inr demo_admission, demo_cluster)"
    unfolding rp by (rule demo_match)
      (simp_all add: ReleasePlan_MarkMatched_def ReleasePlan_setMatchedStatus_def)
  have conds: "conditions_api (conds cluster_env)" by (simp add: status_conditions.conditions_api_axioms)
  show ?thesis
    using run plan_write_settles [OF conds cluster_patch_answers(1) demo_match [OF refl refl] run refl again] by blast
qed


text \<open>The same for the admission. Every plan of the lists below belongs to it.\<close>

definition demo_plans :: "ReleasePlan list \<Rightarrow> bool" where
  "demo_plans rps \<longleftrightarrow> list_all (\<lambda>rp. om_Namespace (rp_meta rp) = ''dev'' \<and> Target (rp_Spec rp) = ''managed'' \<and>
     om_Labels (rp_meta rp) = None \<and> MatchesReleasePlan demo_admission rp) rps"

lemma demo_matching_plans:
  assumes "rpa_meta rpa = rpa_meta demo_admission" "rpa_Spec rpa = rpa_Spec demo_admission" "demo_plans (cl_plans w)"
  shows "run_state (GetMatchingReleasePlans cluster_env rpa) w = (Inr (cl_plans w), w)"
proof -
  have admission: "Origin (rpa_Spec rpa) = ''dev''" "om_Namespace (rpa_meta rpa) = ''managed''"
    unfolding assms by (simp_all add: demo_admission_def)
  have plans: "om_Namespace (rp_meta rp) = ''dev''" "Target (rp_Spec rp) = ''managed''" "om_Labels (rp_meta rp) = None"
    "plan_kept rpa rp" if "rp \<in> set (cl_plans w)" for rp
    using that assms(3) unfolding demo_plans_def MatchesReleasePlan_def plan_kept_def assms(2)
    by (auto simp: list_all_iff)
  have "filter (\<lambda>rp. om_Namespace (rp_meta rp) = ''dev'' \<and> Target (rp_Spec rp) = ''managed'' \<and>
      map_read (om_Labels (rp_meta rp)) ReleasePlanAdmissionLabel = Some l) (cl_plans w) = []" for l
    using plans(3) by (auto simp: filter_empty_conv)
  moreover have "filter (\<lambda>rp. om_Namespace (rp_meta rp) = ''dev'' \<and> Target (rp_Spec rp) = ''managed'') (cl_plans w) = cl_plans w"
    "filter (plan_kept rpa) (cl_plans w) = cl_plans w"
    using plans by (auto simp: filter_id_conv)
  ultimately show ?thesis
    unfolding GetMatchingReleasePlans_def admission by (simp add: prune_filter) (simp add: cluster_env_def)
qed

definition marked_admission :: "time \<Rightarrow> ReleasePlan list \<Rightarrow> ReleasePlanAdmission \<Rightarrow> ReleasePlanAdmission" where
  "marked_admission now rps rpa =
     fold (ReleasePlanAdmission_MarkMatched status_conditions (SortSlice cluster_lib) now) rps
       (ClearMatchingInfo status_conditions now rpa)"

lemma marked_admission_frame:
  "rpa_meta (marked_admission now rps rpa) = rpa_meta rpa \<and> rpa_Spec (marked_admission now rps rpa) = rpa_Spec rpa"
proof -
  have "rpa_meta (fold (ReleasePlanAdmission_MarkMatched status_conditions (SortSlice cluster_lib) now) rps x) = rpa_meta x \<and>
      rpa_Spec (fold (ReleasePlanAdmission_MarkMatched status_conditions (SortSlice cluster_lib) now) rps x) = rpa_Spec x" for x
    by (induction rps arbitrary: x) (simp_all add: ReleasePlanAdmission_MarkMatched_def Let_def)
  then show ?thesis by (simp add: marked_admission_def ClearMatchingInfo_def)
qed

lemma cluster_mark_all:
  "run_state (mark_matched_all cluster_env rps) s = ((), s\<lparr>releasePlanAdmission :=
     fold (ReleasePlanAdmission_MarkMatched status_conditions (SortSlice cluster_lib) (cl_clock (admission_world s))) rps
       (releasePlanAdmission s)\<rparr>)"
  by (induction rps arbitrary: s) (simp_all add: admission_load_def admission_edit_def)

lemma cluster_admission_patch:
  obtains w' where "run_state (admission_patch cluster_env base) s =
      (RequeueOnErrorOrContinue None, s\<lparr>admission_world := w'\<rparr>)"
    "cl_plans w' = cl_plans (admission_world s)" "cl_config w' = cl_config (admission_world s)"
    "cl_clock w' = cl_clock (admission_world s)"
  by (simp add: admission_patch_def admission_load_def admission_edit_def) (simp add: cluster_env_def)

lemma demo_admission_written:
  assumes "rpa_meta rpa = rpa_meta demo_admission" "rpa_Spec rpa = rpa_Spec demo_admission" "demo_plans (cl_plans w)"
    and "ReleasePlans (rpa_Status rpa) \<noteq> ReleasePlans (rpa_Status (marked_admission (cl_clock w) (cl_plans w) rpa))"
  obtains w' where "run_state (admission_EnsureMatchingInformationIsSet cluster_env) (admission_newAdapter rpa w) =
      (RequeueOnErrorOrContinue None,
       \<lparr>releasePlanAdmission = marked_admission (cl_clock w) (cl_plans w) rpa, admission_world = w'\<rparr>)"
    "cl_plans w' = cl_plans w" "cl_config w' = cl_config w" "cl_clock w' = cl_clock w"
proof -
  let ?s = "\<lparr>releasePlanAdmission = marked_admission (cl_clock w) (cl_plans w) rpa, admission_world = w\<rparr>"
  have "run_state (admission_EnsureMatchingInformationIsSet cluster_env) (admission_newAdapter rpa w) =
      run_state (admission_patch cluster_env rpa) ?s"
    using assms(4) demo_matching_plans [OF assms(1-3)]
    by (simp add: admission_EnsureMatchingInformationIsSet_def admission_newAdapter_def admission_load_def
        admission_edit_def cluster_mark_all marked_admission_def)
  moreover obtain w' where "run_state (admission_patch cluster_env rpa) ?s =
      (RequeueOnErrorOrContinue None, ?s\<lparr>admission_world := w'\<rparr>)" "cl_plans w' = cl_plans (admission_world ?s)"
    "cl_config w' = cl_config (admission_world ?s)" "cl_clock w' = cl_clock (admission_world ?s)"
    by (rule cluster_admission_patch [of rpa ?s])
  ultimately show ?thesis using that [of w'] by simp
qed

lemma demo_matching_config:
  assumes "rpa_meta rpa = rpa_meta demo_admission" "rpa_Spec rpa = rpa_Spec demo_admission" "demo_plans (cl_plans w)"
    and "run_state (admission_EnsureMatchingInformationIsSet cluster_env) (admission_newAdapter rpa w) = (res, s)"
  shows "cl_config (admission_world s) = cl_config w"
proof -
  let ?s = "\<lparr>releasePlanAdmission = marked_admission (cl_clock w) (cl_plans w) rpa, admission_world = w\<rparr>"
  have "s = ?s \<or> run_state (admission_patch cluster_env rpa) ?s = (res, s)"
    using assms(4) demo_matching_plans [OF assms(1-3)]
    by (simp add: admission_EnsureMatchingInformationIsSet_def admission_newAdapter_def admission_load_def
        admission_edit_def cluster_mark_all marked_admission_def split: if_splits)
  moreover obtain w' where "run_state (admission_patch cluster_env rpa) ?s =
      (RequeueOnErrorOrContinue None, ?s\<lparr>admission_world := w'\<rparr>)" "cl_config w' = cl_config (admission_world ?s)"
    by (rule cluster_admission_patch [of rpa ?s])
  ultimately show ?thesis by auto
qed

lemma cluster_apis:
  "conditions_api (conds cluster_env)" "timed_conditions (conds cluster_env)" "sorter_api (SortSlice (lib cluster_env))"
  by (simp_all add: status_conditions.conditions_api_axioms status_conditions_timed.timed_conditions_axioms
      cluster_sort.sorter_api_axioms)

lemma cluster_patch_keeps: "admission_patch_keeps cluster_env"
  using cluster_patch_answers(2)
  by (auto simp: admission_patch_keeps_def admission_patch_answers_def matching_fields_kept_def)

text \<open>Without a configuration the second operation writes that there are no retries.\<close>

lemma demo_retry_inputs:
  "cl_config w = [] \<Longrightarrow> run_state (retry_inputs cluster_env rpa) w = (Inr (None, None), w)"
  by (simp add: retry_inputs_def GetReleaseServiceConfig_def cluster_env_def get_object_def IsNotFound_def
      is_class_def not_found_def)

lemma demo_retry_written:
  assumes "cl_config (admission_world s) = []" "rpast_RetryInfo (rpa_Status (releasePlanAdmission s)) = None"
  obtains s' where "run_state (admission_EnsureRetryInformationIsSet cluster_env) s = (RequeueOnErrorOrContinue None, s')"
    "rpa_meta (releasePlanAdmission s') = rpa_meta (releasePlanAdmission s)"
    "rpa_Spec (releasePlanAdmission s') = rpa_Spec (releasePlanAdmission s)"
    "cl_plans (admission_world s') = cl_plans (admission_world s)" "cl_config (admission_world s') = []"
proof -
  let ?info = "Some (DetermineRetryInfo (Compile (lib cluster_env)) (Unmarshal (lib cluster_env))
    (releasePlanAdmission s) None None)"
  let ?s = "s\<lparr>releasePlanAdmission := rpa_Status_update (rpast_RetryInfo_update (\<lambda>_. ?info)) (releasePlanAdmission s)\<rparr>"
  have "run_state (admission_EnsureRetryInformationIsSet cluster_env) s =
      run_state (admission_patch cluster_env (releasePlanAdmission s)) ?s"
    using retry_operation_run [OF demo_retry_inputs [OF assms(1)]] assms(2)
    by (simp add: admission_set_retry_def admission_edit_def)
  moreover obtain w' where "run_state (admission_patch cluster_env (releasePlanAdmission s)) ?s =
      (RequeueOnErrorOrContinue None, ?s\<lparr>admission_world := w'\<rparr>)"
    "cl_plans w' = cl_plans (admission_world ?s)" "cl_config w' = cl_config (admission_world ?s)"
    by (rule cluster_admission_patch [of "releasePlanAdmission s" ?s])
  ultimately show ?thesis using that [of "?s\<lparr>admission_world := w'\<rparr>"] assms(1) by simp
qed


text \<open>
  A second plan is created after the first match: the condition stays true, but its transition time
  moves, so that both plans are reconciled.
\<close>

definition second_plan :: ReleasePlan where
  "second_plan = demo_plan\<lparr>rp_meta := (rp_meta demo_plan)\<lparr>om_Name := ''second''\<rparr>\<rparr>"

definition later_cluster :: cluster where
  "later_cluster = demo_cluster\<lparr>cl_plans := [demo_plan, second_plan], cl_clock := 200\<rparr>"

abbreviation first_match :: ReleasePlanAdmission where
  "first_match \<equiv> marked_admission 100 [demo_plan] demo_admission"

abbreviation second_match :: ReleasePlanAdmission where
  "second_match \<equiv> marked_admission 200 [demo_plan, second_plan] first_match"


theorem matched_names_roundtrip_witness:
  "EnqueueRequestForMatchedResource (ObjectDeleted (PlanObject
     (ReleasePlan_MarkMatched status_conditions 100 demo_admission demo_plan))) [] = [(''managed'', ''admission'')]"
  using matched_names_roundtrip [of demo_admission "[demo_plan]"
      "demo_admission\<lparr>rpa_Status := (rpa_Status demo_admission)\<lparr>ReleasePlans := Some (map paired [demo_plan])\<rparr>\<rparr>"
      status_conditions 100 demo_plan "[]"]
  by (simp add: demo_admission_def)

section \<open>Git hosts\<close>

definition two_hosts :: "string \<Rightarrow> (string \<times> string) option" where
  "two_hosts url =
     (if url = ''https://github.com/org/repo'' then Some (''https'', ''github.com'')
      else if url = ''https://gitlab.com/org/repo'' then Some (''https'', ''gitlab.com'') else None)"

definition hosts_env :: "cluster env" where
  "hosts_env = cluster_env\<lparr>lib := cluster_lib\<lparr>ParseURL := two_hosts\<rparr>\<rparr>"

definition gitlab_ref :: tekton_PipelineRef where
  "gitlab_ref = ToTektonPipelineRef \<lparr>Resolver = ''git'',
     Params = [string_param ''url'' ''https://gitlab.com/org/repo'', string_param ''revision'' ''main'',
       string_param ''pathInRepo'' ''pipeline.yaml''], OciStorage = [], UseEmptyDir = False\<rparr>"

theorem token_only_for_github_witness:
  "IsGitHubURL (lib hosts_env) ''https://github.com/org/repo'' \<and>
   WithPipelineRef (without_token (\<lambda>v. ret ''secret'') hosts_env) (Some gitlab_ref) (NewPipelineRunBuilder [] []) =
     WithPipelineRef hosts_env (Some gitlab_ref) (NewPipelineRunBuilder [] [])"
proof -
  have "\<not> IsGitHubURL (lib hosts_env) (fst (ref_params (tr_Params gitlab_ref)))" by code_simp
  moreover have "IsGitHubURL (lib hosts_env) ''https://github.com/org/repo''" by code_simp
  ultimately show ?thesis using token_only_for_github by blast
qed

section \<open>Events\<close>

text \<open>A change of the grace period is dropped by the match predicate.\<close>

theorem dropped_plan_update_keeps_match_witness:
  "\<exists>w. run_state (GetMatchingReleasePlanAdmission cluster_env
     (demo_plan\<lparr>rp_Spec := (rp_Spec demo_plan)\<lparr>ReleaseGracePeriodDays := 9\<rparr>\<rparr>)) demo_cluster = (Inr demo_admission, w)"
proof -
  let ?rp = "demo_plan\<lparr>rp_Spec := (rp_Spec demo_plan)\<lparr>ReleaseGracePeriodDays := 9\<rparr>\<rparr>"
  have "\<not> MatchPredicate status_conditions (ObjectUpdated (PlanObject demo_plan) (PlanObject ?rp))"
    by (simp add: hasBehaviorLabelChanged_def hasConditionChanged_def split: option.splits)
  from dropped_plan_update_keeps_match [OF this, where E = cluster_env and rpa = demo_admission and w = demo_cluster]
  show ?thesis using demo_match [OF refl refl] by simp
qed

section \<open>Webhooks\<close>

text \<open>A user claims to be somebody else, on creation and later.\<close>

definition forged_request :: "admission_operation \<Rightarrow> document admission_request" where
  "forged_request operation = \<lparr>req_Kind = ''Release'', req_Operation = operation,
     req_Object = ReleaseDocument demo_release, req_OldObject = ReleaseDocument demo_release,
     req_Username = ''dev@example.com''\<rparr>"

theorem release_author_protected_witness:
  "\<exists>r. admitted (forged_request Create) (Handle document_codec (forged_request Create)) = Some (ReleaseDocument r) \<and>
     map_index (om_Labels (rel_meta r)) AuthorLabel = ''dev.example.com''"
proof -
  let ?req = "forged_request Create"
  let ?r = "demo_release\<lparr>rel_meta := setAuthorLabel document_codec ''dev@example.com'' (rel_meta demo_release)\<rparr>"
  have fields: "req_Kind ?req = ''Release''" "DecodeRelease document_codec (req_Object ?req) = Inr demo_release"
    "DecodeRelease document_codec (ReleaseDocument ?r) = Inr ?r"
    by (simp_all add: forged_request_def document_codec_def)
  have manual: "map_index (om_Labels (rel_meta demo_release)) AutomatedLabel \<noteq> ''true''" by code_simp
  then have run: "admitted ?req (Handle document_codec ?req) = Some (ReleaseDocument ?r)"
    by (simp add: Handle_def handleRelease_def fields(2) patchResponse_def admitted_def)
       (simp add: forged_request_def patchResponse_def document_codec_def)
  have "sanitizeLabelValue document_codec ''dev@example.com'' = ''dev.example.com''" by code_simp
  then show ?thesis
    using run manual release_author_protected [OF document_codec.codec_api_axioms fields(1,2) run fields(3)]
    by (auto simp: forged_request_def)
qed


theorem plan_author_needs_attribution_witness:
  "\<exists>p. admitted \<lparr>req_Kind = ''ReleasePlan'', req_Operation = Create, req_Object = PlanDocument (demo_plan
       \<lparr>rp_meta := set_label AttributionLabel ''true'' (rp_meta demo_plan)\<rparr>),
       req_OldObject = Malformed, req_Username = ''dev''\<rparr> (Handle document_codec
     \<lparr>req_Kind = ''ReleasePlan'', req_Operation = Create, req_Object = PlanDocument (demo_plan
       \<lparr>rp_meta := set_label AttributionLabel ''true'' (rp_meta demo_plan)\<rparr>),
       req_OldObject = Malformed, req_Username = ''dev''\<rparr>) = Some (PlanDocument p) \<and>
     map_index (om_Labels (rp_meta p)) AttributionLabel = ''true''"
proof -
  let ?q = "demo_plan\<lparr>rp_meta := set_label AttributionLabel ''true'' (rp_meta demo_plan)\<rparr>"
  let ?req = "\<lparr>req_Kind = ''ReleasePlan'', req_Operation = Create, req_Object = PlanDocument ?q,
    req_OldObject = Malformed, req_Username = ''dev''\<rparr>"
  let ?p = "?q\<lparr>rp_meta := setAuthorLabel document_codec ''dev'' (rp_meta ?q)\<rparr>"
  have labels: "map_index (om_Labels (rp_meta ?q)) AttributionLabel = ''true''"
    "map_index (om_Labels (rp_meta ?q)) AuthorLabel = []"
    by code_simp+
  then have run: "admitted ?req (Handle document_codec ?req) = Some (PlanDocument ?p)"
    by (simp add: Handle_def handleReleasePlan_def document_codec_def patchResponse_def admitted_def Let_def)
  have decode: "DecodeReleasePlan document_codec (PlanDocument ?p) = Inr ?p" by (simp add: document_codec_def)
  have author: "map_read (om_Labels (rp_meta ?p)) AuthorLabel \<noteq> None"
    by (simp add: setAuthorLabel_def set_label_def)
  show ?thesis
    using run plan_author_needs_attribution [OF document_codec.codec_api_axioms _ run decode author] by auto
qed

text \<open>A Release is defaulted, admitted, and written once more by an update that changes an annotation.\<close>

definition defaulted_release :: Release where
  "defaulted_release = demo_release\<lparr>rel_meta := set_label ReleasePlanLabel ''plan''
     (set_label SnapshotLabel ''snapshot'' (rel_meta demo_release))\<rparr>"

definition annotated_release :: Release where
  "annotated_release = defaulted_release\<lparr>rel_meta := (rel_meta defaulted_release)
     \<lparr>om_Annotations := Some [''note'' \<mapsto> ''urgent'']\<rparr>\<rparr>"

lemma demo_release_defaulted:
  "run_state (Release_Default cluster_env demo_release) demo_cluster = ((defaulted_release, None), demo_cluster)"
proof -
  have "run_state (GetReleasePlan cluster_env r) demo_cluster = ((demo_plan, None), demo_cluster)"
    if "ReleasePlan (Spec r) = ''plan''" "om_Namespace (rel_meta r) = ''dev''" for r
    using that by (simp add: GetReleasePlan_def)
      (simp add: cluster_env_def get_object_def demo_cluster_def demo_plan_def)
  moreover have "ReleaseGracePeriodDays (rp_Spec demo_plan) = 0" by (simp add: demo_plan_def empty_plan_def)
  ultimately show ?thesis
    by (simp add: Release_Default_def Let_def defaulted_release_def set_label_def)
       (simp add: demo_release_def empty_release_def)
qed

lemma demo_writes: "release_writes document_codec defaulted_release annotated_release"
proof (rule release_writes.updated [OF release_writes.created])
  let ?req = "\<lparr>req_Kind = ''Release'', req_Operation = Update, req_Object = ReleaseDocument annotated_release,
    req_OldObject = ReleaseDocument defaulted_release, req_Username = ''dev''\<rparr>"
  show "req_Kind ?req = ''Release''" "req_Operation ?req = Update"
    "DecodeRelease document_codec (req_OldObject ?req) = Inr defaulted_release"
    "DecodeRelease document_codec (ReleaseDocument annotated_release) = Inr annotated_release"
    by (simp_all add: document_codec_def)
  show "admitted ?req (Handle document_codec ?req) = Some (ReleaseDocument annotated_release)"
    by (simp add: Handle_def handleRelease_def document_codec_def admitted_def annotated_release_def)
  show "Release_ValidateUpdate defaulted_release annotated_release = None"
    by (simp add: Release_ValidateUpdate_def annotated_release_def)
qed

theorem release_identity_frozen_witness:
  "map_index (om_Labels (rel_meta annotated_release)) SnapshotLabel = Snapshot (Spec annotated_release) \<and>
   Spec annotated_release = Spec defaulted_release"
proof -
  have "Release_ValidateCreate defaulted_release = None" by code_simp
  from release_identity_frozen [OF demo_release_defaulted this demo_writes] show ?thesis by blast
qed

theorem admitted_active_iff_not_blocked_witness:
  "mrpa_Active (rpst_ReleasePlanAdmission (rp_Status
     (ReleasePlan_MarkMatched status_conditions 100 (ReleasePlanAdmission_Default demo_admission) demo_plan)))"
proof -
  have "ReleasePlanAdmission_ValidateCreate (ReleasePlanAdmission_Default demo_admission) = None" by code_simp
  from admitted_active_iff_not_blocked [OF this, of status_conditions 100 demo_plan] show ?thesis
    by (simp add: ReleasePlanAdmission_Default_def set_label_def demo_admission_def no_meta_def)
qed

section \<open>Metrics\<close>

text \<open>A Release that is marked releasing twice and then fails: one count is left.\<close>

definition marked_once :: "Release \<times> metric list" where
  "marked_once = MarkReleasing status_conditions 101 [] demo_release"

definition marked_twice :: "Release \<times> metric list" where
  "marked_twice = MarkReleasing status_conditions 102 [] (fst marked_once)"

definition marked_failed :: "Release \<times> metric list" where
  "marked_failed = MarkReleaseFailed status_conditions 103 [] (fst marked_twice)"

lemma demo_status_run:
  "status_run status_conditions demo_release (fst marked_failed)
     (snd marked_once @ snd marked_twice @ snd marked_failed) 1"
proof -
  have "\<not> IsReleasing status_conditions demo_release" "IsReleasing status_conditions (fst marked_once)" by code_simp+
  moreover note status_run.releasing [OF status_run.none, of status_conditions demo_release 101 "[]"]
  ultimately have "status_run status_conditions demo_release (fst marked_once) (snd marked_once) 0"
    by (simp add: marked_once_def)
  from status_run.releasing [OF this, of 102 "[]"] \<open>IsReleasing status_conditions (fst marked_once)\<close>
  have "status_run status_conditions demo_release (fst marked_twice) (snd marked_once @ snd marked_twice) 1"
    by (simp add: marked_twice_def)
  from status_run.failed [OF this, of 103 "[]"] show ?thesis by (simp add: marked_failed_def)
qed

theorem concurrent_releases_gauge_witness:
  "\<forall>reg. ReleaseConcurrentTotal (fold register (snd marked_once @ snd marked_twice @ snd marked_failed) reg) =
     ReleaseConcurrentTotal reg + 1"
proof -
  have "\<not> IsReleasing status_conditions demo_release" "\<not> IsReleasing status_conditions (fst marked_failed)"
    by code_simp+
  then show ?thesis
    using concurrent_releases_gauge [OF status_conditions.conditions_api_axioms _ demo_status_run] by simp
qed

text \<open>The operation that starts a Release does not mark it a second time.\<close>

lemma EnsureReleaseIsRunning_again:
  assumes "conditions_api (conds E)" "IsReleasing (conds E) (release s)"
  shows "run_state (EnsureReleaseIsRunning E) s = (ContinueProcessing, s)"
proof -
  have "\<not> HasReleaseFinished (conds E) (release s)"
    using assms by (simp add: conditions_api.releasing_iff conditions_api.finished_iff)
  then show ?thesis using assms(2) by (simp add: EnsureReleaseIsRunning_def)
qed

text \<open>
  A running Release whose only managed attempt starts and fails for good takes one off the gauge
  of concurrent processings, although nothing it started is left.
\<close>

definition running_release :: Release where
  "running_release = demo_release\<lparr>Status := no_status\<lparr>st_StartTime := Some 0,
     ManagedPipelineAttempts := [new_attempt ''managed/run-0'' [] None]\<rparr>\<rparr>"

theorem failed_attempt_counted_twice:
  "ReleaseConcurrentProcessingsTotal (fold register (failed_managed_run status_conditions running_release) reg) =
     ReleaseConcurrentProcessingsTotal reg - 1"
proof -
  have "map processing_delta (failed_managed_run status_conditions running_release) = [1, -1, -1]" by code_simp
  then show ?thesis by (simp add: register_all_gauges)
qed

end
