(* ===== verification/Lifecycle_Bound.thy ===== *)
theory Lifecycle_Bound
  imports Release_Lifecycle
begin

text \<open>
  The lifecycle ends: a rank on the phases of a Release that every step keeps or lowers, and lowers
  when it changes the Release or one of its five phases. So these change at most twelve times.
\<close>

section \<open>Descending sequences\<close>

lemma descending_count:
  fixes r :: "nat \<Rightarrow> nat"
  assumes "\<And>i. r (Suc i) \<le> r i" "\<And>i. P i \<Longrightarrow> r (Suc i) < r i"
  shows "card {i. i < n \<and> P i} + r n \<le> r 0"
proof (induction n)
  case (Suc n)
  have split: "{i. i < Suc n \<and> P i} = (if P n then insert n {i. i < n \<and> P i} else {i. i < n \<and> P i})"
    by (auto simp: less_Suc_eq)
  show ?case
    using Suc assms(1) [of n] assms(2) [of n] by (auto simp: split)
qed simp

lemma descending_finite:
  fixes r :: "nat \<Rightarrow> nat"
  assumes "\<And>i. r (Suc i) \<le> r i" "\<And>i. P i \<Longrightarrow> r (Suc i) < r i"
  shows "finite {i. P i} \<and> card {i. P i} \<le> r 0"
proof -
  have bound: "card B \<le> r 0" if fin: "finite B" and sub: "B \<subseteq> {i. P i}" for B
  proof -
    obtain n where n: "\<forall>i\<in>B. i < n" using fin finite_nat_set_iff_bounded by blast
    have "card B \<le> card {i. i < n \<and> P i}"
      using sub n by (intro card_mono) auto
    also have "\<dots> \<le> r 0" using descending_count [of r P n, OF assms] by simp
    finally show ?thesis .
  qed
  have "finite {i. P i}"
  proof (rule ccontr)
    assume "infinite {i. P i}"
    from infinite_arbitrarily_large [OF this, of "Suc (r 0)"]
    obtain B where "finite B" "card B = Suc (r 0)" "B \<subseteq> {i. P i}" by auto
    with bound [of B] show False by simp
  qed
  with bound show ?thesis by blast
qed

section \<open>The rank\<close>

definition phase_rank :: "phase \<Rightarrow> nat" where
  "phase_rank p = (if p = Absent then 2 else if p = InProgress then 1 else 0)"

definition lifecycle_types :: "string list" where
  "lifecycle_types = releasedConditionType # processing_types"

definition lifecycle_rank :: "phases \<Rightarrow> nat" where
  "lifecycle_rank f = (\<Sum>t\<leftarrow>lifecycle_types. phase_rank (f t))"

lemma phase_step_rank: "phase_step p q \<Longrightarrow> phase_rank q < phase_rank p"
  by (cases p) (auto simp: phase_rank_def elim!: phase_step_from)

lemma phase_steps_rank: "phase_step\<^sup>*\<^sup>* p q \<Longrightarrow> q = p \<or> phase_rank q < phase_rank p"
  by (induction rule: rtranclp_induct) (auto dest: phase_step_rank)

lemma lifecycle_rank_bound: "lifecycle_rank f \<le> 12"
  by (simp add: lifecycle_rank_def lifecycle_types_def processing_types_def phase_rank_def)

lemma release_steps_rank:
  assumes "release_steps f g"
  shows "lifecycle_rank g \<le> lifecycle_rank f"
    and "\<exists>t\<in>set lifecycle_types. g t \<noteq> f t \<Longrightarrow> lifecycle_rank g < lifecycle_rank f"
proof -
  have each: "g t = f t \<or> phase_rank (g t) < phase_rank (f t)" if "t \<in> set lifecycle_types" for t
    using release_steps_phase [OF assms] that phase_steps_rank by (auto simp: lifecycle_types_def)
  then have le: "phase_rank (g t) \<le> phase_rank (f t)" if "t \<in> set lifecycle_types" for t
    using that by fastforce
  then show "lifecycle_rank g \<le> lifecycle_rank f"
    unfolding lifecycle_rank_def by (intro sum_list_mono)
  assume "\<exists>t\<in>set lifecycle_types. g t \<noteq> f t"
  then obtain t where "t \<in> set lifecycle_types" "phase_rank (g t) < phase_rank (f t)" using each by blast
  then obtain xs ys where split: "lifecycle_types = xs @ t # ys" by (meson split_list)
  have "(\<Sum>t\<leftarrow>xs. phase_rank (g t)) \<le> (\<Sum>t\<leftarrow>xs. phase_rank (f t))"
    "(\<Sum>t\<leftarrow>ys. phase_rank (g t)) \<le> (\<Sum>t\<leftarrow>ys. phase_rank (f t))"
    by (intro sum_list_mono le, simp add: split)+
  then show "lifecycle_rank g < lifecycle_rank f"
    using \<open>phase_rank (g t) < phase_rank (f t)\<close> unfolding lifecycle_rank_def split by simp
qed

end
