(* ===== verification/Indexed_Lookups.thy ===== *)
theory Indexed_Lookups
  imports Start_Up Release_Properties
begin

text \<open>
  The loader lists by fields (\<open>client.MatchingFields\<close> in \<open>src/loader/loader.go\<close>), which the cache answers
  from the indexes that \<open>src/cache/cache.go\<close> declares at start-up. Here the two meet: what the loader
  finds, said of the objects themselves.
\<close>

section \<open>The indexes declared at start-up\<close>

type_synonym declared = "((string \<times> string) \<times> index_func) list"

text \<open>A manager that records the index functions it is given.\<close>

definition recording_manager :: "(declared, unit) manager_api" where
  "recording_manager = \<lparr>mgr_Getenv = (\<lambda>v. ret []), mgr_LookupEnv = ret (\<lambda>v. None), mgr_Setenv = (\<lambda>v x. ret None),
     GetConfigOrDie = ret None, NewManager = (\<lambda>opts. ret None),
     IndexField = (\<lambda>kind field g. State (\<lambda>w. (None, w @ [((kind, field), g)]))),
     CompleteController = (\<lambda>c. ret None), CompleteWebhook = (\<lambda>kind. ret None), RegisterHandler = (\<lambda>path. ret ()),
     SetupControllers = (\<lambda>cs. seq_errors (concat (map (\<lambda>(c, r). [c, r]) cs))), SetupWebhooks = seq_errors,
     AddHealthzCheck = (\<lambda>name. ret None), AddReadyzCheck = (\<lambda>name. ret None),
     StartManager = ret None, NewExporter = (\<lambda>url. ret None), MergeResource = ret None,
     SetTracerProvider = (\<lambda>b sampler. ret ()), ShutdownProvider = ret None, StoreLabelNames = (\<lambda>names. ret ()),
     ParseFloat = (\<lambda>s. ())\<rparr>"

definition declared_index :: "string \<Rightarrow> string \<Rightarrow> index_func" where
  "declared_index kind field =
     (case map_of (snd (run_state (setUpControllers recording_manager 1) [])) (kind, field) of
        Some g \<Rightarrow> g | None \<Rightarrow> (\<lambda>_. Panicked))"

lemma declared_indexes:
  "declared_index ''Release'' ''spec.releasePlan'' = releaseIndexFunc"
  "declared_index ''ReleasePlan'' ''spec.target'' = releasePlanIndexFunc"
  "declared_index ''ReleasePlanAdmission'' ''spec.origin'' = releasePlanAdmissionIndexFunc"
  by (simp_all add: declared_index_def setUpControllers_def recording_manager_def EnabledControllers_def
      release_SetupCache_def plan_SetupCache_def admission_SetupCache_def SetupComponentCache_def
      SetupReleaseCache_def SetupReleasePlanCache_def SetupReleasePlanAdmissionCache_def)

section \<open>The contract of the cache\<close>

definition indexed_under :: "string list outcome \<Rightarrow> string \<Rightarrow> bool" where
  "indexed_under res v = (case res of Returned vs \<Rightarrow> v \<in> set vs | Panicked \<Rightarrow> False)"

lemma indexed_simps [simp]:
  "indexed_under (releaseIndexFunc (IndexedRelease r)) v \<longleftrightarrow> ReleasePlan (Spec r) = v"
  "indexed_under (releasePlanIndexFunc (IndexedPlan rp)) v \<longleftrightarrow> Target (rp_Spec rp) = v"
  "indexed_under (releasePlanAdmissionIndexFunc (IndexedAdmission rpa)) v \<longleftrightarrow> Origin (rpa_Spec rpa) = v"
  by (auto simp: indexed_under_def releaseIndexFunc_def releasePlanIndexFunc_def releasePlanAdmissionIndexFunc_def)

text \<open>
  A list by namespace, field and label answers with the objects of that namespace and label for
  which the index function of the field gives the value, in any order.
\<close>

locale indexed_cache =
  fixes E :: "'w env" and index :: "string \<Rightarrow> string \<Rightarrow> index_func"
    and releases :: "'w \<Rightarrow> Release list" and plans :: "'w \<Rightarrow> ReleasePlan list"
    and admissions :: "'w \<Rightarrow> ReleasePlanAdmission list"
  assumes by_plan: "run_state (api_ListReleases E ns v) w = (Inr rs, w') \<Longrightarrow>
      mset rs = mset (filter (\<lambda>r. om_Namespace (rel_meta r) = ns \<and>
        indexed_under (index ''Release'' ''spec.releasePlan'' (IndexedRelease r)) v) (releases w))"
    and by_target: "run_state (api_ListReleasePlans E ns v label) w = (Inr rps, w') \<Longrightarrow>
      mset rps = mset (filter (\<lambda>rp. om_Namespace (rp_meta rp) = ns \<and>
        indexed_under (index ''ReleasePlan'' ''spec.target'' (IndexedPlan rp)) v \<and>
        (label = None \<or> map_read (om_Labels (rp_meta rp)) ReleasePlanAdmissionLabel = label)) (plans w))"
    and by_origin: "run_state (api_ListReleasePlanAdmissions E ns v) w = (Inr rpas, w') \<Longrightarrow>
      mset rpas = mset (filter (\<lambda>rpa. om_Namespace (rpa_meta rpa) = ns \<and>
        indexed_under (index ''ReleasePlanAdmission'' ''spec.origin'' (IndexedAdmission rpa)) v) (admissions w))"
    and list_quiet: "keeps plans (api_ListReleasePlans E ns v label)"
begin

text \<open>With an index function that reads one field, a list is a selection by that field.\<close>

lemma releases_of_plan:
  assumes "index ''Release'' ''spec.releasePlan'' = releaseIndexFunc"
    and "run_state (api_ListReleases E ns v) w = (Inr rs, w')"
  shows "set rs = {r \<in> set (releases w). om_Namespace (rel_meta r) = ns \<and> ReleasePlan (Spec r) = v}"
  using arg_cong [OF by_plan [OF assms(2)], where f = set_mset]
  by (auto simp: assms(1))

lemma admissions_of_origin:
  assumes "index ''ReleasePlanAdmission'' ''spec.origin'' = releasePlanAdmissionIndexFunc"
    and "run_state (api_ListReleasePlanAdmissions E ns v) w = (Inr rpas, w')"
  shows "mset (filter P rpas) =
    mset (filter (\<lambda>rpa. om_Namespace (rpa_meta rpa) = ns \<and> Origin (rpa_Spec rpa) = v \<and> P rpa) (admissions w))"
  unfolding mset_filter by_origin [OF assms(2)]
  by (simp add: assms(1) filter_filter_mset conj_ac)

lemma plans_of_target:
  assumes "index ''ReleasePlan'' ''spec.target'' = releasePlanIndexFunc"
    and "run_state (api_ListReleasePlans E ns v label) w = (Inr rps, w')"
  shows "mset (filter P rps) = mset (filter (\<lambda>rp. om_Namespace (rp_meta rp) = ns \<and> Target (rp_Spec rp) = v \<and>
    (label = None \<or> map_read (om_Labels (rp_meta rp)) ReleasePlanAdmissionLabel = label) \<and> P rp) (plans w))"
  unfolding mset_filter by_target [OF assms(2)]
  by (simp add: assms(1) filter_filter_mset conj_ac)

end

section \<open>What the loader finds\<close>

text \<open>
  C29. With the indexes declared at start-up, \<open>GetPreviousRelease\<close> returns a newest one of the Releases in
  the namespace that name the same ReleasePlan, have another name and another snapshot, did not fail
  and were not created later; it is a NotFound error exactly when there is none.
\<close>

theorem previous_release_of_plan:
  assumes "indexed_cache E declared_index releases plans admissions"
    and "run_state (api_ListReleases E (om_Namespace (rel_meta r)) (ReleasePlan (Spec r))) w = (Inr rs, w1)"
    and "run_state (GetPreviousRelease E r) w = (res, w')"
  shows "case res of
      Inr p \<Rightarrow> newest_of {c \<in> set (releases w). om_Namespace (rel_meta c) = om_Namespace (rel_meta r) \<and>
        ReleasePlan (Spec c) = ReleasePlan (Spec r) \<and> previous_candidate (conds E) r c} (Some p)
    | Inl e \<Rightarrow> {c \<in> set (releases w). om_Namespace (rel_meta c) = om_Namespace (rel_meta r) \<and>
        ReleasePlan (Spec c) = ReleasePlan (Spec r) \<and> previous_candidate (conds E) r c} = {} \<and>
        e = NewNotFound (lib E) ''appstudio.redhat.com'' (om_Kind (rel_meta r)) (om_Name (rel_meta r))"
proof -
  have "{c \<in> set rs. previous_candidate (conds E) r c} =
      {c \<in> set (releases w). om_Namespace (rel_meta c) = om_Namespace (rel_meta r) \<and>
        ReleasePlan (Spec c) = ReleasePlan (Spec r) \<and> previous_candidate (conds E) r c}"
    using indexed_cache.releases_of_plan [OF assms(1) declared_indexes(1) assms(2)] by auto
  then show ?thesis
    using GetPreviousRelease_newest [OF assms(2)] assms(3) by (auto split: sum.splits)
qed

text \<open>A read by name, added to the contract: the object of that name and namespace, or NotFound.\<close>

locale named_cache = indexed_cache +
  assumes get_found: "run_state (api_GetReleasePlanAdmission E n ns) w = ((rpa, None), w') \<Longrightarrow>
      rpa \<in> set (admissions w) \<and> om_Name (rpa_meta rpa) = n \<and> om_Namespace (rpa_meta rpa) = ns"
    and get_missing: "run_state (api_GetReleasePlanAdmission E n ns) w = ((rpa, Some e), w') \<Longrightarrow> IsNotFound e \<Longrightarrow>
      x \<in> set (admissions w) \<Longrightarrow> om_Name (rpa_meta x) = n \<Longrightarrow> om_Namespace (rpa_meta x) \<noteq> ns"
begin

lemma designated_admission:
  assumes "map_index (om_Labels (rp_meta rp)) ReleasePlanAdmissionLabel = n" "n \<noteq> []"
    and "run_state (api_GetReleasePlanAdmission E n (Target (rp_Spec rp))) w = ((x, err), w1)"
      "case err of None \<Rightarrow> True | Some e \<Rightarrow> IsNotFound e"
    and "inj_on (\<lambda>x. (om_Namespace (rpa_meta x), om_Name (rpa_meta x))) (set (admissions w))"
  shows "(\<exists>w'. run_state (GetMatchingReleasePlanAdmission E rp) w = (Inr rpa, w')) \<longleftrightarrow>
    rpa \<in> set (admissions w) \<and> om_Name (rpa_meta rpa) = n \<and> om_Namespace (rpa_meta rpa) = Target (rp_Spec rp) \<and>
    Origin (rpa_Spec rpa) = om_Namespace (rp_meta rp)"
proof (cases err)
  case None
  then have found: "x \<in> set (admissions w)" "om_Name (rpa_meta x) = n" "om_Namespace (rpa_meta x) = Target (rp_Spec rp)"
    using get_found assms(3) by auto
  then have "rpa = x" if "rpa \<in> set (admissions w)" "om_Name (rpa_meta rpa) = n"
      "om_Namespace (rpa_meta rpa) = Target (rp_Spec rp)"
    using inj_onD [OF assms(5), of rpa x] that by simp
  then show ?thesis using None assms(1-3) found by (auto simp: GetMatchingReleasePlanAdmission_def)
next
  case (Some e)
  then show ?thesis using get_missing assms(1-4) by (auto simp: GetMatchingReleasePlanAdmission_def)
qed

end

text \<open>
  C28. With the indexes declared at start-up, \<open>GetMatchingReleasePlanAdmission\<close> gives a ReleasePlan
  exactly one admission. A plan that designates an admission by label gets the one of that name in
  its target namespace if it names the namespace of the plan as its origin, and nothing else: that
  the admission lists the application of the plan is not asked here. A plan without such a label
  gets the only admission of its target namespace that names the namespace of the plan as its
  origin and lists its application or component group; none or several such admissions, or no
  target, give no admission. This is for reads that succeed or, by name, find nothing.
\<close>

theorem matching_admission_unique:
  assumes "named_cache E declared_index releases plans admissions"
    and "inj_on (\<lambda>x. (om_Namespace (rpa_meta x), om_Name (rpa_meta x))) (set (admissions w))"
    and "if map_index (om_Labels (rp_meta rp)) ReleasePlanAdmissionLabel \<noteq> []
      then \<exists>x err w1. run_state (api_GetReleasePlanAdmission E (map_index (om_Labels (rp_meta rp)) ReleasePlanAdmissionLabel)
        (Target (rp_Spec rp))) w = ((x, err), w1) \<and> (case err of None \<Rightarrow> True | Some e \<Rightarrow> IsNotFound e)
      else \<exists>rpas w1. run_state (api_ListReleasePlanAdmissions E (Target (rp_Spec rp)) (om_Namespace (rp_meta rp))) w =
        (Inr rpas, w1)"
  shows "(\<exists>w'. run_state (GetMatchingReleasePlanAdmission E rp) w = (Inr rpa, w')) \<longleftrightarrow>
    (if map_index (om_Labels (rp_meta rp)) ReleasePlanAdmissionLabel \<noteq> []
     then rpa \<in> set (admissions w) \<and>
       om_Name (rpa_meta rpa) = map_index (om_Labels (rp_meta rp)) ReleasePlanAdmissionLabel \<and>
       om_Namespace (rpa_meta rpa) = Target (rp_Spec rp) \<and> Origin (rpa_Spec rpa) = om_Namespace (rp_meta rp)
     else Target (rp_Spec rp) \<noteq> [] \<and>
       filter (\<lambda>x. om_Namespace (rpa_meta x) = Target (rp_Spec rp) \<and> Origin (rpa_Spec x) = om_Namespace (rp_meta rp) \<and>
         MatchesReleasePlan x rp) (admissions w) = [rpa])"
proof (cases "map_index (om_Labels (rp_meta rp)) ReleasePlanAdmissionLabel = []")
  case True
  then obtain rpas w1 where list: "run_state (api_ListReleasePlanAdmissions E (Target (rp_Spec rp))
      (om_Namespace (rp_meta rp))) w = (Inr rpas, w1)" using assms(3) by auto
  have cache: "indexed_cache E declared_index releases plans admissions" using assms(1) by (simp add: named_cache_def)
  have single: "xs = [rpa] \<longleftrightarrow> mset xs = {#rpa#}" for xs by (simp add: mset_single_iff)
  show ?thesis
    unfolding GetMatchingReleasePlanAdmission_unique [OF True list, of rpa] single
      indexed_cache.admissions_of_origin [OF cache declared_indexes(3) list, of "\<lambda>x. MatchesReleasePlan x rp"]
    using True by simp
next
  case False
  then obtain x err w1 where get: "run_state (api_GetReleasePlanAdmission E
      (map_index (om_Labels (rp_meta rp)) ReleasePlanAdmissionLabel) (Target (rp_Spec rp))) w = ((x, err), w1)"
      "case err of None \<Rightarrow> True | Some e \<Rightarrow> IsNotFound e" using assms(3) by auto
  show ?thesis
    unfolding named_cache.designated_admission [OF assms(1) refl False get assms(2)] using False by simp
qed

lemma plans_listed:
  assumes "run_state (GetMatchingReleasePlans E rpa) w = (Inr rps, w')"
  shows "\<exists>labelled w1. run_state (api_ListReleasePlans E (Origin (rpa_Spec rpa)) (om_Namespace (rpa_meta rpa))
      (Some (om_Name (rpa_meta rpa)))) w = (Inr labelled, w1) \<and>
    (labelled \<noteq> [] \<and> rps = filter (plan_kept rpa) labelled \<or>
     labelled = [] \<and> (\<exists>all w2. run_state (api_ListReleasePlans E (Origin (rpa_Spec rpa)) (om_Namespace (rpa_meta rpa)) None) w1 =
       (Inr all, w2) \<and> rps = filter (plan_kept rpa) all))"
  using assms unfolding GetMatchingReleasePlans_def
  by (auto simp: prune_filter split: if_splits prod.splits sum.splits)

text \<open>
  C30. With the indexes declared at start-up, \<open>GetMatchingReleasePlans\<close> finds exactly these plans of
  the origin namespace that target the namespace of the admission and belong to one of its
  applications or component groups: those that designate the admission by label, if any plan there
  does, and otherwise those that designate none.
\<close>

theorem matching_plans_exact:
  assumes "indexed_cache E declared_index releases plans admissions"
    and "run_state (GetMatchingReleasePlans E rpa) w = (Inr rps, w')"
  shows "mset rps = mset (filter (\<lambda>rp. om_Namespace (rp_meta rp) = Origin (rpa_Spec rpa) \<and>
      Target (rp_Spec rp) = om_Namespace (rpa_meta rpa) \<and> MatchesReleasePlan rpa rp \<and>
      map_read (om_Labels (rp_meta rp)) ReleasePlanAdmissionLabel =
        (if \<exists>x\<in>set (plans w). om_Namespace (rp_meta x) = Origin (rpa_Spec rpa) \<and>
            Target (rp_Spec x) = om_Namespace (rpa_meta rpa) \<and>
            map_read (om_Labels (rp_meta x)) ReleasePlanAdmissionLabel = Some (om_Name (rpa_meta rpa))
         then Some (om_Name (rpa_meta rpa)) else None)) (plans w))"
proof -
  let ?L = "\<lambda>x. map_read (om_Labels (rp_meta x)) ReleasePlanAdmissionLabel"
  let ?there = "\<lambda>x. om_Namespace (rp_meta x) = Origin (rpa_Spec rpa) \<and> Target (rp_Spec x) = om_Namespace (rpa_meta rpa)"
  obtain labelled w1 where list: "run_state (api_ListReleasePlans E (Origin (rpa_Spec rpa)) (om_Namespace (rpa_meta rpa))
      (Some (om_Name (rpa_meta rpa)))) w = (Inr labelled, w1)" and
    cases: "labelled \<noteq> [] \<and> rps = filter (plan_kept rpa) labelled \<or>
     labelled = [] \<and> (\<exists>all w2. run_state (api_ListReleasePlans E (Origin (rpa_Spec rpa)) (om_Namespace (rpa_meta rpa)) None) w1 =
       (Inr all, w2) \<and> rps = filter (plan_kept rpa) all)"
    using plans_listed [OF assms(2)] by blast
  note by_target = indexed_cache.plans_of_target [OF assms(1) declared_indexes(2)]
  have "mset labelled = mset (filter (\<lambda>x. ?there x \<and> ?L x = Some (om_Name (rpa_meta rpa))) (plans w))"
    using by_target [OF list, of "\<lambda>_. True"] by simp
  from mset_eq_setD [OF this]
  have labelled: "set labelled = {x \<in> set (plans w). ?there x \<and> ?L x = Some (om_Name (rpa_meta rpa))}"
    by (simp only: set_filter)
  have nonempty: "{x \<in> A. P x} \<noteq> {} \<longleftrightarrow> (\<exists>x\<in>A. P x)" for A and P :: "ReleasePlan \<Rightarrow> bool" by blast
  have "labelled \<noteq> [] \<longleftrightarrow> set labelled \<noteq> {}" by simp
  then have some: "labelled \<noteq> [] \<longleftrightarrow> (\<exists>x\<in>set (plans w). ?there x \<and> ?L x = Some (om_Name (rpa_meta rpa)))"
    by (simp only: labelled nonempty)
  from cases show ?thesis
  proof (elim disjE conjE exE)
    assume "labelled \<noteq> []" and rps: "rps = filter (plan_kept rpa) labelled"
    then have ex: "\<exists>x\<in>set (plans w). om_Namespace (rp_meta x) = Origin (rpa_Spec rpa) \<and>
        Target (rp_Spec x) = om_Namespace (rpa_meta rpa) \<and> ?L x = Some (om_Name (rpa_meta rpa))"
      using some by (simp only: conj_assoc)
    have "plan_kept rpa rp \<longleftrightarrow> MatchesReleasePlan rpa rp" if "?L rp = Some (om_Name (rpa_meta rpa))" for rp
      using that by (simp add: plan_kept_def)
    then show ?thesis
      unfolding rps by_target [OF list] if_P [OF ex]
      by (intro arg_cong [where f = mset] filter_cong refl) blast
  next
    fix all w2
    assume none: "labelled = []" and rps: "rps = filter (plan_kept rpa) all"
      and all: "run_state (api_ListReleasePlans E (Origin (rpa_Spec rpa)) (om_Namespace (rpa_meta rpa)) None) w1 = (Inr all, w2)"
    have "plans w1 = plans w" using keepsD [OF indexed_cache.list_quiet [OF assms(1)]] list by (metis snd_conv)
    then show ?thesis
      using none some unfolding rps by_target [OF all]
      by (intro arg_cong [where f = mset] filter_cong) (auto simp: plan_kept_def split: option.splits)
  qed
qed

section \<open>The example cluster\<close>

lemma cluster_indexed_cache:
  "indexed_cache cluster_env declared_index (\<lambda>w. cl_release w # cl_releases w) cl_plans cl_admissions"
proof (rule indexed_cache.intro)
  fix ns v label w rps w'
  assume "run_state (api_ListReleasePlans cluster_env ns v label) w = (Inr rps, w')"
  then show "mset rps = mset (filter (\<lambda>rp. om_Namespace (rp_meta rp) = ns \<and>
      indexed_under (declared_index ''ReleasePlan'' ''spec.target'' (IndexedPlan rp)) v \<and>
      (label = None \<or> map_read (om_Labels (rp_meta rp)) ReleasePlanAdmissionLabel = label)) (cl_plans w))"
    by (cases label) (auto simp: declared_indexes cluster_env_def)
qed (auto simp: declared_indexes cluster_env_def keeps_def)

interpretation cluster_cache: indexed_cache cluster_env declared_index
  "\<lambda>w. cl_release w # cl_releases w" cl_plans cl_admissions
  by (rule cluster_indexed_cache)

lemma demo_objects:
  "cl_plans demo_cluster = [demo_plan]" "cl_admissions demo_cluster = [demo_admission]"
  "Origin (rpa_Spec demo_admission) = ''dev''" "om_Namespace (rpa_meta demo_admission) = ''managed''"
  by (simp_all add: demo_cluster_def demo_admission_def)

theorem previous_release_of_plan_witness:
  "\<exists>p w. run_state (GetPreviousRelease cluster_env demo_release) demo_cluster = (Inr p, w) \<and>
     Snapshot (Spec p) = ''older-snapshot''"
proof -
  let ?C = "{c \<in> set (cl_release demo_cluster # cl_releases demo_cluster).
      om_Namespace (rel_meta c) = om_Namespace (rel_meta demo_release) \<and>
      ReleasePlan (Spec c) = ReleasePlan (Spec demo_release) \<and>
      previous_candidate (conds cluster_env) demo_release c}"
  have list: "run_state (api_ListReleases cluster_env (om_Namespace (rel_meta demo_release))
      (ReleasePlan (Spec demo_release))) demo_cluster = (Inr [demo_release, older_release], demo_cluster)"
    by (simp add: cluster_env_def demo_cluster_def demo_release_def older_release_def)
  have "?C = {older_release}"
    using previous_candidates by (auto simp: demo_cluster_def older_release_def)
  moreover obtain res w where run: "run_state (GetPreviousRelease cluster_env demo_release) demo_cluster = (res, w)"
    by (cases "run_state (GetPreviousRelease cluster_env demo_release) demo_cluster")
  moreover note previous_release_of_plan [OF cluster_indexed_cache list run]
  ultimately have "res = Inr older_release" by (cases res) (simp_all add: newest_of_def)
  then show ?thesis using run by (simp add: older_release_def)
qed

lemma cluster_named_cache:
  "named_cache cluster_env declared_index (\<lambda>w. cl_release w # cl_releases w) cl_plans cl_admissions"
proof (rule named_cache.intro [OF cluster_indexed_cache], unfold_locales)
  fix n ns w rpa w'
  assume "run_state (api_GetReleasePlanAdmission cluster_env n ns) w = ((rpa, None), w')"
  then have "\<exists>xs. filter (\<lambda>x. om_Name (rpa_meta x) = n \<and> om_Namespace (rpa_meta x) = ns) (cl_admissions w) = rpa # xs"
    by (auto simp: cluster_env_def get_object_def split: list.splits)
  then show "rpa \<in> set (cl_admissions w) \<and> om_Name (rpa_meta rpa) = n \<and> om_Namespace (rpa_meta rpa) = ns"
    by (auto simp: filter_eq_Cons_iff)
next
  fix n ns w rpa e w' x
  assume "run_state (api_GetReleasePlanAdmission cluster_env n ns) w = ((rpa, Some e), w')" "x \<in> set (cl_admissions w)"
    "om_Name (rpa_meta x) = n"
  then show "om_Namespace (rpa_meta x) \<noteq> ns"
    by (auto simp: cluster_env_def get_object_def filter_empty_conv split: list.splits)
qed

interpretation cluster_named: named_cache cluster_env declared_index
  "\<lambda>w. cl_release w # cl_releases w" cl_plans cl_admissions
  by (rule cluster_named_cache)

text \<open>The plan gets its admission by what it lists; a plan of another application gets it by its label.\<close>

definition designating_plan :: ReleasePlan where
  "designating_plan = demo_plan\<lparr>rp_meta := (rp_meta demo_plan)
     \<lparr>om_Labels := Some [ReleasePlanAdmissionLabel \<mapsto> ''admission'']\<rparr>,
     rp_Spec := (rp_Spec demo_plan)\<lparr>Application := ''other''\<rparr>\<rparr>"

theorem matching_admission_unique_witness:
  "(\<exists>w. run_state (GetMatchingReleasePlanAdmission cluster_env demo_plan) demo_cluster = (Inr demo_admission, w)) \<and>
   \<not> MatchesReleasePlan demo_admission designating_plan \<and>
   (\<exists>w. run_state (GetMatchingReleasePlanAdmission cluster_env designating_plan) demo_cluster = (Inr demo_admission, w))"
proof -
  have name: "om_Name (rpa_meta demo_admission) = ''admission''" by (simp add: demo_admission_def)
  have plan: "Target (rp_Spec designating_plan) = ''managed''" "om_Namespace (rp_meta designating_plan) = ''dev''"
    "map_index (om_Labels (rp_meta designating_plan)) ReleasePlanAdmissionLabel = ''admission''"
    "\<not> MatchesReleasePlan demo_admission designating_plan" by code_simp+
  have get: "run_state (api_GetReleasePlanAdmission cluster_env ''admission'' ''managed'') demo_cluster =
      ((demo_admission, None), demo_cluster)"
    by (simp add: cluster_env_def get_object_def demo_objects name)
  have list: "run_state (api_ListReleasePlanAdmissions cluster_env ''managed'' ''dev'') demo_cluster =
      (Inr [demo_admission], demo_cluster)"
    using demo_admissions by simp
  note unique = matching_admission_unique [OF cluster_named_cache, where w = demo_cluster and rpa = demo_admission]
  have "\<exists>w. run_state (GetMatchingReleasePlanAdmission cluster_env demo_plan) demo_cluster = (Inr demo_admission, w)"
    using unique [of demo_plan] list by (simp add: demo_objects map_index_def)
  moreover have "\<exists>w. run_state (GetMatchingReleasePlanAdmission cluster_env designating_plan) demo_cluster = (Inr demo_admission, w)"
    using unique [of designating_plan] get by (simp add: demo_objects name plan)
  ultimately show ?thesis using plan(4) by blast
qed

theorem matching_plans_exact_witness:
  "\<exists>rps w. run_state (GetMatchingReleasePlans cluster_env demo_admission) demo_cluster = (Inr rps, w) \<and>
     mset rps = {#demo_plan#}"
proof -
  have "isl (fst (run_state (GetMatchingReleasePlans cluster_env demo_admission) demo_cluster)) = False" by code_simp
  then obtain rps w where run: "run_state (GetMatchingReleasePlans cluster_env demo_admission) demo_cluster = (Inr rps, w)"
    by (metis isl_def prod.collapse sum.exhaust)
  then show ?thesis
    using matching_plans_exact [OF cluster_indexed_cache run] by (simp add: map_read_def demo_objects)
qed

end
