(* ===== verification/Go_Heap.thy ===== *)
theory Go_Heap
  imports Prelude
begin

text \<open>
  Memory, as far as the copying of API objects needs it. Everywhere else in the development an object
  is a HOL value, so that \<open>x.DeepCopy()\<close> is \<open>x\<close>; here pointers and slices are addresses, so that it can
  be said what a copy shares with its original. A cell holds the elements of one allocated array (one
  element for \<open>new\<close>); pointers go to whole allocations, which is how decoded objects are built.
\<close>

section \<open>Values, heaps and what they denote\<close>

type_synonym addr = nat

datatype gval =
    Prim string
  | Struct "(string \<times> gval) list"
  | Ptr "addr option"
  | Slice "(addr \<times> nat \<times> nat) option"

type_synonym heap = "gval list list"

datatype tree =
    Leaf string
  | Node "(string \<times> tree) list"
  | Ref "tree option"
  | Seq "tree list option"

definition cell :: "heap \<Rightarrow> addr \<Rightarrow> gval list" where
  "cell h a = (if a < length h then h ! a else [])"

text \<open>
  Value \<open>v\<close> unfolds to the tree \<open>t\<close>, going through addresses of \<open>B\<close> only. A slice is the part of its
  array from an offset on, of a given length; nil and empty slices are different trees.
\<close>

inductive denotes :: "heap \<Rightarrow> addr set \<Rightarrow> gval \<Rightarrow> tree \<Rightarrow> bool" for h B where
  prim: "denotes h B (Prim s) (Leaf s)"
| struct: "list_all2 (\<lambda>x y. fst x = fst y \<and> denotes h B (snd x) (snd y)) fs gs \<Longrightarrow>
    denotes h B (Struct fs) (Node gs)"
| nil_ptr: "denotes h B (Ptr None) (Ref None)"
| ptr: "\<lbrakk>a \<in> B; cell h a = [v]; denotes h B v t\<rbrakk> \<Longrightarrow> denotes h B (Ptr (Some a)) (Ref (Some t))"
| nil_slice: "denotes h B (Slice None) (Seq None)"
| slice: "\<lbrakk>a \<in> B; off + n \<le> length (cell h a);
    list_all2 (denotes h B) (take n (drop off (cell h a))) ts\<rbrakk> \<Longrightarrow>
    denotes h B (Slice (Some (a, off, n))) (Seq (Some ts))"

inductive_cases denotes_Leaf: "denotes h B v (Leaf s)"
inductive_cases denotes_Node: "denotes h B v (Node gs)"
inductive_cases denotes_Ref: "denotes h B v (Ref x)"
inductive_cases denotes_Seq: "denotes h B v (Seq x)"

lemma denotes_agree:
  assumes "denotes h B v t" "B \<subseteq> C" "\<And>a. a \<in> B \<Longrightarrow> cell h' a = cell h a"
  shows "denotes h' C v t"
  using assms
proof (induction rule: denotes.induct)
  case (struct fs gs)
  then show ?case by (auto intro!: denotes.struct elim!: list_all2_mono)
next
  case (slice a off n ts)
  then show ?case by (auto intro!: denotes.slice elim!: list_all2_mono)
qed (auto intro: denotes.intros)

section \<open>Types\<close>

datatype gtype =
    Basic
  | StructT "(string \<times> gtype) list"
  | PtrT gtype
  | SliceT gtype

fun typed :: "gtype \<Rightarrow> tree \<Rightarrow> bool" and typed_fields :: "(string \<times> gtype) list \<Rightarrow> (string \<times> tree) list \<Rightarrow> bool" where
  "typed Basic (Leaf s) = True"
| "typed (StructT fs) (Node gs) = typed_fields fs gs"
| "typed (PtrT T) (Ref None) = True"
| "typed (PtrT T) (Ref (Some t)) = typed T t"
| "typed (SliceT T) (Seq None) = True"
| "typed (SliceT T) (Seq (Some ts)) = list_all (typed T) ts"
| "typed T t = False"
| "typed_fields [] [] = True"
| "typed_fields ((f, T) # fs) ((g, t) # gs) = (f = g \<and> typed T t \<and> typed_fields fs gs)"
| "typed_fields fs gs = False"

text \<open>Types whose values hold no address: an assignment copies them.\<close>

fun plain :: "gtype \<Rightarrow> bool" where
  "plain Basic = True"
| "plain (StructT fs) = list_all (\<lambda>f. plain (snd f)) fs"
| "plain (PtrT T) = False"
| "plain (SliceT T) = False"

section \<open>The statements of the generated copy functions\<close>

type_synonym copier = "gval \<Rightarrow> (heap, gval) state"

definition alloc :: "gval list \<Rightarrow> (heap, addr) state" where
  "alloc vs = State (\<lambda>h. (length h, h @ [vs]))"

definition deref :: "addr \<Rightarrow> (heap, gval) state" where
  "deref a = gets (\<lambda>h. case cell h a of v # _ \<Rightarrow> v | [] \<Rightarrow> Prim [])"

text \<open>\<open>if in != nil { *out = new(T); (*in).DeepCopyInto(*out) }\<close>, for a pointer.\<close>

fun copy_ptr :: "copier \<Rightarrow> copier" where
  "copy_ptr c (Ptr (Some a)) = do { v \<leftarrow> deref a; v' \<leftarrow> c v; a' \<leftarrow> alloc [v']; State_Monad.return (Ptr (Some a')) }"
| "copy_ptr c v = State_Monad.return v"

fun copy_all :: "copier \<Rightarrow> gval list \<Rightarrow> (heap, gval list) state" where
  "copy_all c [] = State_Monad.return []"
| "copy_all c (v # vs) = do { v' \<leftarrow> c v; vs' \<leftarrow> copy_all c vs; State_Monad.return (v' # vs') }"

text \<open>
  \<open>if in != nil { *out = make([]T, len(*in)); for i := range *in { (*in)[i].DeepCopyInto(&(*out)[i]) } }\<close>,
  for a slice; the array is filled before it is put into the heap.
\<close>

fun copy_slice :: "copier \<Rightarrow> copier" where
  "copy_slice c (Slice (Some (a, off, n))) = do {
     vs \<leftarrow> gets (\<lambda>h. take n (drop off (cell h a)));
     vs' \<leftarrow> copy_all c vs;
     a' \<leftarrow> alloc vs';
     State_Monad.return (Slice (Some (a', 0, length vs')))
   }"
| "copy_slice c v = State_Monad.return v"

text \<open>
  \<open>*out = *in\<close>, and then the fields that are copied otherwise. The generator takes the fields in the
  order of the struct.
\<close>

abbreviation assign :: copier where
  "assign \<equiv> State_Monad.return"

definition field_copier :: "(string \<times> copier) list \<Rightarrow> string \<Rightarrow> copier" where
  "field_copier cs f = (case map_of cs f of None \<Rightarrow> assign | Some c \<Rightarrow> c)"

fun copy_each :: "(string \<times> copier) list \<Rightarrow> (string \<times> gval) list \<Rightarrow> (heap, (string \<times> gval) list) state" where
  "copy_each cs [] = State_Monad.return []"
| "copy_each cs ((f, v) # fs) = do {
     v' \<leftarrow> field_copier cs f v;
     fs' \<leftarrow> copy_each cs fs;
     State_Monad.return ((f, v') # fs')
   }"

fun assign_then :: "(string \<times> copier) list \<Rightarrow> copier" where
  "assign_then cs (Struct fs) = do { fs' \<leftarrow> copy_each cs fs; State_Monad.return (Struct fs') }"
| "assign_then cs v = State_Monad.return v"

text \<open>The interface value of \<open>DeepCopyObject\<close>: nil, or the pointer to the copy.\<close>

definition as_object :: "gval \<Rightarrow> gval option" where
  "as_object c = (if c = Ptr None then None else Some c)"

section \<open>Deep copies\<close>

definition extends :: "heap \<Rightarrow> heap \<Rightarrow> bool" where
  "extends h h' \<longleftrightarrow> (\<exists>xs. h' = h @ xs)"

text \<open>In \<open>h'\<close>, which adds to \<open>h\<close>, \<open>v\<close> unfolds to \<open>t\<close> through what was added only.\<close>

definition fresh_copy :: "heap \<Rightarrow> heap \<Rightarrow> gval \<Rightarrow> tree \<Rightarrow> bool" where
  "fresh_copy h h' v t \<longleftrightarrow> extends h h' \<and> denotes h' {length h..<length h'} v t"

definition copies :: "gtype \<Rightarrow> copier \<Rightarrow> bool" where
  "copies T c \<longleftrightarrow> (\<forall>h v t. typed T t \<longrightarrow> denotes h {..<length h} v t \<longrightarrow>
     fresh_copy h (snd (run_state (c v) h)) (fst (run_state (c v) h)) t)"

lemma extends_refl: "extends h h"
  by (simp add: extends_def)

lemma extends_trans: "extends h1 h2 \<Longrightarrow> extends h2 h3 \<Longrightarrow> extends h1 h3"
  by (auto simp: extends_def)

lemma extends_length: "extends h h' \<Longrightarrow> length h \<le> length h'"
  by (auto simp: extends_def)

lemma extends_cell: "extends h h' \<Longrightarrow> a < length h \<Longrightarrow> cell h' a = cell h a"
  by (auto simp: extends_def cell_def nth_append)

lemma denotes_extends: "denotes h {..<length h} v t \<Longrightarrow> extends h h' \<Longrightarrow> denotes h' {..<length h'} v t"
  using extends_length [of h h'] by (elim denotes_agree) (simp_all add: extends_cell)

lemma fresh_copy_grow:
  assumes "fresh_copy h h1 v t" "extends h1 h2"
  shows "fresh_copy h h2 v t"
proof -
  have "denotes h1 {length h..<length h1} v t" using assms(1) by (simp add: fresh_copy_def)
  then have "denotes h2 {length h..<length h2} v t"
    using extends_length [OF assms(2)] by (elim denotes_agree) (auto simp: extends_cell [OF assms(2)])
  then show ?thesis using assms extends_trans by (auto simp: fresh_copy_def)
qed

lemma fresh_copy_late:
  assumes "extends h h1" "fresh_copy h1 h2 v t"
  shows "fresh_copy h h2 v t"
proof -
  have "denotes h2 {length h1..<length h2} v t" using assms(2) by (simp add: fresh_copy_def)
  then have "denotes h2 {length h..<length h2} v t"
    using extends_length [OF assms(1)] by (elim denotes_agree) auto
  then show ?thesis using assms extends_trans by (auto simp: fresh_copy_def)
qed

lemma copiesD:
  "\<lbrakk>copies T c; typed T t; denotes h {..<length h} v t; run_state (c v) h = (v', h')\<rbrakk> \<Longrightarrow> fresh_copy h h' v' t"
  by (fastforce simp: copies_def)

lemma copiesI:
  "(\<And>h v t v' h'. \<lbrakk>typed T t; denotes h {..<length h} v t; run_state (c v) h = (v', h')\<rbrakk> \<Longrightarrow> fresh_copy h h' v' t) \<Longrightarrow>
   copies T c"
  by (simp add: copies_def)

text \<open>An assignment copies plain values.\<close>

lemma plain_denotes: "typed T t \<Longrightarrow> plain T \<Longrightarrow> denotes h B v t \<Longrightarrow> denotes h' C v t"
  and plain_fields: "typed_fields fs gs \<Longrightarrow> list_all (\<lambda>f. plain (snd f)) fs \<Longrightarrow>
    list_all2 (\<lambda>x y. fst x = fst y \<and> denotes h B (snd x) (snd y)) vs gs \<Longrightarrow>
    list_all2 (\<lambda>x y. fst x = fst y \<and> denotes h' C (snd x) (snd y)) vs gs"
proof (induction T t and fs gs arbitrary: v and vs rule: typed_typed_fields.induct)
  case (2 fs gs)
  then show ?case by (auto elim!: denotes_Node intro: denotes.struct)
qed (auto elim!: denotes_Leaf intro: denotes.prim simp: list_all2_Cons2)

lemma copies_assign: "plain T \<Longrightarrow> copies T assign"
  by (rule copiesI) (auto simp: fresh_copy_def extends_refl intro: plain_denotes)

lemma copies_ptr:
  assumes "copies T c"
  shows "copies (PtrT T) (copy_ptr c)"
proof (rule copiesI)
  fix h v t v' h'
  assume t: "typed (PtrT T) t" and v: "denotes h {..<length h} v t" and run: "run_state (copy_ptr c v) h = (v', h')"
  from t obtain x where x: "t = Ref x" by (cases t) simp_all
  show "fresh_copy h h' v' t"
  proof (cases x)
    case None
    with v x have "v = Ptr None" by (auto elim: denotes_Ref)
    with None x run show ?thesis by (auto simp: fresh_copy_def extends_refl intro: denotes.nil_ptr)
  next
    case (Some u)
    with v x obtain a w where a: "v = Ptr (Some a)" "cell h a = [w]" "denotes h {..<length h} w u"
      by (auto elim: denotes_Ref)
    obtain w' h1 where c: "run_state (c w) h = (w', h1)" by (cases "run_state (c w) h")
    with a run have out: "v' = Ptr (Some (length h1))" "h' = h1 @ [[w']]"
      by (auto simp: deref_def alloc_def)
    have "typed T u" using t x Some by simp
    then have "fresh_copy h h1 w' u" using copiesD [OF assms _ a(3) c] by simp
    moreover have "extends h1 h'" using out by (simp add: extends_def)
    ultimately have "fresh_copy h h' w' u" by (rule fresh_copy_grow)
    moreover have "length h \<le> length h1" using \<open>fresh_copy h h1 w' u\<close> extends_length by (auto simp: fresh_copy_def)
    ultimately show ?thesis
      using x Some by (auto simp: fresh_copy_def out cell_def intro!: denotes.ptr)
  qed
qed

lemma copy_all_fresh:
  assumes "copies T c"
  shows "\<lbrakk>list_all (typed T) ts; list_all2 (denotes h {..<length h}) vs ts; run_state (copy_all c vs) h = (vs', h')\<rbrakk> \<Longrightarrow>
    extends h h' \<and> list_all2 (\<lambda>v t. fresh_copy h h' v t) vs' ts"
proof (induction vs arbitrary: ts h vs' h')
  case Nil
  then show ?case by (auto simp: extends_refl)
next
  case (Cons v vs)
  obtain t ts0 where ts: "ts = t # ts0" using Cons.prems(2) by (auto simp: list_all2_Cons1)
  obtain v1 h1 where c: "run_state (c v) h = (v1, h1)" by (cases "run_state (c v) h")
  obtain vs1 h2 where cs: "run_state (copy_all c vs) h1 = (vs1, h2)" by (cases "run_state (copy_all c vs) h1")
  have out: "vs' = v1 # vs1" "h' = h2" using Cons.prems(3) c cs by simp_all
  have v1: "fresh_copy h h1 v1 t" using copiesD [OF assms _ _ c] Cons.prems(1,2) ts by simp
  then have h1: "extends h h1" by (simp add: fresh_copy_def)
  have "list_all2 (denotes h1 {..<length h1}) vs ts0"
    using Cons.prems(2) ts h1 by (auto elim!: list_all2_mono intro: denotes_extends)
  then have rest: "extends h1 h2 \<and> list_all2 (fresh_copy h1 h2) vs1 ts0"
    using Cons.IH [OF _ _ cs, of ts0] Cons.prems(1) ts by simp
  then show ?case
    using v1 h1 out ts by (auto intro: extends_trans fresh_copy_grow elim!: list_all2_mono intro: fresh_copy_late)
qed

lemma copies_slice:
  assumes "copies T c"
  shows "copies (SliceT T) (copy_slice c)"
proof (rule copiesI)
  fix h v t v' h'
  assume t: "typed (SliceT T) t" and v: "denotes h {..<length h} v t" and run: "run_state (copy_slice c v) h = (v', h')"
  from t obtain x where x: "t = Seq x" by (cases t) simp_all
  show "fresh_copy h h' v' t"
  proof (cases x)
    case None
    with v x have "v = Slice None" by (auto elim: denotes_Seq)
    with None x run show ?thesis by (auto simp: fresh_copy_def extends_refl intro: denotes.nil_slice)
  next
    case (Some ts)
    with v x obtain a off n where a: "v = Slice (Some (a, off, n))"
      "list_all2 (denotes h {..<length h}) (take n (drop off (cell h a))) ts"
      by (auto elim: denotes_Seq)
    obtain vs h1 where c: "run_state (copy_all c (take n (drop off (cell h a)))) h = (vs, h1)"
      by (cases "run_state (copy_all c (take n (drop off (cell h a)))) h")
    with a run have out: "v' = Slice (Some (length h1, 0, length vs))" "h' = h1 @ [vs]"
      by (auto simp: alloc_def)
    have "list_all (typed T) ts" using t x Some by simp
    then have copied: "extends h h1" "list_all2 (fresh_copy h h1) vs ts"
      using copy_all_fresh [OF assms _ a(2) c] by simp_all
    have "extends h1 h'" using out by (simp add: extends_def)
    then have "list_all2 (fresh_copy h h') vs ts"
      using copied(2) by (auto elim!: list_all2_mono intro: fresh_copy_grow)
    then have "list_all2 (denotes h' {length h..<length h'}) vs ts"
      by (auto elim!: list_all2_mono simp: fresh_copy_def)
    moreover have "extends h h'" using copied(1) \<open>extends h1 h'\<close> by (rule extends_trans)
    ultimately show ?thesis
      using x Some extends_length [OF copied(1)] by (auto simp: fresh_copy_def out cell_def intro!: denotes.slice)
  qed
qed

text \<open>Every field is copied as its type needs it.\<close>

definition covers :: "(string \<times> copier) list \<Rightarrow> (string \<times> gtype) list \<Rightarrow> bool" where
  "covers cs fs \<longleftrightarrow> (\<forall>(f, T)\<in>set fs. copies T (field_copier cs f))"

lemma covers_simps [simp]:
  "covers cs []"
  "covers cs ((f, T) # fs) \<longleftrightarrow> copies T (field_copier cs f) \<and> covers cs fs"
  by (simp_all add: covers_def)

lemma copy_each_fresh:
  "\<lbrakk>covers cs fs; typed_fields fs gs;
    list_all2 (\<lambda>x y. fst x = fst y \<and> denotes h {..<length h} (snd x) (snd y)) vs gs;
    run_state (copy_each cs vs) h = (vs', h')\<rbrakk> \<Longrightarrow>
   extends h h' \<and> list_all2 (\<lambda>x y. fst x = fst y \<and> fresh_copy h h' (snd x) (snd y)) vs' gs"
proof (induction vs arbitrary: fs gs h vs' h')
  case Nil
  then show ?case by (auto simp: extends_refl)
next
  case (Cons x vs)
  obtain f v where x: "x = (f, v)" by (cases x)
  then obtain t gs0 where gs: "gs = (f, t) # gs0" and v: "denotes h {..<length h} v t"
    using Cons.prems(3) by (auto simp: list_all2_Cons1)
  then obtain T fs0 where fs: "fs = (f, T) # fs0" using Cons.prems(2) by (cases fs) auto
  obtain v1 h1 where c: "run_state (field_copier cs f v) h = (v1, h1)" by (cases "run_state (field_copier cs f v) h")
  obtain vs1 h2 where cs: "run_state (copy_each cs vs) h1 = (vs1, h2)" by (cases "run_state (copy_each cs vs) h1")
  have out: "vs' = (f, v1) # vs1" "h' = h2" using Cons.prems(4) x c cs by simp_all
  have v1: "fresh_copy h h1 v1 t" using copiesD [where c = "field_copier cs f", OF _ _ v c, of T] Cons.prems(1,2) fs gs by simp
  then have h1: "extends h h1" by (simp add: fresh_copy_def)
  have "list_all2 (\<lambda>x y. fst x = fst y \<and> denotes h1 {..<length h1} (snd x) (snd y)) vs gs0"
    using Cons.prems(3) gs h1 by (auto elim!: list_all2_mono intro: denotes_extends)
  then have rest: "extends h1 h2 \<and> list_all2 (\<lambda>x y. fst x = fst y \<and> fresh_copy h1 h2 (snd x) (snd y)) vs1 gs0"
    using Cons.IH [OF _ _ _ cs, of fs0 gs0] Cons.prems(1,2) fs gs by simp
  then show ?case
    using v1 h1 out gs by (auto intro: extends_trans fresh_copy_grow elim!: list_all2_mono intro: fresh_copy_late)
qed

lemma copies_struct:
  assumes "covers cs fs"
  shows "copies (StructT fs) (assign_then cs)"
proof (rule copiesI)
  fix h v t v' h'
  assume t: "typed (StructT fs) t" and v: "denotes h {..<length h} v t" and run: "run_state (assign_then cs v) h = (v', h')"
  from t obtain gs where gs: "t = Node gs" by (cases t) simp_all
  with v obtain vs where vs: "v = Struct vs"
    "list_all2 (\<lambda>x y. fst x = fst y \<and> denotes h {..<length h} (snd x) (snd y)) vs gs"
    by (auto elim: denotes_Node)
  obtain vs' where out: "run_state (copy_each cs vs) h = (vs', h')" "v' = Struct vs'"
    using run vs(1) by (cases "run_state (copy_each cs vs) h") simp
  have "typed_fields fs gs" using t gs by simp
  then have "extends h h' \<and> list_all2 (\<lambda>x y. fst x = fst y \<and> fresh_copy h h' (snd x) (snd y)) vs' gs"
    using copy_each_fresh [OF assms _ vs(2) out(1)] by simp
  then show "fresh_copy h h' v' t"
    unfolding gs out(2) fresh_copy_def by (auto intro!: denotes.struct elim!: list_all2_mono)
qed

text \<open>A copy is not touched by writes to what existed before it.\<close>

lemma fresh_copy_isolated:
  assumes "fresh_copy h h' v t" "\<And>a. \<lbrakk>length h \<le> a; a < length h'\<rbrakk> \<Longrightarrow> cell h'' a = cell h' a"
  shows "denotes h'' {length h..<length h'} v t"
  using assms by (auto simp: fresh_copy_def intro: denotes_agree)

text \<open>The original keeps its value.\<close>

lemma fresh_copy_original:
  "fresh_copy h h' v t \<Longrightarrow> denotes h {..<length h} w u \<Longrightarrow> denotes h' {..<length h'} w u"
  by (auto simp: fresh_copy_def intro: denotes_extends)

section \<open>A reference copier\<close>

text \<open>The copy a type calls for, for types whose structs have no two fields of one name.\<close>

fun copy_of :: "gtype \<Rightarrow> copier" and copiers_of :: "(string \<times> gtype) list \<Rightarrow> (string \<times> copier) list" where
  "copy_of Basic = assign"
| "copy_of (StructT fs) = assign_then (copiers_of fs)"
| "copy_of (PtrT T) = copy_ptr (copy_of T)"
| "copy_of (SliceT T) = copy_slice (copy_of T)"
| "copiers_of [] = []"
| "copiers_of ((f, T) # fs) = (f, copy_of T) # copiers_of fs"

fun well_named :: "gtype \<Rightarrow> bool" and well_named_fields :: "(string \<times> gtype) list \<Rightarrow> bool" where
  "well_named Basic = True"
| "well_named (StructT fs) = (distinct (map fst fs) \<and> well_named_fields fs)"
| "well_named (PtrT T) = well_named T"
| "well_named (SliceT T) = well_named T"
| "well_named_fields [] = True"
| "well_named_fields ((f, T) # fs) = (well_named T \<and> well_named_fields fs)"

lemma covers_other: "f \<notin> fst ` set fs \<Longrightarrow> covers ((f, c) # cs) fs = covers cs fs"
  by (induction fs) (auto simp: field_copier_def)

lemma copies_of: "well_named T \<Longrightarrow> copies T (copy_of T)"
  and covers_of: "well_named_fields fs \<Longrightarrow> distinct (map fst fs) \<Longrightarrow> covers (copiers_of fs) fs"
proof (induction T and fs rule: copy_of_copiers_of.induct)
  case (6 f T fs)
  then show ?case by (simp add: covers_other) (simp add: field_copier_def)
qed (auto intro: copies_assign copies_struct copies_ptr copies_slice)

end
