(* ===== verification/Deep_Copy.thy ===== *)
theory Deep_Copy
  imports Go_Heap
begin

text \<open>
  \<open>src/api/v1alpha1/zz_generated.deepcopy.go\<close> and \<open>src/tekton/utils/zz_generated.deepcopy.go\<close>: the copies
  the code takes before it edits an object, so that a patch can be computed against the state before
  the edit. The types of the API are those of the \<open>types.go\<close> files; \<open>D\<close> gives the types of other
  packages, \<open>X\<close> their copy functions.
\<close>

section \<open>The types\<close>

definition Param_type :: "(string \<Rightarrow> gtype) \<Rightarrow> gtype" where
  "Param_type D = StructT [
     (''Name'', Basic), (''Value'', Basic)]"

definition CollectorItem_type :: "(string \<Rightarrow> gtype) \<Rightarrow> gtype" where
  "CollectorItem_type D = StructT [
     (''Name'', Basic), (''Timeout'', Basic), (''Type'', Basic), (''Params'', SliceT (Param_type D))]"

definition Collectors_type :: "(string \<Rightarrow> gtype) \<Rightarrow> gtype" where
  "Collectors_type D = StructT [
     (''Items'', SliceT (CollectorItem_type D)), (''Secrets'', SliceT Basic),
     (''ServiceAccountName'', Basic)]"

definition ReleaseSpec_type :: "(string \<Rightarrow> gtype) \<Rightarrow> gtype" where
  "ReleaseSpec_type D = StructT [
     (''Snapshot'', Basic), (''ReleasePlan'', Basic),
     (''Data'', PtrT (D ''runtime.RawExtension'')), (''GracePeriodDays'', Basic)]"

definition AttributionInfo_type :: "(string \<Rightarrow> gtype) \<Rightarrow> gtype" where
  "AttributionInfo_type D = StructT [
     (''Author'', Basic), (''StandingAuthorization'', Basic)]"

definition RoleBindingType_type :: "(string \<Rightarrow> gtype) \<Rightarrow> gtype" where
  "RoleBindingType_type D = StructT [
     (''TenantRoleBinding'', Basic), (''ManagedRoleBinding'', Basic), (''SecretRoleBinding'', Basic)]"

definition PipelineInfo_type :: "(string \<Rightarrow> gtype) \<Rightarrow> gtype" where
  "PipelineInfo_type D = StructT [
     (''CompletionTime'', PtrT (D ''metav1.Time'')), (''PipelineRun'', Basic),
     (''RoleBindings'', RoleBindingType_type D), (''StartTime'', PtrT (D ''metav1.Time''))]"

definition CollectorsInfo_type :: "(string \<Rightarrow> gtype) \<Rightarrow> gtype" where
  "CollectorsInfo_type D = StructT [
     (''ManagedCollectorsProcessing'', PipelineInfo_type D),
     (''TenantCollectorsProcessing'', PipelineInfo_type D)]"

definition AppliedMitigation_type :: "(string \<Rightarrow> gtype) \<Rightarrow> gtype" where
  "AppliedMitigation_type D = StructT [
     (''MemoryLimit'', Basic), (''MemoryRequest'', Basic), (''TaskTimeout'', Basic),
     (''TasksTimeout'', Basic), (''PipelinesTimeout'', Basic)]"

definition PipelineAttempt_type :: "(string \<Rightarrow> gtype) \<Rightarrow> gtype" where
  "PipelineAttempt_type D = StructT [
     (''PipelineRun'', Basic), (''RoleBindings'', RoleBindingType_type D),
     (''StartTime'', PtrT (D ''metav1.Time'')), (''CompletionTime'', PtrT (D ''metav1.Time'')),
     (''Status'', Basic), (''FailureReason'', Basic), (''LastTask'', Basic), (''LastStep'', Basic),
     (''SuccessfulTasks'', Basic), (''RetryDisabledReason'', Basic),
     (''Mitigation'', PtrT (AppliedMitigation_type D))]"

definition ValidationInfo_type :: "(string \<Rightarrow> gtype) \<Rightarrow> gtype" where
  "ValidationInfo_type D = StructT [
     (''FailedPostValidation'', Basic), (''Time'', PtrT (D ''metav1.Time''))]"

definition ReleaseStatus_type :: "(string \<Rightarrow> gtype) \<Rightarrow> gtype" where
  "ReleaseStatus_type D = StructT [
     (''Artifacts'', PtrT (D ''runtime.RawExtension'')), (''Attribution'', AttributionInfo_type D),
     (''Collectors'', PtrT (D ''runtime.RawExtension'')),
     (''Conditions'', SliceT (D ''metav1.Condition'')),
     (''CollectorsProcessing'', CollectorsInfo_type D), (''FinalProcessing'', PipelineInfo_type D),
     (''ManagedProcessing'', PipelineInfo_type D),
     (''ManagedPipelineAttempts'', SliceT (PipelineAttempt_type D)),
     (''TenantProcessing'', PipelineInfo_type D), (''Validation'', ValidationInfo_type D),
     (''Target'', Basic), (''Automated'', Basic), (''CompletionTime'', PtrT (D ''metav1.Time'')),
     (''StartTime'', PtrT (D ''metav1.Time'')), (''ExpirationTime'', PtrT (D ''metav1.Time''))]"

definition Release_type :: "(string \<Rightarrow> gtype) \<Rightarrow> gtype" where
  "Release_type D = StructT [
     (''TypeMeta'', D ''metav1.TypeMeta''), (''ObjectMeta'', D ''metav1.ObjectMeta''),
     (''Spec'', ReleaseSpec_type D), (''Status'', ReleaseStatus_type D)]"

definition ReleaseList_type :: "(string \<Rightarrow> gtype) \<Rightarrow> gtype" where
  "ReleaseList_type D = StructT [
     (''TypeMeta'', D ''metav1.TypeMeta''), (''ListMeta'', D ''metav1.ListMeta''),
     (''Items'', SliceT (Release_type D))]"

definition utils_Param_type :: "(string \<Rightarrow> gtype) \<Rightarrow> gtype" where
  "utils_Param_type D = StructT [
     (''Name'', Basic), (''Value'', Basic)]"

definition PipelineRef_type :: "(string \<Rightarrow> gtype) \<Rightarrow> gtype" where
  "PipelineRef_type D = StructT [
     (''Resolver'', Basic), (''Params'', SliceT (utils_Param_type D)), (''OciStorage'', Basic),
     (''UseEmptyDir'', Basic)]"

definition Pipeline_type :: "(string \<Rightarrow> gtype) \<Rightarrow> gtype" where
  "Pipeline_type D = StructT [
     (''PipelineRef'', PipelineRef_type D), (''ServiceAccountName'', Basic),
     (''TaskRunSpecs'', SliceT (D ''tektonv1.PipelineTaskRunSpec'')), (''MaxRetries'', PtrT Basic),
     (''Timeouts'', D ''tektonv1.TimeoutFields'')]"

definition ParameterizedPipeline_type :: "(string \<Rightarrow> gtype) \<Rightarrow> gtype" where
  "ParameterizedPipeline_type D = StructT [
     (''Pipeline'', Pipeline_type D), (''Params'', SliceT (utils_Param_type D))]"

definition ReleasePlanSpec_type :: "(string \<Rightarrow> gtype) \<Rightarrow> gtype" where
  "ReleasePlanSpec_type D = StructT [
     (''Application'', Basic), (''ComponentGroup'', Basic),
     (''Collectors'', PtrT (Collectors_type D)), (''Data'', PtrT (D ''runtime.RawExtension'')),
     (''TenantPipeline'', PtrT (ParameterizedPipeline_type D)),
     (''FinalPipeline'', PtrT (ParameterizedPipeline_type D)), (''ReleaseGracePeriodDays'', Basic),
     (''Target'', Basic)]"

definition MatchedReleasePlanAdmission_type :: "(string \<Rightarrow> gtype) \<Rightarrow> gtype" where
  "MatchedReleasePlanAdmission_type D = StructT [
     (''Name'', Basic), (''Active'', Basic)]"

definition ReleasePlanStatus_type :: "(string \<Rightarrow> gtype) \<Rightarrow> gtype" where
  "ReleasePlanStatus_type D = StructT [
     (''Conditions'', SliceT (D ''metav1.Condition'')),
     (''ReleasePlanAdmission'', MatchedReleasePlanAdmission_type D)]"

definition ReleasePlan_type :: "(string \<Rightarrow> gtype) \<Rightarrow> gtype" where
  "ReleasePlan_type D = StructT [
     (''TypeMeta'', D ''metav1.TypeMeta''), (''ObjectMeta'', D ''metav1.ObjectMeta''),
     (''Spec'', ReleasePlanSpec_type D), (''Status'', ReleasePlanStatus_type D)]"

definition ReleasePlanList_type :: "(string \<Rightarrow> gtype) \<Rightarrow> gtype" where
  "ReleasePlanList_type D = StructT [
     (''TypeMeta'', D ''metav1.TypeMeta''), (''ListMeta'', D ''metav1.ListMeta''),
     (''Items'', SliceT (ReleasePlan_type D))]"

definition ReleasePlanAdmissionSpec_type :: "(string \<Rightarrow> gtype) \<Rightarrow> gtype" where
  "ReleasePlanAdmissionSpec_type D = StructT [
     (''Applications'', SliceT Basic), (''ComponentGroups'', SliceT Basic),
     (''Collectors'', PtrT (Collectors_type D)), (''Data'', PtrT (D ''runtime.RawExtension'')),
     (''Environment'', Basic), (''Origin'', Basic), (''Pipeline'', PtrT (Pipeline_type D)),
     (''Policy'', Basic)]"

definition MatchedReleasePlan_type :: "(string \<Rightarrow> gtype) \<Rightarrow> gtype" where
  "MatchedReleasePlan_type D = StructT [
     (''Name'', Basic), (''Active'', Basic)]"

definition MemoryMitigation_type :: "(string \<Rightarrow> gtype) \<Rightarrow> gtype" where
  "MemoryMitigation_type D = StructT [
     (''Multiplier'', Basic), (''MaxComputeResources'', PtrT (D ''corev1.ResourceRequirements''))]"

definition TimeoutIncrement_type :: "(string \<Rightarrow> gtype) \<Rightarrow> gtype" where
  "TimeoutIncrement_type D = StructT [
     (''Increment'', D ''metav1.Duration''), (''MaxTimeout'', PtrT (D ''metav1.Duration''))]"

definition TimeoutMitigation_type :: "(string \<Rightarrow> gtype) \<Rightarrow> gtype" where
  "TimeoutMitigation_type D = StructT [
     (''Pipeline'', PtrT (TimeoutIncrement_type D)), (''Task'', PtrT (TimeoutIncrement_type D))]"

definition Mitigations_type :: "(string \<Rightarrow> gtype) \<Rightarrow> gtype" where
  "Mitigations_type D = StructT [
     (''OOMKill'', PtrT (MemoryMitigation_type D)), (''Timeout'', PtrT (TimeoutMitigation_type D))]"

definition RetryInfo_type :: "(string \<Rightarrow> gtype) \<Rightarrow> gtype" where
  "RetryInfo_type D = StructT [
     (''Enabled'', Basic), (''MaxRetries'', PtrT Basic),
     (''Mitigations'', PtrT (Mitigations_type D)), (''DisablingTags'', SliceT Basic),
     (''Reason'', Basic)]"

definition ReleasePlanAdmissionStatus_type :: "(string \<Rightarrow> gtype) \<Rightarrow> gtype" where
  "ReleasePlanAdmissionStatus_type D = StructT [
     (''Conditions'', SliceT (D ''metav1.Condition'')),
     (''ReleasePlans'', SliceT (MatchedReleasePlan_type D)),
     (''RetryInfo'', PtrT (RetryInfo_type D))]"

definition ReleasePlanAdmission_type :: "(string \<Rightarrow> gtype) \<Rightarrow> gtype" where
  "ReleasePlanAdmission_type D = StructT [
     (''TypeMeta'', D ''metav1.TypeMeta''), (''ObjectMeta'', D ''metav1.ObjectMeta''),
     (''Spec'', ReleasePlanAdmissionSpec_type D), (''Status'', ReleasePlanAdmissionStatus_type D)]"

definition ReleasePlanAdmissionList_type :: "(string \<Rightarrow> gtype) \<Rightarrow> gtype" where
  "ReleasePlanAdmissionList_type D = StructT [
     (''TypeMeta'', D ''metav1.TypeMeta''), (''ListMeta'', D ''metav1.ListMeta''),
     (''Items'', SliceT (ReleasePlanAdmission_type D))]"

definition EmptyDirOverrides_type :: "(string \<Rightarrow> gtype) \<Rightarrow> gtype" where
  "EmptyDirOverrides_type D = StructT [
     (''Url'', Basic), (''Revision'', Basic), (''PathInRepo'', Basic)]"

definition DisableConditions_type :: "(string \<Rightarrow> gtype) \<Rightarrow> gtype" where
  "DisableConditions_type D = StructT [
     (''Tags'', SliceT Basic)]"

definition RetryPolicy_type :: "(string \<Rightarrow> gtype) \<Rightarrow> gtype" where
  "RetryPolicy_type D = StructT [
     (''MaxRetries'', Basic), (''DisableOn'', PtrT (DisableConditions_type D)),
     (''Mitigations'', PtrT (Mitigations_type D))]"

definition RetryablePipeline_type :: "(string \<Rightarrow> gtype) \<Rightarrow> gtype" where
  "RetryablePipeline_type D = StructT [
     (''Url'', Basic), (''Revision'', Basic), (''PathInRepo'', Basic),
     (''RetryPolicy'', RetryPolicy_type D)]"

definition ReleaseServiceConfigSpec_type :: "(string \<Rightarrow> gtype) \<Rightarrow> gtype" where
  "ReleaseServiceConfigSpec_type D = StructT [
     (''Debug'', Basic), (''DefaultTimeouts'', D ''tektonv1.TimeoutFields''),
     (''EmptyDirOverrides'', SliceT (EmptyDirOverrides_type D)),
     (''RetryablePipelines'', SliceT (RetryablePipeline_type D))]"

definition ReleaseServiceConfigStatus_type :: "(string \<Rightarrow> gtype) \<Rightarrow> gtype" where
  "ReleaseServiceConfigStatus_type D = StructT []"

definition ReleaseServiceConfig_type :: "(string \<Rightarrow> gtype) \<Rightarrow> gtype" where
  "ReleaseServiceConfig_type D = StructT [
     (''TypeMeta'', D ''metav1.TypeMeta''), (''ObjectMeta'', D ''metav1.ObjectMeta''),
     (''Spec'', ReleaseServiceConfigSpec_type D), (''Status'', ReleaseServiceConfigStatus_type D)]"

definition ReleaseServiceConfigList_type :: "(string \<Rightarrow> gtype) \<Rightarrow> gtype" where
  "ReleaseServiceConfigList_type D = StructT [
     (''TypeMeta'', D ''metav1.TypeMeta''), (''ListMeta'', D ''metav1.ListMeta''),
     (''Items'', SliceT (ReleaseServiceConfig_type D))]"

section \<open>DeepCopyInto\<close>

definition Param_DeepCopyInto :: "(string \<Rightarrow> copier) \<Rightarrow> copier" where
  "Param_DeepCopyInto X = assign_then []"

definition CollectorItem_DeepCopyInto :: "(string \<Rightarrow> copier) \<Rightarrow> copier" where
  "CollectorItem_DeepCopyInto X = assign_then [
     (''Params'', copy_slice assign)]"

definition Collectors_DeepCopyInto :: "(string \<Rightarrow> copier) \<Rightarrow> copier" where
  "Collectors_DeepCopyInto X = assign_then [
     (''Items'', copy_slice (CollectorItem_DeepCopyInto X)), (''Secrets'', copy_slice assign)]"

definition ReleaseSpec_DeepCopyInto :: "(string \<Rightarrow> copier) \<Rightarrow> copier" where
  "ReleaseSpec_DeepCopyInto X = assign_then [
     (''Data'', copy_ptr (X ''runtime.RawExtension''))]"

definition AttributionInfo_DeepCopyInto :: "(string \<Rightarrow> copier) \<Rightarrow> copier" where
  "AttributionInfo_DeepCopyInto X = assign_then []"

definition RoleBindingType_DeepCopyInto :: "(string \<Rightarrow> copier) \<Rightarrow> copier" where
  "RoleBindingType_DeepCopyInto X = assign_then []"

definition PipelineInfo_DeepCopyInto :: "(string \<Rightarrow> copier) \<Rightarrow> copier" where
  "PipelineInfo_DeepCopyInto X = assign_then [
     (''CompletionTime'', copy_ptr (X ''metav1.Time'')), (''RoleBindings'', assign),
     (''StartTime'', copy_ptr (X ''metav1.Time''))]"

definition CollectorsInfo_DeepCopyInto :: "(string \<Rightarrow> copier) \<Rightarrow> copier" where
  "CollectorsInfo_DeepCopyInto X = assign_then [
     (''ManagedCollectorsProcessing'', PipelineInfo_DeepCopyInto X),
     (''TenantCollectorsProcessing'', PipelineInfo_DeepCopyInto X)]"

definition AppliedMitigation_DeepCopyInto :: "(string \<Rightarrow> copier) \<Rightarrow> copier" where
  "AppliedMitigation_DeepCopyInto X = assign_then []"

definition PipelineAttempt_DeepCopyInto :: "(string \<Rightarrow> copier) \<Rightarrow> copier" where
  "PipelineAttempt_DeepCopyInto X = assign_then [
     (''RoleBindings'', assign), (''StartTime'', copy_ptr (X ''metav1.Time'')),
     (''CompletionTime'', copy_ptr (X ''metav1.Time'')), (''Mitigation'', copy_ptr assign)]"

definition ValidationInfo_DeepCopyInto :: "(string \<Rightarrow> copier) \<Rightarrow> copier" where
  "ValidationInfo_DeepCopyInto X = assign_then [
     (''Time'', copy_ptr (X ''metav1.Time''))]"

definition ReleaseStatus_DeepCopyInto :: "(string \<Rightarrow> copier) \<Rightarrow> copier" where
  "ReleaseStatus_DeepCopyInto X = assign_then [
     (''Artifacts'', copy_ptr (X ''runtime.RawExtension'')), (''Attribution'', assign),
     (''Collectors'', copy_ptr (X ''runtime.RawExtension'')),
     (''Conditions'', copy_slice (X ''metav1.Condition'')),
     (''CollectorsProcessing'', CollectorsInfo_DeepCopyInto X),
     (''FinalProcessing'', PipelineInfo_DeepCopyInto X),
     (''ManagedProcessing'', PipelineInfo_DeepCopyInto X),
     (''ManagedPipelineAttempts'', copy_slice (PipelineAttempt_DeepCopyInto X)),
     (''TenantProcessing'', PipelineInfo_DeepCopyInto X),
     (''Validation'', ValidationInfo_DeepCopyInto X),
     (''CompletionTime'', copy_ptr (X ''metav1.Time'')),
     (''StartTime'', copy_ptr (X ''metav1.Time'')),
     (''ExpirationTime'', copy_ptr (X ''metav1.Time''))]"

definition Release_DeepCopyInto :: "(string \<Rightarrow> copier) \<Rightarrow> copier" where
  "Release_DeepCopyInto X = assign_then [
     (''TypeMeta'', assign), (''ObjectMeta'', X ''metav1.ObjectMeta''),
     (''Spec'', ReleaseSpec_DeepCopyInto X), (''Status'', ReleaseStatus_DeepCopyInto X)]"

definition ReleaseList_DeepCopyInto :: "(string \<Rightarrow> copier) \<Rightarrow> copier" where
  "ReleaseList_DeepCopyInto X = assign_then [
     (''TypeMeta'', assign), (''ListMeta'', X ''metav1.ListMeta''),
     (''Items'', copy_slice (Release_DeepCopyInto X))]"

definition PipelineRef_DeepCopyInto :: "(string \<Rightarrow> copier) \<Rightarrow> copier" where
  "PipelineRef_DeepCopyInto X = assign_then [
     (''Params'', copy_slice assign)]"

definition Pipeline_DeepCopyInto :: "(string \<Rightarrow> copier) \<Rightarrow> copier" where
  "Pipeline_DeepCopyInto X = assign_then [
     (''PipelineRef'', PipelineRef_DeepCopyInto X),
     (''TaskRunSpecs'', copy_slice (X ''tektonv1.PipelineTaskRunSpec'')),
     (''MaxRetries'', copy_ptr assign), (''Timeouts'', X ''tektonv1.TimeoutFields'')]"

definition ParameterizedPipeline_DeepCopyInto :: "(string \<Rightarrow> copier) \<Rightarrow> copier" where
  "ParameterizedPipeline_DeepCopyInto X = assign_then [
     (''Pipeline'', Pipeline_DeepCopyInto X), (''Params'', copy_slice assign)]"

definition ReleasePlanSpec_DeepCopyInto :: "(string \<Rightarrow> copier) \<Rightarrow> copier" where
  "ReleasePlanSpec_DeepCopyInto X = assign_then [
     (''Collectors'', copy_ptr (Collectors_DeepCopyInto X)),
     (''Data'', copy_ptr (X ''runtime.RawExtension'')),
     (''TenantPipeline'', copy_ptr (ParameterizedPipeline_DeepCopyInto X)),
     (''FinalPipeline'', copy_ptr (ParameterizedPipeline_DeepCopyInto X))]"

definition MatchedReleasePlanAdmission_DeepCopyInto :: "(string \<Rightarrow> copier) \<Rightarrow> copier" where
  "MatchedReleasePlanAdmission_DeepCopyInto X = assign_then []"

definition ReleasePlanStatus_DeepCopyInto :: "(string \<Rightarrow> copier) \<Rightarrow> copier" where
  "ReleasePlanStatus_DeepCopyInto X = assign_then [
     (''Conditions'', copy_slice (X ''metav1.Condition'')), (''ReleasePlanAdmission'', assign)]"

definition ReleasePlan_DeepCopyInto :: "(string \<Rightarrow> copier) \<Rightarrow> copier" where
  "ReleasePlan_DeepCopyInto X = assign_then [
     (''TypeMeta'', assign), (''ObjectMeta'', X ''metav1.ObjectMeta''),
     (''Spec'', ReleasePlanSpec_DeepCopyInto X), (''Status'', ReleasePlanStatus_DeepCopyInto X)]"

definition ReleasePlanList_DeepCopyInto :: "(string \<Rightarrow> copier) \<Rightarrow> copier" where
  "ReleasePlanList_DeepCopyInto X = assign_then [
     (''TypeMeta'', assign), (''ListMeta'', X ''metav1.ListMeta''),
     (''Items'', copy_slice (ReleasePlan_DeepCopyInto X))]"

definition ReleasePlanAdmissionSpec_DeepCopyInto :: "(string \<Rightarrow> copier) \<Rightarrow> copier" where
  "ReleasePlanAdmissionSpec_DeepCopyInto X = assign_then [
     (''Applications'', copy_slice assign), (''ComponentGroups'', copy_slice assign),
     (''Collectors'', copy_ptr (Collectors_DeepCopyInto X)),
     (''Data'', copy_ptr (X ''runtime.RawExtension'')),
     (''Pipeline'', copy_ptr (Pipeline_DeepCopyInto X))]"

definition MatchedReleasePlan_DeepCopyInto :: "(string \<Rightarrow> copier) \<Rightarrow> copier" where
  "MatchedReleasePlan_DeepCopyInto X = assign_then []"

definition MemoryMitigation_DeepCopyInto :: "(string \<Rightarrow> copier) \<Rightarrow> copier" where
  "MemoryMitigation_DeepCopyInto X = assign_then [
     (''MaxComputeResources'', copy_ptr (X ''corev1.ResourceRequirements''))]"

definition TimeoutIncrement_DeepCopyInto :: "(string \<Rightarrow> copier) \<Rightarrow> copier" where
  "TimeoutIncrement_DeepCopyInto X = assign_then [
     (''Increment'', assign), (''MaxTimeout'', copy_ptr assign)]"

definition TimeoutMitigation_DeepCopyInto :: "(string \<Rightarrow> copier) \<Rightarrow> copier" where
  "TimeoutMitigation_DeepCopyInto X = assign_then [
     (''Pipeline'', copy_ptr (TimeoutIncrement_DeepCopyInto X)),
     (''Task'', copy_ptr (TimeoutIncrement_DeepCopyInto X))]"

definition Mitigations_DeepCopyInto :: "(string \<Rightarrow> copier) \<Rightarrow> copier" where
  "Mitigations_DeepCopyInto X = assign_then [
     (''OOMKill'', copy_ptr (MemoryMitigation_DeepCopyInto X)),
     (''Timeout'', copy_ptr (TimeoutMitigation_DeepCopyInto X))]"

definition RetryInfo_DeepCopyInto :: "(string \<Rightarrow> copier) \<Rightarrow> copier" where
  "RetryInfo_DeepCopyInto X = assign_then [
     (''MaxRetries'', copy_ptr assign), (''Mitigations'', copy_ptr (Mitigations_DeepCopyInto X)),
     (''DisablingTags'', copy_slice assign)]"

definition ReleasePlanAdmissionStatus_DeepCopyInto :: "(string \<Rightarrow> copier) \<Rightarrow> copier" where
  "ReleasePlanAdmissionStatus_DeepCopyInto X = assign_then [
     (''Conditions'', copy_slice (X ''metav1.Condition'')), (''ReleasePlans'', copy_slice assign),
     (''RetryInfo'', copy_ptr (RetryInfo_DeepCopyInto X))]"

definition ReleasePlanAdmission_DeepCopyInto :: "(string \<Rightarrow> copier) \<Rightarrow> copier" where
  "ReleasePlanAdmission_DeepCopyInto X = assign_then [
     (''TypeMeta'', assign), (''ObjectMeta'', X ''metav1.ObjectMeta''),
     (''Spec'', ReleasePlanAdmissionSpec_DeepCopyInto X),
     (''Status'', ReleasePlanAdmissionStatus_DeepCopyInto X)]"

definition ReleasePlanAdmissionList_DeepCopyInto :: "(string \<Rightarrow> copier) \<Rightarrow> copier" where
  "ReleasePlanAdmissionList_DeepCopyInto X = assign_then [
     (''TypeMeta'', assign), (''ListMeta'', X ''metav1.ListMeta''),
     (''Items'', copy_slice (ReleasePlanAdmission_DeepCopyInto X))]"

definition EmptyDirOverrides_DeepCopyInto :: "(string \<Rightarrow> copier) \<Rightarrow> copier" where
  "EmptyDirOverrides_DeepCopyInto X = assign_then []"

definition DisableConditions_DeepCopyInto :: "(string \<Rightarrow> copier) \<Rightarrow> copier" where
  "DisableConditions_DeepCopyInto X = assign_then [
     (''Tags'', copy_slice assign)]"

definition RetryPolicy_DeepCopyInto :: "(string \<Rightarrow> copier) \<Rightarrow> copier" where
  "RetryPolicy_DeepCopyInto X = assign_then [
     (''DisableOn'', copy_ptr (DisableConditions_DeepCopyInto X)),
     (''Mitigations'', copy_ptr (Mitigations_DeepCopyInto X))]"

definition RetryablePipeline_DeepCopyInto :: "(string \<Rightarrow> copier) \<Rightarrow> copier" where
  "RetryablePipeline_DeepCopyInto X = assign_then [
     (''RetryPolicy'', RetryPolicy_DeepCopyInto X)]"

definition ReleaseServiceConfigSpec_DeepCopyInto :: "(string \<Rightarrow> copier) \<Rightarrow> copier" where
  "ReleaseServiceConfigSpec_DeepCopyInto X = assign_then [
     (''DefaultTimeouts'', X ''tektonv1.TimeoutFields''),
     (''EmptyDirOverrides'', copy_slice assign),
     (''RetryablePipelines'', copy_slice (RetryablePipeline_DeepCopyInto X))]"

definition ReleaseServiceConfigStatus_DeepCopyInto :: "(string \<Rightarrow> copier) \<Rightarrow> copier" where
  "ReleaseServiceConfigStatus_DeepCopyInto X = assign_then []"

definition ReleaseServiceConfig_DeepCopyInto :: "(string \<Rightarrow> copier) \<Rightarrow> copier" where
  "ReleaseServiceConfig_DeepCopyInto X = assign_then [
     (''TypeMeta'', assign), (''ObjectMeta'', X ''metav1.ObjectMeta''),
     (''Spec'', ReleaseServiceConfigSpec_DeepCopyInto X), (''Status'', assign)]"

definition ReleaseServiceConfigList_DeepCopyInto :: "(string \<Rightarrow> copier) \<Rightarrow> copier" where
  "ReleaseServiceConfigList_DeepCopyInto X = assign_then [
     (''TypeMeta'', assign), (''ListMeta'', X ''metav1.ListMeta''),
     (''Items'', copy_slice (ReleaseServiceConfig_DeepCopyInto X))]"

section \<open>DeepCopy and DeepCopyObject\<close>

definition Param_DeepCopy :: "(string \<Rightarrow> copier) \<Rightarrow> copier" where
  "Param_DeepCopy X = copy_ptr (Param_DeepCopyInto X)"

definition CollectorItem_DeepCopy :: "(string \<Rightarrow> copier) \<Rightarrow> copier" where
  "CollectorItem_DeepCopy X = copy_ptr (CollectorItem_DeepCopyInto X)"

definition Collectors_DeepCopy :: "(string \<Rightarrow> copier) \<Rightarrow> copier" where
  "Collectors_DeepCopy X = copy_ptr (Collectors_DeepCopyInto X)"

definition ReleaseSpec_DeepCopy :: "(string \<Rightarrow> copier) \<Rightarrow> copier" where
  "ReleaseSpec_DeepCopy X = copy_ptr (ReleaseSpec_DeepCopyInto X)"

definition AttributionInfo_DeepCopy :: "(string \<Rightarrow> copier) \<Rightarrow> copier" where
  "AttributionInfo_DeepCopy X = copy_ptr (AttributionInfo_DeepCopyInto X)"

definition RoleBindingType_DeepCopy :: "(string \<Rightarrow> copier) \<Rightarrow> copier" where
  "RoleBindingType_DeepCopy X = copy_ptr (RoleBindingType_DeepCopyInto X)"

definition PipelineInfo_DeepCopy :: "(string \<Rightarrow> copier) \<Rightarrow> copier" where
  "PipelineInfo_DeepCopy X = copy_ptr (PipelineInfo_DeepCopyInto X)"

definition CollectorsInfo_DeepCopy :: "(string \<Rightarrow> copier) \<Rightarrow> copier" where
  "CollectorsInfo_DeepCopy X = copy_ptr (CollectorsInfo_DeepCopyInto X)"

definition AppliedMitigation_DeepCopy :: "(string \<Rightarrow> copier) \<Rightarrow> copier" where
  "AppliedMitigation_DeepCopy X = copy_ptr (AppliedMitigation_DeepCopyInto X)"

definition PipelineAttempt_DeepCopy :: "(string \<Rightarrow> copier) \<Rightarrow> copier" where
  "PipelineAttempt_DeepCopy X = copy_ptr (PipelineAttempt_DeepCopyInto X)"

definition ValidationInfo_DeepCopy :: "(string \<Rightarrow> copier) \<Rightarrow> copier" where
  "ValidationInfo_DeepCopy X = copy_ptr (ValidationInfo_DeepCopyInto X)"

definition ReleaseStatus_DeepCopy :: "(string \<Rightarrow> copier) \<Rightarrow> copier" where
  "ReleaseStatus_DeepCopy X = copy_ptr (ReleaseStatus_DeepCopyInto X)"

definition Release_DeepCopy :: "(string \<Rightarrow> copier) \<Rightarrow> copier" where
  "Release_DeepCopy X = copy_ptr (Release_DeepCopyInto X)"

definition ReleaseList_DeepCopy :: "(string \<Rightarrow> copier) \<Rightarrow> copier" where
  "ReleaseList_DeepCopy X = copy_ptr (ReleaseList_DeepCopyInto X)"

definition PipelineRef_DeepCopy :: "(string \<Rightarrow> copier) \<Rightarrow> copier" where
  "PipelineRef_DeepCopy X = copy_ptr (PipelineRef_DeepCopyInto X)"

definition Pipeline_DeepCopy :: "(string \<Rightarrow> copier) \<Rightarrow> copier" where
  "Pipeline_DeepCopy X = copy_ptr (Pipeline_DeepCopyInto X)"

definition ParameterizedPipeline_DeepCopy :: "(string \<Rightarrow> copier) \<Rightarrow> copier" where
  "ParameterizedPipeline_DeepCopy X = copy_ptr (ParameterizedPipeline_DeepCopyInto X)"

definition ReleasePlanSpec_DeepCopy :: "(string \<Rightarrow> copier) \<Rightarrow> copier" where
  "ReleasePlanSpec_DeepCopy X = copy_ptr (ReleasePlanSpec_DeepCopyInto X)"

definition MatchedReleasePlanAdmission_DeepCopy :: "(string \<Rightarrow> copier) \<Rightarrow> copier" where
  "MatchedReleasePlanAdmission_DeepCopy X = copy_ptr (MatchedReleasePlanAdmission_DeepCopyInto X)"

definition ReleasePlanStatus_DeepCopy :: "(string \<Rightarrow> copier) \<Rightarrow> copier" where
  "ReleasePlanStatus_DeepCopy X = copy_ptr (ReleasePlanStatus_DeepCopyInto X)"

definition ReleasePlan_DeepCopy :: "(string \<Rightarrow> copier) \<Rightarrow> copier" where
  "ReleasePlan_DeepCopy X = copy_ptr (ReleasePlan_DeepCopyInto X)"

definition ReleasePlanList_DeepCopy :: "(string \<Rightarrow> copier) \<Rightarrow> copier" where
  "ReleasePlanList_DeepCopy X = copy_ptr (ReleasePlanList_DeepCopyInto X)"

definition ReleasePlanAdmissionSpec_DeepCopy :: "(string \<Rightarrow> copier) \<Rightarrow> copier" where
  "ReleasePlanAdmissionSpec_DeepCopy X = copy_ptr (ReleasePlanAdmissionSpec_DeepCopyInto X)"

definition MatchedReleasePlan_DeepCopy :: "(string \<Rightarrow> copier) \<Rightarrow> copier" where
  "MatchedReleasePlan_DeepCopy X = copy_ptr (MatchedReleasePlan_DeepCopyInto X)"

definition MemoryMitigation_DeepCopy :: "(string \<Rightarrow> copier) \<Rightarrow> copier" where
  "MemoryMitigation_DeepCopy X = copy_ptr (MemoryMitigation_DeepCopyInto X)"

definition TimeoutIncrement_DeepCopy :: "(string \<Rightarrow> copier) \<Rightarrow> copier" where
  "TimeoutIncrement_DeepCopy X = copy_ptr (TimeoutIncrement_DeepCopyInto X)"

definition TimeoutMitigation_DeepCopy :: "(string \<Rightarrow> copier) \<Rightarrow> copier" where
  "TimeoutMitigation_DeepCopy X = copy_ptr (TimeoutMitigation_DeepCopyInto X)"

definition Mitigations_DeepCopy :: "(string \<Rightarrow> copier) \<Rightarrow> copier" where
  "Mitigations_DeepCopy X = copy_ptr (Mitigations_DeepCopyInto X)"

definition RetryInfo_DeepCopy :: "(string \<Rightarrow> copier) \<Rightarrow> copier" where
  "RetryInfo_DeepCopy X = copy_ptr (RetryInfo_DeepCopyInto X)"

definition ReleasePlanAdmissionStatus_DeepCopy :: "(string \<Rightarrow> copier) \<Rightarrow> copier" where
  "ReleasePlanAdmissionStatus_DeepCopy X = copy_ptr (ReleasePlanAdmissionStatus_DeepCopyInto X)"

definition ReleasePlanAdmission_DeepCopy :: "(string \<Rightarrow> copier) \<Rightarrow> copier" where
  "ReleasePlanAdmission_DeepCopy X = copy_ptr (ReleasePlanAdmission_DeepCopyInto X)"

definition ReleasePlanAdmissionList_DeepCopy :: "(string \<Rightarrow> copier) \<Rightarrow> copier" where
  "ReleasePlanAdmissionList_DeepCopy X = copy_ptr (ReleasePlanAdmissionList_DeepCopyInto X)"

definition EmptyDirOverrides_DeepCopy :: "(string \<Rightarrow> copier) \<Rightarrow> copier" where
  "EmptyDirOverrides_DeepCopy X = copy_ptr (EmptyDirOverrides_DeepCopyInto X)"

definition DisableConditions_DeepCopy :: "(string \<Rightarrow> copier) \<Rightarrow> copier" where
  "DisableConditions_DeepCopy X = copy_ptr (DisableConditions_DeepCopyInto X)"

definition RetryPolicy_DeepCopy :: "(string \<Rightarrow> copier) \<Rightarrow> copier" where
  "RetryPolicy_DeepCopy X = copy_ptr (RetryPolicy_DeepCopyInto X)"

definition RetryablePipeline_DeepCopy :: "(string \<Rightarrow> copier) \<Rightarrow> copier" where
  "RetryablePipeline_DeepCopy X = copy_ptr (RetryablePipeline_DeepCopyInto X)"

definition ReleaseServiceConfigSpec_DeepCopy :: "(string \<Rightarrow> copier) \<Rightarrow> copier" where
  "ReleaseServiceConfigSpec_DeepCopy X = copy_ptr (ReleaseServiceConfigSpec_DeepCopyInto X)"

definition ReleaseServiceConfigStatus_DeepCopy :: "(string \<Rightarrow> copier) \<Rightarrow> copier" where
  "ReleaseServiceConfigStatus_DeepCopy X = copy_ptr (ReleaseServiceConfigStatus_DeepCopyInto X)"

definition ReleaseServiceConfig_DeepCopy :: "(string \<Rightarrow> copier) \<Rightarrow> copier" where
  "ReleaseServiceConfig_DeepCopy X = copy_ptr (ReleaseServiceConfig_DeepCopyInto X)"

definition ReleaseServiceConfigList_DeepCopy :: "(string \<Rightarrow> copier) \<Rightarrow> copier" where
  "ReleaseServiceConfigList_DeepCopy X = copy_ptr (ReleaseServiceConfigList_DeepCopyInto X)"

definition Release_DeepCopyObject :: "(string \<Rightarrow> copier) \<Rightarrow> gval \<Rightarrow> (heap, gval option) state" where
  "Release_DeepCopyObject X p = do { c \<leftarrow> Release_DeepCopy X p; State_Monad.return (as_object c) }"

definition ReleaseList_DeepCopyObject :: "(string \<Rightarrow> copier) \<Rightarrow> gval \<Rightarrow> (heap, gval option) state" where
  "ReleaseList_DeepCopyObject X p = do { c \<leftarrow> ReleaseList_DeepCopy X p; State_Monad.return (as_object c) }"

definition ReleasePlan_DeepCopyObject :: "(string \<Rightarrow> copier) \<Rightarrow> gval \<Rightarrow> (heap, gval option) state" where
  "ReleasePlan_DeepCopyObject X p = do { c \<leftarrow> ReleasePlan_DeepCopy X p; State_Monad.return (as_object c) }"

definition ReleasePlanList_DeepCopyObject :: "(string \<Rightarrow> copier) \<Rightarrow> gval \<Rightarrow> (heap, gval option) state" where
  "ReleasePlanList_DeepCopyObject X p = do { c \<leftarrow> ReleasePlanList_DeepCopy X p; State_Monad.return (as_object c) }"

definition ReleasePlanAdmission_DeepCopyObject :: "(string \<Rightarrow> copier) \<Rightarrow> gval \<Rightarrow> (heap, gval option) state" where
  "ReleasePlanAdmission_DeepCopyObject X p = do { c \<leftarrow> ReleasePlanAdmission_DeepCopy X p; State_Monad.return (as_object c) }"

definition ReleasePlanAdmissionList_DeepCopyObject :: "(string \<Rightarrow> copier) \<Rightarrow> gval \<Rightarrow> (heap, gval option) state" where
  "ReleasePlanAdmissionList_DeepCopyObject X p = do { c \<leftarrow> ReleasePlanAdmissionList_DeepCopy X p; State_Monad.return (as_object c) }"

definition ReleaseServiceConfig_DeepCopyObject :: "(string \<Rightarrow> copier) \<Rightarrow> gval \<Rightarrow> (heap, gval option) state" where
  "ReleaseServiceConfig_DeepCopyObject X p = do { c \<leftarrow> ReleaseServiceConfig_DeepCopy X p; State_Monad.return (as_object c) }"

definition ReleaseServiceConfigList_DeepCopyObject :: "(string \<Rightarrow> copier) \<Rightarrow> gval \<Rightarrow> (heap, gval option) state" where
  "ReleaseServiceConfigList_DeepCopyObject X p = do { c \<leftarrow> ReleaseServiceConfigList_DeepCopy X p; State_Monad.return (as_object c) }"

lemmas copy_defs =
  Param_DeepCopy_def CollectorItem_DeepCopy_def Collectors_DeepCopy_def ReleaseSpec_DeepCopy_def
  AttributionInfo_DeepCopy_def RoleBindingType_DeepCopy_def PipelineInfo_DeepCopy_def
  CollectorsInfo_DeepCopy_def AppliedMitigation_DeepCopy_def PipelineAttempt_DeepCopy_def
  ValidationInfo_DeepCopy_def ReleaseStatus_DeepCopy_def Release_DeepCopy_def
  ReleaseList_DeepCopy_def PipelineRef_DeepCopy_def Pipeline_DeepCopy_def
  ParameterizedPipeline_DeepCopy_def ReleasePlanSpec_DeepCopy_def
  MatchedReleasePlanAdmission_DeepCopy_def ReleasePlanStatus_DeepCopy_def
  ReleasePlan_DeepCopy_def ReleasePlanList_DeepCopy_def ReleasePlanAdmissionSpec_DeepCopy_def
  MatchedReleasePlan_DeepCopy_def MemoryMitigation_DeepCopy_def TimeoutIncrement_DeepCopy_def
  TimeoutMitigation_DeepCopy_def Mitigations_DeepCopy_def RetryInfo_DeepCopy_def
  ReleasePlanAdmissionStatus_DeepCopy_def ReleasePlanAdmission_DeepCopy_def
  ReleasePlanAdmissionList_DeepCopy_def EmptyDirOverrides_DeepCopy_def
  DisableConditions_DeepCopy_def RetryPolicy_DeepCopy_def RetryablePipeline_DeepCopy_def
  ReleaseServiceConfigSpec_DeepCopy_def ReleaseServiceConfigStatus_DeepCopy_def
  ReleaseServiceConfig_DeepCopy_def ReleaseServiceConfigList_DeepCopy_def

text \<open>Every type with its copy function.\<close>

definition deep_copies :: "(string \<Rightarrow> gtype) \<Rightarrow> (string \<Rightarrow> copier) \<Rightarrow> (gtype \<times> copier) list" where
  "deep_copies D X = [
     (Param_type D, Param_DeepCopy X), (CollectorItem_type D, CollectorItem_DeepCopy X),
     (Collectors_type D, Collectors_DeepCopy X), (ReleaseSpec_type D, ReleaseSpec_DeepCopy X),
     (AttributionInfo_type D, AttributionInfo_DeepCopy X),
     (RoleBindingType_type D, RoleBindingType_DeepCopy X),
     (PipelineInfo_type D, PipelineInfo_DeepCopy X),
     (CollectorsInfo_type D, CollectorsInfo_DeepCopy X),
     (AppliedMitigation_type D, AppliedMitigation_DeepCopy X),
     (PipelineAttempt_type D, PipelineAttempt_DeepCopy X),
     (ValidationInfo_type D, ValidationInfo_DeepCopy X),
     (ReleaseStatus_type D, ReleaseStatus_DeepCopy X), (Release_type D, Release_DeepCopy X),
     (ReleaseList_type D, ReleaseList_DeepCopy X), (PipelineRef_type D, PipelineRef_DeepCopy X),
     (Pipeline_type D, Pipeline_DeepCopy X),
     (ParameterizedPipeline_type D, ParameterizedPipeline_DeepCopy X),
     (ReleasePlanSpec_type D, ReleasePlanSpec_DeepCopy X),
     (MatchedReleasePlanAdmission_type D, MatchedReleasePlanAdmission_DeepCopy X),
     (ReleasePlanStatus_type D, ReleasePlanStatus_DeepCopy X),
     (ReleasePlan_type D, ReleasePlan_DeepCopy X),
     (ReleasePlanList_type D, ReleasePlanList_DeepCopy X),
     (ReleasePlanAdmissionSpec_type D, ReleasePlanAdmissionSpec_DeepCopy X),
     (MatchedReleasePlan_type D, MatchedReleasePlan_DeepCopy X),
     (MemoryMitigation_type D, MemoryMitigation_DeepCopy X),
     (TimeoutIncrement_type D, TimeoutIncrement_DeepCopy X),
     (TimeoutMitigation_type D, TimeoutMitigation_DeepCopy X),
     (Mitigations_type D, Mitigations_DeepCopy X), (RetryInfo_type D, RetryInfo_DeepCopy X),
     (ReleasePlanAdmissionStatus_type D, ReleasePlanAdmissionStatus_DeepCopy X),
     (ReleasePlanAdmission_type D, ReleasePlanAdmission_DeepCopy X),
     (ReleasePlanAdmissionList_type D, ReleasePlanAdmissionList_DeepCopy X),
     (EmptyDirOverrides_type D, EmptyDirOverrides_DeepCopy X),
     (DisableConditions_type D, DisableConditions_DeepCopy X),
     (RetryPolicy_type D, RetryPolicy_DeepCopy X),
     (RetryablePipeline_type D, RetryablePipeline_DeepCopy X),
     (ReleaseServiceConfigSpec_type D, ReleaseServiceConfigSpec_DeepCopy X),
     (ReleaseServiceConfigStatus_type D, ReleaseServiceConfigStatus_DeepCopy X),
     (ReleaseServiceConfig_type D, ReleaseServiceConfig_DeepCopy X),
     (ReleaseServiceConfigList_type D, ReleaseServiceConfigList_DeepCopy X)]"

section \<open>What the copy functions of other packages promise\<close>

text \<open>
  Their documentation says that they copy the receiver; \<open>TypeMeta\<close> and \<open>Duration\<close>, which the generated
  code assigns, hold no pointers.
\<close>

locale copied_packages =
  fixes D :: "string \<Rightarrow> gtype" and X :: "string \<Rightarrow> copier"
  assumes copied: "copies (D n) (X n)"
    and assigned: "plain (D ''metav1.TypeMeta'')" "plain (D ''metav1.Duration'')"
begin

lemma plain_types:
  "plain (Param_type D)"
  "plain (AttributionInfo_type D)"
  "plain (RoleBindingType_type D)"
  "plain (AppliedMitigation_type D)"
  "plain (utils_Param_type D)"
  "plain (MatchedReleasePlanAdmission_type D)"
  "plain (MatchedReleasePlan_type D)"
  "plain (EmptyDirOverrides_type D)"
  "plain (ReleaseServiceConfigStatus_type D)"
  by (simp_all add: Param_type_def AttributionInfo_type_def RoleBindingType_type_def AppliedMitigation_type_def utils_Param_type_def MatchedReleasePlanAdmission_type_def MatchedReleasePlan_type_def EmptyDirOverrides_type_def ReleaseServiceConfigStatus_type_def)

lemmas copy_rules = copies_ptr copies_slice copies_struct copies_assign copied assigned plain_types field_copier_def

lemma copies_1:
  "copies (Param_type D) (Param_DeepCopyInto X)"
  "copies (ReleaseSpec_type D) (ReleaseSpec_DeepCopyInto X)"
  "copies (AttributionInfo_type D) (AttributionInfo_DeepCopyInto X)"
  "copies (RoleBindingType_type D) (RoleBindingType_DeepCopyInto X)"
  "copies (AppliedMitigation_type D) (AppliedMitigation_DeepCopyInto X)"
  "copies (ValidationInfo_type D) (ValidationInfo_DeepCopyInto X)"
  "copies (MatchedReleasePlanAdmission_type D) (MatchedReleasePlanAdmission_DeepCopyInto X)"
  "copies (MatchedReleasePlan_type D) (MatchedReleasePlan_DeepCopyInto X)"
  "copies (MemoryMitigation_type D) (MemoryMitigation_DeepCopyInto X)"
  "copies (TimeoutIncrement_type D) (TimeoutIncrement_DeepCopyInto X)"
  "copies (EmptyDirOverrides_type D) (EmptyDirOverrides_DeepCopyInto X)"
  "copies (DisableConditions_type D) (DisableConditions_DeepCopyInto X)"
  "copies (ReleaseServiceConfigStatus_type D) (ReleaseServiceConfigStatus_DeepCopyInto X)"
  unfolding Param_type_def Param_DeepCopyInto_def ReleaseSpec_type_def ReleaseSpec_DeepCopyInto_def
    AttributionInfo_type_def AttributionInfo_DeepCopyInto_def RoleBindingType_type_def
    RoleBindingType_DeepCopyInto_def AppliedMitigation_type_def
    AppliedMitigation_DeepCopyInto_def ValidationInfo_type_def
    ValidationInfo_DeepCopyInto_def MatchedReleasePlanAdmission_type_def
    MatchedReleasePlanAdmission_DeepCopyInto_def MatchedReleasePlan_type_def
    MatchedReleasePlan_DeepCopyInto_def MemoryMitigation_type_def
    MemoryMitigation_DeepCopyInto_def TimeoutIncrement_type_def
    TimeoutIncrement_DeepCopyInto_def EmptyDirOverrides_type_def
    EmptyDirOverrides_DeepCopyInto_def DisableConditions_type_def
    DisableConditions_DeepCopyInto_def ReleaseServiceConfigStatus_type_def
    ReleaseServiceConfigStatus_DeepCopyInto_def
  by (simp_all add: copy_rules)

lemma copies_2:
  "copies (CollectorItem_type D) (CollectorItem_DeepCopyInto X)"
  "copies (PipelineInfo_type D) (PipelineInfo_DeepCopyInto X)"
  "copies (PipelineAttempt_type D) (PipelineAttempt_DeepCopyInto X)"
  "copies (PipelineRef_type D) (PipelineRef_DeepCopyInto X)"
  "copies (ReleasePlanStatus_type D) (ReleasePlanStatus_DeepCopyInto X)"
  "copies (TimeoutMitigation_type D) (TimeoutMitigation_DeepCopyInto X)"
  unfolding CollectorItem_type_def CollectorItem_DeepCopyInto_def PipelineInfo_type_def
    PipelineInfo_DeepCopyInto_def PipelineAttempt_type_def PipelineAttempt_DeepCopyInto_def
    PipelineRef_type_def PipelineRef_DeepCopyInto_def ReleasePlanStatus_type_def
    ReleasePlanStatus_DeepCopyInto_def TimeoutMitigation_type_def
    TimeoutMitigation_DeepCopyInto_def
  by (simp_all add: copy_rules copies_1)

lemma copies_3:
  "copies (Collectors_type D) (Collectors_DeepCopyInto X)"
  "copies (CollectorsInfo_type D) (CollectorsInfo_DeepCopyInto X)"
  "copies (Pipeline_type D) (Pipeline_DeepCopyInto X)"
  "copies (Mitigations_type D) (Mitigations_DeepCopyInto X)"
  unfolding Collectors_type_def Collectors_DeepCopyInto_def CollectorsInfo_type_def
    CollectorsInfo_DeepCopyInto_def Pipeline_type_def Pipeline_DeepCopyInto_def
    Mitigations_type_def Mitigations_DeepCopyInto_def
  by (simp_all add: copy_rules copies_1 copies_2)

lemma copies_4:
  "copies (ReleaseStatus_type D) (ReleaseStatus_DeepCopyInto X)"
  "copies (ParameterizedPipeline_type D) (ParameterizedPipeline_DeepCopyInto X)"
  "copies (ReleasePlanAdmissionSpec_type D) (ReleasePlanAdmissionSpec_DeepCopyInto X)"
  "copies (RetryInfo_type D) (RetryInfo_DeepCopyInto X)"
  "copies (RetryPolicy_type D) (RetryPolicy_DeepCopyInto X)"
  unfolding ReleaseStatus_type_def ReleaseStatus_DeepCopyInto_def ParameterizedPipeline_type_def
    ParameterizedPipeline_DeepCopyInto_def ReleasePlanAdmissionSpec_type_def
    ReleasePlanAdmissionSpec_DeepCopyInto_def RetryInfo_type_def RetryInfo_DeepCopyInto_def
    RetryPolicy_type_def RetryPolicy_DeepCopyInto_def
  by (simp_all add: copy_rules copies_1 copies_2 copies_3)

lemma copies_5:
  "copies (Release_type D) (Release_DeepCopyInto X)"
  "copies (ReleasePlanSpec_type D) (ReleasePlanSpec_DeepCopyInto X)"
  "copies (ReleasePlanAdmissionStatus_type D) (ReleasePlanAdmissionStatus_DeepCopyInto X)"
  "copies (RetryablePipeline_type D) (RetryablePipeline_DeepCopyInto X)"
  unfolding Release_type_def Release_DeepCopyInto_def ReleasePlanSpec_type_def
    ReleasePlanSpec_DeepCopyInto_def ReleasePlanAdmissionStatus_type_def
    ReleasePlanAdmissionStatus_DeepCopyInto_def RetryablePipeline_type_def
    RetryablePipeline_DeepCopyInto_def
  by (simp_all add: copy_rules copies_1 copies_2 copies_3 copies_4)

lemma copies_6:
  "copies (ReleaseList_type D) (ReleaseList_DeepCopyInto X)"
  "copies (ReleasePlan_type D) (ReleasePlan_DeepCopyInto X)"
  "copies (ReleasePlanAdmission_type D) (ReleasePlanAdmission_DeepCopyInto X)"
  "copies (ReleaseServiceConfigSpec_type D) (ReleaseServiceConfigSpec_DeepCopyInto X)"
  unfolding ReleaseList_type_def ReleaseList_DeepCopyInto_def ReleasePlan_type_def
    ReleasePlan_DeepCopyInto_def ReleasePlanAdmission_type_def
    ReleasePlanAdmission_DeepCopyInto_def ReleaseServiceConfigSpec_type_def
    ReleaseServiceConfigSpec_DeepCopyInto_def
  by (simp_all add: copy_rules copies_1 copies_2 copies_3 copies_4 copies_5)

lemma copies_7:
  "copies (ReleasePlanList_type D) (ReleasePlanList_DeepCopyInto X)"
  "copies (ReleasePlanAdmissionList_type D) (ReleasePlanAdmissionList_DeepCopyInto X)"
  "copies (ReleaseServiceConfig_type D) (ReleaseServiceConfig_DeepCopyInto X)"
  unfolding ReleasePlanList_type_def ReleasePlanList_DeepCopyInto_def
    ReleasePlanAdmissionList_type_def ReleasePlanAdmissionList_DeepCopyInto_def
    ReleaseServiceConfig_type_def ReleaseServiceConfig_DeepCopyInto_def
  by (simp_all add: copy_rules copies_1 copies_2 copies_3 copies_4 copies_5 copies_6)

lemma copies_8:
  "copies (ReleaseServiceConfigList_type D) (ReleaseServiceConfigList_DeepCopyInto X)"
  unfolding ReleaseServiceConfigList_type_def ReleaseServiceConfigList_DeepCopyInto_def
  by (simp_all add: copy_rules copies_1 copies_2 copies_3 copies_4 copies_5 copies_6 copies_7)

lemma all_copy: "list_all (\<lambda>(T, c). copies (PtrT T) c) (deep_copies D X)"
  by (simp add: deep_copies_def copy_defs copies_ptr copies_1 copies_2 copies_3 copies_4 copies_5 copies_6 copies_7 copies_8)

end

section \<open>Copies are isolated\<close>

text \<open>
  C17. A copy is independent of its original. For every API type, \<open>DeepCopy\<close> of a pointer leaves the
  memory that exists as it is and returns a pointer to the same value (nil for nil), which stays the
  same whatever is written to the original afterwards: no pointer or slice of any field is shared.
\<close>

theorem deep_copy_isolated:
  assumes "copied_packages D X" "(T, c) \<in> set (deep_copies D X)"
    and "typed (PtrT T) t" "denotes h {..<length h} p t" "run_state (c p) h = (p', h')"
    and "\<And>a. \<lbrakk>length h \<le> a; a < length h'\<rbrakk> \<Longrightarrow> cell h'' a = cell h' a"
  shows "take (length h) h' = h \<and> denotes h' {..<length h'} p t \<and> denotes h'' {length h..<length h'} p' t"
proof -
  have "copies (PtrT T) c" using copied_packages.all_copy [OF assms(1)] assms(2) by (auto simp: list_all_iff)
  then have copy: "fresh_copy h h' p' t" using copiesD assms(3-5) by blast
  then have "take (length h) h' = h" by (auto simp: fresh_copy_def extends_def)
  then show ?thesis using fresh_copy_isolated [OF copy assms(6)] fresh_copy_original [OF copy assms(4)] by simp
qed

text \<open>
  Types of other packages, with the fields the service uses, a map as a pointer to its entries. For them
  the reference copier is a copy function as promised.
\<close>

definition entries_type :: gtype where
  "entries_type = PtrT (SliceT (StructT [(''key'', Basic), (''value'', Basic)]))"

definition package_types :: "string \<Rightarrow> gtype" where
  "package_types n =
     (case map_of [
        (''metav1.TypeMeta'', StructT [(''Kind'', Basic), (''APIVersion'', Basic)]),
        (''metav1.ObjectMeta'', StructT [(''Name'', Basic), (''GenerateName'', Basic), (''Namespace'', Basic),
           (''CreationTimestamp'', Basic), (''DeletionTimestamp'', PtrT Basic), (''Labels'', entries_type),
           (''Annotations'', entries_type), (''Finalizers'', SliceT Basic)]),
        (''metav1.ListMeta'', StructT [(''ResourceVersion'', Basic), (''RemainingItemCount'', PtrT Basic)]),
        (''metav1.Condition'', StructT [(''Type'', Basic), (''Status'', Basic), (''LastTransitionTime'', Basic),
           (''Reason'', Basic), (''Message'', Basic)]),
        (''runtime.RawExtension'', StructT [(''Raw'', SliceT Basic)]),
        (''tektonv1.TimeoutFields'', StructT [(''Pipeline'', PtrT Basic), (''Tasks'', PtrT Basic),
           (''Finally'', PtrT Basic)]),
        (''corev1.ResourceRequirements'', StructT [(''Limits'', entries_type), (''Requests'', entries_type)])] n
      of None \<Rightarrow> Basic | Some T \<Rightarrow> T)"

lemma package_types_named: "well_named (package_types n)"
  unfolding package_types_def entries_type_def by (auto split: option.splits if_splits)

interpretation reference_packages: copied_packages package_types "\<lambda>n. copy_of (package_types n)"
  by unfold_locales (simp add: copies_of package_types_named, simp_all add: package_types_def)

text \<open>An attempt with a start time and a mitigation, and what it denotes.\<close>

definition attempt_value :: gval where
  "attempt_value = Struct [(''PipelineRun'', Prim ''managed-0''),
     (''RoleBindings'', Struct [(''TenantRoleBinding'', Prim ''dev/rb''), (''ManagedRoleBinding'', Prim []),
        (''SecretRoleBinding'', Prim [])]),
     (''StartTime'', Ptr (Some 0)), (''CompletionTime'', Ptr None), (''Status'', Prim ''Progressing''),
     (''FailureReason'', Prim []), (''LastTask'', Prim []), (''LastStep'', Prim []),
     (''SuccessfulTasks'', Prim ''0''), (''RetryDisabledReason'', Prim []), (''Mitigation'', Ptr (Some 1))]"

definition mitigation_value :: "string \<Rightarrow> gval" where
  "mitigation_value limit = Struct [(''MemoryLimit'', Prim limit), (''MemoryRequest'', Prim []),
     (''TaskTimeout'', Prim []), (''TasksTimeout'', Prim []), (''PipelinesTimeout'', Prim [])]"

definition attempt_heap :: heap where
  "attempt_heap = [[Prim ''12:00''], [mitigation_value ''2Gi''], [attempt_value]]"

definition attempt_tree :: tree where
  "attempt_tree = Ref (Some (Node [(''PipelineRun'', Leaf ''managed-0''),
     (''RoleBindings'', Node [(''TenantRoleBinding'', Leaf ''dev/rb''), (''ManagedRoleBinding'', Leaf []),
        (''SecretRoleBinding'', Leaf [])]),
     (''StartTime'', Ref (Some (Leaf ''12:00''))), (''CompletionTime'', Ref None), (''Status'', Leaf ''Progressing''),
     (''FailureReason'', Leaf []), (''LastTask'', Leaf []), (''LastStep'', Leaf []),
     (''SuccessfulTasks'', Leaf ''0''), (''RetryDisabledReason'', Leaf []),
     (''Mitigation'', Ref (Some (Node [(''MemoryLimit'', Leaf ''2Gi''), (''MemoryRequest'', Leaf []),
        (''TaskTimeout'', Leaf []), (''TasksTimeout'', Leaf []), (''PipelinesTimeout'', Leaf [])])))]))"

text \<open>The memory limit of the original is raised after the copy was taken.\<close>

theorem deep_copy_isolated_witness:
  "denotes ((snd (run_state (PipelineAttempt_DeepCopy (\<lambda>n. copy_of (package_types n)) (Ptr (Some 2))) attempt_heap))
     [1 := [mitigation_value ''4Gi'']]) {3..<6} (Ptr (Some 5)) attempt_tree"
proof -
  let ?X = "\<lambda>n. copy_of (package_types n)"
  let ?run = "run_state (PipelineAttempt_DeepCopy ?X (Ptr (Some 2))) attempt_heap"
  have "fst ?run = Ptr (Some 5)" "length (snd ?run) = 6" "length attempt_heap = 3" by code_simp+
  moreover have "denotes attempt_heap {..<3} (Ptr (Some 2)) attempt_tree"
    unfolding attempt_tree_def attempt_heap_def attempt_value_def mitigation_value_def
    by (auto intro!: denotes.intros simp: cell_def)
  moreover have "typed (PtrT (PipelineAttempt_type package_types)) attempt_tree" by code_simp
  moreover have "(PipelineAttempt_type package_types, PipelineAttempt_DeepCopy ?X) \<in> set (deep_copies package_types ?X)"
    by (simp add: deep_copies_def)
  ultimately show ?thesis
    using deep_copy_isolated [OF reference_packages.copied_packages_axioms, of _ "PipelineAttempt_DeepCopy ?X" attempt_tree
        attempt_heap "Ptr (Some 2)" "Ptr (Some 5)" "snd ?run" "(snd ?run)[1 := [mitigation_value ''4Gi'']]"]
    by (simp add: prod_eq_iff cell_def)
qed

end
