(* ===== verification/Spec2Isabelle.thy ===== *)
theory Spec2Isabelle
  imports Adapter_Errors Run_Deletion Binding_Cleanup Start_Order Demo_Runs Lifecycle_Bound Indexed_Lookups Deep_Copy
begin

text \<open>
  The Konflux release service, a Kubernetes operator: a user creates a \<open>Release\<close> that names a
  Snapshot and a \<open>ReleasePlan\<close>; a \<open>ReleasePlanAdmission\<close> in the target namespace admits it; the
  operator runs up to five Tekton pipelines for it (tenant collectors, managed collectors, tenant,
  managed with retries, final), records their state as conditions in the status of the Release,
  and cleans up behind them. Paths below are under \<open>src/\<close>.

  \<^bold>\<open>Theories and code.\<close>

  \<^item> \<open>Prelude\<close>: named theorem collections, the weakest-precondition and frame rules for the state
    monad, shared lemmas on maps, lists and strings. \<open>Api_Error\<close>: errors as records with their
    API class, network kind and sentinels, and the tests on them (\<open>loader.IsRetriable\<close> and the error
    variables of \<open>loader/loader.go\<close>).
  \<^item> \<open>Conditions\<close>: the condition helpers of the operator toolkit as a parameter (\<open>conditions_lib\<close>),
    their documented behaviour as locale \<open>conditions_api\<close>, an instance of it.
  \<^item> \<open>Release_Types\<close>: \<open>api/v1alpha1/release_types.go\<close> and \<open>release_conditions.go\<close>, the data of a Release
    and all its query and status methods; a status method returns the new Release and the metrics it
    registers. \<open>Release_Phases\<close>: each phase as a state machine (absent, in progress, succeeded,
    failed, skipped), the methods of all phases as instances of the locales \<open>startable_phase\<close> and
    \<open>pipeline_phase\<close>. \<open>Release_Lifecycle\<close>: the abstract lifecycle of a whole Release as a step
    relation, with its invariant \<open>consistent\<close>.
  \<^item> \<open>Metadata\<close>: \<open>metadata/\<close>. \<open>Plan_Types\<close>: \<open>ReleasePlan\<close>, \<open>ReleasePlanAdmission\<close>,
    \<open>ReleaseServiceConfig\<close> with their methods and the pipeline references of
    \<open>tekton/utils/pipeline.go\<close>. \<open>Timeouts\<close>: \<open>AdjustTimeouts\<close> of the same file. \<open>Tekton\<close>:
    \<open>tekton/utils.go\<close> and \<open>tekton/predicates.go\<close>. \<open>PipelineRun_Builder\<close>:
    \<open>tekton/utils/pipeline_run_builder.go\<close>.
  \<^item> \<open>Retry_Matcher\<close> and \<open>Retry_Mitigations\<close>: \<open>retry/matcher.go\<close> and \<open>retry/mitigations.go\<close>, the latter
    over \<open>Float64\<close>, the double-precision product the code computes. \<open>Git_References\<close>:
    \<open>git/references.go\<close>. \<open>KubeArchive\<close>: \<open>kubearchive/client.go\<close>. \<open>Loader\<close>: \<open>loader/loader.go\<close>.
  \<^item> \<open>Client\<close>: everything the service calls and does not contain, as the records \<open>lib\<close> and \<open>env\<close>:
    the Kubernetes API, the clock, HTTP, the git remote, third-party functions.
  \<^item> \<open>Adapter_State\<close>, \<open>Adapter_Create\<close>, \<open>Adapter_Register\<close>, \<open>Adapter_Processing\<close>, \<open>Adapter_Cleanup\<close>,
    \<open>Adapter_Lifecycle\<close>: \<open>controllers/release/adapter.go\<close> and \<open>utils.go\<close>, every operation of the
    Release adapter as a state transformer over the adapter record and the world, every early
    return, error and nil dereference (\<open>Panic\<close>) a branch. \<open>Release_Controller\<close>:
    \<open>controllers/release/controller.go\<close>, the order of the operations, and the toolkit's
    \<open>ReconcileHandler\<close> as locale \<open>toolkit_api\<close>. \<open>Release_Watches\<close>: its \<open>Register\<close> with the watch of
    the PipelineRuns, over \<open>Run_Metadata\<close>, what the labels and the owner annotations of a run say.
  \<^item> \<open>Plan_Controllers\<close>: \<open>controllers/releaseplan\<close> and \<open>controllers/releaseplanadmission\<close>.
    \<open>Watch_Events\<close>: \<open>controllers/utils/predicates\<close> and \<open>controllers/utils/handlers\<close>. \<open>Plan_Watches\<close>:
    the watches the two plan controllers register.
  \<^item> \<open>Webhooks\<close>: the four webhooks under \<open>api/v1alpha1/webhooks\<close>, over \<open>Utf8\<close>, decoding of runes from
    bytes. \<open>Metrics\<close>: \<open>metrics/release.go\<close>, the collectors and what is registered with them.
    \<open>Tracing\<close>: \<open>tracing/\<close>. \<open>Syncer\<close>: \<open>syncer/syncer.go\<close>.
  \<^item> \<open>Start_Up\<close> and \<open>Start_Order\<close>: \<open>main.go\<close>, \<open>controllers/controllers.go\<close>, the webhook set-up, \<open>cache/cache.go\<close>
    and the \<open>SetupCache\<close> and \<open>Register\<close> methods it calls: the options of the manager, the order of the
    calls, the branches that exit. \<open>Indexed_Lookups\<close>: the lists of the loader over the indexes declared there.
  \<^item> \<open>Go_Heap\<close> and \<open>Deep_Copy\<close>: memory cells with pointers and slices, and over them the copy functions
    of both \<open>zz_generated.deepcopy.go\<close> with the shapes of the types they copy. All other theories treat
    objects as values, which is right because copies share no memory with their originals.

  \<^bold>\<open>Interfaces.\<close> \<open>conditions_api\<close> (what setting and finding a
  condition do; \<open>timed_conditions\<close> adds the transition time),
  \<open>quiet_reads\<close> (reads change nothing), extended by \<open>quiet_calls\<close> (nor does creating
  Roles and RoleBindings, if they are not observed), \<open>release_store\<close> (in
  \<open>Adapter_Frames\<close>: a read returns the stored status, a status patch writes the fields
  that differ from its base, no other call writes the conditions and attempts of this Release) and
  \<open>run_store\<close> (in \<open>Adapter_Runs\<close>: a create adds one PipelineRun with
  the labels and annotations asked for), \<open>cleanup_frame\<close> (in \<open>Cleanup_Logic\<close>:
  rules for clean-ups over an observation that only moves down an order), extended by
  \<open>run_deletion\<close> (in \<open>Run_Deletion\<close>: how runs are found, patched and deleted)
  and \<open>binding_deletion\<close> (in \<open>Binding_Cleanup\<close>: how RoleBindings are found and
  deleted), \<open>indexed_cache\<close> (in
  \<open>Indexed_Lookups\<close>: a list by field answers from the index function of that field;
  \<open>named_cache\<close> adds the read by name),
  \<open>copied_packages\<close> (in \<open>Deep_Copy\<close>: the types of other packages are copied
  without sharing), \<open>toolkit_api\<close>
  (operations run in order until one does not continue), \<open>sorter_api\<close>
  (\<open>sort.Slice\<close> returns a sorted permutation), \<open>codec_api\<close> (labels
  survive encoding), \<open>owner_handler\<close> (an event on an object enqueues the owner its
  annotations name, and annotations added to it make no difference), \<open>startup_api\<close> (a set-up call that returns no error has taken
  effect). All are assumptions on code outside the repository. \<open>Cluster\<close> interprets
  \<open>release_store\<close> on a cluster kept in lists, \<open>Adapter_Runs\<close>
  \<open>run_store\<close>, \<open>Run_Deletion\<close> \<open>run_deletion\<close>,
  \<open>Binding_Cleanup\<close> \<open>binding_deletion\<close>, \<open>Release_Watches\<close>
  \<open>owner_handler\<close> and \<open>Indexed_Lookups\<close> \<open>indexed_cache\<close> and
  \<open>named_cache\<close> on the same;
  \<open>Start_Order\<close> interprets \<open>startup_api\<close> on a manager that logs its
  calls, \<open>Deep_Copy\<close> \<open>copied_packages\<close> on the reference copier;
  \<open>Conditions\<close>, \<open>Release_Controller\<close>, \<open>Plan_Watches\<close>, \<open>Demo_Runs\<close> and \<open>Webhooks\<close> interpret the others.

  \<^bold>\<open>What is shown.\<close> \<open>Adapter_Frames\<close> shows which computations
  leave the stored status alone, \<open>Adapter_Refinement\<close> that each operation writes it
  only by lifecycle steps, \<open>Reconcile_Refinement\<close> composes them to the whole
  reconcile. This theory draws the consequences over histories of reconciles: consistency, released
  only if every phase ended without failure, results that never change, at most twelve changes of
  state in all (counted in \<open>Lifecycle_Bound\<close>). \<open>Adapter_Retry\<close>: when the
  managed pipeline is retried. \<open>Adapter_Errors\<close>: how creation errors end a phase.
  \<open>Adapter_Tracking\<close>: what is stored once a run has ended.
  \<open>Adapter_Runs\<close>: no PipelineRun is created twice, no retry either.
  \<open>Run_Deletion\<close>: a deleted Release leaves none of them behind,
  \<open>Binding_Cleanup\<close>: and none of the RoleBindings its status refers to, unless the managed
  pipeline failed to start and its RoleBinding is recorded without an attempt; and a RoleBinding that is recorded
  in the status is found again under its name.
  \<open>Release_Watches\<close>: the end of a run the service created wakes its Release, and no
  other. \<open>Start_Up\<close>: such a run passes the filter of the cache.
  \<open>Start_Order\<close>: the manager starts only with everything set up.
  \<open>Indexed_Lookups\<close>: what the loader finds by index, said of the objects in the store.
  \<open>Deep_Copy\<close>: a deep copy is equal to its original and isolated from it.
  \<open>PipelineRun_Builder\<close>: the GitHub token is sent to GitHub only.
  \<open>Release_Properties\<close>: the status methods, the loader, git references, the archive
  and deletion. \<open>Plan_Matching\<close>, \<open>Plan_Watches\<close> and
  \<open>Watch_Events\<close>: the plan controllers settle, what one writes reaches the other, and
  the events they ignore do not matter to them. \<open>Webhooks\<close>: authors and identity of a
  Release are fixed. \<open>Metrics\<close>, \<open>Tracing\<close>, \<open>Retry_Matcher\<close>,
  \<open>Retry_Mitigations\<close>, \<open>Timeouts\<close>: as their claims say.
  \<open>Demo_Runs\<close> and \<open>Cluster\<close> hold concrete runs.

  \<^bold>\<open>Representation and bounds.\<close> Durations and grace periods are integers with the 64-bit wrap-around
  written out where the code multiplies (\<open>wrap64\<close>); strings are byte lists, and the case and space functions of \<open>strings\<close>
  (\<open>TrimSpace\<close>, \<open>EqualFold\<close>, \<open>ToLower\<close>) are modelled on ASCII, where the values they are applied to
  live (labels, URLs, sizes, error texts): a letter or space outside ASCII is not folded or trimmed; maps that may be nil are
  optional maps; a slice field that the code compares with nil or with \<open>reflect.DeepEqual\<close> tells nil
  and empty apart (\<open>slice\<close>), and the other slices, those nested in a compared struct (parameters of
  a pipeline, finalizers) among them, merge the two. Every function is total: loops over slices are
  structural, the git retries are bounded by the code (three retries), so no fuel is used.
  Metrics are returned in call order, although the code registers them in goroutines. A panic ends
  the reconcile as the toolkit would see it. What is shown of the stored status supposes that a reconcile
  reads the status last written (\<open>release_store\<close>), although the client of the manager reads from a cache that
  may lag behind.

  \<^bold>\<open>Not modelled.\<close> The scheme registration (\<open>groupversion_info.go\<close> and the \<open>init\<close> functions), the
  command line flag parser (its results are the arguments of \<open>main\<close>), \<open>loader_mock.go\<close>,
  \<open>coverage_init.go\<close> and \<open>e2e-tests\<close> (tests), logging, contexts and their cancellation.
\<close>

section \<open>Histories of a Release\<close>

text \<open>
  What happens to one Release over time: its reconciles, one after the other (the controller
  never runs two reconciles of one object at once), interleaved with anything that does not write
  the conditions and attempts of its status.
\<close>

inductive history ::
  "'w env \<Rightarrow> 'w adapter toolkit \<Rightarrow> ('w \<Rightarrow> status_view) \<Rightarrow> string \<Rightarrow> string \<Rightarrow> 'w \<Rightarrow> 'w \<Rightarrow> bool"
  for E T stored name namespace where
  nothing: "history E T stored name namespace w w"
| reconcile: "\<lbrakk>history E T stored name namespace w w1;
    w2 = snd (run_state (Reconcile E T name namespace) w1)\<rbrakk> \<Longrightarrow> history E T stored name namespace w w2"
| others: "\<lbrakk>history E T stored name namespace w w1; stored w2 = stored w1\<rbrakk> \<Longrightarrow>
    history E T stored name namespace w w2"

abbreviation status_phases :: "'w env \<Rightarrow> ('w \<Rightarrow> status_view) \<Rightarrow> 'w \<Rightarrow> phases" where
  "status_phases E stored w \<equiv> view_phases (conds E) (stored w)"

lemma reconcile_steps:
  assumes "release_store E stored name namespace" "toolkit_api T" "consistent (status_phases E stored w)"
  shows "release_steps (status_phases E stored w)
    (status_phases E stored (snd (run_state (Reconcile E T name namespace) w)))"
  using release_store.wp_Reconcile [OF assms] by (simp add: wp_def case_prod_beta)

lemma history_steps:
  assumes "history E T stored name namespace w w'"
    and "release_store E stored name namespace" "toolkit_api T" "consistent (status_phases E stored w)"
  shows "release_steps (status_phases E stored w) (status_phases E stored w')"
  using assms
proof (induction rule: history.induct)
  case (reconcile w w1 w2)
  then have steps: "release_steps (status_phases E stored w) (status_phases E stored w1)" by blast
  then have "consistent (status_phases E stored w1)"
    using reconcile.prems release_steps_consistent by blast
  then have "release_steps (status_phases E stored w1) (status_phases E stored w2)"
    using reconcile_steps [OF reconcile.prems(1,2)] reconcile.hyps(2) by blast
  with steps show ?case by (rule rtranclp_trans)
qed (auto simp: view_phases_def)

section \<open>The properties\<close>

text \<open>
  C1. Every reconcile of the Release controller, whatever the cluster answers and wherever it
  stops, moves the stored status of the Release by steps of the abstract lifecycle only: phases
  start in order, a failed phase fails the Release in the same write, a Release is completed only
  after its final phase.
\<close>

theorem Reconcile_refines_lifecycle:
  assumes "release_store E stored name namespace" "toolkit_api T"
    and "consistent (view_phases (conds E) (stored w))"
  shows "release_steps (view_phases (conds E) (stored w))
    (view_phases (conds E) (stored (snd (run_state (Reconcile E T name namespace) w))))"
  using assms by (rule reconcile_steps)

theorem Reconcile_refines_lifecycle_witness:
  "release_steps (\<lambda>_. Absent) (view_phases status_conditions (cluster_view
     (snd (run_state (Reconcile cluster_env standard_toolkit ''release'' ''dev'') demo_cluster))))"
  using Reconcile_refines_lifecycle [OF cluster_release_store standard_toolkit.toolkit_api_axioms,
      where w = demo_cluster and name = "''release''" and namespace = "''dev''"]
  by (simp add: consistent_initial)

text \<open>
  C2. From a new Release, over any history, the stored status stays consistent: no phase is marked
  before the previous one ended, none before the Release runs, a failed phase means a failed
  Release, and a released Release has ended its final phase without failure.
\<close>

theorem history_consistent:
  assumes "release_store E stored name namespace" "toolkit_api T"
    and "fst (stored w) = []" "history E T stored name namespace w w'"
  shows "consistent (view_phases (conds E) (stored w'))"
proof -
  have "conditions_api (conds E)" using assms(1) by (simp add: release_store_def)
  then have "view_phases (conds E) (stored w) = (\<lambda>_. Absent)"
    using assms(3) by (auto simp: view_phases_def conditions_api.view_empty)
  then show ?thesis
    using history_steps [OF assms(4,1,2)] consistent_initial release_steps_consistent by metis
qed

theorem history_consistent_witness:
  "consistent (view_phases status_conditions (cluster_view
     (snd (run_state (Reconcile cluster_env standard_toolkit ''release'' ''dev'') demo_cluster))))"
  using history_consistent [OF cluster_release_store standard_toolkit.toolkit_api_axioms _
      history.reconcile [OF history.nothing refl],
      where w = demo_cluster and name = "''release''" and namespace = "''dev''"]
  by simp

text \<open>
  C3. Over any history, a Release that is marked as released has ended every one of its five
  phases, and none of them failed.
\<close>

theorem released_means_done:
  assumes "release_store E stored name namespace" "toolkit_api T"
    and "consistent (view_phases (conds E) (stored w))" "history E T stored name namespace w w'"
    and "view_phases (conds E) (stored w') releasedConditionType = Succeeded"
    and "t \<in> set processing_types"
  shows "finished (view_phases (conds E) (stored w') t) \<and> view_phases (conds E) (stored w') t \<noteq> Failed"
  using consistent_released [OF release_steps_consistent [OF history_steps [OF assms(4,1,2,3)] assms(3)]]
    assms(5,6) by blast

theorem released_means_done_witness:
  "view_phases status_conditions (cluster_view released_cluster) managedProcessedConditionType \<noteq> Failed"
  using released_means_done [OF cluster_release_store standard_toolkit.toolkit_api_axioms _ history.nothing,
      where w = released_cluster and t = managedProcessedConditionType]
  by (simp add: released_consistent) (simp add: released_phases)

text \<open>
  C4. What has ended stays as it is: over any history, a phase (or the Release itself) that has
  succeeded, failed or been skipped keeps that result.
\<close>

theorem finished_never_changes:
  assumes "release_store E stored name namespace" "toolkit_api T"
    and "consistent (view_phases (conds E) (stored w))" "history E T stored name namespace w w'"
    and "t = releasedConditionType \<or> t \<in> set processing_types"
    and "finished (view_phases (conds E) (stored w) t)"
  shows "view_phases (conds E) (stored w') t = view_phases (conds E) (stored w) t"
  using release_steps_finished [OF history_steps [OF assms(4,1,2,3)]] assms(5,6) by blast

theorem finished_never_changes_witness:
  "view_phases status_conditions (cluster_view (snd (run_state
     (Reconcile cluster_env standard_toolkit ''release'' ''dev'') released_cluster))) releasedConditionType
   = Succeeded"
  using finished_never_changes [OF cluster_release_store standard_toolkit.toolkit_api_axioms _
      history.reconcile [OF history.nothing refl], where w = released_cluster
      and name = "''release''" and namespace = "''dev''" and t = releasedConditionType]
  by (simp add: released_consistent) (simp add: released_phases)

text \<open>
  C5. Every Release settles. However long its history of reconciles goes on, the state of the Release
  and of its five phases changes at most twelve times; from some point on it never changes again.
\<close>

theorem history_settles:
  assumes "release_store E stored name namespace" "toolkit_api T"
    and "consistent (view_phases (conds E) (stored (ws 0)))"
    and "\<And>i. history E T stored name namespace (ws i) (ws (Suc i))"
  shows "finite {i. \<exists>t\<in>set lifecycle_types. view_phases (conds E) (stored (ws (Suc i))) t \<noteq>
      view_phases (conds E) (stored (ws i)) t} \<and>
    card {i. \<exists>t\<in>set lifecycle_types. view_phases (conds E) (stored (ws (Suc i))) t \<noteq>
      view_phases (conds E) (stored (ws i)) t} \<le> 12"
proof -
  have "consistent (status_phases E stored (ws i))" for i
    using assms(3) history_steps [OF assms(4,1,2)] release_steps_consistent by (induction i) blast+
  then have steps: "release_steps (status_phases E stored (ws i)) (status_phases E stored (ws (Suc i)))" for i
    using history_steps [OF assms(4,1,2)] by blast
  show ?thesis
    using descending_finite [where r = "\<lambda>i. lifecycle_rank (status_phases E stored (ws i))"
        and P = "\<lambda>i. \<exists>t\<in>set lifecycle_types. status_phases E stored (ws (Suc i)) t \<noteq> status_phases E stored (ws i) t"]
      release_steps_rank [OF steps] lifecycle_rank_bound [of "status_phases E stored (ws 0)"]
    by (meson order_trans)
qed

text \<open>The reconciles of the example cluster, one after the other.\<close>

primrec demo_history :: "nat \<Rightarrow> cluster" where
  "demo_history 0 = demo_cluster"
| "demo_history (Suc i) =
     snd (run_state (Reconcile cluster_env standard_toolkit ''release'' ''dev'') (demo_history i))"

theorem history_settles_witness:
  "card {i. \<exists>t\<in>set lifecycle_types. view_phases status_conditions (cluster_view (demo_history (Suc i))) t \<noteq>
     view_phases status_conditions (cluster_view (demo_history i)) t} \<le> 12"
  using history_settles [OF cluster_release_store standard_toolkit.toolkit_api_axioms, where ws = demo_history
      and name = "''release''" and namespace = "''dev''"]
  by (simp add: consistent_initial history.reconcile [OF history.nothing])

end
